(* ===== verification/Prelude.thy ===== *)
theory Prelude
  imports Main "HOL-Library.AList" "HOL-Library.Monad_Syntax" "HOL-Library.Sublist"
begin

text \<open>
  Shared vocabulary of the development: the collections its proofs draw on, the parts of the Go
  standard library that the operator uses on strings (package \<open>strings\<close>, \<open>fmt\<close>), Go maps as
  association lists, and Go's error values.  A Go function that can panic is a function into
  \<open>option\<close>: \<open>None\<close> is the panic, so that \<open>do\<close> blocks stop where the goroutine would.
\<close>

named_theorems go_string \<open>evaluation rules for the string functions\<close>
named_theorems prog_simps \<open>equations of the effectful primitives\<close>
named_theorems name_simps \<open>names of the objects the operator creates\<close>

section \<open>Strings\<close>

definition HasPrefix :: "string \<Rightarrow> string \<Rightarrow> bool" where
  "HasPrefix s p \<longleftrightarrow> take (length p) s = p"

definition HasSuffix :: "string \<Rightarrow> string \<Rightarrow> bool" where
  "HasSuffix s p \<longleftrightarrow> HasPrefix (rev s) (rev p)"

fun Contains :: "string \<Rightarrow> string \<Rightarrow> bool" where
  "Contains [] p = (p = [])"
| "Contains (c # s) p = (HasPrefix (c # s) p \<or> Contains s p)"

text \<open>\<open>strings.Split\<close> and \<open>strings.SplitN(s, sep, 2)\<close> for a separator of one character.\<close>

fun Split :: "char \<Rightarrow> string \<Rightarrow> string list" where
  "Split sep [] = [[]]"
| "Split sep (c # s) =
     (if c = sep then [] # Split sep s
      else (case Split sep s of [] \<Rightarrow> [[c]] | w # ws \<Rightarrow> (c # w) # ws))"

fun SplitN2 :: "char \<Rightarrow> string \<Rightarrow> string list" where
  "SplitN2 sep [] = [[]]"
| "SplitN2 sep (c # s) =
     (if c = sep then [[], s]
      else (case SplitN2 sep s of [] \<Rightarrow> [[c]] | w # ws \<Rightarrow> (c # w) # ws))"

fun Join :: "string \<Rightarrow> string list \<Rightarrow> string" where
  "Join sep [] = []"
| "Join sep [w] = w"
| "Join sep (w # v # ws) = w @ sep @ Join sep (v # ws)"

definition Trim :: "string \<Rightarrow> string \<Rightarrow> string" where
  "Trim cutset s = rev (dropWhile (\<lambda>c. c \<in> set cutset) (rev (dropWhile (\<lambda>c. c \<in> set cutset) s)))"

text \<open>\<open>strings.ReplaceAll(s, "--", "")\<close>: the non-overlapping occurrences, from the left.\<close>

fun drop_dashes :: "string \<Rightarrow> string" where
  "drop_dashes (CHR ''-'' # CHR ''-'' # s) = drop_dashes s"
| "drop_dashes (c # s) = c # drop_dashes s"
| "drop_dashes [] = []"

text \<open>The verb \<open>%d\<close> of \<open>fmt.Sprintf\<close>.\<close>

definition digit_char :: "nat \<Rightarrow> char" where
  "digit_char d = char_of (48 + d)"

fun show_nat :: "nat \<Rightarrow> string" where
  "show_nat n = (if n < 10 then [digit_char n] else show_nat (n div 10) @ [digit_char (n mod 10)])"

declare show_nat.simps [simp del]

definition show_int :: "int \<Rightarrow> string" where
  "show_int i = (if i < 0 then ''-'' @ show_nat (nat (- i)) else show_nat (nat i))"

definition newline :: string where
  "newline = [char_of (10 :: nat)]"

text \<open>\<open>path.Clean\<close> and \<open>path.Join\<close>, element by element.\<close>

definition clean_step :: "bool \<Rightarrow> string list \<Rightarrow> string \<Rightarrow> string list" where
  "clean_step rooted stack e =
     (if e = [] \<or> e = ''.'' then stack
      else if e = ''..'' then
        (if stack \<noteq> [] \<and> last stack \<noteq> ''..'' then butlast stack
         else if rooted then stack else stack @ [e])
      else stack @ [e])"

definition path_Clean :: "string \<Rightarrow> string" where
  "path_Clean s =
     (if s = [] then ''.''
      else let rooted = (hd s = CHR ''/'');
               body = Join ''/'' (foldl (clean_step rooted) [] (Split (CHR ''/'') s))
           in if rooted then CHR ''/'' # body else if body = [] then ''.'' else body)"

fun path_Join :: "string list \<Rightarrow> string" where
  "path_Join [] = []"
| "path_Join (e # es) = (if e = [] then path_Join es else path_Clean (Join ''/'' (e # es)))"

lemma HasPrefix_append [simp, go_string]: "HasPrefix (p @ s) p"
  by (simp add: HasPrefix_def)

lemma HasPrefix_iff: "HasPrefix s p \<longleftrightarrow> prefix p s"
  unfolding HasPrefix_def prefix_def by (metis append_eq_conv_conj append_take_drop_id)

lemma HasPrefix_append_same [simp]: "HasPrefix (p @ s) (p @ q) = HasPrefix s q"
  by (simp add: HasPrefix_iff)

lemma HasPrefix_Cons [simp]: "HasPrefix (c # s) (d # p) = (c = d \<and> HasPrefix s p)"
  by (auto simp: HasPrefix_iff)

lemma HasPrefix_Nil [simp]: "HasPrefix s []" "HasPrefix [] (c # p) = False"
  by (simp_all add: HasPrefix_iff)

lemma HasSuffix_iff: "HasSuffix s p \<longleftrightarrow> suffix p s"
  by (simp add: HasSuffix_def HasPrefix_iff suffix_to_prefix)

lemma Contains_iff: "Contains s p \<longleftrightarrow> sublist p s"
  by (induction s) (auto simp: HasPrefix_iff sublist_Cons_right)

lemma Contains_append [intro]: "Contains (a @ p @ b) p"
  by (auto simp: Contains_iff)

lemma Split_not_Nil [simp]: "Split sep s \<noteq> []"
  by (induction s) (auto split: list.splits)

lemma SplitN2_no_sep: "sep \<notin> set s \<Longrightarrow> SplitN2 sep s = [s]"
  by (induction s) auto

lemma SplitN2_sep: "sep \<notin> set a \<Longrightarrow> SplitN2 sep (a @ sep # b) = [a, b]"
  by (induction a) auto

lemma SplitN2_cases:
  obtains (none) "sep \<notin> set s" "SplitN2 sep s = [s]"
    | (split) a b where "s = a @ sep # b" "sep \<notin> set a" "SplitN2 sep s = [a, b]"
proof (cases "sep \<in> set s")
  case True
  then obtain a b where "s = a @ sep # b" and "sep \<notin> set a"
    by (auto dest: split_list_first)
  then show ?thesis using split SplitN2_sep by blast
next
  case False
  then show ?thesis using none SplitN2_no_sep by blast
qed

lemma SplitN2_Some: "SplitN2 sep s = [a, b] \<longleftrightarrow> s = a @ sep # b \<and> sep \<notin> set a"
proof (rule SplitN2_cases [of sep s])
  assume "sep \<notin> set s" and "SplitN2 sep s = [s]"
  then show ?thesis by auto
next
  fix a' b' assume *: "s = a' @ sep # b'" "sep \<notin> set a'" "SplitN2 sep s = [a', b']"
  show ?thesis
  proof
    assume "SplitN2 sep s = [a, b]"
    with * show "s = a @ sep # b \<and> sep \<notin> set a" by simp
  next
    assume "s = a @ sep # b \<and> sep \<notin> set a"
    then show "SplitN2 sep s = [a, b]" by (simp add: SplitN2_sep)
  qed
qed

lemma show_nat_not_Nil [simp]: "show_nat n \<noteq> []"
  by (subst show_nat.simps) simp

section \<open>Go maps\<close>

text \<open>
  A Go map with string keys is an association list: its order is the order in which an iteration
  visits the keys, which Go leaves open, so a statement that must not depend on it quantifies over
  the list.  A map that may be \<open>nil\<close> is an \<open>option\<close>; a write to a \<open>nil\<close> map panics.
\<close>

type_synonym 'v gomap = "(string \<times> 'v) list"
type_synonym labels = "string gomap option"

definition wf_map :: "'v gomap \<Rightarrow> bool" where
  "wf_map m \<longleftrightarrow> distinct (map fst m)"

text \<open>\<open>for k, v := range src { dst[k] = v }\<close>\<close>

fun assign_all :: "'v gomap \<Rightarrow> 'v gomap \<Rightarrow> 'v gomap" where
  "assign_all dst [] = dst"
| "assign_all dst ((k, v) # src) = assign_all (AList.update k v dst) src"

definition range_of :: "labels \<Rightarrow> string gomap" where
  "range_of m = (case m of None \<Rightarrow> [] | Some kvs \<Rightarrow> kvs)"

definition lookup_label :: "labels \<Rightarrow> string \<Rightarrow> string option" where
  "lookup_label m k = map_of (range_of m) k"

definition write_all :: "labels \<Rightarrow> labels \<Rightarrow> labels option" where
  "write_all dst src =
     (case (dst, range_of src) of
        (None, []) \<Rightarrow> Some None
      | (None, _ # _) \<Rightarrow> None
      | (Some d, kvs) \<Rightarrow> Some (Some (assign_all d kvs)))"

lemma map_of_assign_all:
  "wf_map src \<Longrightarrow> map_of (assign_all dst src) = map_of dst ++ map_of src"
proof (induction src arbitrary: dst)
  case Nil
  show ?case by simp
next
  case (Cons p src)
  obtain k v where p: "p = (k, v)" by (cases p)
  from Cons.prems have "wf_map src" and "k \<notin> fst ` set src"
    by (auto simp: wf_map_def p)
  then have "map_of src k = None" by (simp add: map_of_eq_None_iff)
  with Cons.IH [OF \<open>wf_map src\<close>] show ?case
    by (auto simp: p fun_eq_iff map_add_def update_conv' split: option.splits)
qed

lemma keys_assign_all: "fst ` set (assign_all dst src) = fst ` set dst \<union> fst ` set src"
  by (induction dst src rule: assign_all.induct) (auto simp: dom_update)

lemma wf_map_assign_all: "wf_map dst \<Longrightarrow> wf_map (assign_all dst src)"
  by (induction dst src rule: assign_all.induct) (simp_all add: wf_map_def distinct_update)

section \<open>Errors\<close>

text \<open>
  The errors the operator tells apart: those of the API server, which carry a status reason, and
  plain ones; \<open>WithStack\<close> and \<open>Wrap\<close> of \<open>github.com/pkg/errors\<close> wrap one.  The vendored
  \<open>ReasonForError\<close> looks at the outermost value only, so a wrapped error has no reason.
\<close>

datatype status_reason = NotFound | AlreadyExists | Conflict | OtherReason

datatype error =
    ApiError status_reason string
  | PlainError string
  | StackError error
  | WrapError string error

fun error_string :: "error \<Rightarrow> string" where
  "error_string (ApiError _ m) = m"
| "error_string (PlainError m) = m"
| "error_string (StackError e) = error_string e"
| "error_string (WrapError m e) = m @ '': '' @ error_string e"

fun ReasonForError :: "error \<Rightarrow> status_reason option" where
  "ReasonForError (ApiError r _) = Some r"
| "ReasonForError _ = None"

definition IsNotFound :: "error \<Rightarrow> bool" where
  "IsNotFound e \<longleftrightarrow> ReasonForError e = Some NotFound"

definition IsAlreadyExists :: "error \<Rightarrow> bool" where
  "IsAlreadyExists e \<longleftrightarrow> ReasonForError e = Some AlreadyExists"

definition IsConflict :: "error \<Rightarrow> bool" where
  "IsConflict e \<longleftrightarrow> ReasonForError e = Some Conflict"

definition WithStack :: "error option \<Rightarrow> error option" where
  "WithStack = map_option StackError"

text \<open>How \<open>%s\<close> and \<open>%v\<close> print an error value that may be \<open>nil\<close>.\<close>

definition show_err :: "error option \<Rightarrow> string" where
  "show_err e = (case e of None \<Rightarrow> ''%!s(<nil>)'' | Some x \<Rightarrow> error_string x)"

definition show_err_v :: "error option \<Rightarrow> string" where
  "show_err_v e = (case e of None \<Rightarrow> ''<nil>'' | Some x \<Rightarrow> error_string x)"

lemma WithStack_simps [simp]:
  "WithStack None = None" "WithStack (Some e) = Some (StackError e)"
  by (simp_all add: WithStack_def)

lemma IsNotFound_simps [simp]:
  "IsNotFound (ApiError r m) = (r = NotFound)"
  "\<not> IsNotFound (PlainError m)" "\<not> IsNotFound (StackError e)" "\<not> IsNotFound (WrapError m e)"
  by (simp_all add: IsNotFound_def)

lemma IsAlreadyExists_simps [simp]:
  "IsAlreadyExists (ApiError r m) = (r = AlreadyExists)"
  "\<not> IsAlreadyExists (PlainError m)" "\<not> IsAlreadyExists (StackError e)"
  "\<not> IsAlreadyExists (WrapError m e)"
  by (simp_all add: IsAlreadyExists_def)

section \<open>Elimination of a step of a program\<close>

lemma bind_SomeE: "Option.bind x f = Some y \<Longrightarrow> (\<And>a. x = Some a \<Longrightarrow> f a = Some y \<Longrightarrow> P) \<Longrightarrow> P"
  by (cases x) simp_all

lemma bind_pairE:
  assumes "Option.bind f (\<lambda>(x, s). g x s) = Some y"
  obtains x s1 where "f = Some (x, s1)" "g x s1 = Some y"
  using assms by (auto simp: Option.bind_eq_Some_conv)

section \<open>Lists\<close>

text \<open>The last element that satisfies a test, as a loop that overwrites its result leaves it.\<close>

definition last_match :: "('a \<Rightarrow> bool) \<Rightarrow> 'a list \<Rightarrow> 'a option" where
  "last_match P xs = find P (rev xs)"

lemma last_match_Nil [simp]: "last_match P [] = None"
  by (simp add: last_match_def)

lemma find_append: "find P (xs @ ys) = (case find P xs of None \<Rightarrow> find P ys | Some x \<Rightarrow> Some x)"
  by (induction xs) auto

lemma last_match_snoc [simp]:
  "last_match P (xs @ [x]) = (if P x then Some x else last_match P xs)"
  by (simp add: last_match_def)

lemma last_match_None: "last_match P xs = None \<longleftrightarrow> (\<forall>x \<in> set xs. \<not> P x)"
  by (auto simp: last_match_def find_None_iff)

lemma find_SomeD: "find P xs = Some x \<Longrightarrow> x \<in> set xs \<and> P x"
  by (auto simp: find_Some_iff)

lemma last_match_Some: "last_match P xs = Some x \<Longrightarrow> x \<in> set xs \<and> P x"
  by (drule find_SomeD [of P "rev xs" x, folded last_match_def]) simp

end
