(* ===== verification/Conditions.thy ===== *)
theory Conditions
  imports Prelude
begin

text \<open>
  Status conditions.  The operator writes conditions with two vendored libraries: the Jenkins
  controller with \<open>SetStatusCondition\<close> of \<open>openshift/custom-resource-status\<close>, the backup, restore
  and backup volume controllers with \<open>Conditions.SetCondition\<close> of \<open>operator-framework/operator-lib\<close>.
  Both are modelled here from their sources, with the readings of the clock as arguments, and
  both are shown to implement one contract, the locale \<open>condition_store\<close>.
\<close>

type_synonym time = nat

definition ConditionTrue :: string where "ConditionTrue = ''True''"
definition ConditionFalse :: string where "ConditionFalse = ''False''"
definition ConditionUnknown :: string where "ConditionUnknown = ''Unknown''"

lemma condition_status_distinct [simp]:
  "ConditionTrue \<noteq> ConditionFalse" "ConditionFalse \<noteq> ConditionTrue"
  "ConditionTrue \<noteq> ConditionUnknown" "ConditionUnknown \<noteq> ConditionTrue"
  "ConditionFalse \<noteq> ConditionUnknown" "ConditionUnknown \<noteq> ConditionFalse"
  by (simp_all add: ConditionTrue_def ConditionFalse_def ConditionUnknown_def)

section \<open>The openshift library\<close>

record OSCondition =
  OS_Type :: string
  OS_Status :: string
  OS_Reason :: string
  OS_Message :: string
  OS_LastHeartbeatTime :: time
  OS_LastTransitionTime :: time

definition FindStatusCondition :: "OSCondition list \<Rightarrow> string \<Rightarrow> OSCondition option" where
  "FindStatusCondition conditions conditionType =
     find (\<lambda>c. OS_Type c = conditionType) conditions"

text \<open>
  \<open>FindStatusCondition\<close> returns a pointer into the slice, through which \<open>SetStatusCondition\<close> writes:
  the update of the first condition of that type.  \<open>t1\<close> is the reading of the clock for the
  transition time and \<open>t2\<close> the one for the heartbeat.
\<close>

definition touch_condition :: "time \<Rightarrow> time \<Rightarrow> OSCondition \<Rightarrow> OSCondition \<Rightarrow> OSCondition" where
  "touch_condition t1 t2 new old =
     (let c = (if OS_Status old \<noteq> OS_Status new
               then old\<lparr>OS_Status := OS_Status new, OS_LastTransitionTime := t1\<rparr> else old)
      in c\<lparr>OS_Reason := OS_Reason new, OS_Message := OS_Message new, OS_LastHeartbeatTime := t2\<rparr>)"

fun update_first :: "('a \<Rightarrow> bool) \<Rightarrow> ('a \<Rightarrow> 'a) \<Rightarrow> 'a list \<Rightarrow> 'a list" where
  "update_first P f [] = []"
| "update_first P f (x # xs) = (if P x then f x # xs else x # update_first P f xs)"

definition SetStatusCondition ::
  "time \<Rightarrow> time \<Rightarrow> OSCondition list \<Rightarrow> OSCondition \<Rightarrow> OSCondition list" where
  "SetStatusCondition t1 t2 conditions newCondition =
     (case FindStatusCondition conditions (OS_Type newCondition) of
        None \<Rightarrow> conditions @ [newCondition\<lparr>OS_LastTransitionTime := t1, OS_LastHeartbeatTime := t2\<rparr>]
      | Some _ \<Rightarrow> update_first (\<lambda>c. OS_Type c = OS_Type newCondition)
                    (touch_condition t1 t2 newCondition) conditions)"

definition IsStatusConditionPresentAndEqual ::
  "OSCondition list \<Rightarrow> string \<Rightarrow> string \<Rightarrow> bool" where
  "IsStatusConditionPresentAndEqual conditions conditionType status =
     (case find (\<lambda>c. OS_Type c = conditionType) conditions of
        None \<Rightarrow> False
      | Some c \<Rightarrow> OS_Status c = status)"

section \<open>The operator-lib library\<close>

record Condition =
  Cond_Type :: string
  Cond_Status :: string
  Cond_Reason :: string
  Cond_Message :: string
  Cond_LastTransitionTime :: time

definition GetCondition :: "Condition list \<Rightarrow> string \<Rightarrow> Condition option" where
  "GetCondition conditions t = find (\<lambda>c. Cond_Type c = t) conditions"

definition IsTrueFor :: "Condition list \<Rightarrow> string \<Rightarrow> bool" where
  "IsTrueFor conditions t =
     (case find (\<lambda>c. Cond_Type c = t) conditions of
        None \<Rightarrow> False | Some c \<Rightarrow> Cond_Status c = ConditionTrue)"

definition IsFalseFor :: "Condition list \<Rightarrow> string \<Rightarrow> bool" where
  "IsFalseFor conditions t =
     (case find (\<lambda>c. Cond_Type c = t) conditions of
        None \<Rightarrow> False | Some c \<Rightarrow> Cond_Status c = ConditionFalse)"

text \<open>The new slice and the flag it returns: whether the condition is new or has changed.\<close>

fun SetCondition_loop :: "Condition \<Rightarrow> Condition list \<Rightarrow> (Condition list \<times> bool) option" where
  "SetCondition_loop newCond [] = None"
| "SetCondition_loop newCond (condition # cs) =
     (if Cond_Type condition = Cond_Type newCond then
        (let newCond' = (if Cond_Status condition = Cond_Status newCond
               then newCond\<lparr>Cond_LastTransitionTime := Cond_LastTransitionTime condition\<rparr>
               else newCond);
             changed = (Cond_Status condition \<noteq> Cond_Status newCond \<or>
               Cond_Reason condition \<noteq> Cond_Reason newCond \<or>
               Cond_Message condition \<noteq> Cond_Message newCond)
         in Some (newCond' # cs, changed))
      else map_option (\<lambda>(cs', b). (condition # cs', b)) (SetCondition_loop newCond cs))"

definition SetCondition :: "time \<Rightarrow> Condition list \<Rightarrow> Condition \<Rightarrow> Condition list \<times> bool" where
  "SetCondition now conditions newCond =
     (let newCond = newCond\<lparr>Cond_LastTransitionTime := now\<rparr>
      in case SetCondition_loop newCond conditions of
           None \<Rightarrow> (conditions @ [newCond], True)
         | Some r \<Rightarrow> r)"

section \<open>The contract\<close>

text \<open>
  What the controllers rely on: a condition that was set is the one found, with the given status;
  conditions of other types are untouched; at most one condition of each type, in an order that
  setting does not change; and the transition time moves exactly when the status does.
\<close>

locale condition_store =
  fixes put :: "time \<Rightarrow> 'c list \<Rightarrow> 'c \<Rightarrow> 'c list"
    and ctype :: "'c \<Rightarrow> string"
    and status :: "'c \<Rightarrow> string"
    and since :: "'c \<Rightarrow> time"
  assumes types_put: "map ctype (put now cs c) =
      (if ctype c \<in> ctype ` set cs then map ctype cs else map ctype cs @ [ctype c])"
    and find_put_same: "\<exists>d. find (\<lambda>x. ctype x = ctype c) (put now cs c) = Some d \<and> status d = status c
      \<and> since d = (case find (\<lambda>x. ctype x = ctype c) cs of
           None \<Rightarrow> now
         | Some old \<Rightarrow> if status old = status c then since old else now)"
    and find_put_other: "t \<noteq> ctype c \<Longrightarrow>
      find (\<lambda>x. ctype x = t) (put now cs c) = find (\<lambda>x. ctype x = t) cs"
begin

definition status_of :: "'c list \<Rightarrow> string \<Rightarrow> string option" where
  "status_of cs t = map_option status (find (\<lambda>x. ctype x = t) cs)"

lemma status_of_put:
  "status_of (put now cs c) t = (if t = ctype c then Some (status c) else status_of cs t)"
  using find_put_same [of c now cs] find_put_other [of t c now cs]
  by (auto simp: status_of_def)

lemma distinct_put: "distinct (map ctype cs) \<Longrightarrow> distinct (map ctype (put now cs c))"
  by (simp add: types_put)

lemma put_not_Nil: "put now cs c \<noteq> []"
  by (metis append_is_Nil_conv image_is_empty list.distinct(1) list.map_disc_iff list.set(1)
      empty_iff types_put)

lemma types_mono: "set (map ctype cs) \<subseteq> set (map ctype (put now cs c))"
  by (auto simp only: types_put set_append set_map split: if_splits)

text \<open>A sequence of settings: the last one of a type decides.\<close>

fun put_list :: "(time \<times> 'c) list \<Rightarrow> 'c list \<Rightarrow> 'c list" where
  "put_list [] cs = cs"
| "put_list ((t, c) # ws) cs = put_list ws (put t cs c)"

lemma status_of_put_list:
  "status_of (put_list ws cs) t =
     (case last_match (\<lambda>w. ctype (snd w) = t) ws of
        None \<Rightarrow> status_of cs t | Some w \<Rightarrow> Some (status (snd w)))"
proof (induction ws cs rule: put_list.induct)
  case (1 cs)
  show ?case by simp
next
  case (2 now c ws cs)
  have "last_match (\<lambda>w. ctype (snd w) = t) ((now, c) # ws) =
      (case last_match (\<lambda>w. ctype (snd w) = t) ws of
         None \<Rightarrow> if ctype c = t then Some (now, c) else None | Some w \<Rightarrow> Some w)"
    by (simp add: last_match_def find_append split: option.splits)
  with 2 show ?case by (auto simp: status_of_put split: option.splits)
qed

lemma distinct_put_list: "distinct (map ctype cs) \<Longrightarrow> distinct (map ctype (put_list ws cs))"
  by (induction ws cs rule: put_list.induct) (simp_all add: distinct_put)

end

section \<open>Both libraries meet it\<close>

lemma update_first_map:
  "(\<And>x. g (f x) = g x) \<Longrightarrow> map g (update_first P f xs) = map g xs"
  by (induction xs) auto

lemma find_update_first_same:
  "(\<And>x. P x \<Longrightarrow> P (f x)) \<Longrightarrow> find P (update_first P f xs) = map_option f (find P xs)"
  by (induction xs) auto

lemma find_update_first_other:
  "(\<And>x. P x \<Longrightarrow> \<not> Q x) \<Longrightarrow> (\<And>x. Q (f x) = Q x) \<Longrightarrow>
   find Q (update_first P f xs) = find Q xs"
  by (induction xs) auto

lemma touch_condition_simps [simp]:
  "OS_Type (touch_condition t1 t2 new old) = OS_Type old"
  "OS_Status (touch_condition t1 t2 new old) = OS_Status new"
  "OS_Reason (touch_condition t1 t2 new old) = OS_Reason new"
  "OS_Message (touch_condition t1 t2 new old) = OS_Message new"
  "OS_LastTransitionTime (touch_condition t1 t2 new old) =
     (if OS_Status old = OS_Status new then OS_LastTransitionTime old else t1)"
  by (simp_all add: touch_condition_def Let_def)

lemma find_typ_None: "find (\<lambda>x. g x = t) cs = None \<longleftrightarrow> t \<notin> g ` set cs"
  by (auto simp: find_None_iff)

lemma find_typ_Some: "find (\<lambda>x. g x = t) cs = Some d \<Longrightarrow> t \<in> g ` set cs \<and> g d = t"
  by (auto dest: find_SomeD)

interpretation os: condition_store "\<lambda>now. SetStatusCondition now t2" OS_Type OS_Status
  OS_LastTransitionTime
proof (unfold_locales, goal_cases)
  case (1 now cs c)
  show ?case
    by (auto simp: SetStatusCondition_def FindStatusCondition_def find_typ_None update_first_map
        split: option.splits dest: find_typ_Some)
next
  case (2 c now cs)
  show ?case
    by (auto simp: SetStatusCondition_def FindStatusCondition_def find_append
        find_update_first_same split: option.splits dest: find_typ_Some)
next
  case (3 t c now cs)
  then have "find (\<lambda>x. OS_Type x = t)
      (update_first (\<lambda>x. OS_Type x = OS_Type c) (touch_condition now t2 c) cs) =
      find (\<lambda>x. OS_Type x = t) cs"
    by (intro find_update_first_other) auto
  with 3 show ?case
    by (simp add: SetStatusCondition_def FindStatusCondition_def find_append split: option.split)
qed

lemma SetCondition_loop_None:
  "SetCondition_loop c cs = None \<longleftrightarrow> Cond_Type c \<notin> Cond_Type ` set cs"
  by (induction cs) (auto simp: Let_def)

lemma SetCondition_loop_types:
  "SetCondition_loop c cs = Some (cs', b) \<Longrightarrow> map Cond_Type cs' = map Cond_Type cs"
  by (induction cs arbitrary: cs') (auto simp: Let_def split: if_splits)

lemma SetCondition_loop_same:
  "SetCondition_loop c cs = Some (cs', b) \<Longrightarrow>
   \<exists>old. find (\<lambda>x. Cond_Type x = Cond_Type c) cs = Some old \<and>
     find (\<lambda>x. Cond_Type x = Cond_Type c) cs' =
       Some (if Cond_Status old = Cond_Status c
             then c\<lparr>Cond_LastTransitionTime := Cond_LastTransitionTime old\<rparr> else c)"
  by (induction cs arbitrary: cs') (auto simp: Let_def split: if_splits)

lemma SetCondition_loop_other:
  "SetCondition_loop c cs = Some (cs', b) \<Longrightarrow> t \<noteq> Cond_Type c \<Longrightarrow>
   find (\<lambda>x. Cond_Type x = t) cs' = find (\<lambda>x. Cond_Type x = t) cs"
  by (induction cs arbitrary: cs') (auto simp: Let_def split: if_splits)

interpretation ol: condition_store "\<lambda>now cs c. fst (SetCondition now cs c)" Cond_Type Cond_Status
  Cond_LastTransitionTime
proof (unfold_locales, goal_cases)
  case (1 now cs c)
  show ?case
  proof (cases "SetCondition_loop (c\<lparr>Cond_LastTransitionTime := now\<rparr>) cs")
    case None
    then show ?thesis
      using SetCondition_loop_None [of "c\<lparr>Cond_LastTransitionTime := now\<rparr>" cs]
      by (simp add: SetCondition_def)
  next
    case (Some r)
    obtain cs' b where r: "r = (cs', b)" by (cases r)
    with Some have "Cond_Type c \<in> Cond_Type ` set cs"
      using SetCondition_loop_None [of "c\<lparr>Cond_LastTransitionTime := now\<rparr>" cs] by simp
    with Some r show ?thesis
      by (simp add: SetCondition_def SetCondition_loop_types)
  qed
next
  case (2 c now cs)
  show ?case
  proof (cases "SetCondition_loop (c\<lparr>Cond_LastTransitionTime := now\<rparr>) cs")
    case None
    then show ?thesis
      using SetCondition_loop_None [of "c\<lparr>Cond_LastTransitionTime := now\<rparr>" cs]
      by (auto simp: SetCondition_def find_append find_typ_None split: option.splits
          dest: find_typ_Some)
  next
    case (Some r)
    obtain cs' b where "r = (cs', b)" by (cases r)
    with Some SetCondition_loop_same [of "c\<lparr>Cond_LastTransitionTime := now\<rparr>" cs cs' b]
    show ?thesis by (auto simp: SetCondition_def)
  qed
next
  case (3 t c now cs)
  then show ?case
    using SetCondition_loop_other [of "c\<lparr>Cond_LastTransitionTime := now\<rparr>" cs _ _ t]
    by (cases "SetCondition_loop (c\<lparr>Cond_LastTransitionTime := now\<rparr>) cs")
       (auto simp: SetCondition_def Let_def find_append split: option.split)
qed

lemma IsTrueFor_iff: "IsTrueFor cs t \<longleftrightarrow> ol.status_of cs t = Some ConditionTrue"
  by (auto simp: IsTrueFor_def ol.status_of_def split: option.splits)

lemma IsFalseFor_iff: "IsFalseFor cs t \<longleftrightarrow> ol.status_of cs t = Some ConditionFalse"
  by (auto simp: IsFalseFor_def ol.status_of_def split: option.splits)

lemma IsStatusConditionPresentAndEqual_iff:
  "IsStatusConditionPresentAndEqual cs t st \<longleftrightarrow> os.status_of cs t = Some st"
  by (auto simp: IsStatusConditionPresentAndEqual_def os.status_of_def split: option.splits)

end
