(* ===== verification/K8s_Types.thy ===== *)
theory K8s_Types
  imports Conditions "HOL-Library.Word"
begin

text \<open>
  The parts of the Kubernetes and OpenShift types that the operator builds or reads.  A struct is a record, an \<open>omitempty\<close> string is a string, a pointer and
  a slice or map whose \<open>nil\<close> the code tells apart from the empty one is an \<open>option\<close>, and an \<open>int32\<close>
  is a 32-bit word.  Values the operator only copies from one object to another (security
  contexts, tolerations, the server's own metadata) are \<open>opaque\<close>.
\<close>

type_synonym opaque = string
type_synonym int32 = "32 word"

section \<open>Kubernetes metadata\<close>

record OwnerReference =
  Ref_APIVersion :: string
  Ref_Kind :: string
  Ref_Name :: string
  Ref_UID :: string
  Ref_Controller :: "bool option"
  Ref_BlockOwnerDeletion :: "bool option"

record ObjectMeta =
  Meta_Name :: string
  Meta_Namespace :: string
  Meta_UID :: string
  Meta_Labels :: labels
  Meta_Annotations :: labels
  Meta_OwnerReferences :: "OwnerReference list"
  Meta_CreationTimestamp :: time
  Meta_DeletionTimestamp :: "time option"
  Meta_Server :: opaque

definition empty_meta :: ObjectMeta where
  "empty_meta = \<lparr>Meta_Name = '''', Meta_Namespace = '''', Meta_UID = '''', Meta_Labels = None,
     Meta_Annotations = None, Meta_OwnerReferences = [], Meta_CreationTimestamp = 0, Meta_DeletionTimestamp = None,
     Meta_Server = ''''\<rparr>"

record NamespacedName =
  NN_Namespace :: string
  NN_Name :: string

section \<open>Pods\<close>

record ObjectFieldSelector =
  FieldRef_APIVersion :: string
  FieldRef_FieldPath :: string

datatype EnvVarSource = FieldRef ObjectFieldSelector | OtherEnvSource opaque

record EnvVar =
  Env_Name :: string
  Env_Value :: string
  Env_ValueFrom :: "EnvVarSource option"

definition EnvValue :: "string \<Rightarrow> string \<Rightarrow> EnvVar" where
  "EnvValue n v = \<lparr>Env_Name = n, Env_Value = v, Env_ValueFrom = None\<rparr>"

record VolumeMount =
  Mount_Name :: string
  Mount_ReadOnly :: bool
  Mount_MountPath :: string
  Mount_SubPath :: string
  Mount_Other :: opaque

text \<open>A quantity is its canonical text; \<open>resource.MustParse\<close> of a text the user gave is a parameter.\<close>

datatype Quantity = Quantity string

type_synonym ResourceList = "Quantity gomap option"

record ResourceRequirements =
  Limits :: ResourceList
  Requests :: ResourceList

definition empty_resources :: ResourceRequirements where
  "empty_resources = \<lparr>Limits = None, Requests = None\<rparr>"

datatype IntOrString = FromInt int | FromString string

definition IntVal :: "IntOrString \<Rightarrow> int" where
  "IntVal v = (case v of FromInt i \<Rightarrow> i | FromString _ \<Rightarrow> 0)"

record HTTPGetAction =
  HTTPGet_Path :: string
  HTTPGet_Port :: IntOrString
  HTTPGet_Scheme :: string

datatype Handler = HTTPGet HTTPGetAction | ExecAction "string list" | OtherHandler opaque

record Probe =
  Probe_Handler :: Handler
  Probe_InitialDelaySeconds :: int32
  Probe_TimeoutSeconds :: int32
  Probe_PeriodSeconds :: int32
  Probe_SuccessThreshold :: int32
  Probe_FailureThreshold :: int32

record Lifecycle =
  PostStart :: "Handler option"
  PreStop :: "Handler option"

record ContainerPort =
  Port_Name :: string
  Port_ContainerPort :: int32
  Port_Protocol :: string
  Port_Host :: opaque

record KContainer =
  KC_Name :: string
  KC_Image :: string
  KC_Command :: "string list option"
  KC_Args :: "string list option"
  KC_WorkingDir :: string
  KC_Ports :: "ContainerPort list"
  KC_EnvFrom :: opaque
  KC_Env :: "EnvVar list"
  KC_Resources :: ResourceRequirements
  KC_VolumeMounts :: "VolumeMount list"
  KC_LivenessProbe :: "Probe option"
  KC_ReadinessProbe :: "Probe option"
  KC_Lifecycle :: "Lifecycle option"
  KC_ImagePullPolicy :: string
  KC_SecurityContext :: opaque
  KC_Stdin :: bool
  KC_TTY :: bool

definition empty_container :: KContainer where
  "empty_container = \<lparr>KC_Name = '''', KC_Image = '''', KC_Command = None, KC_Args = None,
     KC_WorkingDir = '''', KC_Ports = [], KC_EnvFrom = '''', KC_Env = [],
     KC_Resources = empty_resources, KC_VolumeMounts = [], KC_LivenessProbe = None,
     KC_ReadinessProbe = None, KC_Lifecycle = None, KC_ImagePullPolicy = '''',
     KC_SecurityContext = '''', KC_Stdin = False, KC_TTY = False\<rparr>"

record ConfigMapVolumeSource =
  CMVol_Name :: string
  CMVol_DefaultMode :: "int32 option"
  CMVol_Optional :: "bool option"
  CMVol_Items :: opaque

record SecretVolumeSource =
  SecVol_SecretName :: string
  SecVol_DefaultMode :: "int32 option"
  SecVol_Optional :: "bool option"
  SecVol_Items :: opaque

record PVCVolumeSource =
  PVCVol_ClaimName :: string
  PVCVol_ReadOnly :: bool

record Volume =
  Vol_Name :: string
  Vol_ConfigMap :: "ConfigMapVolumeSource option"
  Vol_Secret :: "SecretVolumeSource option"
  Vol_PVC :: "PVCVolumeSource option"
  Vol_EmptyDir :: bool
  Vol_Other :: opaque

definition empty_volume :: "string \<Rightarrow> Volume" where
  "empty_volume n = \<lparr>Vol_Name = n, Vol_ConfigMap = None, Vol_Secret = None, Vol_PVC = None,
     Vol_EmptyDir = False, Vol_Other = ''''\<rparr>"

record PodSpec =
  Pod_ServiceAccountName :: string
  Pod_NodeSelector :: labels
  Pod_InitContainers :: "KContainer list"
  Pod_Containers :: "KContainer list"
  Pod_Volumes :: "Volume list"
  Pod_SecurityContext :: opaque
  Pod_ImagePullSecrets :: "string list"
  Pod_Tolerations :: opaque
  Pod_PriorityClassName :: string
  Pod_RestartPolicy :: string

text \<open>The status of a container of a pod: the message it left on termination, if it terminated.\<close>

record ContainerStatus =
  CStatus_Name :: string
  CStatus_Terminated :: "string option"

record Pod =
  Pod_Meta :: ObjectMeta
  Pod_Spec :: PodSpec
  Pod_Phase :: string
  Pod_ContainerStatuses :: "ContainerStatus list"


section \<open>The other kinds the operator handles\<close>

record LabelSelector =
  MatchLabels :: labels
  MatchExpressions :: opaque

record Deployment =
  Depl_Meta :: ObjectMeta
  Depl_Replicas :: "int32 option"
  Depl_StrategyType :: string
  Depl_TemplateMeta :: ObjectMeta
  Depl_TemplateSpec :: PodSpec
  Depl_Selector :: "LabelSelector option"
  Depl_AvailableReplicas :: int32
  Depl_Status :: opaque

record ReplicaSet =
  RS_Meta :: ObjectMeta
  RS_Selector :: "LabelSelector option"

record ServicePort =
  SPort_Name :: string
  SPort_Port :: int32
  SPort_NodePort :: int32
  SPort_Other :: opaque

record KService =
  Svc_Meta :: ObjectMeta
  Svc_Selector :: labels
  Svc_Type :: string
  Svc_LoadBalancerIP :: string
  Svc_LoadBalancerSourceRanges :: "string list option"
  Svc_Ports :: "ServicePort list"
  Svc_ClusterIP :: string

record Route =
  Route_Meta :: ObjectMeta
  Route_ToKind :: string
  Route_ToName :: string
  Route_TargetPort :: "IntOrString option"
  Route_TLS :: "(string \<times> string) option"
  Route_Other :: opaque

record ConfigMap =
  CM_Meta :: ObjectMeta
  CM_Data :: "string gomap"

record Secret =
  Secret_Meta :: ObjectMeta
  Secret_Data :: "string gomap"

record KServiceAccount =
  SA_Meta :: ObjectMeta
  SA_Other :: opaque

record PolicyRule =
  Rule_Verbs :: "string list"
  Rule_APIGroups :: "string list"
  Rule_Resources :: "string list"
  Rule_ResourceNames :: "string list"

record Role =
  Role_Meta :: ObjectMeta
  Role_Rules :: "PolicyRule list"

record RoleRef =
  RoleRef_APIGroup :: string
  RoleRef_Kind :: string
  RoleRef_Name :: string

record Subject =
  Subject_Kind :: string
  Subject_Name :: string
  Subject_Namespace :: string

record RoleBinding =
  RB_Meta :: ObjectMeta
  RB_Subjects :: "Subject list"
  RB_RoleRef :: RoleRef

record ClusterRole =
  CR_Meta :: ObjectMeta
  CR_Kind :: string

record PersistentVolumeClaim =
  PVC_Meta :: ObjectMeta
  PVC_StorageClassName :: "string option"
  PVC_AccessModes :: "string list"
  PVC_Resources :: ResourceRequirements

record StorageClass =
  SC_Meta :: ObjectMeta

record Endpoint =
  Endpoint_Port :: string
  Endpoint_Path :: string

record ServiceMonitor =
  SM_Meta :: ObjectMeta
  SM_JobLabel :: string
  SM_Endpoints :: "Endpoint list"
  SM_Selector :: LabelSelector
  SM_MatchNames :: "string list"

record Proxy =
  Proxy_HTTPProxy :: string
  Proxy_HTTPSProxy :: string
  Proxy_NoProxy :: string

end
