(* ===== verification/Api_Types.thy ===== *)
theory Api_Types
  imports K8s_Types
begin

text \<open>
  The custom resources of \<open>api/v1alpha2\<close>: Jenkins, JenkinsImage, Backup, BackupStrategy, BackupVolume
  and Restore, field by field.  The string-typed enumerations keep their string values, as a CR
  may hold any string there.
\<close>

section \<open>Jenkins\<close>

record SecretRef =
  SecretRef_Name :: string

record ConfigMapRef =
  ConfigMapRef_Name :: string

record Configuration =
  CasC_Enabled :: bool
  CasC_DefaultConfig :: bool
  CasC_Secret :: SecretRef
  CasC_Configurations :: "ConfigMapRef list"
  CasC_EnableAutoReload :: bool

record ServiceAccount =
  ServiceAccount_Annotations :: labels

record JenkinsAPISettings =
  AuthorizationStrategy :: string

definition CreateUserAuthorizationStrategy :: string where
  "CreateUserAuthorizationStrategy = ''createUser''"

definition ServiceAccountAuthorizationStrategy :: string where
  "ServiceAccountAuthorizationStrategy = ''serviceAccount''"

definition NotificationLevelWarning :: string where "NotificationLevelWarning = ''warning''"
definition NotificationLevelInfo :: string where "NotificationLevelInfo = ''info''"

record Container =
  Container_Name :: string
  Container_Image :: string
  Container_ImagePullPolicy :: string
  Container_Resources :: ResourceRequirements
  Container_Command :: "string list option"
  Container_Args :: "string list option"
  Container_WorkingDir :: string
  Container_Ports :: "ContainerPort list"
  Container_EnvFrom :: opaque
  Container_Env :: "EnvVar list"
  Container_VolumeMounts :: "VolumeMount list"
  Container_LivenessProbe :: "Probe option"
  Container_ReadinessProbe :: "Probe option"
  Container_Lifecycle :: "Lifecycle option"
  Container_SecurityContext :: opaque

definition zero_Container :: Container where
  "zero_Container = \<lparr>Container_Name = '''', Container_Image = '''', Container_ImagePullPolicy = '''',
     Container_Resources = empty_resources, Container_Command = None, Container_Args = None,
     Container_WorkingDir = '''', Container_Ports = [], Container_EnvFrom = '''',
     Container_Env = [], Container_VolumeMounts = [], Container_LivenessProbe = None,
     Container_ReadinessProbe = None, Container_Lifecycle = None,
     Container_SecurityContext = ''''\<rparr>"

record PluginSpec =
  Plugin_Name :: string
  Plugin_Version :: string
  Plugin_DownloadURL :: string

record JenkinsMaster =
  Master_Annotations :: labels
  Master_AnnotationsDeprecated :: labels
  Master_Labels :: labels
  Master_NodeSelector :: labels
  Master_SecurityContext :: opaque
  Master_Containers :: "Container list"
  Master_ImagePullSecrets :: "string list"
  Master_Volumes :: "Volume list"
  Master_Tolerations :: opaque
  Master_BasePlugins :: "PluginSpec list"
  Master_PriorityClassName :: string

definition zero_JenkinsMaster :: JenkinsMaster where
  "zero_JenkinsMaster = \<lparr>Master_Annotations = None, Master_AnnotationsDeprecated = None,
     Master_Labels = None, Master_NodeSelector = None, Master_SecurityContext = '''',
     Master_Containers = [], Master_ImagePullSecrets = [], Master_Volumes = [],
     Master_Tolerations = '''', Master_BasePlugins = [], Master_PriorityClassName = ''''\<rparr>"

record Service =
  Service_Annotations :: labels
  Service_Labels :: labels
  Service_Type :: string
  Service_Port :: int32
  Service_PortName :: string
  Service_NodePort :: int32
  Service_LoadBalancerSourceRanges :: "string list option"
  Service_LoadBalancerIP :: string

definition zero_Service :: Service where
  "zero_Service = \<lparr>Service_Annotations = None, Service_Labels = None, Service_Type = '''',
     Service_Port = 0, Service_PortName = '''', Service_NodePort = 0,
     Service_LoadBalancerSourceRanges = None, Service_LoadBalancerIP = ''''\<rparr>"

record JenkinsPersistentSpec =
  Persistent_Enabled :: bool
  Persistent_StorageClassName :: string
  Persistent_VolumeSize :: string

record JenkinsSpec =
  Spec_Master :: "JenkinsMaster option"
  Spec_JenkinsImageRef :: string
  Spec_ForceBasePluginsInstall :: bool
  Spec_Service :: Service
  Spec_JNLPService :: Service
  Spec_Roles :: "RoleRef list option"
  Spec_ServiceAccount :: ServiceAccount
  Spec_JenkinsAPISettings :: JenkinsAPISettings
  Spec_ConfigurationAsCode :: "Configuration option"
  Spec_BackupVolumes :: "string list"
  Spec_MetricsEnabled :: bool
  Spec_ProxyConfigurationEnabled :: bool
  Spec_PersistentSpec :: JenkinsPersistentSpec

definition zero_JenkinsSpec :: JenkinsSpec where
  "zero_JenkinsSpec = \<lparr>Spec_Master = None, Spec_JenkinsImageRef = '''',
     Spec_ForceBasePluginsInstall = False, Spec_Service = zero_Service,
     Spec_JNLPService = zero_Service, Spec_Roles = None,
     Spec_ServiceAccount = \<lparr>ServiceAccount_Annotations = None\<rparr>,
     Spec_JenkinsAPISettings = \<lparr>AuthorizationStrategy = ''''\<rparr>,
     Spec_ConfigurationAsCode = None, Spec_BackupVolumes = [], Spec_MetricsEnabled = False,
     Spec_ProxyConfigurationEnabled = False,
     Spec_PersistentSpec = \<lparr>Persistent_Enabled = False, Persistent_StorageClassName = '''',
       Persistent_VolumeSize = ''''\<rparr>\<rparr>"

record JenkinsStatus =
  Status_OperatorVersion :: string
  Status_Conditions :: "OSCondition list option"
  Status_ProvisionStartTime :: "time option"
  Status_UserAndPasswordHash :: string
  Status_Spec :: "JenkinsSpec option"

definition zero_JenkinsStatus :: JenkinsStatus where
  "zero_JenkinsStatus = \<lparr>Status_OperatorVersion = '''', Status_Conditions = None,
     Status_ProvisionStartTime = None, Status_UserAndPasswordHash = '''', Status_Spec = None\<rparr>"

record Jenkins =
  Jenkins_Meta :: ObjectMeta
  Jenkins_Spec :: JenkinsSpec
  Jenkins_Status :: "JenkinsStatus option"

definition zero_Jenkins :: Jenkins where
  "zero_Jenkins = \<lparr>Jenkins_Meta = empty_meta, Jenkins_Spec = zero_JenkinsSpec,
     Jenkins_Status = None\<rparr>"

definition GetNamespace :: "Jenkins \<Rightarrow> string" where
  "GetNamespace jenkins = Meta_Namespace (Jenkins_Meta jenkins)"

definition GetCRName :: "Jenkins \<Rightarrow> string" where
  "GetCRName jenkins = Meta_Name (Jenkins_Meta jenkins)"

section \<open>JenkinsImage\<close>

record Image =
  Image_Name :: string
  Image_Tag :: string
  Image_Registry :: string
  Image_Secret :: string

record JenkinsPlugin =
  JenkinsPlugin_Name :: string
  JenkinsPlugin_Version :: string
  JenkinsPlugin_UpdateCenter :: string

record JenkinsImageSpec =
  ImageSpec_From :: Image
  ImageSpec_To :: Image
  ImageSpec_Plugins :: "JenkinsPlugin list"
  ImageSpec_DefaultUpdateCenter :: string

record JenkinsImageBuild =
  Build_Image :: string
  Build_MD5Sum :: string
  Build_InstalledPlugins :: string

definition ImageBuildSuccessful :: string where "ImageBuildSuccessful = ''ImageBuildSuccessful''"
definition ImageBuildPending :: string where "ImageBuildPending = ''ImageBuildPending''"

record JenkinsImage =
  JImage_Meta :: ObjectMeta
  JImage_Spec :: JenkinsImageSpec
  JImage_Phase :: string
  JImage_Builds :: "JenkinsImageBuild list"

section \<open>Backup and restore\<close>

record BackupSpec =
  Backup_JenkinsRef :: string
  Backup_StrategyRef :: string
  Backup_BackupVolumeRef :: string

record Backup =
  Backup_Meta :: ObjectMeta
  Backup_Spec :: BackupSpec
  Backup_Conditions :: "Condition list"

record BackupOptions =
  Options_Jobs :: bool
  Options_Plugins :: bool
  Options_Config :: bool

record RestartConfig =
  Restart_Enabled :: bool
  Restart_Safe :: bool

record BackupStrategy =
  Strategy_Meta :: ObjectMeta
  Strategy_QuietDownDuringBackup :: bool
  Strategy_Options :: BackupOptions
  Strategy_RestartAfterRestore :: RestartConfig

record BackupVolumeSpec =
  BVSpec_PersistentVolumeClaimName :: string
  BVSpec_StorageClassName :: string
  BVSpec_Size :: string

record BackupVolume =
  BackupVolume_Meta :: ObjectMeta
  BackupVolume_Spec :: BackupVolumeSpec
  BackupVolume_Conditions :: "Condition list"

record Restore =
  Restore_Meta :: ObjectMeta
  Restore_BackupRef :: string
  Restore_Conditions :: "Condition list"

end
