(* ===== verification/Reasons.thy ===== *)
theory Reasons
  imports Api_Types
begin

text \<open>
  Notifications: the reasons of \<open>pkg/notifications/reason\<close>, the events of \<open>pkg/notifications/event\<close>
  that the controllers send on one channel, and the listener of \<open>sender.go\<close> that turns each into a
  Kubernetes event.  Every \<open>New\<dots>\<close> function returns a pointer, which is what \<open>TypeOf\<close> sees.
\<close>

section \<open>Reasons\<close>

definition OperatorSource :: string where "OperatorSource = ''operator''"
definition KubernetesSource :: string where "KubernetesSource = ''kubernetes''"
definition HumanSource :: string where "HumanSource = ''human''"

record Undefined =
  source :: string
  short :: "string list"
  verbose :: "string list"

datatype Reason =
    UndefinedReason Undefined
  | PodRestart Undefined
  | DeploymentEvent Undefined
  | ReconcileLoopFailed Undefined
  | GroovyScriptExecutionFailed Undefined
  | BaseConfigurationFailed Undefined
  | BaseConfigurationComplete Undefined
  | UserConfigurationFailed Undefined
  | UserConfigurationComplete Undefined
  | JenkinsInstanceCreated Undefined
  | BackupInProgress Undefined
  | BackupCompletedReason Undefined
  | RestoreInProgress Undefined
  | RestoreCompletedReason Undefined
  | ImageBuildCompleted Undefined
  | ImageBuildFailed Undefined

definition checkIfVerboseEmpty :: "string list \<Rightarrow> string list \<Rightarrow> string list" where
  "checkIfVerboseEmpty sh vb = (if vb = [] then sh else vb)"

definition NewUndefined_struct :: "string \<Rightarrow> string list \<Rightarrow> string list \<Rightarrow> Undefined" where
  "NewUndefined_struct src sh vb =
     \<lparr>source = src, short = sh, verbose = checkIfVerboseEmpty sh vb\<rparr>"

definition NewUndefined :: "string \<Rightarrow> string list \<Rightarrow> string list \<Rightarrow> Reason" where
  "NewUndefined src sh vb = UndefinedReason (NewUndefined_struct src sh vb)"

definition NewPodRestart :: "string \<Rightarrow> string list \<Rightarrow> string list \<Rightarrow> Reason" where
  "NewPodRestart src sh vb =
     (let restartPodMessage = ''Jenkins master pod restarted by '' @ src @ '':'';
          prefix_with = (\<lambda>ms. case ms of
              [] \<Rightarrow> []
            | [m] \<Rightarrow> [restartPodMessage @ '' '' @ m]
            | m # n # rest \<Rightarrow> restartPodMessage # m # n # rest);
          sh' = prefix_with sh; vb' = prefix_with vb
      in PodRestart \<lparr>source = src, short = sh', verbose = checkIfVerboseEmpty sh' vb'\<rparr>)"

definition NewDeploymentEvent :: "string \<Rightarrow> string list \<Rightarrow> string list \<Rightarrow> Reason" where
  "NewDeploymentEvent src sh vb = DeploymentEvent (NewUndefined_struct src sh vb)"

definition NewReconcileLoopFailed :: "string \<Rightarrow> string list \<Rightarrow> string list \<Rightarrow> Reason" where
  "NewReconcileLoopFailed src sh vb = ReconcileLoopFailed (NewUndefined_struct src sh vb)"

definition NewBaseConfigurationFailed :: "string \<Rightarrow> string list \<Rightarrow> string list \<Rightarrow> Reason" where
  "NewBaseConfigurationFailed src sh vb = BaseConfigurationFailed (NewUndefined_struct src sh vb)"

definition NewBaseConfigurationComplete :: "string \<Rightarrow> string list \<Rightarrow> string list \<Rightarrow> Reason" where
  "NewBaseConfigurationComplete src sh vb =
     BaseConfigurationComplete (NewUndefined_struct src sh vb)"

definition NewUserConfigurationFailed :: "string \<Rightarrow> string list \<Rightarrow> string list \<Rightarrow> Reason" where
  "NewUserConfigurationFailed src sh vb = UserConfigurationFailed (NewUndefined_struct src sh vb)"

definition NewUserConfigurationComplete :: "string \<Rightarrow> string list \<Rightarrow> string list \<Rightarrow> Reason" where
  "NewUserConfigurationComplete src sh vb =
     UserConfigurationComplete (NewUndefined_struct src sh vb)"

definition NewJenkinsInstanceCreated :: "string \<Rightarrow> string list \<Rightarrow> string list \<Rightarrow> Reason" where
  "NewJenkinsInstanceCreated src sh vb = JenkinsInstanceCreated (NewUndefined_struct src sh vb)"

definition NewBackupCompleted :: "string \<Rightarrow> string list \<Rightarrow> string list \<Rightarrow> Reason" where
  "NewBackupCompleted src sh vb = BackupCompletedReason (NewUndefined_struct src sh vb)"

definition NewBackupInProgress :: "string \<Rightarrow> string list \<Rightarrow> string list \<Rightarrow> Reason" where
  "NewBackupInProgress src sh vb = BackupInProgress (NewUndefined_struct src sh vb)"

definition NewRestoreCompleted :: "string \<Rightarrow> string list \<Rightarrow> string list \<Rightarrow> Reason" where
  "NewRestoreCompleted src sh vb = RestoreCompletedReason (NewUndefined_struct src sh vb)"

definition NewRestoreInProgress :: "string \<Rightarrow> string list \<Rightarrow> string list \<Rightarrow> Reason" where
  "NewRestoreInProgress src sh vb = RestoreInProgress (NewUndefined_struct src sh vb)"

definition NewImageBuildCompleted :: "string \<Rightarrow> string list \<Rightarrow> string list \<Rightarrow> Reason" where
  "NewImageBuildCompleted src sh vb = ImageBuildCompleted (NewUndefined_struct src sh vb)"

definition NewImageBuildFailed :: "string \<Rightarrow> string list \<Rightarrow> string list \<Rightarrow> Reason" where
  "NewImageBuildFailed src sh vb = ImageBuildFailed (NewUndefined_struct src sh vb)"

text \<open>The embedded struct, through which the methods are promoted, and the type of the value.\<close>

datatype goType = Named string | Pointer goType

fun embedded :: "Reason \<Rightarrow> Undefined" where
  "embedded (UndefinedReason u) = u"
| "embedded (PodRestart u) = u"
| "embedded (DeploymentEvent u) = u"
| "embedded (ReconcileLoopFailed u) = u"
| "embedded (GroovyScriptExecutionFailed u) = u"
| "embedded (BaseConfigurationFailed u) = u"
| "embedded (BaseConfigurationComplete u) = u"
| "embedded (UserConfigurationFailed u) = u"
| "embedded (UserConfigurationComplete u) = u"
| "embedded (JenkinsInstanceCreated u) = u"
| "embedded (BackupInProgress u) = u"
| "embedded (BackupCompletedReason u) = u"
| "embedded (RestoreInProgress u) = u"
| "embedded (RestoreCompletedReason u) = u"
| "embedded (ImageBuildCompleted u) = u"
| "embedded (ImageBuildFailed u) = u"

fun struct_name :: "Reason \<Rightarrow> string" where
  "struct_name (UndefinedReason _) = ''Undefined''"
| "struct_name (PodRestart _) = ''PodRestart''"
| "struct_name (DeploymentEvent _) = ''DeploymentEvent''"
| "struct_name (ReconcileLoopFailed _) = ''ReconcileLoopFailed''"
| "struct_name (GroovyScriptExecutionFailed _) = ''GroovyScriptExecutionFailed''"
| "struct_name (BaseConfigurationFailed _) = ''BaseConfigurationFailed''"
| "struct_name (BaseConfigurationComplete _) = ''BaseConfigurationComplete''"
| "struct_name (UserConfigurationFailed _) = ''UserConfigurationFailed''"
| "struct_name (UserConfigurationComplete _) = ''UserConfigurationComplete''"
| "struct_name (JenkinsInstanceCreated _) = ''JenkinsInstanceCreated''"
| "struct_name (BackupInProgress _) = ''BackupInProgress''"
| "struct_name (BackupCompletedReason _) = ''BackupCompleted''"
| "struct_name (RestoreInProgress _) = ''RestoreInProgress''"
| "struct_name (RestoreCompletedReason _) = ''RestoreCompleted''"
| "struct_name (ImageBuildCompleted _) = ''ImageBuildCompleted''"
| "struct_name (ImageBuildFailed _) = ''ImageBuildFailed''"

definition Short :: "Reason \<Rightarrow> string list" where
  "Short r = short (embedded r)"

definition Verbose :: "Reason \<Rightarrow> string list" where
  "Verbose r = verbose (embedded r)"

definition HasMessages :: "Reason \<Rightarrow> bool" where
  "HasMessages r \<longleftrightarrow> length (Short r) > 0 \<or> length (Verbose r) > 0"

definition TypeOf :: "Reason \<Rightarrow> goType" where
  "TypeOf r = Pointer (Named (struct_name r))"

text \<open>\<open>reflect.Type.Name\<close>: the empty string for a type that is not a defined type.\<close>

fun type_name :: "goType \<Rightarrow> string" where
  "type_name (Named n) = n"
| "type_name (Pointer _) = []"

section \<open>Events\<close>

definition JenkinsController :: string where "JenkinsController = ''jenkins''"
definition BackupController :: string where "BackupController = ''backup''"

record Event =
  Event_Jenkins :: Jenkins
  Event_Controller :: string
  Event_Level :: string
  Event_Reason :: Reason

definition TypeNormal :: string where "TypeNormal = ''Normal''"
definition TypeWarning :: string where "TypeWarning = ''Warning''"

definition eventLevelToKubernetesEventType :: "string \<Rightarrow> string" where
  "eventLevelToKubernetesEventType level =
     (if level = NotificationLevelWarning then TypeWarning
      else if level = NotificationLevelInfo then TypeNormal
      else TypeNormal)"

text \<open>What the recorder is asked to emit.\<close>

record K8sEvent =
  Emit_object :: Jenkins
  Emit_eventType :: string
  Emit_reason :: string
  Emit_message :: string

fun Listen :: "Event list \<Rightarrow> K8sEvent list" where
  "Listen [] = []"
| "Listen (e # es) =
     (if \<not> HasMessages (Event_Reason e) then Listen es
      else \<lparr>Emit_object = Event_Jenkins e,
            Emit_eventType = eventLevelToKubernetesEventType (Event_Level e),
            Emit_reason = type_name (TypeOf (Event_Reason e)),
            Emit_message = Join ''; '' (Short (Event_Reason e))\<rparr> # Listen es)"

lemmas reason_defs = NewUndefined_def NewPodRestart_def NewDeploymentEvent_def
  NewReconcileLoopFailed_def NewBaseConfigurationFailed_def NewBaseConfigurationComplete_def
  NewUserConfigurationFailed_def NewUserConfigurationComplete_def NewJenkinsInstanceCreated_def
  NewBackupCompleted_def NewBackupInProgress_def NewRestoreCompleted_def
  NewRestoreInProgress_def NewImageBuildCompleted_def NewImageBuildFailed_def
  NewUndefined_struct_def checkIfVerboseEmpty_def

lemma Listen_append: "Listen (xs @ ys) = Listen xs @ Listen ys"
  by (induction xs) simp_all

lemma Listen_filter: "Listen es = Listen (filter (HasMessages \<circ> Event_Reason) es)"
  by (induction es) simp_all

lemma length_Listen: "length (Listen es) = length (filter (HasMessages \<circ> Event_Reason) es)"
  by (induction es) simp_all

lemma type_name_TypeOf [simp]: "type_name (TypeOf r) = []"
  by (simp add: TypeOf_def)

end
