(* ===== verification/Kube.thy ===== *)
theory Kube
  imports Reasons
begin

text \<open>
  The world the operator runs in, as a parameter: \<open>do_call\<close> answers every request to the API server
  (or to a container of a pod) and changes the unknown state \<open>'w\<close> of everything outside the
  process; the clock, the random source, the environment variables, the vendored selector and quantity
  parsers, the checksum and the verb \<open>%v\<close> on structs and times are parameters too.  The state \<open>st\<close>
  of the process holds that world, the log of the requests sent so far, the notifications sent, and the package-level variables.  A program is
  a function from \<open>st\<close> to \<open>('a \<times> st) option\<close>, \<open>None\<close> being a panic.
\<close>

datatype kind = K_Jenkins | K_JenkinsImage | K_Backup | K_BackupStrategy | K_BackupVolume | K_Restore
  | K_Pod | K_Deployment | K_ReplicaSet | K_Service | K_Route | K_ConfigMap | K_Secret
  | K_ServiceAccount | K_Role | K_RoleBinding | K_ClusterRole | K_PVC | K_StorageClass
  | K_ServiceMonitor | K_Namespace | K_Proxy

datatype object = O_Jenkins Jenkins | O_JenkinsImage JenkinsImage | O_Backup Backup
  | O_BackupStrategy BackupStrategy | O_BackupVolume BackupVolume | O_Restore Restore
  | O_Pod Pod | O_Deployment Deployment | O_ReplicaSet ReplicaSet | O_Service KService
  | O_Route Route | O_ConfigMap ConfigMap | O_Secret Secret | O_ServiceAccount KServiceAccount
  | O_Role Role | O_RoleBinding RoleBinding | O_ClusterRole ClusterRole
  | O_PVC PersistentVolumeClaim | O_StorageClass StorageClass | O_ServiceMonitor ServiceMonitor
  | O_Namespace ObjectMeta | O_Proxy Proxy

text \<open>
  A Go type as the client uses it: its kind, how a value travels as an object, and its metadata.
\<close>

record 'a gotype =
  gokind :: kind
  inject :: "'a \<Rightarrow> object"
  project :: "object \<Rightarrow> 'a option"
  get_meta :: "'a \<Rightarrow> ObjectMeta"
  put_meta :: "ObjectMeta \<Rightarrow> 'a \<Rightarrow> 'a"

definition Jenkins_t :: "Jenkins gotype" where
  "Jenkins_t = \<lparr>gokind = K_Jenkins, inject = O_Jenkins,
     project = (\<lambda>x. case x of O_Jenkins y \<Rightarrow> Some y | _ \<Rightarrow> None),
     get_meta = Jenkins_Meta, put_meta = (\<lambda>m x. x\<lparr>Jenkins_Meta := m\<rparr>)\<rparr>"

definition JenkinsImage_t :: "JenkinsImage gotype" where
  "JenkinsImage_t = \<lparr>gokind = K_JenkinsImage, inject = O_JenkinsImage,
     project = (\<lambda>x. case x of O_JenkinsImage y \<Rightarrow> Some y | _ \<Rightarrow> None),
     get_meta = JImage_Meta, put_meta = (\<lambda>m x. x\<lparr>JImage_Meta := m\<rparr>)\<rparr>"

definition Backup_t :: "Backup gotype" where
  "Backup_t = \<lparr>gokind = K_Backup, inject = O_Backup,
     project = (\<lambda>x. case x of O_Backup y \<Rightarrow> Some y | _ \<Rightarrow> None),
     get_meta = Backup_Meta, put_meta = (\<lambda>m x. x\<lparr>Backup_Meta := m\<rparr>)\<rparr>"

definition BackupStrategy_t :: "BackupStrategy gotype" where
  "BackupStrategy_t = \<lparr>gokind = K_BackupStrategy, inject = O_BackupStrategy,
     project = (\<lambda>x. case x of O_BackupStrategy y \<Rightarrow> Some y | _ \<Rightarrow> None),
     get_meta = Strategy_Meta, put_meta = (\<lambda>m x. x\<lparr>Strategy_Meta := m\<rparr>)\<rparr>"

definition BackupVolume_t :: "BackupVolume gotype" where
  "BackupVolume_t = \<lparr>gokind = K_BackupVolume, inject = O_BackupVolume,
     project = (\<lambda>x. case x of O_BackupVolume y \<Rightarrow> Some y | _ \<Rightarrow> None),
     get_meta = BackupVolume_Meta, put_meta = (\<lambda>m x. x\<lparr>BackupVolume_Meta := m\<rparr>)\<rparr>"

definition Restore_t :: "Restore gotype" where
  "Restore_t = \<lparr>gokind = K_Restore, inject = O_Restore,
     project = (\<lambda>x. case x of O_Restore y \<Rightarrow> Some y | _ \<Rightarrow> None),
     get_meta = Restore_Meta, put_meta = (\<lambda>m x. x\<lparr>Restore_Meta := m\<rparr>)\<rparr>"

definition Pod_t :: "Pod gotype" where
  "Pod_t = \<lparr>gokind = K_Pod, inject = O_Pod,
     project = (\<lambda>x. case x of O_Pod y \<Rightarrow> Some y | _ \<Rightarrow> None),
     get_meta = Pod_Meta, put_meta = (\<lambda>m x. x\<lparr>Pod_Meta := m\<rparr>)\<rparr>"

definition Deployment_t :: "Deployment gotype" where
  "Deployment_t = \<lparr>gokind = K_Deployment, inject = O_Deployment,
     project = (\<lambda>x. case x of O_Deployment y \<Rightarrow> Some y | _ \<Rightarrow> None),
     get_meta = Depl_Meta, put_meta = (\<lambda>m x. x\<lparr>Depl_Meta := m\<rparr>)\<rparr>"

definition ReplicaSet_t :: "ReplicaSet gotype" where
  "ReplicaSet_t = \<lparr>gokind = K_ReplicaSet, inject = O_ReplicaSet,
     project = (\<lambda>x. case x of O_ReplicaSet y \<Rightarrow> Some y | _ \<Rightarrow> None),
     get_meta = RS_Meta, put_meta = (\<lambda>m x. x\<lparr>RS_Meta := m\<rparr>)\<rparr>"

definition Service_t :: "KService gotype" where
  "Service_t = \<lparr>gokind = K_Service, inject = O_Service,
     project = (\<lambda>x. case x of O_Service y \<Rightarrow> Some y | _ \<Rightarrow> None),
     get_meta = Svc_Meta, put_meta = (\<lambda>m x. x\<lparr>Svc_Meta := m\<rparr>)\<rparr>"

definition Route_t :: "Route gotype" where
  "Route_t = \<lparr>gokind = K_Route, inject = O_Route,
     project = (\<lambda>x. case x of O_Route y \<Rightarrow> Some y | _ \<Rightarrow> None),
     get_meta = Route_Meta, put_meta = (\<lambda>m x. x\<lparr>Route_Meta := m\<rparr>)\<rparr>"

definition ConfigMap_t :: "ConfigMap gotype" where
  "ConfigMap_t = \<lparr>gokind = K_ConfigMap, inject = O_ConfigMap,
     project = (\<lambda>x. case x of O_ConfigMap y \<Rightarrow> Some y | _ \<Rightarrow> None),
     get_meta = CM_Meta, put_meta = (\<lambda>m x. x\<lparr>CM_Meta := m\<rparr>)\<rparr>"

definition Secret_t :: "Secret gotype" where
  "Secret_t = \<lparr>gokind = K_Secret, inject = O_Secret,
     project = (\<lambda>x. case x of O_Secret y \<Rightarrow> Some y | _ \<Rightarrow> None),
     get_meta = Secret_Meta, put_meta = (\<lambda>m x. x\<lparr>Secret_Meta := m\<rparr>)\<rparr>"

definition ServiceAccount_t :: "KServiceAccount gotype" where
  "ServiceAccount_t = \<lparr>gokind = K_ServiceAccount, inject = O_ServiceAccount,
     project = (\<lambda>x. case x of O_ServiceAccount y \<Rightarrow> Some y | _ \<Rightarrow> None),
     get_meta = SA_Meta, put_meta = (\<lambda>m x. x\<lparr>SA_Meta := m\<rparr>)\<rparr>"

definition Role_t :: "Role gotype" where
  "Role_t = \<lparr>gokind = K_Role, inject = O_Role,
     project = (\<lambda>x. case x of O_Role y \<Rightarrow> Some y | _ \<Rightarrow> None),
     get_meta = Role_Meta, put_meta = (\<lambda>m x. x\<lparr>Role_Meta := m\<rparr>)\<rparr>"

definition RoleBinding_t :: "RoleBinding gotype" where
  "RoleBinding_t = \<lparr>gokind = K_RoleBinding, inject = O_RoleBinding,
     project = (\<lambda>x. case x of O_RoleBinding y \<Rightarrow> Some y | _ \<Rightarrow> None),
     get_meta = RB_Meta, put_meta = (\<lambda>m x. x\<lparr>RB_Meta := m\<rparr>)\<rparr>"

definition ClusterRole_t :: "ClusterRole gotype" where
  "ClusterRole_t = \<lparr>gokind = K_ClusterRole, inject = O_ClusterRole,
     project = (\<lambda>x. case x of O_ClusterRole y \<Rightarrow> Some y | _ \<Rightarrow> None),
     get_meta = CR_Meta, put_meta = (\<lambda>m x. x\<lparr>CR_Meta := m\<rparr>)\<rparr>"

definition PVC_t :: "PersistentVolumeClaim gotype" where
  "PVC_t = \<lparr>gokind = K_PVC, inject = O_PVC,
     project = (\<lambda>x. case x of O_PVC y \<Rightarrow> Some y | _ \<Rightarrow> None),
     get_meta = PVC_Meta, put_meta = (\<lambda>m x. x\<lparr>PVC_Meta := m\<rparr>)\<rparr>"

definition StorageClass_t :: "StorageClass gotype" where
  "StorageClass_t = \<lparr>gokind = K_StorageClass, inject = O_StorageClass,
     project = (\<lambda>x. case x of O_StorageClass y \<Rightarrow> Some y | _ \<Rightarrow> None),
     get_meta = SC_Meta, put_meta = (\<lambda>m x. x\<lparr>SC_Meta := m\<rparr>)\<rparr>"

definition ServiceMonitor_t :: "ServiceMonitor gotype" where
  "ServiceMonitor_t = \<lparr>gokind = K_ServiceMonitor, inject = O_ServiceMonitor,
     project = (\<lambda>x. case x of O_ServiceMonitor y \<Rightarrow> Some y | _ \<Rightarrow> None),
     get_meta = SM_Meta, put_meta = (\<lambda>m x. x\<lparr>SM_Meta := m\<rparr>)\<rparr>"

definition Namespace_t :: "ObjectMeta gotype" where
  "Namespace_t = \<lparr>gokind = K_Namespace, inject = O_Namespace,
     project = (\<lambda>x. case x of O_Namespace y \<Rightarrow> Some y | _ \<Rightarrow> None),
     get_meta = (\<lambda>x. x), put_meta = (\<lambda>m x. m)\<rparr>"

definition Proxy_t :: "Proxy gotype" where
  "Proxy_t = \<lparr>gokind = K_Proxy, inject = O_Proxy,
     project = (\<lambda>x. case x of O_Proxy y \<Rightarrow> Some y | _ \<Rightarrow> None),
     get_meta = (\<lambda>x. empty_meta), put_meta = (\<lambda>m x. x)\<rparr>"

type_synonym selector = string

record ListOptions =
  List_Namespace :: string
  List_LabelSelector :: "selector option"

definition all_objects :: ListOptions where
  "all_objects = \<lparr>List_Namespace = '''', List_LabelSelector = None\<rparr>"

definition InNamespace :: "string \<Rightarrow> ListOptions" where
  "InNamespace ns = \<lparr>List_Namespace = ns, List_LabelSelector = None\<rparr>"

datatype request =
    GetReq kind NamespacedName
  | ListReq kind ListOptions
  | CreateReq object
  | UpdateReq object
  | StatusUpdateReq object
  | DeleteReq object
  | BuildConfigReq string
  | NewForConfigReq opaque
  | NewSPDYExecutorReq string string string "string list"
  | StreamReq string string string "string list"
  | ServerSupportsVersionReq string string

datatype response = Failed error | Returned object | Listed "object list" | Config opaque | Done

record reconcileError =
  RErr_err :: error
  RErr_counter :: "64 word"

record Globals =
  RouteAPIAvailable :: bool
  RouteAPIChecked :: bool
  PrometheusAPIAvailable :: bool
  PrometheusAPIChecked :: bool
  ProxyAPIAvailable :: bool
  ProxyAPIChecked :: bool
  ProxyEnvVars :: "EnvVar list"
  GlobalProxy :: Proxy
  isImageRegistryAvailable :: bool
  imageRegistryAlreadyChecked :: bool
  reconcileErrors :: "reconcileError gomap"
  defaultConfigMap :: ConfigMap

record 'w st =
  world :: 'w
  calls :: "request list"
  events :: "Event list"
  globals :: Globals

record 'w ext =
  do_call :: "request \<Rightarrow> 'w \<Rightarrow> response \<times> 'w"
  clock :: "'w \<Rightarrow> time \<times> 'w"
  rand_Intn :: "nat \<Rightarrow> 'w \<Rightarrow> nat \<times> 'w"
  getenv :: "string \<Rightarrow> string option"
  asSelector :: "LabelSelector option \<Rightarrow> error + selector"
  parseQuantity :: "string \<Rightarrow> Quantity option"
  show_volume :: "Volume \<Rightarrow> string"
  show_time :: "time \<Rightarrow> string"
  md5_hex :: "string \<Rightarrow> string"

section \<open>Primitives\<close>

definition call :: "'w ext \<Rightarrow> request \<Rightarrow> 'w st \<Rightarrow> (response \<times> 'w st) option" where
  "call ext q s =
     (let (r, w) = do_call ext q (world s)
      in Some (r, s\<lparr>world := w, calls := calls s @ [q]\<rparr>))"

definition wrong_kind :: error where
  "wrong_kind = PlainError ''unexpected object kind''"

definition decode :: "(object \<Rightarrow> 'a option) \<Rightarrow> response \<Rightarrow> error + 'a" where
  "decode as r =
     (case r of
        Failed e \<Rightarrow> Inl e
      | Returned obj \<Rightarrow> (case as obj of None \<Rightarrow> Inl wrong_kind | Some x \<Rightarrow> Inr x)
      | _ \<Rightarrow> Inl wrong_kind)"

definition decode_list :: "(object \<Rightarrow> 'a option) \<Rightarrow> response \<Rightarrow> error + 'a list" where
  "decode_list as r =
     (case r of
        Failed e \<Rightarrow> Inl e
      | Listed objs \<Rightarrow> (case those (map as objs) of None \<Rightarrow> Inl wrong_kind | Some xs \<Rightarrow> Inr xs)
      | _ \<Rightarrow> Inl wrong_kind)"

text \<open>\<open>client.Client\<close>: a write that succeeds leaves the server's answer in the object it was given.\<close>

definition Client_Get ::
  "'w ext \<Rightarrow> 'a gotype \<Rightarrow> NamespacedName \<Rightarrow> 'w st \<Rightarrow> ((error + 'a) \<times> 'w st) option" where
  "Client_Get ext T nn s =
     do { (r, s) \<leftarrow> call ext (GetReq (gokind T) nn) s; Some (decode (project T) r, s) }"

definition Client_List ::
  "'w ext \<Rightarrow> 'a gotype \<Rightarrow> ListOptions \<Rightarrow> 'w st \<Rightarrow> ((error + 'a list) \<times> 'w st) option" where
  "Client_List ext T opts s =
     do { (r, s) \<leftarrow> call ext (ListReq (gokind T) opts) s; Some (decode_list (project T) r, s) }"

definition Client_Create ::
  "'w ext \<Rightarrow> 'a gotype \<Rightarrow> 'a \<Rightarrow> 'w st \<Rightarrow> ((error + 'a) \<times> 'w st) option" where
  "Client_Create ext T x s =
     do { (r, s) \<leftarrow> call ext (CreateReq (inject T x)) s; Some (decode (project T) r, s) }"

definition Client_Update ::
  "'w ext \<Rightarrow> 'a gotype \<Rightarrow> 'a \<Rightarrow> 'w st \<Rightarrow> ((error + 'a) \<times> 'w st) option" where
  "Client_Update ext T x s =
     do { (r, s) \<leftarrow> call ext (UpdateReq (inject T x)) s; Some (decode (project T) r, s) }"

definition Client_StatusUpdate ::
  "'w ext \<Rightarrow> 'a gotype \<Rightarrow> 'a \<Rightarrow> 'w st \<Rightarrow> ((error + 'a) \<times> 'w st) option" where
  "Client_StatusUpdate ext T x s =
     do { (r, s) \<leftarrow> call ext (StatusUpdateReq (inject T x)) s; Some (decode (project T) r, s) }"

definition err_of :: "response \<Rightarrow> error option" where
  "err_of r = (case r of Failed e \<Rightarrow> Some e | _ \<Rightarrow> None)"

definition Client_Delete :: "'w ext \<Rightarrow> object \<Rightarrow> 'w st \<Rightarrow> (error option \<times> 'w st) option" where
  "Client_Delete ext x s =
     do { (r, s) \<leftarrow> call ext (DeleteReq x) s; Some (err_of r, s) }"

definition Now :: "'w ext \<Rightarrow> 'w st \<Rightarrow> (time \<times> 'w st) option" where
  "Now ext s = (let (t, w) = clock ext (world s) in Some (t, s\<lparr>world := w\<rparr>))"

definition send :: "Event \<Rightarrow> 'w st \<Rightarrow> 'w st" where
  "send e s = s\<lparr>events := events s @ [e]\<rparr>"

text \<open>\<open>discovery.ServerSupportsVersion\<close>\<close>

definition ServerSupportsVersion ::
  "'w ext \<Rightarrow> string \<Rightarrow> string \<Rightarrow> 'w st \<Rightarrow> (error option \<times> 'w st) option" where
  "ServerSupportsVersion ext grp version s =
     do { (r, s) \<leftarrow> call ext (ServerSupportsVersionReq grp version) s; Some (err_of r, s) }"

section \<open>The types of the client\<close>

text \<open>What the operator relies on for every type it hands to the client.\<close>

locale api_type =
  fixes T :: "'a gotype"
  assumes project_inject [simp]: "project T (inject T x) = Some x"
    and project_SomeD: "project T obj = Some x \<Longrightarrow> obj = inject T x"
    and get_put [simp]: "get_meta T (put_meta T m x) = m"
    and put_get [simp]: "put_meta T (get_meta T x) x = x"
    and put_put [simp]: "put_meta T m (put_meta T m' x) = put_meta T m x"
begin

lemma inject_eq [simp]: "inject T x = inject T y \<longleftrightarrow> x = y"
  by (metis option.inject project_inject)

lemma decode_inject [simp]: "decode (project T) (Returned (inject T x)) = Inr x"
  by (simp add: decode_def)

lemma decode_InrD: "decode (project T) r = Inr x \<Longrightarrow> r = Returned (inject T x)"
  by (auto simp: decode_def dest: project_SomeD split: response.splits option.splits)

lemma decode_Inr_iff: "decode (project T) r = Inr x \<longleftrightarrow> r = Returned (inject T x)"
  by (auto dest: decode_InrD)

lemma put_meta_inject:
  "inject T (put_meta T m x) = inject T (put_meta T m' y) \<Longrightarrow> m = m'"
  by (metis get_put inject_eq)

end

interpretation ty_Jenkins: api_type Jenkins_t
  by unfold_locales (auto simp: Jenkins_t_def split: object.splits)

interpretation ty_JenkinsImage: api_type JenkinsImage_t
  by unfold_locales (auto simp: JenkinsImage_t_def split: object.splits)

interpretation ty_Backup: api_type Backup_t
  by unfold_locales (auto simp: Backup_t_def split: object.splits)

interpretation ty_BackupStrategy: api_type BackupStrategy_t
  by unfold_locales (auto simp: BackupStrategy_t_def split: object.splits)

interpretation ty_BackupVolume: api_type BackupVolume_t
  by unfold_locales (auto simp: BackupVolume_t_def split: object.splits)

interpretation ty_Restore: api_type Restore_t
  by unfold_locales (auto simp: Restore_t_def split: object.splits)

interpretation ty_Pod: api_type Pod_t
  by unfold_locales (auto simp: Pod_t_def split: object.splits)

interpretation ty_Deployment: api_type Deployment_t
  by unfold_locales (auto simp: Deployment_t_def split: object.splits)

interpretation ty_ReplicaSet: api_type ReplicaSet_t
  by unfold_locales (auto simp: ReplicaSet_t_def split: object.splits)

interpretation ty_Service: api_type Service_t
  by unfold_locales (auto simp: Service_t_def split: object.splits)

interpretation ty_Route: api_type Route_t
  by unfold_locales (auto simp: Route_t_def split: object.splits)

interpretation ty_ConfigMap: api_type ConfigMap_t
  by unfold_locales (auto simp: ConfigMap_t_def split: object.splits)

interpretation ty_Secret: api_type Secret_t
  by unfold_locales (auto simp: Secret_t_def split: object.splits)

interpretation ty_ServiceAccount: api_type ServiceAccount_t
  by unfold_locales (auto simp: ServiceAccount_t_def split: object.splits)

interpretation ty_Role: api_type Role_t
  by unfold_locales (auto simp: Role_t_def split: object.splits)

interpretation ty_RoleBinding: api_type RoleBinding_t
  by unfold_locales (auto simp: RoleBinding_t_def split: object.splits)

interpretation ty_ClusterRole: api_type ClusterRole_t
  by unfold_locales (auto simp: ClusterRole_t_def split: object.splits)

interpretation ty_PVC: api_type PVC_t
  by unfold_locales (auto simp: PVC_t_def split: object.splits)

interpretation ty_StorageClass: api_type StorageClass_t
  by unfold_locales (auto simp: StorageClass_t_def split: object.splits)

interpretation ty_ServiceMonitor: api_type ServiceMonitor_t
  by unfold_locales (auto simp: ServiceMonitor_t_def split: object.splits)

interpretation ty_Namespace: api_type Namespace_t
  by unfold_locales (auto simp: Namespace_t_def split: object.splits)

section \<open>What a program appends to the log\<close>

definition extends :: "(request \<Rightarrow> bool) \<Rightarrow> 'w st \<Rightarrow> 'w st \<Rightarrow> bool" where
  "extends P s s' \<longleftrightarrow> (\<exists>new. calls s' = calls s @ new \<and> list_all P new)"

definition new_calls :: "'w st \<Rightarrow> 'w st \<Rightarrow> request list" where
  "new_calls s s' = drop (length (calls s)) (calls s')"

text \<open>The requests that create an object.\<close>

definition is_create :: "request \<Rightarrow> bool" where
  "is_create q \<longleftrightarrow> (\<exists>obj. q = CreateReq obj)"

lemma is_create_simps [simp]:
  "is_create (CreateReq obj)" "\<not> is_create (GetReq k n)" "\<not> is_create (ListReq k l)" "\<not> is_create (UpdateReq obj)"
  "\<not> is_create (StatusUpdateReq obj)" "\<not> is_create (DeleteReq obj)"
  by (simp_all add: is_create_def)

lemma extends_refl [simp, intro]: "extends P s s"
  by (simp add: extends_def)

lemma extends_trans [trans]: "extends P s t \<Longrightarrow> extends P t u \<Longrightarrow> extends P s u"
  unfolding extends_def by force

lemma extends_mono: "extends P s t \<Longrightarrow> (\<And>q. P q \<Longrightarrow> Q q) \<Longrightarrow> extends Q s t"
  unfolding extends_def by (metis list.pred_mono_strong)

lemma extends_calls: "calls t = calls s \<Longrightarrow> extends P s t"
  by (simp add: extends_def)

lemma extends_new_calls: "extends P s t \<Longrightarrow> calls t = calls s @ new_calls s t \<and> list_all P (new_calls s t)"
  by (auto simp: extends_def new_calls_def)

lemma call_SomeD: "call ext q s = Some (r, s') \<Longrightarrow>
    r = fst (do_call ext q (world s)) \<and> s' = s\<lparr>world := snd (do_call ext q (world s)), calls := calls s @ [q]\<rparr>"
  by (auto simp: call_def split: prod.splits)

lemma call_eq: "call ext q s = Some (fst (do_call ext q (world s)),
    s\<lparr>world := snd (do_call ext q (world s)), calls := calls s @ [q]\<rparr>)"
  by (simp add: call_def split: prod.split)

lemma decode_simps [simp]:
  "decode as (Failed e) = Inl e"
  "decode as (Returned obj) = (case as obj of None \<Rightarrow> Inl wrong_kind | Some x \<Rightarrow> Inr x)"
  "decode as (Listed l) = Inl wrong_kind" "decode as (Config c) = Inl wrong_kind"
  "decode as Done = Inl wrong_kind"
  by (simp_all add: decode_def)

lemma decode_list_simps [simp]:
  "decode_list as (Failed e) = Inl e"
  "decode_list as (Listed objs) = (case those (map as objs) of None \<Rightarrow> Inl wrong_kind | Some xs \<Rightarrow> Inr xs)"
  "decode_list as (Returned obj) = Inl wrong_kind" "decode_list as (Config c) = Inl wrong_kind"
  "decode_list as Done = Inl wrong_kind"
  by (simp_all add: decode_list_def)

lemma IsNotFound_wrong_kind [simp]: "\<not> IsNotFound wrong_kind"
  by (simp add: wrong_kind_def)

lemma send_simps [simp]:
  "world (send e s) = world s" "calls (send e s) = calls s" "globals (send e s) = globals s"
  "events (send e s) = events s @ [e]"
  by (simp_all add: send_def)

end
