(* ===== verification/Resources.thy ===== *)
theory Resources
  imports Kube
begin

text \<open>
  The small builders of \<open>pkg/configuration/base/resources\<close>: names and labels (\<open>meta.go\<close>), roles and
  role bindings (\<open>rbac.go\<close>), services, routes, secrets, service accounts, resource requirements and
  probes.  The type metadata of an object is the constructor of \<open>object\<close> it is sent under.
\<close>

section \<open>Constants\<close>

definition LabelAppKey :: string where [name_simps]: "LabelAppKey = ''app''"
definition LabelAppValue :: string where [name_simps]: "LabelAppValue = ''jenkins''"
definition LabelJenkinsCRKey :: string where [name_simps]: "LabelJenkinsCRKey = ''jenkins-cr''"
definition DefaultJenkinsMasterImage :: string where
  "DefaultJenkinsMasterImage = ''jenkins/jenkins:lts''"
definition DefaultOpenShiftJenkinsMasterImage :: string where
  "DefaultOpenShiftJenkinsMasterImage = ''registry.redhat.io/openshift4/ose-jenkins:v4.7''"
definition DefaultHTTPPortInt32 :: int32 where "DefaultHTTPPortInt32 = 8080"
definition DefaultJNLPPortInt32 :: int32 where "DefaultJNLPPortInt32 = 50000"
definition JavaOptsVariableName :: string where "JavaOptsVariableName = ''JAVA_OPTS''"
definition JavaOptsDefaultValue :: string where
  "JavaOptsDefaultValue = ''-XX:+UnlockExperimentalVMOptions -XX:MaxRAMFraction=1 '' @
     ''-Djenkins.install.runSetupWizard=false -Djava.awt.headless=true '' @
     ''-Dhudson.security.csrf.DefaultCrumbIssuer.EXCLUDE_SESSION_ID=true '' @
     ''-Dcasc.reload.token=$(POD_NAME)''"
definition KubernetesTrustCertsVariableName :: string where
  "KubernetesTrustCertsVariableName = ''KUBERNETES_TRUST_CERTIFICATES''"
definition KubernetesTrustCertsDefaultValue :: string where
  "KubernetesTrustCertsDefaultValue = ''true''"
definition JenkinsMasterContainerName :: string where "JenkinsMasterContainerName = ''jenkins''"
definition DefaultJenkinsSideCarImage :: string where
  "DefaultJenkinsSideCarImage = ''quay.io/redhat-developer/jenkins-kubernetes-sidecar:0.1.144''"
definition DefaultJenkinsBackupImage :: string where
  "DefaultJenkinsBackupImage = ''ubi8/ubi-minimal:latest''"
definition PullAlways :: string where "PullAlways = ''Always''"
definition PullIfNotPresent :: string where "PullIfNotPresent = ''IfNotPresent''"

section \<open>The effective specification\<close>

text \<open>Reading through \<open>jenkins.Status.Spec.Master.Containers[0]\<close>: a panic where a pointer is \<open>nil\<close>.\<close>

definition jenkins_name :: "Jenkins \<Rightarrow> string" where
  "jenkins_name j = Meta_Name (Jenkins_Meta j)"

definition jenkins_namespace :: "Jenkins \<Rightarrow> string" where
  "jenkins_namespace j = Meta_Namespace (Jenkins_Meta j)"

definition status_spec :: "Jenkins \<Rightarrow> JenkinsSpec option" where
  "status_spec j = Option.bind (Jenkins_Status j) Status_Spec"

definition first_container :: "JenkinsSpec \<Rightarrow> Container option" where
  "first_container spec =
     do { m \<leftarrow> Spec_Master spec; case Master_Containers m of [] \<Rightarrow> None | c # _ \<Rightarrow> Some c }"

definition getJenkinsHomePath :: "Jenkins \<Rightarrow> string option" where
  "getJenkinsHomePath j =
     do { spec \<leftarrow> status_spec j;
          c \<leftarrow> first_container spec;
          Some (case find (\<lambda>e. Env_Name e = ''JENKINS_HOME'') (Container_Env c) of
                  None \<Rightarrow> ''/var/lib/jenkins''
                | Some e \<Rightarrow> Env_Value e) }"

section \<open>Names and labels\<close>

definition GetResourceName :: "Jenkins \<Rightarrow> string" where
  [name_simps]: "GetResourceName j = LabelAppValue @ ''-'' @ jenkins_name j"

definition BuildResourceLabels :: "Jenkins \<Rightarrow> labels" where
  "BuildResourceLabels j =
     Some [(LabelAppKey, LabelAppValue), (LabelJenkinsCRKey, jenkins_name j)]"

definition NewResourceObjectMeta :: "Jenkins \<Rightarrow> ObjectMeta" where
  "NewResourceObjectMeta j = empty_meta\<lparr>Meta_Name := GetResourceName j,
     Meta_Namespace := jenkins_namespace j, Meta_Labels := BuildResourceLabels j\<rparr>"

definition GetExtraRoleBindingName :: "Jenkins \<Rightarrow> RoleRef \<Rightarrow> string" where
  [name_simps]: "GetExtraRoleBindingName j roleRef =
     GetResourceName j @ ''-'' @ (if RoleRef_Kind roleRef = ''ClusterRole'' then ''cr'' else ''r'')
       @ ''-'' @ RoleRef_Name roleRef"

definition GetJenkinsDeploymentName :: "Jenkins \<Rightarrow> string" where
  [name_simps]: "GetJenkinsDeploymentName j = ''jenkins-'' @ jenkins_name j"

definition GetJenkinsHTTPServiceName :: "Jenkins \<Rightarrow> string" where
  [name_simps]: "GetJenkinsHTTPServiceName j = LabelAppValue @ ''-'' @ jenkins_name j"

definition GetJenkinsJNLPServiceName :: "Jenkins \<Rightarrow> string" where
  [name_simps]: "GetJenkinsJNLPServiceName j = LabelAppValue @ ''-'' @ jenkins_name j @ ''-jnlp''"

definition GetOperatorCredentialsSecretName :: "Jenkins \<Rightarrow> string" where
  [name_simps]: "GetOperatorCredentialsSecretName j = LabelAppValue @ ''-'' @ jenkins_name j @ ''-credentials''"

definition getScriptsConfigMapName :: "Jenkins \<Rightarrow> string" where
  [name_simps]: "getScriptsConfigMapName j = LabelAppValue @ ''-'' @ jenkins_name j @ ''-scripts''"

definition GetInitConfigurationConfigMapName :: "Jenkins \<Rightarrow> string" where
  [name_simps]: "GetInitConfigurationConfigMapName j =
     LabelAppValue @ ''-'' @ jenkins_name j @ ''-init-configuration''"

definition GetBasePluginsVolumeNameConfigMapName :: "Jenkins \<Rightarrow> string" where
  [name_simps]: "GetBasePluginsVolumeNameConfigMapName j =
     LabelAppValue @ ''-'' @ jenkins_name j @ ''-base-plugins''"

section \<open>Roles\<close>

definition NewPolicyRule :: "string \<Rightarrow> string \<Rightarrow> string \<Rightarrow> string list \<Rightarrow> PolicyRule" where
  "NewPolicyRule apiGroup resource resourceName verbs =
     \<lparr>Rule_Verbs = verbs, Rule_APIGroups = [apiGroup], Rule_Resources = [resource],
      Rule_ResourceNames = [resourceName]\<rparr>"

definition NewDefaultPolicyRules :: "PolicyRule list" where
  "NewDefaultPolicyRules =
     (let Default = [''create'', ''delete'', ''get'', ''list'', ''patch'', ''update'', ''watch''] in
      [NewPolicyRule '''' ''pods/portforward'' '''' [''create''],
       NewPolicyRule '''' ''pods'' '''' Default,
       NewPolicyRule '''' ''pods/exec'' '''' Default,
       NewPolicyRule '''' ''configmaps'' '''' Default,
       NewPolicyRule '''' ''pods/log'' '''' Default,
       NewPolicyRule '''' ''secrets'' '''' Default,
       NewPolicyRule '''' ''events'' '''' [''watch''],
       NewPolicyRule ''image.openshift.io'' ''imagestreams'' '''' Default,
       NewPolicyRule ''build.openshift.io'' ''buildconfigs'' '''' Default,
       NewPolicyRule ''build.openshift.io'' ''builds'' '''' Default,
       NewPolicyRule ''security.openshift.io'' ''securitycontextconstraints'' ''anyuid'' [''use'']])"

definition NewRole :: "Jenkins \<Rightarrow> Role" where
  "NewRole j = \<lparr>Role_Meta = NewResourceObjectMeta j, Role_Rules = NewDefaultPolicyRules\<rparr>"

definition NewRoleBinding :: "Jenkins \<Rightarrow> RoleRef \<Rightarrow> RoleBinding" where
  "NewRoleBinding j roleRef =
     \<lparr>RB_Meta = empty_meta\<lparr>Meta_Name := GetExtraRoleBindingName j roleRef,
        Meta_Namespace := jenkins_namespace j\<rparr>,
      RB_Subjects = [\<lparr>Subject_Kind = ''ServiceAccount'', Subject_Name = Meta_Name (NewResourceObjectMeta j),
        Subject_Namespace = jenkins_namespace j\<rparr>],
      RB_RoleRef = roleRef\<rparr>"

definition NewServiceAccount :: "ObjectMeta \<Rightarrow> labels \<Rightarrow> KServiceAccount" where
  "NewServiceAccount meta annotations =
     \<lparr>SA_Meta = meta\<lparr>Meta_Annotations := annotations\<rparr>, SA_Other = ''''\<rparr>"

section \<open>Services and routes\<close>

text \<open>
  \<open>UpdateService\<close> writes the user's labels into the map of the current service, \<open>None\<close> when that
  map is \<open>nil\<close> and there is a label to write.
\<close>

definition UpdateService :: "KService \<Rightarrow> Service \<Rightarrow> KService option" where
  "UpdateService current desired =
     do { lbls \<leftarrow> write_all (Meta_Labels (Svc_Meta current)) (Service_Labels desired);
          let meta = (Svc_Meta current)\<lparr>Meta_Annotations := Service_Annotations desired, Meta_Labels := lbls\<rparr>;
              ports = (if Svc_Ports current = []
                 then [\<lparr>SPort_Name = '''', SPort_Port = 0, SPort_NodePort = 0, SPort_Other = ''''\<rparr>]
                 else Svc_Ports current);
              p = (hd ports)\<lparr>SPort_Port := Service_Port desired, SPort_Name := Service_PortName desired\<rparr>;
              p = (if Service_NodePort desired \<noteq> 0
                 then p\<lparr>SPort_NodePort := Service_NodePort desired\<rparr> else p)
          in Some (current\<lparr>Svc_Meta := meta, Svc_Type := Service_Type desired,
               Svc_LoadBalancerIP := Service_LoadBalancerIP desired,
               Svc_LoadBalancerSourceRanges := Service_LoadBalancerSourceRanges desired,
               Svc_Ports := p # tl ports\<rparr>) }"

text \<open>\<open>route.Spec.Port\<close> is a pointer: a route without a port panics.\<close>

definition UpdateRoute :: "Route \<Rightarrow> Jenkins \<Rightarrow> Route option" where
  "UpdateRoute actual j =
     do { let serviceName = GetJenkinsHTTPServiceName j;
          let actual = (if Route_ToName actual \<noteq> serviceName
                then actual\<lparr>Route_ToName := serviceName\<rparr> else actual);
          spec \<leftarrow> status_spec j;
          target \<leftarrow> Route_TargetPort actual;
          let port = sint (Service_Port (Spec_Service spec));
          Some (if IntVal target \<noteq> port
                then actual\<lparr>Route_TargetPort := Some (FromInt port)\<rparr> else actual) }"

section \<open>Secrets\<close>

definition randomCharset :: string where
  "randomCharset = ''0123456789abcdefghijklmnopqrstuvwxyzABCDEFGHIJKLMNOPQRSTUVWXYZ''"

text \<open>\<open>rand.Intn\<close> answers below its argument; an answer out of range would panic.\<close>

fun randomString :: "'w ext \<Rightarrow> nat \<Rightarrow> 'w st \<Rightarrow> (string \<times> 'w st) option" where
  "randomString ext 0 s = Some ([], s)"
| "randomString ext (Suc n) s =
     (let (i, w) = rand_Intn ext (length randomCharset) (world s) in
      if i < length randomCharset
      then do { (cs, s) \<leftarrow> randomString ext n (s\<lparr>world := w\<rparr>); Some (randomCharset ! i # cs, s) }
      else None)"

definition OperatorUserName :: string where "OperatorUserName = ''jenkins-operator''"
definition OperatorCredentialsSecretUserNameKey :: string where
  "OperatorCredentialsSecretUserNameKey = ''user''"
definition OperatorCredentialsSecretPasswordKey :: string where
  "OperatorCredentialsSecretPasswordKey = ''password''"

definition NewOperatorCredentialsSecret ::
  "'w ext \<Rightarrow> ObjectMeta \<Rightarrow> Jenkins \<Rightarrow> 'w st \<Rightarrow> (Secret \<times> 'w st) option" where
  "NewOperatorCredentialsSecret ext meta j s =
     do { (password, s) \<leftarrow> randomString ext 20 s;
          Some (\<lparr>Secret_Meta = meta\<lparr>Meta_Name := GetOperatorCredentialsSecretName j\<rparr>,
                 Secret_Data = [(OperatorCredentialsSecretUserNameKey, OperatorUserName),
                   (OperatorCredentialsSecretPasswordKey, password)]\<rparr>, s) }"

definition ServiceAccountNameAnnotation :: string where
  "ServiceAccountNameAnnotation = ''kubernetes.io/service-account.name''"

definition GetDockerBuilderSecretName ::
  "'w ext \<Rightarrow> string \<Rightarrow> 'w st \<Rightarrow> ((error + string) \<times> 'w st) option" where
  "GetDockerBuilderSecretName ext namespace s =
     do { (r, s) \<leftarrow> Client_List ext Secret_t (InNamespace namespace) s;
          Some (case r of
                  Inl err \<Rightarrow> Inl err
                | Inr secrets \<Rightarrow>
                    (case find (\<lambda>x. lookup_label (Meta_Annotations (Secret_Meta x))
                                      ServiceAccountNameAnnotation = Some ''builder'') secrets of
                       None \<Rightarrow> Inr ''''
                     | Some x \<Rightarrow> Inr (Meta_Name (Secret_Meta x))), s) }"

section \<open>Resource requirements and probes\<close>

text \<open>\<open>resource.MustParse\<close> of the constants of the program, which are canonical quantities.\<close>

definition NewResourceRequirements ::
  "string \<Rightarrow> string \<Rightarrow> string \<Rightarrow> string \<Rightarrow> ResourceRequirements" where
  "NewResourceRequirements cpuRequest memoryRequest cpuLimit memoryLimit =
     \<lparr>Limits = Some [(''cpu'', Quantity cpuLimit), (''memory'', Quantity memoryLimit)],
      Requests = Some [(''cpu'', Quantity cpuRequest), (''memory'', Quantity memoryRequest)]\<rparr>"

definition DefaultResourceRequirement :: ResourceRequirements where
  "DefaultResourceRequirement = NewResourceRequirements ''50m'' ''50Mi'' ''100m'' ''100Mi''"

definition GetResourceList :: "string \<Rightarrow> string \<Rightarrow> ResourceList" where
  "GetResourceList cpu mem = Some [(''cpu'', Quantity cpu), (''memory'', Quantity mem)]"

definition GetResourceRequirements ::
  "string \<Rightarrow> string \<Rightarrow> string \<Rightarrow> string \<Rightarrow> ResourceRequirements" where
  "GetResourceRequirements cpuRequest memRequest cpuLimit memLimit =
     \<lparr>Limits = GetResourceList cpuLimit memLimit, Requests = GetResourceList cpuRequest memRequest\<rparr>"

definition NewSimpleProbe :: "string \<Rightarrow> string \<Rightarrow> string \<Rightarrow> int32 \<Rightarrow> Probe" where
  "NewSimpleProbe uri port scheme initialDelaySeconds =
     \<lparr>Probe_Handler = HTTPGet \<lparr>HTTPGet_Path = uri, HTTPGet_Port = FromString port, HTTPGet_Scheme = ''HTTP''\<rparr>,
      Probe_InitialDelaySeconds = initialDelaySeconds, Probe_TimeoutSeconds = 0,
      Probe_PeriodSeconds = 0, Probe_SuccessThreshold = 0, Probe_FailureThreshold = 0\<rparr>"

definition NewProbe :: "string \<Rightarrow> string \<Rightarrow> string \<Rightarrow> int32 \<Rightarrow> int32 \<Rightarrow> int32 \<Rightarrow> Probe" where
  "NewProbe uri port scheme initialDelaySeconds timeoutSeconds failureThreshold =
     (NewSimpleProbe uri port scheme initialDelaySeconds)
       \<lparr>Probe_TimeoutSeconds := timeoutSeconds, Probe_FailureThreshold := failureThreshold\<rparr>"

section \<open>Lemmas\<close>

lemma NewResourceObjectMeta_simps [simp]:
  "Meta_Name (NewResourceObjectMeta j) = GetResourceName j"
  "Meta_Namespace (NewResourceObjectMeta j) = jenkins_namespace j"
  "Meta_Labels (NewResourceObjectMeta j) = BuildResourceLabels j"
  "Meta_Annotations (NewResourceObjectMeta j) = None"
  "Meta_OwnerReferences (NewResourceObjectMeta j) = []"
  by (simp_all add: NewResourceObjectMeta_def empty_meta_def)

lemma UpdateService_Some:
  "Meta_Labels (Svc_Meta cur) = Some l \<Longrightarrow>
   \<exists>svc. UpdateService cur d = Some svc \<and> Svc_Selector svc = Svc_Selector cur
     \<and> Meta_Name (Svc_Meta svc) = Meta_Name (Svc_Meta cur)
     \<and> Meta_Namespace (Svc_Meta svc) = Meta_Namespace (Svc_Meta cur)
     \<and> Meta_Labels (Svc_Meta svc) = Some (assign_all l (range_of (Service_Labels d)))"
  by (cases "range_of (Service_Labels d)") (auto simp: UpdateService_def write_all_def Let_def)

end
