(* ===== verification/Default_Config.thy ===== *)
theory Default_Config
  imports K8s_Types
begin

text \<open>
  The default configuration as code: the package variable \<open>defaultConfigMap\<close> of \<open>base/validate.go\<close> as it
  is initialised, with the text of its seven files.
\<close>

definition config_01 :: string where
  "config_01 = Join newline
    ['''',
     ''groovy:'',
     ''- script: >'',
     ''    import jenkins.model.Jenkins;'',
     ''    import jenkins.model.JenkinsLocationConfiguration;'',
     ''    import hudson.model.Node.Mode;'',
     '''',
     ''    def jenkins = Jenkins.instance;'',
     ''    //Number of jobs that run simultaneously on master.'',
     ''    jenkins.setNumExecutors(6);'',
     ''    //Jobs must specify that they want to run on master'',
     ''    jenkins.setMode(Mode.EXCLUSIVE);'',
     ''    jenkins.save();'']"

definition config_02 :: string where
  "config_02 = Join newline
    ['''',
     ''groovy:'',
     ''- script: >'',
     ''    import hudson.security.csrf.DefaultCrumbIssuer;'',
     ''    import jenkins.model.Jenkins;'',
     '''',
     ''    def jenkins = Jenkins.instance;'',
     '''',
     ''    if (jenkins.getCrumbIssuer() == null) {'',
     ''      jenkins.setCrumbIssuer(new DefaultCrumbIssuer(true));'',
     ''      jenkins.save();'',
     ''      println('' @ [CHR 39] @ ''CSRF Protection enabled.'' @ [CHR 39] @ '');'',
     ''    } else {'',
     ''      println('' @ [CHR 39] @ ''CSRF Protection already configured.'' @ [CHR 39] @ '');'',
     ''    }'']"

definition config_03 :: string where
  "config_03 = Join newline
    ['''',
     ''groovy:'',
     ''- script: >'',
     ''    import jenkins.model.Jenkins;'',
     '''',
     ''    def jenkins = Jenkins.instance;'',
     '''',
     ''    if (jenkins.isUsageStatisticsCollected()) {'',
     ''      jenkins.setNoUsageStatistics(true);'',
     ''      jenkins.save();'',
     ''      println('' @ [CHR 39] @ ''Jenkins usage stats submitting disabled.'' @ [CHR 39] @ '');'',
     ''    } else {'',
     ''      println('' @ [CHR 39] @ ''Nothing changed.  Usage stats are not submitted to the Jenkins project.'' @ [CHR 39] @ '');                                                                              '',
     ''    }'']"

definition config_04 :: string where
  "config_04 = Join newline
    ['''',
     ''groovy:'',
     ''- script: >'',
     ''    import jenkins.security.s2m.AdminWhitelistRule;'',
     ''    import jenkins.model.Jenkins;'',
     '''',
     ''    // see https://wiki.jenkins-ci.org/display/JENKINS/Slave+To+Master+Access+Control                                                                                    '',
     ''    def jenkins = Jenkins.instance;'',
     ''    jenkins.getInjector().getInstance(AdminWhitelistRule.class).setMasterKillSwitch(false); // for real though, false equals enabled..........                           '',
     ''    jenkins.save();'']"

definition config_05 :: string where
  "config_05 = Join newline
    ['''',
     ''groovy:'',
     ''- script: >'',
     ''    import jenkins.*;'',
     ''    import jenkins.model.*;'',
     ''    import hudson.model.*;'',
     ''    import jenkins.security.s2m.*;'',
     '''',
     ''    def jenkins = Jenkins.instance;'',
     '''',
     ''    println('' @ [CHR 34] @ ''Disabling insecure Jenkins features...'' @ [CHR 34] @ '');'',
     '''',
     ''    println('' @ [CHR 34] @ ''Disabling insecure protocols...'' @ [CHR 34] @ '');'',
     ''    println('' @ [CHR 34] @ ''Old protocols: ['' @ [CHR 34] @ '' + jenkins.getAgentProtocols().join('' @ [CHR 34] @ '', '' @ [CHR 34] @ '') + '' @ [CHR 34] @ '']'' @ [CHR 34] @ '');'',
     ''    HashSet<String> newProtocols = new HashSet<>(jenkins.getAgentProtocols());'',
     ''    newProtocols.removeAll(Arrays.asList('' @ [CHR 34] @ ''JNLP3-connect'' @ [CHR 34] @ '', '' @ [CHR 34] @ ''JNLP2-connect'' @ [CHR 34] @ '', '' @ [CHR 34] @ ''JNLP-connect'' @ [CHR 34] @ '', '' @ [CHR 34] @ ''CLI-connect'' @ [CHR 34] @ ''));                                                              '',
     ''    println('' @ [CHR 34] @ ''New protocols: ['' @ [CHR 34] @ '' + newProtocols.join('' @ [CHR 34] @ '', '' @ [CHR 34] @ '') + '' @ [CHR 34] @ '']'' @ [CHR 34] @ '');'',
     ''    jenkins.setAgentProtocols(newProtocols);'',
     '''',
     ''    println('' @ [CHR 34] @ ''Disabling CLI access of /cli URL...'' @ [CHR 34] @ '');'',
     ''    def remove = { list ->'',
     ''      list.each { item ->'',
     ''        if (item.getClass().name.contains('' @ [CHR 34] @ ''CLIAction'' @ [CHR 34] @ '')) {'',
     ''          println('' @ [CHR 34] @ ''Removing extension ${item.getClass().name}'' @ [CHR 34] @ '')'',
     ''          list.remove(item)'',
     ''        }'',
     ''      }'',
     ''    };'',
     ''    remove(jenkins.getExtensionList(RootAction.class));'',
     ''    remove(jenkins.actions);'',
     '''',
     ''    if (jenkins.getDescriptor('' @ [CHR 34] @ ''jenkins.CLI'' @ [CHR 34] @ '') != null) {'',
     ''      jenkins.getDescriptor('' @ [CHR 34] @ ''jenkins.CLI'' @ [CHR 34] @ '').get().setEnabled(false);'',
     ''    }'',
     '''',
     ''    jenkins.save();'']"

definition config_06 :: string where
  "config_06 = Join newline
    ['''',
     ''groovy:'',
     ''- script: >'',
     ''    import hudson.model.ListView;'',
     ''    import jenkins.model.Jenkins;'',
     '''',
     ''    def Jenkins jenkins = Jenkins.getInstance();'',
     '''',
     ''    def seedViewName = '' @ [CHR 39] @ ''seed-jobs'' @ [CHR 39] @ '';'',
     ''    def nonSeedViewName = '' @ [CHR 39] @ ''non-seed-jobs'' @ [CHR 39] @ '';'',
     '''',
     ''    if (jenkins.getView(seedViewName) == null) {'',
     ''      def seedView = new ListView(seedViewName);'',
     ''      seedView.setIncludeRegex('' @ [CHR 39] @ ''.*job-dsl-seed.*'' @ [CHR 39] @ '');'',
     ''      jenkins.addView(seedView);'',
     ''    }'',
     '''',
     ''    if (jenkins.getView(nonSeedViewName) == null) {'',
     ''      def nonSeedView = new ListView(nonSeedViewName);'',
     ''      nonSeedView.setIncludeRegex('' @ [CHR 39] @ ''((?!seed)(?!jenkins).)*'' @ [CHR 39] @ '');'',
     ''      jenkins.addView(nonSeedView);'',
     ''    }'',
     '''',
     ''    jenkins.save();'']"

definition config_07 :: string where
  "config_07 = Join newline
    ['''',
     ''groovy:'',
     ''- script: >'',
     ''    import jenkins.model.Jenkins;'',
     ''    import javaposse.jobdsl.plugin.GlobalJobDslSecurityConfiguration;'',
     ''    import jenkins.model.GlobalConfiguration;'',
     '''',
     ''    // disable Job DSL script approval'',
     ''    GlobalConfiguration.all().get(GlobalJobDslSecurityConfiguration.class).useScriptSecurity=false;                                                                      '',
     ''    GlobalConfiguration.all().get(GlobalJobDslSecurityConfiguration.class).save();'']"

definition initial_defaultConfigMap :: ConfigMap where
  "initial_defaultConfigMap = \<lparr>CM_Meta = empty_meta, CM_Data =
    [(''01-basic-settings.yaml'', config_01),
     (''02-enable-csrf.yaml'', config_02),
     (''03-disable-stats.yaml'', config_03),
     (''04-enable-master-control.yaml'', config_04),
     (''05-disable-insecure.yaml'', config_05),
     (''06-configure-views.yaml'', config_06),
     (''07-disable-dsl-approval.yaml'', config_07)]\<rparr>"

end
