(* ===== verification/Sample_World.thy ===== *)
theory Sample_World
  imports Resources Default_Config
begin

text \<open>
  Concrete worlds in which the programs evaluate: \<open>script_ext\<close> answers the requests from a list, in
  order; \<open>table_ext f\<close> answers every request by \<open>f\<close>.  The clock stands still and the random source
  draws zeros.
\<close>

definition script_ext :: "response list ext" where
  "script_ext = \<lparr>do_call = (\<lambda>q w. case w of [] \<Rightarrow> (Done, []) | r # rs \<Rightarrow> (r, rs)),
     clock = (\<lambda>w. (0, w)), rand_Intn = (\<lambda>n w. (0, w)), getenv = (\<lambda>_. None),
     asSelector = (\<lambda>_. Inr ''app=jenkins''), parseQuantity = (\<lambda>q. Some (Quantity q)),
     show_volume = Vol_Name, show_time = (\<lambda>_. ''2021-01-01T00:00:00Z''), md5_hex = (\<lambda>_. ''00'')\<rparr>"

definition table_ext :: "(request \<Rightarrow> response) \<Rightarrow> unit ext" where
  "table_ext f = \<lparr>do_call = (\<lambda>q w. (f q, w)),
     clock = (\<lambda>w. (0, w)), rand_Intn = (\<lambda>n w. (0, w)), getenv = (\<lambda>_. None),
     asSelector = (\<lambda>_. Inr ''app=jenkins''), parseQuantity = (\<lambda>q. Some (Quantity q)),
     show_volume = Vol_Name, show_time = (\<lambda>_. ''2021-01-01T00:00:00Z''), md5_hex = (\<lambda>_. ''00'')\<rparr>"

definition initial_globals :: Globals where
  "initial_globals = \<lparr>RouteAPIAvailable = False, RouteAPIChecked = False,
     PrometheusAPIAvailable = False, PrometheusAPIChecked = False, ProxyAPIAvailable = False,
     ProxyAPIChecked = False, ProxyEnvVars = [],
     GlobalProxy = \<lparr>Proxy_HTTPProxy = '''', Proxy_HTTPSProxy = '''', Proxy_NoProxy = ''''\<rparr>,
     isImageRegistryAvailable = False, imageRegistryAlreadyChecked = False, reconcileErrors = [],
     defaultConfigMap = initial_defaultConfigMap\<rparr>"

definition initial :: "'w \<Rightarrow> 'w st" where
  "initial w = \<lparr>world = w, calls = [], events = [], globals = initial_globals\<rparr>"

definition sample_jenkins :: Jenkins where
  "sample_jenkins = zero_Jenkins\<lparr>Jenkins_Meta := empty_meta\<lparr>Meta_Name := ''a'', Meta_Namespace := ''ns''\<rparr>\<rparr>"

definition sample_cm :: ConfigMap where
  "sample_cm = \<lparr>CM_Meta = empty_meta\<lparr>Meta_Name := ''cm'', Meta_Namespace := ''ns''\<rparr>, CM_Data = []\<rparr>"

lemma initial_simps [simp]:
  "world (initial w) = w" "calls (initial w) = []" "events (initial w) = []"
  "globals (initial w) = initial_globals"
  by (simp_all add: initial_def)

lemma do_call_script [simp]:
  "do_call script_ext q (r # rs) = (r, rs)" "do_call script_ext q [] = (Done, [])"
  by (simp_all add: script_ext_def)

lemma do_call_table [simp]: "do_call (table_ext f) q w = (f q, w)"
  by (simp add: table_ext_def)

text \<open>Status updates succeed, everything else is answered without an error.\<close>

definition ok_answers :: "request \<Rightarrow> response" where
  "ok_answers q = (case q of StatusUpdateReq obj \<Rightarrow> Returned obj | _ \<Rightarrow> Done)"

text \<open>As before, but the commands whose text satisfies the test fail in the container.\<close>

definition failing_answers :: "(string \<Rightarrow> bool) \<Rightarrow> request \<Rightarrow> response" where
  "failing_answers bad q =
     (case q of
        StreamReq _ _ _ cmd \<Rightarrow> if bad (last cmd) then Failed (PlainError ''exit code 1'') else Done
      | _ \<Rightarrow> ok_answers q)"

definition sample_pod :: Pod where
  "sample_pod = \<lparr>Pod_Meta = empty_meta\<lparr>Meta_Name := ''jenkins-a-0'', Meta_Namespace := ''ns''\<rparr>,
     Pod_Spec = \<lparr>Pod_ServiceAccountName = '''', Pod_NodeSelector = None, Pod_InitContainers = [],
       Pod_Containers = [], Pod_Volumes = [], Pod_SecurityContext = '''', Pod_ImagePullSecrets = [],
       Pod_Tolerations = '''', Pod_PriorityClassName = '''', Pod_RestartPolicy = ''''\<rparr>,
     Pod_Phase = ''Running'', Pod_ContainerStatuses = []\<rparr>"

definition sample_strategy :: "bool \<Rightarrow> BackupStrategy" where
  "sample_strategy quiet = \<lparr>Strategy_Meta = empty_meta\<lparr>Meta_Name := ''default'', Meta_Namespace := ''ns''\<rparr>,
     Strategy_QuietDownDuringBackup = quiet,
     Strategy_Options = \<lparr>Options_Jobs = True, Options_Plugins = False, Options_Config = True\<rparr>,
     Strategy_RestartAfterRestore = \<lparr>Restart_Enabled = True, Restart_Safe = True\<rparr>\<rparr>"

definition sample_backup :: "Condition list \<Rightarrow> Backup" where
  "sample_backup cs = \<lparr>Backup_Meta = empty_meta\<lparr>Meta_Name := ''b'', Meta_Namespace := ''ns''\<rparr>,
     Backup_Spec = \<lparr>Backup_JenkinsRef = ''a'', Backup_StrategyRef = ''default'', Backup_BackupVolumeRef = ''v''\<rparr>,
     Backup_Conditions = cs\<rparr>"

end
