(* ===== verification/Exec_Client.thy ===== *)
theory Exec_Client
  imports Sample_World
begin

text \<open>
  \<open>pkg/exec\<close>: running a script in the backup container of the Jenkins pod.  The calls of client-go
  are requests to the world.  The goroutine that streams the command and the two channels that
  hand its error over are a step relation of their own, and \<open>runPodExec\<close> returns what that relation
  is shown to deliver.
\<close>

section \<open>The client\<close>

record kubeExecClient =
  EC_client :: "opaque option"

definition NewKubeExecClient :: kubeExecClient where
  "NewKubeExecClient = \<lparr>EC_client = None\<rparr>"

definition Getenv :: "'w ext \<Rightarrow> string \<Rightarrow> string" where
  "Getenv ext n = (case getenv ext n of None \<Rightarrow> '''' | Some v \<Rightarrow> v)"

text \<open>\<open>clientcmd.BuildConfigFromFlags\<close>: a configuration, or \<open>nil\<close> and an error.\<close>

definition BuildConfigFromFlags ::
  "'w ext \<Rightarrow> string \<Rightarrow> 'w st \<Rightarrow> ((opaque option \<times> error option) \<times> 'w st) option" where
  "BuildConfigFromFlags ext kubeconfigPath s =
     do { (r, s) \<leftarrow> call ext (BuildConfigReq kubeconfigPath) s;
          Some (case r of
                  Config c \<Rightarrow> (Some c, None)
                | Failed e \<Rightarrow> (None, Some e)
                | _ \<Rightarrow> (None, Some wrong_kind), s) }"

definition InitKubeGoClient ::
  "'w ext \<Rightarrow> kubeExecClient \<Rightarrow> 'w st \<Rightarrow> ((error option \<times> kubeExecClient) \<times> 'w st) option" where
  "InitKubeGoClient ext e s =
     (let home = Getenv ext ''HOME'';
          serviceHost = Getenv ext ''KUBERNETES_SERVICE_HOST'';
          servicePort = Getenv ext ''KUBERNETES_SERVICE_PORT''
      in if serviceHost \<noteq> '''' \<and> servicePort \<noteq> ''''
         then do { ((c, err), s) \<leftarrow> BuildConfigFromFlags ext '''' s;
                   Some ((err, e\<lparr>EC_client := c\<rparr>), s) }
         else if home \<noteq> ''''
         then do { ((c, err), s) \<leftarrow> BuildConfigFromFlags ext (path_Join [home, ''.kube'', ''config'']) s;
                   Some ((err, e\<lparr>EC_client := c\<rparr>), s) }
         else Some ((None, e), s))"

definition script_command :: "string \<Rightarrow> string list" where
  "script_command script = [''sh'', ''-c'', script]"

text \<open>\<open>NewForConfig\<close> copies the configuration it is given a pointer to: a panic on \<open>nil\<close>.\<close>

definition newScriptRequest ::
  "'w ext \<Rightarrow> kubeExecClient \<Rightarrow> Pod \<Rightarrow> string \<Rightarrow> 'w st \<Rightarrow> ((error + string list) \<times> 'w st) option" where
  "newScriptRequest ext e jenkinsPod script s =
     do { c \<leftarrow> EC_client e;
          (r, s) \<leftarrow> call ext (NewForConfigReq c) s;
          Some (case err_of r of Some err \<Rightarrow> Inl err | None \<Rightarrow> Inr (script_command script), s) }"

definition stream_in_backup :: "Pod \<Rightarrow> string list \<Rightarrow> request" where
  "stream_in_backup pod command =
     StreamReq (Meta_Namespace (Pod_Meta pod)) (Meta_Name (Pod_Meta pod)) ''backup'' command"

definition runPodExec ::
  "'w ext \<Rightarrow> Pod \<Rightarrow> string list \<Rightarrow> 'w st \<Rightarrow> (error option \<times> 'w st) option" where
  "runPodExec ext pod command s =
     do { (r, s) \<leftarrow> call ext (NewSPDYExecutorReq (Meta_Namespace (Pod_Meta pod))
              (Meta_Name (Pod_Meta pod)) ''backup'' command) s;
          case err_of r of
            Some err \<Rightarrow> Some (Some err, s)
          | None \<Rightarrow> do { (r, s) \<leftarrow> call ext (stream_in_backup pod command) s; Some (err_of r, s) } }"

definition MakeRequest ::
  "'w ext \<Rightarrow> kubeExecClient \<Rightarrow> Pod \<Rightarrow> string \<Rightarrow> 'w st \<Rightarrow> (error option \<times> 'w st) option" where
  "MakeRequest ext e jenkinsPod script s =
     do { (r, s) \<leftarrow> newScriptRequest ext e jenkinsPod script s;
          case r of
            Inl err \<Rightarrow> Some (Some err, s)
          | Inr command \<Rightarrow> runPodExec ext jenkinsPod command s }"

section \<open>The goroutine and the channels\<close>

text \<open>
  \<open>execErr\<close> and \<open>execComplete\<close> are buffered with one place.  The goroutine streams, sends the error,
  then sends the completion; the caller receives the completion, then the error.
\<close>

datatype goroutine_pc = Streaming | SendErr "error option" | SendComplete | Finished
datatype caller_pc = RecvComplete | RecvErr | Return "error option"

record exec_state =
  gpc :: goroutine_pc
  mpc :: caller_pc
  execErr :: "error option list"
  execComplete :: "bool list"

definition exec_init :: exec_state where
  "exec_init = \<lparr>gpc = Streaming, mpc = RecvComplete, execErr = [], execComplete = []\<rparr>"

inductive exec_step :: "error option \<Rightarrow> exec_state \<Rightarrow> exec_state \<Rightarrow> bool" for streamed where
  stream: "gpc x = Streaming \<Longrightarrow> exec_step streamed x (x\<lparr>gpc := SendErr streamed\<rparr>)"
| send_err: "gpc x = SendErr e \<Longrightarrow> length (execErr x) < 1 \<Longrightarrow>
    exec_step streamed x (x\<lparr>gpc := SendComplete, execErr := execErr x @ [e]\<rparr>)"
| send_complete: "gpc x = SendComplete \<Longrightarrow> length (execComplete x) < 1 \<Longrightarrow>
    exec_step streamed x (x\<lparr>gpc := Finished, execComplete := execComplete x @ [True]\<rparr>)"
| recv_complete: "mpc x = RecvComplete \<Longrightarrow> execComplete x = b # bs \<Longrightarrow>
    exec_step streamed x (x\<lparr>mpc := RecvErr, execComplete := bs\<rparr>)"
| recv_err: "mpc x = RecvErr \<Longrightarrow> execErr x = e # es \<Longrightarrow>
    exec_step streamed x (x\<lparr>mpc := Return e, execErr := es\<rparr>)"

inductive_cases exec_stepE: "exec_step streamed x y"

fun exec_ok :: "error option \<Rightarrow> goroutine_pc \<times> caller_pc \<Rightarrow> exec_state \<Rightarrow> bool" where
  "exec_ok d (Streaming, RecvComplete) x = (execErr x = [] \<and> execComplete x = [])"
| "exec_ok d (SendErr e, RecvComplete) x = (e = d \<and> execErr x = [] \<and> execComplete x = [])"
| "exec_ok d (SendComplete, RecvComplete) x = (execErr x = [d] \<and> execComplete x = [])"
| "exec_ok d (Finished, RecvComplete) x = (execErr x = [d] \<and> execComplete x = [True])"
| "exec_ok d (Finished, RecvErr) x = (execErr x = [d] \<and> execComplete x = [])"
| "exec_ok d (Finished, Return e) x = (e = d \<and> execErr x = [] \<and> execComplete x = [])"
| "exec_ok d _ x = False"

fun exec_left :: "goroutine_pc \<times> caller_pc \<Rightarrow> nat" where
  "exec_left (g, m) = (case g of Streaming \<Rightarrow> 3 | SendErr _ \<Rightarrow> 2 | SendComplete \<Rightarrow> 1 | Finished \<Rightarrow> 0)
     + (case m of RecvComplete \<Rightarrow> 2 | RecvErr \<Rightarrow> 1 | Return _ \<Rightarrow> 0)"

lemma exec_ok_step: "exec_step d x y \<Longrightarrow> exec_ok d (gpc x, mpc x) x \<Longrightarrow> exec_ok d (gpc y, mpc y) y"
  by (erule exec_stepE; cases "gpc x"; cases "mpc x") auto

lemma exec_ok_reachable: "(exec_step d)\<^sup>*\<^sup>* exec_init x \<Longrightarrow> exec_ok d (gpc x, mpc x) x"
  by (induction rule: rtranclp_induct) (auto simp: exec_init_def intro: exec_ok_step)

lemma exec_left_step: "exec_step d x y \<Longrightarrow> exec_left (gpc y, mpc y) < exec_left (gpc x, mpc x)"
  by (erule exec_stepE) auto

lemma exec_progress:
  assumes "exec_ok d (gpc x, mpc x) x" and "\<forall>y. \<not> exec_step d x y"
  shows "gpc x = Finished \<and> mpc x = Return d \<and> execErr x = [] \<and> execComplete x = []"
  using assms(1) assms(2) [THEN spec] exec_step.intros [of x]
  by (cases "gpc x"; cases "mpc x") (fastforce intro: exec_step.intros)+

section \<open>What a request logs\<close>

text \<open>The commands that reached a container, and the requests of the exec client.\<close>

fun is_stream :: "request \<Rightarrow> bool" where
  "is_stream (StreamReq _ _ _ _) = True" | "is_stream _ = False"

fun is_exec_call :: "request \<Rightarrow> bool" where
  "is_exec_call (BuildConfigReq _) = True"
| "is_exec_call (NewForConfigReq _) = True"
| "is_exec_call (NewSPDYExecutorReq _ _ _ _) = True"
| "is_exec_call (StreamReq _ _ _ _) = True"
| "is_exec_call _ = False"

definition script_stream :: "Pod \<Rightarrow> string \<Rightarrow> request" where
  "script_stream pod script = stream_in_backup pod (script_command script)"

lemma script_stream_simps [simp]: "is_stream (script_stream pod script)" "is_exec_call (script_stream pod script)"
  by (simp_all add: script_stream_def stream_in_backup_def)

lemma MakeRequest_log:
  assumes "MakeRequest ext e pod script s = Some (err, s')"
  obtains new where "calls s' = calls s @ new" "list_all is_exec_call new"
    "globals s' = globals s" "events s' = events s"
    "filter is_stream new = [script_stream pod script] \<or> err \<noteq> None \<and> filter is_stream new = []"
proof -
  have "\<exists>new. calls s' = calls s @ new \<and> list_all is_exec_call new \<and> globals s' = globals s \<and>
      events s' = events s \<and>
      (filter is_stream new = [script_stream pod script] \<or> err \<noteq> None \<and> filter is_stream new = [])"
    using assms
    by (auto simp: MakeRequest_def newScriptRequest_def runPodExec_def call_eq script_stream_def
        stream_in_backup_def Option.bind_eq_Some_conv split: option.splits if_splits)
  then show ?thesis using that by blast
qed

lemma MakeRequest_total: "EC_client e \<noteq> None \<Longrightarrow> \<exists>err s'. MakeRequest ext e pod script s = Some (err, s')"
  by (auto simp: MakeRequest_def newScriptRequest_def runPodExec_def call_eq split: option.splits)

lemma InitKubeGoClient_log:
  assumes "InitKubeGoClient ext e s = Some ((err, e'), s')"
  obtains new where "calls s' = calls s @ new" "list_all is_exec_call new" "filter is_stream new = []"
    "globals s' = globals s" "events s' = events s" "length new \<le> 1"
proof -
  have "\<exists>new. calls s' = calls s @ new \<and> list_all is_exec_call new \<and> filter is_stream new = [] \<and>
      globals s' = globals s \<and> events s' = events s \<and> length new \<le> 1"
    using assms
    by (auto simp: InitKubeGoClient_def BuildConfigFromFlags_def call_eq Let_def
        split: response.splits if_splits)
  then show ?thesis using that by blast
qed

text \<open>Every run is finite: each step lowers a measure that starts at five.\<close>

lemma exec_steps_bound: "(exec_step d ^^ n) exec_init x \<Longrightarrow> n + exec_left (gpc x, mpc x) \<le> 5"
proof (induction n arbitrary: x)
  case 0
  then show ?case by (auto simp: exec_init_def)
next
  case (Suc n)
  then obtain y where "(exec_step d ^^ n) exec_init y" and step: "exec_step d y x" by auto
  with Suc.IH [of y] exec_left_step [OF step] show ?case by simp
qed

section \<open>The commands a program runs\<close>

definition runs :: "request list \<Rightarrow> 'w st \<Rightarrow> 'w st \<Rightarrow> bool" where
  "runs qs s s' \<longleftrightarrow> (\<exists>new. calls s' = calls s @ new \<and> filter is_stream new = qs)"

lemma runs_trans: "runs xs s t \<Longrightarrow> runs ys t u \<Longrightarrow> runs (xs @ ys) s u"
  by (auto simp: runs_def)

lemma runs_Cons: "runs [x] s t \<Longrightarrow> runs ys t u \<Longrightarrow> runs (x # ys) s u"
  using runs_trans [of "[x]" s t ys u] by simp

lemma runs_refl [simp]: "runs [] s s"
  by (simp add: runs_def)

lemma runs_none: "calls t = calls s @ new \<Longrightarrow> filter is_stream new = [] \<Longrightarrow> runs [] s t"
  by (auto simp: runs_def)

lemma runs_new_calls: "runs qs s s' \<Longrightarrow> filter is_stream (new_calls s s') = qs"
  by (auto simp: runs_def new_calls_def)

lemma runs_send [simp]: "runs qs s (send e t) = runs qs s t" "runs qs (send e s) t = runs qs s t"
  by (simp_all add: runs_def)

text \<open>
  A cluster in which the exec client can be built and its executor created, so that every script
  reaches the pod; the script itself may still fail.
\<close>

definition exec_available :: "'w ext \<Rightarrow> bool" where
  "exec_available ext \<longleftrightarrow>
     (\<forall>c w. err_of (fst (do_call ext (NewForConfigReq c) w)) = None) \<and>
     (\<forall>ns n c cmd w. err_of (fst (do_call ext (NewSPDYExecutorReq ns n c cmd) w)) = None)"

lemma MakeRequest_runs:
  assumes "exec_available ext" and "MakeRequest ext e pod script s = Some (err, s')"
  shows "runs [script_stream pod script] s s'"
  using assms
  by (auto simp: MakeRequest_def newScriptRequest_def runPodExec_def call_eq script_stream_def
      stream_in_backup_def exec_available_def runs_def Option.bind_eq_Some_conv)

lemma MakeRequest_failed:
  assumes "exec_available ext" and "MakeRequest ext e pod script s = Some (Some err, s')"
  shows "\<exists>w. err_of (fst (do_call ext (script_stream pod script) w)) \<noteq> None"
  using assms
  by (auto simp: MakeRequest_def newScriptRequest_def runPodExec_def call_eq script_stream_def
      stream_in_backup_def exec_available_def Option.bind_eq_Some_conv)

section \<open>Properties\<close>

text \<open>
  C31. The hand-over of the streamed command's error ends and cannot deadlock: the goroutine and the
  caller take at most five steps together, and in every state they reach either one of them can
  move, or both have finished, the caller returning exactly the error of the stream, with both
  channels empty for the next request.
\<close>

theorem runPodExec_no_deadlock:
  assumes "(exec_step streamed ^^ n) exec_init x"
  shows "n \<le> 5 \<and> ((\<exists>y. exec_step streamed x y) \<or>
    (gpc x = Finished \<and> mpc x = Return streamed \<and> execErr x = [] \<and> execComplete x = []))"
  using exec_progress [OF exec_ok_reachable [OF relpowp_imp_rtranclp [OF assms]]]
    exec_steps_bound [OF assms] by auto

text \<open>The run of one exec, step by step.\<close>

lemma exec_run: "(exec_step d)\<^sup>*\<^sup>* exec_init
    \<lparr>gpc = Finished, mpc = Return d, execErr = [], execComplete = []\<rparr>"
proof -
  have "exec_step d exec_init \<lparr>gpc = SendErr d, mpc = RecvComplete, execErr = [], execComplete = []\<rparr>"
    using exec_step.stream [of exec_init d] by (simp add: exec_init_def)
  moreover have "exec_step d \<lparr>gpc = SendErr d, mpc = RecvComplete, execErr = [], execComplete = []\<rparr>
      \<lparr>gpc = SendComplete, mpc = RecvComplete, execErr = [d], execComplete = []\<rparr>"
    using exec_step.send_err [of "\<lparr>gpc = SendErr d, mpc = RecvComplete, execErr = [], execComplete = []\<rparr>"]
    by simp
  moreover have "exec_step d \<lparr>gpc = SendComplete, mpc = RecvComplete, execErr = [d], execComplete = []\<rparr>
      \<lparr>gpc = Finished, mpc = RecvComplete, execErr = [d], execComplete = [True]\<rparr>"
    using exec_step.send_complete [of "\<lparr>gpc = SendComplete, mpc = RecvComplete, execErr = [d], execComplete = []\<rparr>"]
    by simp
  moreover have "exec_step d \<lparr>gpc = Finished, mpc = RecvComplete, execErr = [d], execComplete = [True]\<rparr>
      \<lparr>gpc = Finished, mpc = RecvErr, execErr = [d], execComplete = []\<rparr>"
    using exec_step.recv_complete [of "\<lparr>gpc = Finished, mpc = RecvComplete, execErr = [d], execComplete = [True]\<rparr>"]
    by simp
  moreover have "exec_step d \<lparr>gpc = Finished, mpc = RecvErr, execErr = [d], execComplete = []\<rparr>
      \<lparr>gpc = Finished, mpc = Return d, execErr = [], execComplete = []\<rparr>"
    using exec_step.recv_err [of "\<lparr>gpc = Finished, mpc = RecvErr, execErr = [d], execComplete = []\<rparr>"]
    by simp
  ultimately show ?thesis by (meson converse_rtranclp_into_rtranclp rtranclp.rtrancl_refl)
qed

theorem runPodExec_no_deadlock_witness:
  "\<exists>n x. n \<le> 5 \<and> (exec_step None ^^ n) exec_init x \<and> gpc x = Finished \<and> mpc x = Return None"
proof -
  obtain n where n: "(exec_step None ^^ n) exec_init
      \<lparr>gpc = Finished, mpc = Return None, execErr = [], execComplete = []\<rparr>"
    using exec_run [of None] by (auto simp: rtranclp_power)
  show ?thesis
  proof (intro exI conjI)
    show "n \<le> 5" using runPodExec_no_deadlock [OF n] by simp
    show "(exec_step None ^^ n) exec_init
        \<lparr>gpc = Finished, mpc = Return None, execErr = [], execComplete = []\<rparr>" by (rule n)
  qed simp_all
qed

end
