(* ===== verification/Config_Client.thy ===== *)
theory Config_Client
  imports Sample_World
begin

text \<open>
  \<open>pkg/configuration/configuration.go\<close>: writing an object with the Jenkins CR as its controller, and
  finding the deployment, replica set and pod of an instance.  The vendored
  \<open>controllerutil.SetControllerReference\<close> is modelled from its source.
\<close>

section \<open>Owner references\<close>

text \<open>\<open>schema.ParseGroupVersion\<close>, and the comparison of two references by group, version, kind and name.\<close>

definition ParseGroupVersion :: "string \<Rightarrow> (string \<times> string) option" where
  "ParseGroupVersion gv =
     (if gv = '''' \<or> gv = ''/'' then Some ('''', '''')
      else case Split (CHR ''/'') gv of
             [v] \<Rightarrow> Some ('''', v)
           | [g, v] \<Rightarrow> Some (g, v)
           | _ \<Rightarrow> None)"

definition referSameObject :: "OwnerReference \<Rightarrow> OwnerReference \<Rightarrow> bool" where
  "referSameObject a b =
     (case (ParseGroupVersion (Ref_APIVersion a), ParseGroupVersion (Ref_APIVersion b)) of
        (Some aGV, Some bGV) \<Rightarrow> aGV = bGV \<and> Ref_Kind a = Ref_Kind b \<and> Ref_Name a = Ref_Name b
      | _ \<Rightarrow> False)"

definition NewControllerRef :: "ObjectMeta \<Rightarrow> string \<Rightarrow> string \<Rightarrow> OwnerReference" where
  "NewControllerRef owner apiVersion knd =
     \<lparr>Ref_APIVersion = apiVersion, Ref_Kind = knd, Ref_Name = Meta_Name owner, Ref_UID = Meta_UID owner,
      Ref_Controller = Some True, Ref_BlockOwnerDeletion = Some True\<rparr>"

text \<open>
  The loop over the existing references: \<open>Inl\<close> the reference of another controller, or \<open>Inr\<close> the
  last index that refers to the owner.
\<close>

fun scan_refs :: "OwnerReference \<Rightarrow> nat \<Rightarrow> nat option \<Rightarrow> OwnerReference list \<Rightarrow> OwnerReference + nat option" where
  "scan_refs ref i fi [] = Inr fi"
| "scan_refs ref i fi (r # rs) =
     (if referSameObject ref r then scan_refs ref (Suc i) (Some i) rs
      else if Ref_Controller r = Some True then Inl r
      else scan_refs ref (Suc i) fi rs)"

definition SetControllerReference ::
  "ObjectMeta \<Rightarrow> string \<Rightarrow> string \<Rightarrow> ObjectMeta \<Rightarrow> error + ObjectMeta" where
  "SetControllerReference owner apiVersion knd obj =
     (let ownerNs = Meta_Namespace owner; objNs = Meta_Namespace obj in
      if ownerNs \<noteq> '''' \<and> objNs = ''''
      then Inl (PlainError (''cluster-scoped resource must not have a namespace-scoped owner, owner''
             @ [CHR 39] @ ''s namespace '' @ ownerNs))
      else if ownerNs \<noteq> '''' \<and> ownerNs \<noteq> objNs
      then Inl (PlainError (''cross-namespace owner references are disallowed, owner'' @ [CHR 39]
             @ ''s namespace '' @ ownerNs @ '', obj'' @ [CHR 39] @ ''s namespace '' @ objNs))
      else let ref = NewControllerRef owner apiVersion knd;
               existingRefs = Meta_OwnerReferences obj
           in case scan_refs ref 0 None existingRefs of
                Inl r \<Rightarrow> Inl (PlainError (''Object '' @ objNs @ ''/'' @ Meta_Name obj
                   @ '' is already owned by another '' @ Ref_Kind r @ '' controller '' @ Ref_Name r))
              | Inr None \<Rightarrow> Inr (obj\<lparr>Meta_OwnerReferences := existingRefs @ [ref]\<rparr>)
              | Inr (Some fi) \<Rightarrow> Inr (obj\<lparr>Meta_OwnerReferences := existingRefs[fi := ref]\<rparr>))"

definition jenkins_apiVersion :: string where "jenkins_apiVersion = ''jenkins.io/v1alpha2''"

definition own_by_jenkins :: "Jenkins \<Rightarrow> ObjectMeta \<Rightarrow> error + ObjectMeta" where
  "own_by_jenkins j = SetControllerReference (Jenkins_Meta j) jenkins_apiVersion ''Jenkins''"

section \<open>Writing resources\<close>

text \<open>The result of a write: the object the server returned, or the error.\<close>

definition CreateResource ::
  "'w ext \<Rightarrow> 'a gotype \<Rightarrow> Jenkins \<Rightarrow> 'a \<Rightarrow> 'w st \<Rightarrow> ((error + 'a) \<times> 'w st) option" where
  "CreateResource ext T j obj s =
     (case own_by_jenkins j (get_meta T obj) of
        Inl err \<Rightarrow> Some (Inl (StackError err), s)
      | Inr meta \<Rightarrow> Client_Create ext T (put_meta T meta obj) s)"

definition owned_or_same :: "'a gotype \<Rightarrow> Jenkins \<Rightarrow> 'a \<Rightarrow> 'a" where
  "owned_or_same T j obj =
     (case own_by_jenkins j (get_meta T obj) of Inl _ \<Rightarrow> obj | Inr meta \<Rightarrow> put_meta T meta obj)"

definition UpdateResource ::
  "'w ext \<Rightarrow> 'a gotype \<Rightarrow> Jenkins \<Rightarrow> 'a \<Rightarrow> 'w st \<Rightarrow> ((error + 'a) \<times> 'w st) option" where
  "UpdateResource ext T j obj s = Client_Update ext T (owned_or_same T j obj) s"

definition CreateOrUpdateResource ::
  "'w ext \<Rightarrow> 'a gotype \<Rightarrow> Jenkins \<Rightarrow> 'a \<Rightarrow> 'w st \<Rightarrow> (error option \<times> 'w st) option" where
  "CreateOrUpdateResource ext T j obj s =
     do { let obj = owned_or_same T j obj;
          (r, s) \<leftarrow> Client_Create ext T obj s;
          case r of
            Inr _ \<Rightarrow> Some (None, s)
          | Inl err \<Rightarrow>
              if IsAlreadyExists err
              then do { (r, s) \<leftarrow> UpdateResource ext T j obj s;
                        Some (case r of Inl e \<Rightarrow> Some e | Inr _ \<Rightarrow> None, s) }
              else Some (Some (StackError err), s) }"

section \<open>Finding the pod of an instance\<close>

definition nn :: "string \<Rightarrow> string \<Rightarrow> NamespacedName" where
  "nn ns n = \<lparr>NN_Namespace = ns, NN_Name = n\<rparr>"

definition GetJenkinsDeployment ::
  "'w ext \<Rightarrow> Jenkins \<Rightarrow> 'w st \<Rightarrow> ((error + Deployment) \<times> 'w st) option" where
  "GetJenkinsDeployment ext j s =
     Client_Get ext Deployment_t (nn (jenkins_namespace j) (GetJenkinsDeploymentName j)) s"

definition IsJenkinsTerminating :: "Pod \<Rightarrow> bool" where
  "IsJenkinsTerminating pod \<longleftrightarrow> Meta_DeletionTimestamp (Pod_Meta pod) \<noteq> None"

text \<open>
  The error of \<open>GetJenkinsDeployment\<close> is dropped and the deployment is read all the same: a panic
  when it is not there.  A selector that does not parse is logged and used as \<open>nil\<close>, which selects
  every object.
\<close>

definition no_replicaSet :: "error option \<Rightarrow> error" where
  "no_replicaSet e = PlainError (''Deployment has no replicaSet attached yet: Error was: '' @ show_err_v e)"

definition no_pod :: "error option \<Rightarrow> error" where
  "no_pod e = PlainError (''Deployment has no pod attached yet: Error was: '' @ show_err_v e)"

definition select :: "selector option \<Rightarrow> ListOptions" where
  "select sel = \<lparr>List_Namespace = '''', List_LabelSelector = sel\<rparr>"

definition GetReplicaSetByDeployment ::
  "'w ext \<Rightarrow> Jenkins \<Rightarrow> 'w st \<Rightarrow> ((error + ReplicaSet) \<times> 'w st) option" where
  "GetReplicaSetByDeployment ext j s =
     do { (r, s) \<leftarrow> GetJenkinsDeployment ext j s;
          deployment \<leftarrow> (case r of Inl _ \<Rightarrow> None | Inr d \<Rightarrow> Some d);
          let sel = (case asSelector ext (Depl_Selector deployment) of Inl _ \<Rightarrow> None | Inr x \<Rightarrow> Some x);
          (r, s) \<leftarrow> Client_List ext ReplicaSet_t (select sel) s;
          Some (case r of
                  Inl err \<Rightarrow> Inl (no_replicaSet (Some err))
                | Inr [] \<Rightarrow> Inl (no_replicaSet None)
                | Inr (rs # _) \<Rightarrow> Inr rs, s) }"

definition GetPodByDeployment ::
  "'w ext \<Rightarrow> Jenkins \<Rightarrow> 'w st \<Rightarrow> ((error + Pod) \<times> 'w st) option" where
  "GetPodByDeployment ext j s =
     do { (r, s) \<leftarrow> GetReplicaSetByDeployment ext j s;
          case r of
            Inl err \<Rightarrow> Some (Inl err, s)
          | Inr replicaSet \<Rightarrow>
              (case asSelector ext (RS_Selector replicaSet) of
                 Inl err \<Rightarrow> Some (Inl err, s)
               | Inr sel \<Rightarrow>
                   do { (r, s) \<leftarrow> Client_List ext Pod_t (select (Some sel)) s;
                        Some (case r of
                                Inl err \<Rightarrow> Inl (no_pod (Some err))
                              | Inr [] \<Rightarrow> Inl (no_pod None)
                              | Inr (pod # _) \<Rightarrow> Inr pod, s) }) }"

definition GetJenkinsMasterPod ::
  "'w ext \<Rightarrow> Jenkins \<Rightarrow> 'w st \<Rightarrow> ((error + Pod) \<times> 'w st) option" where
  "GetJenkinsMasterPod ext j s = GetPodByDeployment ext j s"

definition GetJenkinsMasterPodName :: "'w ext \<Rightarrow> Jenkins \<Rightarrow> 'w st \<Rightarrow> (string \<times> 'w st) option" where
  "GetJenkinsMasterPodName ext j s =
     do { (r, s) \<leftarrow> GetPodByDeployment ext j s;
          Some (case r of Inl _ \<Rightarrow> '''' | Inr pod \<Rightarrow> Meta_Name (Pod_Meta pod), s) }"

definition GetJenkinsMasterContainer :: "Jenkins \<Rightarrow> Container option" where
  "GetJenkinsMasterContainer j =
     (case Spec_Master (Jenkins_Spec j) of
        None \<Rightarrow> None
      | Some m \<Rightarrow> (case Master_Containers m of [] \<Rightarrow> None | c # _ \<Rightarrow> Some c))"

section \<open>The options of the Jenkins process\<close>

text \<open>\<open>opt[1]\<close> panics on an option without an equals sign; a later option overwrites an earlier one.\<close>

fun parse_opts :: "string list \<Rightarrow> string gomap \<Rightarrow> string gomap option" where
  "parse_opts [] m = Some m"
| "parse_opts (vx # vs) m =
     (case Split (CHR ''='') vx of
        k # v # _ \<Rightarrow> parse_opts vs (AList.update (drop_dashes k) v m)
      | _ \<Rightarrow> None)"

text \<open>The inner option is the returned map, which may be \<open>nil\<close>.\<close>

definition GetJenkinsOpts :: "Jenkins \<Rightarrow> string gomap option option" where
  "GetJenkinsOpts j =
     do { spec \<leftarrow> status_spec j;
          c \<leftarrow> first_container spec;
          case find (\<lambda>e. Env_Name e = ''JENKINS_OPTS'') (Container_Env c) of
            None \<Rightarrow> Some None
          | Some e \<Rightarrow>
              if length (Env_Value e) = 0 then Some None
              else map_option Some (parse_opts (Split (CHR '' '') (Env_Value e)) []) }"

section \<open>Lemmas on owner references\<close>

lemma referSameObject_refl: "ParseGroupVersion (Ref_APIVersion r) \<noteq> None \<Longrightarrow> referSameObject r r"
  by (auto simp: referSameObject_def)

lemma scan_refs_Inl: "scan_refs ref i fi rs = Inl r \<Longrightarrow>
    r \<in> set rs \<and> \<not> referSameObject ref r \<and> Ref_Controller r = Some True"
  by (induction ref i fi rs rule: scan_refs.induct) (auto split: if_splits)

lemma scan_refs_Inr: "(\<exists>f. scan_refs ref i fi rs = Inr f) \<longleftrightarrow>
    (\<forall>r \<in> set rs. Ref_Controller r = Some True \<longrightarrow> referSameObject ref r)"
  by (induction ref i fi rs rule: scan_refs.induct) auto

lemma scan_refs_None: "scan_refs ref i fi rs = Inr None \<Longrightarrow>
    fi = None \<and> (\<forall>r \<in> set rs. \<not> referSameObject ref r)"
  by (induction ref i fi rs rule: scan_refs.induct) (auto split: if_splits)

lemma scan_refs_Some: "scan_refs ref i fi rs = Inr (Some k) \<Longrightarrow>
    fi = Some k \<or> (i \<le> k \<and> k < i + length rs \<and> referSameObject ref (rs ! (k - i)))"
proof (induction ref i fi rs rule: scan_refs.induct)
  case (2 ref i fi r rs)
  then show ?case
    by (cases "k - i") (auto split: if_splits simp: Suc_diff_le dest: Suc_diff_le)
qed simp

lemma scan_refs_update:
  "scan_refs ref i fi rs = Inr f \<Longrightarrow> k < length rs \<Longrightarrow> referSameObject ref (rs ! k) \<Longrightarrow>
   referSameObject ref new \<Longrightarrow> scan_refs ref i fi (rs[k := new]) = Inr f"
  by (induction ref i fi rs arbitrary: k rule: scan_refs.induct)
     (auto split: nat.splits if_splits)

lemma scan_refs_append:
  "scan_refs ref i fi rs = Inr f \<Longrightarrow> referSameObject ref new \<Longrightarrow>
   scan_refs ref i fi (rs @ [new]) = Inr (Some (i + length rs))"
  by (induction ref i fi rs rule: scan_refs.induct) (auto split: if_splits)

definition jenkins_ref :: "Jenkins \<Rightarrow> OwnerReference" where
  "jenkins_ref j = NewControllerRef (Jenkins_Meta j) jenkins_apiVersion ''Jenkins''"

lemma ParseGroupVersion_jenkins: "ParseGroupVersion jenkins_apiVersion = Some (''jenkins.io'', ''v1alpha2'')"
  by (simp add: ParseGroupVersion_def jenkins_apiVersion_def)

lemma jenkins_ref_refl [simp]: "referSameObject (jenkins_ref j) (jenkins_ref j)"
  by (rule referSameObject_refl)
     (simp add: jenkins_ref_def NewControllerRef_def ParseGroupVersion_jenkins)

lemma own_by_jenkins_cases:
  "own_by_jenkins j m = Inr m' \<longleftrightarrow>
     (jenkins_namespace j = '''' \<or> jenkins_namespace j = Meta_Namespace m) \<and>
     ((scan_refs (jenkins_ref j) 0 None (Meta_OwnerReferences m) = Inr None \<and>
         m' = m\<lparr>Meta_OwnerReferences := Meta_OwnerReferences m @ [jenkins_ref j]\<rparr>) \<or>
      (\<exists>k. scan_refs (jenkins_ref j) 0 None (Meta_OwnerReferences m) = Inr (Some k) \<and>
         m' = m\<lparr>Meta_OwnerReferences := (Meta_OwnerReferences m)[k := jenkins_ref j]\<rparr>))"
  by (auto simp: own_by_jenkins_def SetControllerReference_def Let_def jenkins_ref_def
      jenkins_namespace_def split: sum.splits option.splits)

lemma own_by_jenkins_simps:
  assumes "own_by_jenkins j m = Inr m'"
  shows "Meta_Name m' = Meta_Name m" "Meta_Namespace m' = Meta_Namespace m"
    "Meta_Labels m' = Meta_Labels m" "Meta_Annotations m' = Meta_Annotations m"
  using assms by (auto simp: own_by_jenkins_cases)

lemma own_by_jenkins_idem: "own_by_jenkins j m = Inr m' \<Longrightarrow> own_by_jenkins j m' = Inr m'"
proof -
  assume a: "own_by_jenkins j m = Inr m'"
  let ?ref = "jenkins_ref j" let ?rs = "Meta_OwnerReferences m"
  from a consider
      (new) "scan_refs ?ref 0 None ?rs = Inr None" "m' = m\<lparr>Meta_OwnerReferences := ?rs @ [?ref]\<rparr>"
    | (old) k where "scan_refs ?ref 0 None ?rs = Inr (Some k)"
        "m' = m\<lparr>Meta_OwnerReferences := ?rs[k := ?ref]\<rparr>"
    by (auto simp: own_by_jenkins_cases)
  then show ?thesis
  proof cases
    case new
    then have "scan_refs ?ref 0 None (?rs @ [?ref]) = Inr (Some (length ?rs))"
      using scan_refs_append [of ?ref 0 None ?rs None ?ref] by simp
    with a new show ?thesis by (auto simp: own_by_jenkins_cases)
  next
    case (old k)
    with scan_refs_Some [OF old(1)] have "k < length ?rs" "referSameObject ?ref (?rs ! k)" by auto
    with old have "scan_refs ?ref 0 None (?rs[k := ?ref]) = Inr (Some k)"
      by (intro scan_refs_update) auto
    with a old show ?thesis by (auto simp: own_by_jenkins_cases)
  qed
qed

lemma own_by_jenkins_refs:
  assumes "own_by_jenkins j m = Inr m'"
  shows "jenkins_ref j \<in> set (Meta_OwnerReferences m') \<and>
    (\<forall>r \<in> set (Meta_OwnerReferences m'). Ref_Controller r = Some True \<longrightarrow> referSameObject (jenkins_ref j) r) \<and>
    (jenkins_namespace j = '''' \<or> Meta_Namespace m' = jenkins_namespace j)"
proof -
  let ?ref = "jenkins_ref j" let ?rs = "Meta_OwnerReferences m"
  from assms obtain f where f: "scan_refs ?ref 0 None ?rs = Inr f"
    and rs': "Meta_OwnerReferences m' = (case f of None \<Rightarrow> ?rs @ [?ref] | Some k \<Rightarrow> ?rs[k := ?ref])"
    and ns: "jenkins_namespace j = '''' \<or> Meta_Namespace m' = jenkins_namespace j"
    by (auto simp: own_by_jenkins_cases)
  have all: "\<forall>r \<in> set ?rs. Ref_Controller r = Some True \<longrightarrow> referSameObject ?ref r"
    using f scan_refs_Inr [of ?ref 0 None ?rs] by blast
  have "f = Some k \<Longrightarrow> k < length ?rs" for k
    using f scan_refs_Some [of ?ref 0 None ?rs k] by auto
  then have "?ref \<in> set (Meta_OwnerReferences m')"
    using rs' by (auto simp: set_update_memI split: option.splits)
  moreover have "set (Meta_OwnerReferences m') \<subseteq> insert ?ref (set ?rs)"
    using rs' by (auto split: option.splits dest: set_update_subset_insert [THEN subsetD])
  ultimately show ?thesis using all ns by auto
qed

context api_type begin

lemma owned_or_same_idem: "owned_or_same T j (owned_or_same T j x) = owned_or_same T j x"
  by (auto simp: owned_or_same_def dest: own_by_jenkins_idem split: sum.splits)

lemma CreateOrUpdate_unfold:
  "CreateOrUpdateResource ext T j obj s =
     do { let q = inject T (owned_or_same T j obj);
          (r, s) \<leftarrow> call ext (CreateReq q) s;
          case decode (project T) r of
            Inr _ \<Rightarrow> Some (None, s)
          | Inl err \<Rightarrow>
              if IsAlreadyExists err
              then do { (r, s) \<leftarrow> call ext (UpdateReq q) s;
                        Some (case decode (project T) r of Inl e \<Rightarrow> Some e | Inr _ \<Rightarrow> None, s) }
              else Some (Some (StackError err), s) }"
  by (simp add: CreateOrUpdateResource_def UpdateResource_def Client_Create_def Client_Update_def
      Let_def owned_or_same_idem call_eq split: sum.split)

lemma CreateOrUpdate_total:
  "\<exists>e s'. CreateOrUpdateResource ext T j obj s = Some (e, s') \<and> globals s' = globals s
     \<and> events s' = events s \<and> extends (\<lambda>q. q = CreateReq (inject T (owned_or_same T j obj))
         \<or> q = UpdateReq (inject T (owned_or_same T j obj))) s s'"
  by (auto simp: CreateOrUpdate_unfold call_eq Let_def extends_def split: sum.splits)

end

lemma decode_AlreadyExists:
  "decode as r = Inl (ApiError AlreadyExists m) \<longleftrightarrow> r = Failed (ApiError AlreadyExists m)"
  by (auto simp: decode_def wrong_kind_def split: response.splits option.splits)

lemma IsAlreadyExists_iff: "IsAlreadyExists e \<longleftrightarrow> (\<exists>m. e = ApiError AlreadyExists m)"
  by (cases e) (auto simp: IsAlreadyExists_def)

section \<open>Properties\<close>

text \<open>
  C21. Owning an object: when \<open>SetControllerReference\<close> succeeds for a Jenkins CR, its reference is
  among the owners, no other object controls the result, nothing but the owner references has
  changed, and setting the reference again changes nothing.
\<close>

theorem own_by_jenkins_ok:
  assumes "own_by_jenkins j m = Inr m'"
  shows "jenkins_ref j \<in> set (Meta_OwnerReferences m')
    \<and> (\<forall>r \<in> set (Meta_OwnerReferences m'). Ref_Controller r = Some True \<longrightarrow> referSameObject (jenkins_ref j) r)
    \<and> m' = m\<lparr>Meta_OwnerReferences := Meta_OwnerReferences m'\<rparr>
    \<and> own_by_jenkins j m' = Inr m'"
proof -
  have "m' = m\<lparr>Meta_OwnerReferences := Meta_OwnerReferences m'\<rparr>"
    using assms by (auto simp: own_by_jenkins_cases)
  with own_by_jenkins_refs [OF assms] own_by_jenkins_idem [OF assms] show ?thesis by blast
qed

text \<open>
  C22. \<open>CreateOrUpdateResource\<close> never panics: it sends the create, and exactly when the server
  answers that the object already exists it sends an update of the very same object.  Without an
  update its result is \<open>nil\<close> exactly when the create succeeded; with one, it is the error of the
  update.
\<close>

theorem CreateOrUpdateResource_requests:
  assumes "api_type T"
  shows "\<exists>e s'. CreateOrUpdateResource ext T j obj s = Some (e, s') \<and>
    (let q = inject T (owned_or_same T j obj); (r1, w1) = do_call ext (CreateReq q) (world s) in
       if \<exists>m. r1 = Failed (ApiError AlreadyExists m)
       then new_calls s s' = [CreateReq q, UpdateReq q] \<and>
         (e = None \<longleftrightarrow> (\<exists>x. fst (do_call ext (UpdateReq q) w1) = Returned (inject T x)))
       else new_calls s s' = [CreateReq q] \<and> (e = None \<longleftrightarrow> (\<exists>x. r1 = Returned (inject T x))))"
proof -
  let ?q = "inject T (owned_or_same T j obj)"
  let ?r1 = "fst (do_call ext (CreateReq ?q) (world s))"
  let ?w1 = "snd (do_call ext (CreateReq ?q) (world s))"
  let ?r2 = "fst (do_call ext (UpdateReq ?q) ?w1)"
  note run = api_type.CreateOrUpdate_unfold [OF assms, of ext j obj s]
  show ?thesis
  proof (cases "\<exists>m. ?r1 = Failed (ApiError AlreadyExists m)")
    case True
    then obtain m where "?r1 = Failed (ApiError AlreadyExists m)" by blast
    with run show ?thesis
      using api_type.decode_Inr_iff [OF assms, of ?r2]
      by (cases "decode (project T) ?r2")
         (auto simp: call_eq Let_def split_def new_calls_def simp del: decode_simps(2))
  next
    case False
    then have "decode (project T) ?r1 = Inl e \<Longrightarrow> \<not> IsAlreadyExists e" for e
      by (auto simp: IsAlreadyExists_iff decode_AlreadyExists)
    with False run show ?thesis
      using api_type.decode_Inr_iff [OF assms, of ?r1]
      by (cases "decode (project T) ?r1")
         (auto simp: call_eq Let_def split_def new_calls_def simp del: decode_simps)
  qed
qed

text \<open>Concrete instances of the hypotheses of the two properties.\<close>

theorem own_by_jenkins_ok_witness:
  "own_by_jenkins sample_jenkins (CM_Meta sample_cm)
     = Inr ((CM_Meta sample_cm)\<lparr>Meta_OwnerReferences := [jenkins_ref sample_jenkins]\<rparr>)
   \<and> own_by_jenkins sample_jenkins ((CM_Meta sample_cm)\<lparr>Meta_OwnerReferences := [jenkins_ref sample_jenkins]\<rparr>)
     = Inr ((CM_Meta sample_cm)\<lparr>Meta_OwnerReferences := [jenkins_ref sample_jenkins]\<rparr>)"
proof -
  have "own_by_jenkins sample_jenkins (CM_Meta sample_cm)
     = Inr ((CM_Meta sample_cm)\<lparr>Meta_OwnerReferences := [jenkins_ref sample_jenkins]\<rparr>)"
    by (simp add: own_by_jenkins_def SetControllerReference_def jenkins_ref_def sample_cm_def
        sample_jenkins_def empty_meta_def Let_def)
  with own_by_jenkins_ok [OF this] show ?thesis by blast
qed

theorem CreateOrUpdateResource_requests_witness:
  "\<exists>e s' q. CreateOrUpdateResource script_ext ConfigMap_t sample_jenkins sample_cm
     (initial [Failed (ApiError AlreadyExists ''exists''), Returned (O_ConfigMap sample_cm)]) = Some (e, s')
   \<and> calls s' = [CreateReq q, UpdateReq q] \<and> e = None"
proof -
  have "Returned (O_ConfigMap sample_cm) = Returned (inject ConfigMap_t sample_cm)"
    by (simp add: ConfigMap_t_def)
  then show ?thesis
    using CreateOrUpdateResource_requests [OF ty_ConfigMap.api_type_axioms, of script_ext
        sample_jenkins sample_cm
        "initial [Failed (ApiError AlreadyExists ''exists''), Returned (O_ConfigMap sample_cm)]"]
    by (auto simp: new_calls_def Let_def)
qed

end
