(* ===== verification/Status_Update.thy ===== *)
theory Status_Update
  imports Exec_Client Config_Client
begin

text \<open>
  What the backup, restore and backup volume controllers do with the status of their object: set a
  condition in memory with the vendored \<open>SetCondition\<close> and store it with \<open>Status().Update\<close>, after which
  the object is the one the server returned.  The three kinds are instances of one locale.
\<close>

record Request =
  Req_NamespacedName :: NamespacedName

record Result =
  Requeue :: bool
  RequeueAfter :: nat

definition no_requeue :: Result where
  "no_requeue = \<lparr>Requeue = False, RequeueAfter = 0\<rparr>"

definition requeue :: Result where
  "requeue = \<lparr>Requeue = True, RequeueAfter = 0\<rparr>"

text \<open>The reaction to an error of \<open>Get\<close>: an object that is gone needs no work.\<close>

definition ignore_not_found :: "error \<Rightarrow> Result \<times> error option" where
  "ignore_not_found err = (no_requeue, if IsNotFound err then None else Some err)"

definition set_condition ::
  "'w ext \<Rightarrow> ('a \<Rightarrow> Condition list) \<Rightarrow> (Condition list \<Rightarrow> 'a \<Rightarrow> 'a) \<Rightarrow> 'a \<Rightarrow> string \<Rightarrow> string \<Rightarrow> string \<Rightarrow>
   'w st \<Rightarrow> ('a \<times> 'w st) option" where
  "set_condition ext conds put_conds x t st rsn s =
     do { (now, s) \<leftarrow> Now ext s;
          let c = \<lparr>Cond_Type = t, Cond_Status = st, Cond_Reason = rsn, Cond_Message = '''',
                   Cond_LastTransitionTime = 0\<rparr>;
          Some (put_conds (fst (SetCondition now (conds x) c)) x, s) }"

definition update_status ::
  "'w ext \<Rightarrow> 'a gotype \<Rightarrow> 'a \<Rightarrow> 'w st \<Rightarrow> ((error option \<times> 'a) \<times> 'w st) option" where
  "update_status ext T x s =
     do { (r, s) \<leftarrow> Client_StatusUpdate ext T x s;
          Some (case r of Inl err \<Rightarrow> (Some err, x) | Inr x' \<Rightarrow> (None, x'), s) }"

definition record_condition ::
  "'w ext \<Rightarrow> 'a gotype \<Rightarrow> ('a \<Rightarrow> Condition list) \<Rightarrow> (Condition list \<Rightarrow> 'a \<Rightarrow> 'a) \<Rightarrow>
   'a \<Rightarrow> string \<Rightarrow> string \<Rightarrow> string \<Rightarrow> 'w st \<Rightarrow> ((error option \<times> 'a) \<times> 'w st) option" where
  "record_condition ext T conds put_conds x t st rsn s =
     do { (x, s) \<leftarrow> set_condition ext conds put_conds x t st rsn s; update_status ext T x s }"

text \<open>
  \<open>keeps T f\<close>: the API server leaves \<open>f\<close> of an object alone when its status is updated, which is its
  documented treatment of the name and the specification.
\<close>

definition keeps :: "'w ext \<Rightarrow> 'a gotype \<Rightarrow> ('a \<Rightarrow> 'b) \<Rightarrow> bool" where
  "keeps ext T f \<longleftrightarrow>
     (\<forall>x w x'. fst (do_call ext (StatusUpdateReq (inject T x)) w) = Returned (inject T x') \<longrightarrow> f x' = f x)"

lemma Now_eq: "Now ext s = Some (fst (clock ext (world s)), s\<lparr>world := snd (clock ext (world s))\<rparr>)"
  by (simp add: Now_def split: prod.split)

locale status_object = api_type T for T :: "'a gotype" +
  fixes conds :: "'a \<Rightarrow> Condition list"
    and put_conds :: "Condition list \<Rightarrow> 'a \<Rightarrow> 'a"
  assumes conds_put [simp]: "conds (put_conds cs x) = cs"
begin

lemma set_condition_ok:
  assumes "set_condition ext conds put_conds x t st rsn s = Some (y, s')"
  shows "calls s' = calls s" "events s' = events s" "globals s' = globals s"
    "\<exists>cs. y = put_conds cs x" "ol.status_of (conds y) u = (if u = t then Some st else ol.status_of (conds x) u)"
  using assms by (auto simp: set_condition_def Now_eq ol.status_of_put)

lemma update_status_ok:
  assumes "update_status ext T x s = Some ((err, y), s')"
  shows "calls s' = calls s @ [StatusUpdateReq (inject T x)]" "events s' = events s" "globals s' = globals s"
    "(err = None \<and> fst (do_call ext (StatusUpdateReq (inject T x)) (world s)) = Returned (inject T y))
      \<or> (err \<noteq> None \<and> y = x)"
proof -
  let ?r = "fst (do_call ext (StatusUpdateReq (inject T x)) (world s))"
  have run: "err = (case decode (project T) ?r of Inl e \<Rightarrow> Some e | Inr _ \<Rightarrow> None)"
    "y = (case decode (project T) ?r of Inl e \<Rightarrow> x | Inr z \<Rightarrow> z)"
    "s' = s\<lparr>world := snd (do_call ext (StatusUpdateReq (inject T x)) (world s)),
        calls := calls s @ [StatusUpdateReq (inject T x)]\<rparr>"
    using assms by (auto simp: update_status_def Client_StatusUpdate_def call_eq split: sum.splits)
  show "calls s' = calls s @ [StatusUpdateReq (inject T x)]" "events s' = events s" "globals s' = globals s"
    by (simp_all add: run(3))
  show "(err = None \<and> ?r = Returned (inject T y)) \<or> (err \<noteq> None \<and> y = x)"
    using run(1,2) decode_Inr_iff [of ?r] by (cases "decode (project T) ?r") auto
qed

lemma update_status_runs: "update_status ext T x s = Some ((err, y), s') \<Longrightarrow> runs [] s s'"
  by (drule update_status_ok(1)) (simp add: runs_def)

lemma update_status_keeps:
  "update_status ext T x s = Some ((err, y), s') \<Longrightarrow> keeps ext T f \<Longrightarrow> f y = f x"
  by (drule update_status_ok(4)) (auto simp: keeps_def)

lemma record_condition_ok:
  assumes "record_condition ext T conds put_conds x t st rsn s = Some ((err, y), s')"
  obtains c cs where "calls s' = calls s @ [StatusUpdateReq (inject T c)]" "events s' = events s"
    "globals s' = globals s" "c = put_conds cs x"
    "\<And>u. ol.status_of (conds c) u = (if u = t then Some st else ol.status_of (conds x) u)"
    "\<And>f. keeps ext T f \<Longrightarrow> f y = f c" "err \<noteq> None \<Longrightarrow> y = c"
proof -
  from assms obtain c s1 where 1: "set_condition ext conds put_conds x t st rsn s = Some (c, s1)"
    and 2: "update_status ext T c s1 = Some ((err, y), s')"
    by (auto simp: record_condition_def elim: bind_pairE)
  note upd = update_status_ok [OF 2] and cond = set_condition_ok [OF 1]
  from cond(4) obtain cs where c: "c = put_conds cs x" by blast
  show ?thesis
  proof (rule that [of c cs])
    show "calls s' = calls s @ [StatusUpdateReq (inject T c)]" "events s' = events s"
      "globals s' = globals s"
      by (simp_all add: upd(1-3) cond(1-3))
    show "c = put_conds cs x" by (rule c)
    show "\<And>u. ol.status_of (conds c) u = (if u = t then Some st else ol.status_of (conds x) u)"
      by (rule set_condition_ok(5) [OF 1])
    show "\<And>f. keeps ext T f \<Longrightarrow> f y = f c" by (rule update_status_keeps [OF 2])
    show "err \<noteq> None \<Longrightarrow> y = c" using upd(4) by blast
  qed
qed

lemma record_condition_runs:
  assumes "record_condition ext T conds put_conds x t st rsn s = Some ((err, y), s')"
  shows "runs [] s s'"
  using assms by (rule record_condition_ok) (auto intro: runs_none)

lemma record_condition_keeps:
  fixes f :: "'a \<Rightarrow> 'b"
  assumes "record_condition ext T conds put_conds x t st rsn s = Some ((err, y), s')"
    and "keeps ext T f" and "\<And>cs z. f (put_conds cs z) = f z"
  shows "f y = f x"
  using assms(1)
proof (rule record_condition_ok)
  fix c cs assume keep: "\<And>g :: 'a \<Rightarrow> 'b. keeps ext T g \<Longrightarrow> g y = g c" and c: "c = put_conds cs x"
  show ?thesis using keep [OF assms(2)] assms(3) by (simp add: c)
qed

text \<open>A script followed by the recording of its outcome.\<close>

lemma script_then_record:
  assumes "exec_available ext" and "MakeRequest ext e pod script s = Some (r, s1)"
    and "record_condition ext T conds put_conds x t st rsn s1 = Some ((err, y), s')"
  shows "runs [script_stream pod script] s s'"
  using runs_trans [OF MakeRequest_runs [OF assms(1,2)] record_condition_runs [OF assms(3)]] by simp

end

definition put_Backup_Conditions :: "Condition list \<Rightarrow> Backup \<Rightarrow> Backup" where
  "put_Backup_Conditions cs b = b\<lparr>Backup_Conditions := cs\<rparr>"
definition put_Restore_Conditions :: "Condition list \<Rightarrow> Restore \<Rightarrow> Restore" where
  "put_Restore_Conditions cs b = b\<lparr>Restore_Conditions := cs\<rparr>"
definition put_BackupVolume_Conditions :: "Condition list \<Rightarrow> BackupVolume \<Rightarrow> BackupVolume" where
  "put_BackupVolume_Conditions cs b = b\<lparr>BackupVolume_Conditions := cs\<rparr>"

interpretation bst: status_object Backup_t Backup_Conditions put_Backup_Conditions
  by unfold_locales (simp add: put_Backup_Conditions_def)

interpretation rst: status_object Restore_t Restore_Conditions put_Restore_Conditions
  by unfold_locales (simp add: put_Restore_Conditions_def)

interpretation vst: status_object BackupVolume_t BackupVolume_Conditions put_BackupVolume_Conditions
  by unfold_locales (simp add: put_BackupVolume_Conditions_def)

lemma kind_simps [simp]:
  "gokind Backup_t = K_Backup" "inject Backup_t b = O_Backup b"
  "gokind Restore_t = K_Restore" "inject Restore_t r = O_Restore r"
  "gokind BackupVolume_t = K_BackupVolume" "inject BackupVolume_t v = O_BackupVolume v"
  by (simp_all add: Backup_t_def Restore_t_def BackupVolume_t_def)

end
