(* ===== verification/Plugins.thy ===== *)
theory Plugins
  imports Api_Types "HOL-Library.Multiset"
begin

text \<open>
  Jenkins plugins (\<open>pkg/plugins\<close>): parsing \<open>name:version\<close>, the three regular expressions as the
  matchers they denote, the list of plugins the operator requires, and the check that no two
  plugins ask for different versions of a third.
\<close>

section \<open>The patterns\<close>

definition backslash :: char where "backslash = CHR 0x5C"

definition is_alnum :: "char \<Rightarrow> bool" where
  "is_alnum c \<longleftrightarrow>
     (let n = of_char c :: nat in (48 \<le> n \<and> n \<le> 57) \<or> (65 \<le> n \<and> n \<le> 90) \<or> (97 \<le> n \<and> n \<le> 122))"

text \<open>\<open>^[0-9a-zA-Z-_]+$\<close> and \<open>^[0-9a-zA-Z+\\.-]+$\<close>; the second class contains the backslash.\<close>

definition NamePattern_match :: "string \<Rightarrow> bool" where
  "NamePattern_match s \<longleftrightarrow> s \<noteq> [] \<and> list_all (\<lambda>c. is_alnum c \<or> c \<in> {CHR ''-'', CHR ''_''}) s"

definition VersionPattern_match :: "string \<Rightarrow> bool" where
  "VersionPattern_match s \<longleftrightarrow> s \<noteq> [] \<and>
     list_all (\<lambda>c. is_alnum c \<or> c \<in> {CHR ''+'', backslash, CHR ''.'', CHR ''-''}) s"

text \<open>
  \<open>https?:\/\/(www\.)?[-a-zA-Z0-9@:%._\+~#=]{1,256}\.[a-zA-Z0-9()]{1,6}\b(\<dots>)*\<close>, searched for
  anywhere in the text: a host part of 1 to 256 characters, a dot, and 1 to 6 characters that end
  at a word boundary; the last group may match nothing.
\<close>

definition is_host_char :: "char \<Rightarrow> bool" where
  "is_host_char c \<longleftrightarrow> is_alnum c \<or> c \<in> set ''-@:%._+~#=''"

definition is_tld_char :: "char \<Rightarrow> bool" where
  "is_tld_char c \<longleftrightarrow> is_alnum c \<or> c \<in> set ''()''"

definition is_word_char :: "char \<Rightarrow> bool" where
  "is_word_char c \<longleftrightarrow> is_alnum c \<or> c = CHR ''_''"

definition boundary_after :: "string \<Rightarrow> nat \<Rightarrow> bool" where
  "boundary_after s m \<longleftrightarrow>
     is_word_char (s ! (m - 1)) \<noteq> (case drop m s of [] \<Rightarrow> False | c # _ \<Rightarrow> is_word_char c)"

definition tld_match :: "string \<Rightarrow> bool" where
  "tld_match s \<longleftrightarrow> list_ex (\<lambda>m. m \<le> length s \<and> list_all is_tld_char (take m s) \<and> boundary_after s m) [1..<7]"

definition host_match :: "string \<Rightarrow> bool" where
  "host_match s \<longleftrightarrow> list_ex (\<lambda>n. n < length s \<and> list_all is_host_char (take n s) \<and> s ! n = CHR ''.''
     \<and> tld_match (drop (Suc n) s)) [1..<257]"

definition url_at :: "string \<Rightarrow> bool" where
  "url_at s \<longleftrightarrow>
     (let after_scheme = (if HasPrefix s ''https://'' then Some (drop 8 s)
                          else if HasPrefix s ''http://'' then Some (drop 7 s) else None)
      in case after_scheme of
           None \<Rightarrow> False
         | Some u \<Rightarrow> host_match u \<or> (HasPrefix u ''www.'' \<and> host_match (drop 4 u)))"

fun DownloadURLPattern_match :: "string \<Rightarrow> bool" where
  "DownloadURLPattern_match [] = False"
| "DownloadURLPattern_match (c # s) = (url_at (c # s) \<or> DownloadURLPattern_match s)"

definition NamePattern_String :: string where "NamePattern_String = ''^[0-9a-zA-Z-_]+$''"
definition VersionPattern_String :: string where
  "VersionPattern_String = ''^[0-9a-zA-Z+'' @ [backslash, backslash] @ ''.-]+$''"
definition DownloadURLPattern_String :: string where
  "DownloadURLPattern_String = ''https?:'' @ [backslash, CHR ''/'', backslash, CHR ''/''] @ ''(www'' @
     [backslash] @ ''.)?[-a-zA-Z0-9@:%._'' @ [backslash] @ ''+~#=]{1,256}'' @ [backslash] @
     ''.[a-zA-Z0-9()]{1,6}'' @ [backslash] @ ''b([-a-zA-Z0-9()@:%_'' @ [backslash] @ ''+.~#?&//=]*)''"

section \<open>Plugins\<close>

record Plugin =
  PName :: string
  PVersion :: string
  PDownloadURL :: string
  rootPluginNameAndVersion :: string

definition Plugin_String :: "Plugin \<Rightarrow> string" where
  "Plugin_String p = PName p @ '':'' @ PVersion p"

definition validatePlugin :: "string \<Rightarrow> string \<Rightarrow> string \<Rightarrow> error option" where
  "validatePlugin name version downloadURL =
     (if \<not> NamePattern_match name
      then Some (PlainError (''invalid plugin name '' @ [CHR 39] @ name @ '':'' @ version @ [CHR 39]
             @ '', must follow pattern '' @ [CHR 39] @ NamePattern_String @ [CHR 39]))
      else if \<not> VersionPattern_match version
      then Some (PlainError (''invalid plugin version '' @ [CHR 39] @ name @ '':'' @ version @ [CHR 39]
             @ '', must follow pattern '' @ [CHR 39] @ VersionPattern_String @ [CHR 39]))
      else if length downloadURL > 0 \<and> \<not> DownloadURLPattern_match downloadURL
      then Some (PlainError (''invalid download URL '' @ [CHR 39] @ downloadURL @ [CHR 39]
             @ '' for plugin name '' @ name @ '':'' @ version
             @ '', must follow pattern '' @ [CHR 39] @ DownloadURLPattern_String @ [CHR 39]))
      else None)"

definition NewPlugin :: "string \<Rightarrow> string \<Rightarrow> string \<Rightarrow> error + Plugin" where
  "NewPlugin name version downloadURL =
     (case validatePlugin name version downloadURL of
        Some err \<Rightarrow> Inl err
      | None \<Rightarrow> Inr \<lparr>PName = name, PVersion = version, PDownloadURL = downloadURL,
                     rootPluginNameAndVersion = ''''\<rparr>)"

definition New :: "string \<Rightarrow> error + Plugin" where
  "New nameWithVersion =
     (case SplitN2 (CHR '':'') nameWithVersion of
        [name, version] \<Rightarrow>
          (case validatePlugin name version '''' of
             Some err \<Rightarrow> Inl err
           | None \<Rightarrow> Inr \<lparr>PName = name, PVersion = version, PDownloadURL = '''',
                          rootPluginNameAndVersion = ''''\<rparr>)
      | _ \<Rightarrow> Inl (PlainError (''invalid plugin format '' @ [CHR 39] @ nameWithVersion @ [CHR 39])))"

definition Must :: "error + Plugin \<Rightarrow> Plugin option" where
  "Must r = (case r of Inl _ \<Rightarrow> None | Inr p \<Rightarrow> Some p)"

section \<open>The plugins the operator requires\<close>

definition base_plugin_strings :: "string list" where
  "base_plugin_strings =
     [''kubernetes:1.25.2'', ''workflow-job:2.40'', ''workflow-aggregator:2.6'', ''git:4.2.2'',
      ''job-dsl:1.77'', ''configuration-as-code:1.42'', ''configuration-as-code-groovy:1.1'',
      ''kubernetes-credentials-provider:0.13'']"

text \<open>The initialisation of the package variable: a panic of \<open>Must\<close> would stop the operator.\<close>

definition basePluginsList :: "Plugin list option" where
  "basePluginsList = those (map (\<lambda>s. Must (New s)) base_plugin_strings)"

definition BasePlugins :: "Plugin list" where
  "BasePlugins = (case basePluginsList of None \<Rightarrow> [] | Some ps \<Rightarrow> ps)"

section \<open>Dependencies\<close>

text \<open>
  \<open>append_plugin\<close> is \<open>m[k] = append(m[k], p)\<close>.  The two ranges over maps have no fixed order: the maps
  in \<open>values\<close> are given in the order they are visited, and \<open>ord\<close> is the order of the outer loop.
\<close>

definition append_plugin :: "string \<Rightarrow> Plugin \<Rightarrow> Plugin list gomap \<Rightarrow> Plugin list gomap" where
  "append_plugin k p m = AList.update k ((case map_of m k of None \<Rightarrow> [] | Some ps \<Rightarrow> ps) @ [p]) m"

definition versioned :: "Plugin \<Rightarrow> Plugin \<Rightarrow> Plugin" where
  "versioned rootPlugin p = \<lparr>PName = PName p, PVersion = PVersion p, PDownloadURL = '''',
     rootPluginNameAndVersion = Plugin_String rootPlugin\<rparr>"

fun collect_deps :: "Plugin \<Rightarrow> Plugin list \<Rightarrow> Plugin list gomap \<Rightarrow> Plugin list gomap" where
  "collect_deps rootPlugin [] m = m"
| "collect_deps rootPlugin (p # ps) m =
     collect_deps rootPlugin ps (append_plugin (PName p) (versioned rootPlugin p) m)"

fun collect_value :: "(Plugin \<times> Plugin list) list \<Rightarrow> Plugin list gomap \<Rightarrow> Plugin list gomap" where
  "collect_value [] m = m"
| "collect_value ((rootPlugin, ps) # rest) m =
     collect_value rest
       (collect_deps rootPlugin ps (append_plugin (PName rootPlugin) (versioned rootPlugin rootPlugin) m))"

fun collect_values :: "(Plugin \<times> Plugin list) list list \<Rightarrow> Plugin list gomap \<Rightarrow> Plugin list gomap" where
  "collect_values [] m = m"
| "collect_values (v # vs) m = collect_values vs (collect_value v m)"

definition clash_message :: "string \<Rightarrow> Plugin \<Rightarrow> Plugin \<Rightarrow> string" where
  "clash_message pluginName firstVersion secondVersion =
     ''Plugin '' @ [CHR 39] @ rootPluginNameAndVersion firstVersion @ [CHR 39] @ '' requires version ''
     @ [CHR 39] @ PVersion firstVersion @ [CHR 39] @ '' but plugin '' @ [CHR 39]
     @ rootPluginNameAndVersion secondVersion @ [CHR 39] @ '' requires '' @ [CHR 39]
     @ PVersion secondVersion @ [CHR 39] @ '' for plugin '' @ [CHR 39] @ pluginName @ [CHR 39]"

definition clashes :: "string \<times> Plugin list \<Rightarrow> string list" where
  "clashes e =
     (let (pluginName, versions) = e in
      if length versions = 1 then []
      else concat (map (\<lambda>firstVersion. concat (map (\<lambda>secondVersion.
             if PVersion firstVersion \<noteq> PVersion secondVersion
             then [clash_message pluginName firstVersion secondVersion] else []) versions)) versions))"

definition VerifyDependencies ::
  "(Plugin list gomap \<Rightarrow> Plugin list gomap) \<Rightarrow> (Plugin \<times> Plugin list) list list \<Rightarrow> string list" where
  "VerifyDependencies ord values = concat (map clashes (ord (collect_values values [])))"

section \<open>Parsing\<close>

lemma NamePattern_no_colon: "NamePattern_match s \<Longrightarrow> CHR '':'' \<notin> set s"
  by (auto simp: NamePattern_match_def list_all_iff is_alnum_def)

lemma validatePlugin_None: "validatePlugin n v u = None \<longleftrightarrow>
    NamePattern_match n \<and> VersionPattern_match v \<and> (u = [] \<or> DownloadURLPattern_match u)"
  by (auto simp: validatePlugin_def)

lemma New_Inr: "New s = Inr p \<longleftrightarrow>
    (\<exists>n v. SplitN2 (CHR '':'') s = [n, v] \<and> NamePattern_match n \<and> VersionPattern_match v \<and>
       p = \<lparr>PName = n, PVersion = v, PDownloadURL = '''', rootPluginNameAndVersion = ''''\<rparr>)"
proof -
  have "validatePlugin n v [] = Some e \<Longrightarrow> \<not> (NamePattern_match n \<and> VersionPattern_match v)" for n v e
    using validatePlugin_None [of n v "[]"] by auto
  then show ?thesis
    using validatePlugin_None [of _ _ "[]"]
    by (auto simp: New_def split: list.splits option.splits)
qed

section \<open>What the dependency check collects\<close>

definition append_all :: "Plugin list \<Rightarrow> Plugin list gomap \<Rightarrow> Plugin list gomap" where
  "append_all = fold (\<lambda>p. append_plugin (PName p) p)"

definition value_entries :: "(Plugin \<times> Plugin list) list \<Rightarrow> Plugin list" where
  "value_entries v = concat (map (\<lambda>(r, ps). map (versioned r) (r # ps)) v)"

definition all_entries :: "(Plugin \<times> Plugin list) list list \<Rightarrow> Plugin list" where
  "all_entries vs = concat (map value_entries vs)"

lemma versioned_simps [simp]:
  "PName (versioned r p) = PName p" "PVersion (versioned r p) = PVersion p"
  by (simp_all add: versioned_def)

lemma collect_deps_eq: "collect_deps r ps m = append_all (map (versioned r) ps) m"
  by (induction r ps m rule: collect_deps.induct) (simp_all add: append_all_def)

lemma collect_value_eq: "collect_value v m = append_all (value_entries v) m"
  by (induction v m rule: collect_value.induct)
     (simp_all add: append_all_def value_entries_def collect_deps_eq fold_append)

lemma collect_values_eq: "collect_values vs m = append_all (all_entries vs) m"
  by (induction vs m rule: collect_values.induct)
     (simp_all add: append_all_def all_entries_def collect_value_eq fold_append)

lemma map_of_append_plugin:
  "map_of (append_plugin k p m) = (map_of m)(k \<mapsto> (case map_of m k of None \<Rightarrow> [] | Some ps \<Rightarrow> ps) @ [p])"
  by (simp add: append_plugin_def update_conv')

lemma wf_map_append_all: "wf_map m \<Longrightarrow> wf_map (append_all es m)"
proof (induction es arbitrary: m)
  case Nil
  then show ?case by (simp add: append_all_def)
next
  case (Cons p es)
  from Cons.prems have "wf_map (append_plugin (PName p) p m)"
    by (simp add: wf_map_def append_plugin_def distinct_update)
  with Cons.IH show ?case by (simp add: append_all_def)
qed

lemma map_of_append_all: "(case map_of (append_all es m) k of None \<Rightarrow> [] | Some ps \<Rightarrow> ps) =
    (case map_of m k of None \<Rightarrow> [] | Some ps \<Rightarrow> ps) @ filter (\<lambda>p. PName p = k) es"
proof (induction es arbitrary: m)
  case Nil
  show ?case by (simp add: append_all_def)
next
  case (Cons p es)
  have "append_all (p # es) m = append_all es (append_plugin (PName p) p m)"
    by (simp add: append_all_def)
  then show ?case
    using Cons.IH [of "append_plugin (PName p) p m"] by (auto simp: map_of_append_plugin)
qed

lemma collected_versions:
  assumes "(k, ps) \<in> set (append_all es [])"
  shows "ps = filter (\<lambda>p. PName p = k) es"
proof -
  have "wf_map (append_all es [])" by (rule wf_map_append_all) (simp add: wf_map_def)
  then have "map_of (append_all es []) k = Some ps"
    using assms by (simp add: wf_map_def)
  then show ?thesis using map_of_append_all [of es "[]" k] by simp
qed

lemma collected_names:
  assumes "p \<in> set es"
  shows "(PName p, filter (\<lambda>q. PName q = PName p) es) \<in> set (append_all es [])"
proof -
  have "filter (\<lambda>q. PName q = PName p) es \<noteq> []" using assms by (auto simp: filter_empty_conv)
  then obtain ps where "map_of (append_all es []) (PName p) = Some ps"
    using map_of_append_all [of es "[]" "PName p"]
    by (cases "map_of (append_all es []) (PName p)") auto
  then have "(PName p, ps) \<in> set (append_all es [])" by (rule map_of_SomeD)
  with collected_versions show ?thesis by metis
qed

lemma clashes_Nil: "clashes (k, ps) = [] \<longleftrightarrow> (\<forall>p \<in> set ps. \<forall>q \<in> set ps. PVersion p = PVersion q)"
proof (cases "length ps = 1")
  case True
  then obtain x where "ps = [x]" by (auto simp: length_Suc_conv)
  then show ?thesis by (simp add: clashes_def)
next
  case False
  then show ?thesis by (auto simp: clashes_def)
qed

lemma clashes_collected:
  "(\<forall>e \<in> set (append_all es []). clashes e = []) \<longleftrightarrow>
   (\<forall>p \<in> set es. \<forall>q \<in> set es. PName p = PName q \<longrightarrow> PVersion p = PVersion q)"
  (is "?L \<longleftrightarrow> ?R")
proof
  assume L: ?L
  show ?R
  proof (intro ballI impI)
    fix p q assume p: "p \<in> set es" and q: "q \<in> set es" and pq: "PName p = PName q"
    from p L have "clashes (PName p, filter (\<lambda>q. PName q = PName p) es) = []"
      using collected_names by blast
    then have "\<forall>a \<in> set (filter (\<lambda>q. PName q = PName p) es).
        \<forall>b \<in> set (filter (\<lambda>q. PName q = PName p) es). PVersion a = PVersion b"
      by (rule iffD1 [OF clashes_Nil])
    moreover have "p \<in> set (filter (\<lambda>q. PName q = PName p) es)" using p by simp
    moreover have "q \<in> set (filter (\<lambda>q. PName q = PName p) es)" using q pq [symmetric] by simp
    ultimately show "PVersion p = PVersion q" by blast
  qed
next
  assume R: ?R
  show ?L
  proof
    fix e assume e: "e \<in> set (append_all es [])"
    obtain k ps where "e = (k, ps)" by (cases e)
    with e have "ps = filter (\<lambda>p. PName p = k) es" using collected_versions [of k ps es] by simp
    then have "\<forall>p \<in> set ps. p \<in> set es \<and> PName p = k" by simp
    with R have "\<forall>p \<in> set ps. \<forall>q \<in> set ps. PVersion p = PVersion q" by (metis (no_types))
    then have "clashes (k, ps) = []" by (rule iffD2 [OF clashes_Nil])
    with \<open>e = (k, ps)\<close> show "clashes e = []" by simp
  qed
qed

section \<open>Properties\<close>

text \<open>
  C28. Parsing and printing a plugin are inverse: \<open>New\<close> accepts exactly the texts \<open>name:version\<close>
  whose two parts match their patterns, and \<open>String\<close> prints the plugin back as the text it was
  read from.
\<close>

theorem New_String_roundtrip:
  "New s = Inr p \<longleftrightarrow>
     Plugin_String p = s \<and> NamePattern_match (PName p) \<and> VersionPattern_match (PVersion p) \<and>
     PDownloadURL p = '''' \<and> rootPluginNameAndVersion p = ''''"
proof
  assume "New s = Inr p"
  then show "Plugin_String p = s \<and> NamePattern_match (PName p) \<and> VersionPattern_match (PVersion p) \<and>
     PDownloadURL p = '''' \<and> rootPluginNameAndVersion p = ''''"
    by (auto simp: New_Inr SplitN2_Some Plugin_String_def)
next
  assume *: "Plugin_String p = s \<and> NamePattern_match (PName p) \<and> VersionPattern_match (PVersion p) \<and>
     PDownloadURL p = '''' \<and> rootPluginNameAndVersion p = ''''"
  then have "SplitN2 (CHR '':'') s = [PName p, PVersion p]"
    using NamePattern_no_colon [of "PName p"] by (auto simp: SplitN2_Some Plugin_String_def)
  with * show "New s = Inr p" by (auto simp: New_Inr)
qed

lemma New_parts: "NamePattern_match n \<Longrightarrow> VersionPattern_match v \<Longrightarrow>
    New (n @ CHR '':'' # v) =
      Inr \<lparr>PName = n, PVersion = v, PDownloadURL = '''', rootPluginNameAndVersion = ''''\<rparr>"
  by (auto simp: New_Inr SplitN2_sep NamePattern_no_colon)

definition base_plugin_parts :: "(string \<times> string) list" where
  "base_plugin_parts =
     [(''kubernetes'', ''1.25.2''), (''workflow-job'', ''2.40''), (''workflow-aggregator'', ''2.6''),
      (''git'', ''4.2.2''), (''job-dsl'', ''1.77''), (''configuration-as-code'', ''1.42''),
      (''configuration-as-code-groovy'', ''1.1''), (''kubernetes-credentials-provider'', ''0.13'')]"

lemma base_plugin_parts_match:
  "list_all (\<lambda>(n, v). NamePattern_match n \<and> VersionPattern_match v) base_plugin_parts"
  by (simp add: base_plugin_parts_def NamePattern_match_def VersionPattern_match_def is_alnum_def)

lemma base_plugin_strings_eq: "base_plugin_strings = map (\<lambda>(n, v). n @ CHR '':'' # v) base_plugin_parts"
  by (simp add: base_plugin_strings_def base_plugin_parts_def)

lemma those_map_Some: "(\<And>x. x \<in> set xs \<Longrightarrow> f x = Some (g x)) \<Longrightarrow> those (map f xs) = Some (map g xs)"
  by (induction xs) auto

lemma basePluginsList_eq: "basePluginsList = Some
    (map (\<lambda>(n, v). \<lparr>PName = n, PVersion = v, PDownloadURL = '''', rootPluginNameAndVersion = ''''\<rparr>)
       base_plugin_parts)"
proof -
  have "Must (New (case p of (n, v) \<Rightarrow> n @ CHR '':'' # v)) = Some (case p of (n, v) \<Rightarrow>
      \<lparr>PName = n, PVersion = v, PDownloadURL = '''', rootPluginNameAndVersion = ''''\<rparr>)"
    if "p \<in> set base_plugin_parts" for p
    using that base_plugin_parts_match by (auto simp: list_all_iff Must_def New_parts)
  then show ?thesis
    by (simp add: basePluginsList_def base_plugin_strings_eq those_map_Some o_def)
qed

lemma BasePlugins_eq: "BasePlugins =
    map (\<lambda>(n, v). \<lparr>PName = n, PVersion = v, PDownloadURL = '''', rootPluginNameAndVersion = ''''\<rparr>)
      base_plugin_parts"
  by (simp add: BasePlugins_def basePluginsList_eq)

text \<open>
  The package variable \<open>basePluginsList\<close> is initialised without a panic of \<open>Must\<close>: all eight
  constants parse, the list prints back to the constants in their order, and no plugin is listed
  twice.
\<close>

theorem basePluginsList_total:
  "\<exists>ps. basePluginsList = Some ps \<and> map Plugin_String ps = base_plugin_strings
     \<and> distinct (map PName ps) \<and> BasePlugins = ps"
  by (simp add: basePluginsList_eq BasePlugins_eq base_plugin_strings_eq Plugin_String_def
      base_plugin_parts_def)

lemma VerifyDependencies_Nil:
  assumes "\<And>m. set (ord m) = set m"
  shows "VerifyDependencies ord values = [] \<longleftrightarrow>
     (\<forall>p \<in> set (all_entries values). \<forall>q \<in> set (all_entries values).
        PName p = PName q \<longrightarrow> PVersion p = PVersion q)"
proof -
  have "VerifyDependencies ord values = [] \<longleftrightarrow>
      (\<forall>e \<in> set (append_all (all_entries values) []). clashes e = [])"
    using assms by (auto simp: VerifyDependencies_def collect_values_eq)
  then show ?thesis by (simp add: clashes_collected)
qed

text \<open>
  C29. \<open>VerifyDependencies\<close> reports nothing exactly when any two entries of the same name, roots and
  dependencies of all the given maps alike, have the same version.  It does not matter in which
  order the ranges over the Go maps visit their keys.
\<close>

theorem VerifyDependencies_iff:
  assumes "\<And>m. mset (ord m) = mset m"
  shows "VerifyDependencies ord values = [] \<longleftrightarrow>
     (\<forall>p \<in> set (all_entries values). \<forall>q \<in> set (all_entries values).
        PName p = PName q \<longrightarrow> PVersion p = PVersion q)"
  by (rule VerifyDependencies_Nil) (metis assms set_mset_mset)

theorem VerifyDependencies_iff_witness:
  "VerifyDependencies rev [[(BasePlugins ! 0, [BasePlugins ! 1])], [(BasePlugins ! 2, [])]] = []"
  by (subst VerifyDependencies_iff)
     (simp_all add: BasePlugins_eq base_plugin_parts_def all_entries_def value_entries_def versioned_def)

end
