(* ===== verification/Spec_Defaults.thy ===== *)
theory Spec_Defaults
  imports Status_Update Plugins
begin

text \<open>
  The first half of \<open>controllers/jenkins_controller.go\<close>: the specification a Jenkins is run with,
  computed by \<open>getCalculatedSpec\<close> from the requested one and stored in the status by \<open>setDefaults\<close>.
  \<open>jenkins.Status.Spec\<close> and \<open>calculatedSpec\<close> are one pointer in the code, so the status holds whatever
  the computation has reached when it stops.
\<close>

section \<open>Environment\<close>

record JenkinsAPIConnectionSettings =
  API_Hostname :: string
  API_Port :: int
  API_UseNodePort :: bool

definition DefaultJenkinsImageEnvVar :: string where "DefaultJenkinsImageEnvVar = ''JENKINS_SERVER_IMAGE''"
definition containerProbeURI :: string where "containerProbeURI = ''login''"
definition containerProbePortName :: string where "containerProbePortName = ''http''"
definition EditClusterRole :: string where "EditClusterRole = ''edit''"
definition AuthorizationAPIGroup :: string where "AuthorizationAPIGroup = ''rbac.authorization.k8s.io''"
definition ServiceTypeClusterIP :: string where "ServiceTypeClusterIP = ''ClusterIP''"
definition ServiceTypeNodePort :: string where "ServiceTypeNodePort = ''NodePort''"

definition getDefaultJenkinsImage :: "'w ext \<Rightarrow> Globals \<Rightarrow> string" where
  "getDefaultJenkinsImage ext g =
     (let jenkinsImage = Getenv ext DefaultJenkinsImageEnvVar in
      if length jenkinsImage = 0
      then (if RouteAPIAvailable g then DefaultOpenShiftJenkinsMasterImage else DefaultJenkinsMasterImage)
      else jenkinsImage)"

section \<open>The master container\<close>

definition isResourceRequirementsNotSet :: "ResourceRequirements \<Rightarrow> bool" where
  "isResourceRequirementsNotSet requirements \<longleftrightarrow> requirements = empty_resources"

definition isEnvVarNotSet :: "Container \<Rightarrow> string \<Rightarrow> bool" where
  "isEnvVarNotSet c envVarName \<longleftrightarrow> \<not> list_ex (\<lambda>e. Env_Name e = envVarName) (Container_Env c)"

definition setEnvVarIfNotSet :: "string \<Rightarrow> string \<Rightarrow> Container \<Rightarrow> Container" where
  "setEnvVarIfNotSet envVarName envVarValue c =
     (if isEnvVarNotSet c envVarName
      then c\<lparr>Container_Env := Container_Env c @ [EnvValue envVarName envVarValue]\<rparr> else c)"

definition wrong_first_container :: error where
  "wrong_first_container = PlainError (''first container in spec.master.containers must be Jenkins container with name ''
     @ [CHR 39] @ JenkinsMasterContainerName @ [CHR 39] @ '', please correct CR'')"

definition getJenkinsMasterContainer :: "'w ext \<Rightarrow> Globals \<Rightarrow> JenkinsSpec \<Rightarrow> error + Container" where
  "getJenkinsMasterContainer ext g spec =
     (case first_container spec of
        None \<Rightarrow> Inr (zero_Container\<lparr>Container_Name := JenkinsMasterContainerName,
                  Container_Image := getDefaultJenkinsImage ext g\<rparr>)
      | Some c \<Rightarrow> if Container_Name c \<noteq> JenkinsMasterContainerName then Inl wrong_first_container else Inr c)"

text \<open>
  The copy that \<open>getCalculatedJenkinsMaster\<close> returns, after the caller has put the Jenkins container
  first in it.
\<close>

definition getCalculatedJenkinsMaster :: "JenkinsSpec \<Rightarrow> Container \<Rightarrow> JenkinsMaster" where
  "getCalculatedJenkinsMaster spec jenkinsContainer =
     (case Spec_Master spec of
        None \<Rightarrow> zero_JenkinsMaster\<lparr>Master_Containers := [jenkinsContainer]\<rparr>
      | Some m \<Rightarrow> m)"

definition put_first :: "Container \<Rightarrow> JenkinsMaster \<Rightarrow> JenkinsMaster" where
  "put_first c m = m\<lparr>Master_Containers := c # tl (Master_Containers m)\<rparr>"

definition basePlugins :: "PluginSpec list" where
  "basePlugins = map (\<lambda>p. \<lparr>Plugin_Name = PName p, Plugin_Version = PVersion p, Plugin_DownloadURL = ''''\<rparr>)
     BasePlugins"

definition image_not_found :: "string \<Rightarrow> Jenkins \<Rightarrow> error" where
  "image_not_found imageRef j = PlainError (''JenkinsImage '' @ [CHR 39] @ imageRef @ [CHR 39]
     @ '' referenced by Jenkins instance '' @ [CHR 39] @ jenkins_name j @ [CHR 39] @ '' not found'')"

text \<open>The image of the master container, lines 475 to 496; an image without a build panics.\<close>

definition master_image ::
  "'w ext \<Rightarrow> Jenkins \<Rightarrow> string \<Rightarrow> 'w st \<Rightarrow> ((error + string) \<times> 'w st) option" where
  "master_image ext j containerImage s =
     (let jenkinsMasterImage = (if length containerImage = 0
            then getDefaultJenkinsImage ext (globals s) else containerImage);
          imageRef = Spec_JenkinsImageRef (Jenkins_Spec j)
      in if length imageRef \<noteq> 0
         then do { (r, s) \<leftarrow> Client_Get ext JenkinsImage_t (nn (jenkins_namespace j) imageRef) s;
                   case r of
                     Inl _ \<Rightarrow> Some (Inl (image_not_found imageRef j), s)
                   | Inr img \<Rightarrow>
                       if JImage_Phase img = ImageBuildSuccessful
                       then (if JImage_Builds img = [] then None
                             else Some (Inr (Image_Registry (ImageSpec_To (JImage_Spec img)) @ ''/'' @
                                    Image_Name (ImageSpec_To (JImage_Spec img)) @ ''@'' @
                                    Build_Image (last (JImage_Builds img))), s))
                       else Some (Inr jenkinsMasterImage, s) }
         else Some (Inr jenkinsMasterImage, s))"

text \<open>Lines 498 to 517 and 526 to 529.\<close>

definition default_jenkins_container :: "string \<Rightarrow> Container \<Rightarrow> Container" where
  "default_jenkins_container imageName c =
     (let c = c\<lparr>Container_Image := imageName, Container_ImagePullPolicy := PullAlways\<rparr>;
          c = (if Container_ReadinessProbe c = None
               then c\<lparr>Container_ReadinessProbe :=
                      Some (NewSimpleProbe containerProbeURI containerProbePortName ''HTTP'' 30)\<rparr> else c);
          c = (if Container_LivenessProbe c = None
               then c\<lparr>Container_LivenessProbe :=
                      Some (NewProbe containerProbeURI containerProbePortName ''HTTP'' 80 5 12)\<rparr> else c);
          c = setEnvVarIfNotSet JavaOptsVariableName JavaOptsDefaultValue c;
          c = setEnvVarIfNotSet KubernetesTrustCertsVariableName KubernetesTrustCertsDefaultValue c
      in if isResourceRequirementsNotSet (Container_Resources c)
         then c\<lparr>Container_Resources := NewResourceRequirements ''1'' ''500Mi'' ''1500m'' ''3Gi''\<rparr> else c)"

definition setDefaultsForContainer :: "Container \<Rightarrow> Container" where
  "setDefaultsForContainer c =
     (let c = (if length (Container_ImagePullPolicy c) = 0 then c\<lparr>Container_ImagePullPolicy := PullAlways\<rparr> else c)
      in if isResourceRequirementsNotSet (Container_Resources c)
         then c\<lparr>Container_Resources := DefaultResourceRequirement\<rparr> else c)"

section \<open>The whole specification\<close>

definition default_service :: "bool \<Rightarrow> Service" where
  "default_service useNodePort = zero_Service\<lparr>
     Service_Type := (if useNodePort then ServiceTypeNodePort else ServiceTypeClusterIP),
     Service_Port := DefaultHTTPPortInt32, Service_PortName := ''web''\<rparr>"

definition default_jnlp_service :: Service where
  "default_jnlp_service = zero_Service\<lparr>Service_Type := ServiceTypeClusterIP,
     Service_Port := DefaultJNLPPortInt32, Service_PortName := ''jnlp''\<rparr>"

definition default_casc :: Configuration where
  "default_casc = \<lparr>CasC_Enabled = True, CasC_DefaultConfig = True, CasC_Secret = \<lparr>SecretRef_Name = ''''\<rparr>,
     CasC_Configurations = [], CasC_EnableAutoReload = True\<rparr>"

definition GetDefaultRoleBinding ::
  "'w ext \<Rightarrow> Jenkins \<Rightarrow> 'w st \<Rightarrow> (RoleBinding option \<times> 'w st) option" where
  "GetDefaultRoleBinding ext j s =
     do { (r, s) \<leftarrow> Client_Get ext ClusterRole_t (nn '''' EditClusterRole) s;
          Some (case r of
                  Inl _ \<Rightarrow> None
                | Inr editRole \<Rightarrow> Some (NewRoleBinding j
                    \<lparr>RoleRef_APIGroup = AuthorizationAPIGroup, RoleRef_Kind = CR_Kind editRole,
                     RoleRef_Name = Meta_Name (CR_Meta editRole)\<rparr>), s) }"

text \<open>Lines 575 to 582.\<close>

definition default_roles :: "'w ext \<Rightarrow> Jenkins \<Rightarrow> 'w st \<Rightarrow> (RoleRef list option \<times> 'w st) option" where
  "default_roles ext j s =
     (case Spec_Roles (Jenkins_Spec j) of
        Some roles \<Rightarrow> Some (Some roles, s)
      | None \<Rightarrow> do { (rb, s) \<leftarrow> GetDefaultRoleBinding ext j s;
                     Some (map_option (\<lambda>rb. [RB_RoleRef rb]) rb, s) })"

text \<open>Lines 519 to 525 and 530 to 573: the rest of the specification around the filled-in container.\<close>

definition fill_spec :: "JenkinsAPIConnectionSettings \<Rightarrow> Container \<Rightarrow> JenkinsMaster \<Rightarrow> JenkinsSpec \<Rightarrow> JenkinsSpec" where
  "fill_spec api c m spec =
     (let m = (if length (Master_BasePlugins m) = 0 then m\<lparr>Master_BasePlugins := basePlugins\<rparr> else m);
          spec = (if Spec_Service spec = zero_Service
                  then spec\<lparr>Spec_Service := default_service (API_UseNodePort api)\<rparr> else spec);
          spec = (if Spec_JNLPService spec = zero_Service
                  then spec\<lparr>Spec_JNLPService := default_jnlp_service\<rparr> else spec);
          m = m\<lparr>Master_Containers := c # map setDefaultsForContainer (tl (Master_Containers m))\<rparr>;
          spec = spec\<lparr>Spec_Master := Some m\<rparr>
      in case Spec_ConfigurationAsCode spec of
           None \<Rightarrow> spec\<lparr>Spec_ConfigurationAsCode := Some default_casc\<rparr>
         | Some _ \<Rightarrow> spec)"

definition set_status_spec :: "JenkinsSpec \<Rightarrow> Jenkins \<Rightarrow> Jenkins" where
  "set_status_spec spec j =
     j\<lparr>Jenkins_Status := map_option (\<lambda>st. st\<lparr>Status_Spec := Some spec\<rparr>) (Jenkins_Status j)\<rparr>"

text \<open>
  The result and the Jenkins as it is left.  Writing \<open>jenkins.Status.Spec\<close> panics without a status.
\<close>

definition getCalculatedSpec ::
  "JenkinsAPIConnectionSettings \<Rightarrow> 'w ext \<Rightarrow> Jenkins \<Rightarrow> 'w st \<Rightarrow>
   (((error + JenkinsSpec) \<times> Jenkins) \<times> 'w st) option" where
  "getCalculatedSpec api ext j s =
     do { _ \<leftarrow> Jenkins_Status j;
          let requestedSpec = Jenkins_Spec j;
          case getJenkinsMasterContainer ext (globals s) requestedSpec of
            Inl err \<Rightarrow> Some ((Inl err, set_status_spec requestedSpec j), s)
          | Inr jenkinsContainer \<Rightarrow>
              do { let m = put_first jenkinsContainer (getCalculatedJenkinsMaster requestedSpec jenkinsContainer);
                   (r, s) \<leftarrow> master_image ext j (Container_Image jenkinsContainer) s;
                   case r of
                     Inl err \<Rightarrow> Some ((Inl err, set_status_spec (requestedSpec\<lparr>Spec_Master := Some m\<rparr>) j), s)
                   | Inr imageName \<Rightarrow>
                       do { let spec = fill_spec api (default_jenkins_container imageName jenkinsContainer) m requestedSpec;
                            (roles, s) \<leftarrow> default_roles ext j s;
                            let spec = spec\<lparr>Spec_Roles := roles\<rparr>;
                            Some ((Inr spec, set_status_spec spec j), s) } } }"

text \<open>
  \<open>reflect.DeepEqual\<close> compares the status with the calculated specification after the call above has
  stored the very pointer it returns.
\<close>

definition setDefaults ::
  "JenkinsAPIConnectionSettings \<Rightarrow> 'w ext \<Rightarrow> Jenkins \<Rightarrow> 'w st \<Rightarrow>
   (((bool \<times> error option) \<times> Jenkins) \<times> 'w st) option" where
  "setDefaults api ext j s =
     do { ((r, j), s) \<leftarrow> getCalculatedSpec api ext j s;
          case r of
            Inl err \<Rightarrow> Some (((False, Some err), j), s)
          | Inr spec \<Rightarrow>
              if status_spec j \<noteq> Some spec
              then do { let j = set_status_spec spec j;
                        (r, s) \<leftarrow> Client_Update ext Jenkins_t j s;
                        case r of
                          Inl err \<Rightarrow> Some (((True, WithStack (Some err)), j), s)
                        | Inr j' \<Rightarrow> Some (((True, None), j'), s) }
              else Some (((False, None), j), s) }"

section \<open>Lemmas\<close>

lemma getDefaultJenkinsImage_not_Nil [simp]: "getDefaultJenkinsImage ext g \<noteq> []"
  by (simp add: getDefaultJenkinsImage_def Let_def DefaultJenkinsMasterImage_def
      DefaultOpenShiftJenkinsMasterImage_def)

lemma basePlugins_not_Nil [simp]: "basePlugins \<noteq> []"
  by (simp add: basePlugins_def BasePlugins_eq base_plugin_parts_def)

lemma NewResourceRequirements_set [simp]:
  "\<not> isResourceRequirementsNotSet (NewResourceRequirements a b c d)"
  "\<not> isResourceRequirementsNotSet DefaultResourceRequirement"
  by (simp_all add: isResourceRequirementsNotSet_def NewResourceRequirements_def empty_resources_def
      DefaultResourceRequirement_def)

lemma default_service_not_zero [simp]: "default_service b \<noteq> zero_Service" "default_jnlp_service \<noteq> zero_Service"
  by (simp_all add: default_service_def default_jnlp_service_def zero_Service_def DefaultHTTPPortInt32_def
      DefaultJNLPPortInt32_def)

lemma setEnvVarIfNotSet_simps [simp]:
  "Container_Name (setEnvVarIfNotSet n v c) = Container_Name c"
  "Container_Image (setEnvVarIfNotSet n v c) = Container_Image c"
  "Container_ImagePullPolicy (setEnvVarIfNotSet n v c) = Container_ImagePullPolicy c"
  "Container_Resources (setEnvVarIfNotSet n v c) = Container_Resources c"
  "Container_ReadinessProbe (setEnvVarIfNotSet n v c) = Container_ReadinessProbe c"
  "Container_LivenessProbe (setEnvVarIfNotSet n v c) = Container_LivenessProbe c"
  "isEnvVarNotSet (setEnvVarIfNotSet n v c) m = (isEnvVarNotSet c m \<and> m \<noteq> n)"
  by (auto simp: setEnvVarIfNotSet_def isEnvVarNotSet_def EnvValue_def list_ex_iff)

lemma setEnvVarIfNotSet_id: "\<not> isEnvVarNotSet c n \<Longrightarrow> setEnvVarIfNotSet n v c = c"
  by (simp add: setEnvVarIfNotSet_def)

lemma isEnvVarNotSet_update [simp]:
  "isEnvVarNotSet (c\<lparr>Container_Image := i\<rparr>) n = isEnvVarNotSet c n"
  "isEnvVarNotSet (c\<lparr>Container_ImagePullPolicy := i\<rparr>) n = isEnvVarNotSet c n"
  "isEnvVarNotSet (c\<lparr>Container_ReadinessProbe := p\<rparr>) n = isEnvVarNotSet c n"
  "isEnvVarNotSet (c\<lparr>Container_LivenessProbe := p\<rparr>) n = isEnvVarNotSet c n"
  "isEnvVarNotSet (c\<lparr>Container_Resources := r\<rparr>) n = isEnvVarNotSet c n"
  by (simp_all add: isEnvVarNotSet_def)

lemma env_names_differ [simp]:
  "JavaOptsVariableName \<noteq> KubernetesTrustCertsVariableName"
  "KubernetesTrustCertsVariableName \<noteq> JavaOptsVariableName"
  by (simp_all add: JavaOptsVariableName_def KubernetesTrustCertsVariableName_def)

text \<open>What every container of the calculated specification has.\<close>

definition container_complete :: "Container \<Rightarrow> bool" where
  "container_complete c \<longleftrightarrow> Container_ImagePullPolicy c \<noteq> [] \<and> \<not> isResourceRequirementsNotSet (Container_Resources c)"

definition jenkins_container_complete :: "Container \<Rightarrow> bool" where
  "jenkins_container_complete c \<longleftrightarrow> container_complete c \<and> Container_ImagePullPolicy c = PullAlways \<and>
     Container_Image c \<noteq> [] \<and> Container_ReadinessProbe c \<noteq> None \<and> Container_LivenessProbe c \<noteq> None \<and>
     \<not> isEnvVarNotSet c JavaOptsVariableName \<and> \<not> isEnvVarNotSet c KubernetesTrustCertsVariableName"

lemma default_jenkins_container_simps [simp]:
  "Container_Name (default_jenkins_container i c) = Container_Name c"
  "Container_Image (default_jenkins_container i c) = i"
  by (simp_all add: default_jenkins_container_def Let_def)

lemma PullAlways_not_Nil [simp]: "PullAlways \<noteq> []"
  by (simp add: PullAlways_def)

lemma default_jenkins_container_complete:
  "i \<noteq> [] \<Longrightarrow> jenkins_container_complete (default_jenkins_container i c)"
  by (auto simp: jenkins_container_complete_def container_complete_def default_jenkins_container_def Let_def)

lemma default_jenkins_container_id:
  "jenkins_container_complete c \<Longrightarrow> default_jenkins_container (Container_Image c) c = c"
  by (simp add: jenkins_container_complete_def container_complete_def default_jenkins_container_def Let_def
      setEnvVarIfNotSet_id)

text \<open>The user's settings of the master container survive, his environment in front.\<close>

lemma default_jenkins_container_env:
  "\<exists>extra. Container_Env (default_jenkins_container i c) = Container_Env c @ extra \<and>
     set (map Env_Name extra) \<subseteq> {JavaOptsVariableName, KubernetesTrustCertsVariableName}"
  by (auto simp: default_jenkins_container_def setEnvVarIfNotSet_def Let_def EnvValue_def)

lemma setDefaultsForContainer_complete: "container_complete (setDefaultsForContainer c)"
  by (auto simp: container_complete_def setDefaultsForContainer_def Let_def)

lemma setDefaultsForContainer_id: "container_complete c \<Longrightarrow> setDefaultsForContainer c = c"
  by (simp add: container_complete_def setDefaultsForContainer_def Let_def)

lemma setDefaultsForContainer_name [simp]: "Container_Name (setDefaultsForContainer c) = Container_Name c"
  by (simp add: setDefaultsForContainer_def Let_def)

definition spec_complete :: "JenkinsSpec \<Rightarrow> bool" where
  "spec_complete spec \<longleftrightarrow>
     (\<exists>m c cs. Spec_Master spec = Some m \<and> Master_Containers m = c # cs \<and>
        Container_Name c = JenkinsMasterContainerName \<and> jenkins_container_complete c \<and>
        list_all container_complete cs \<and> Master_BasePlugins m \<noteq> []) \<and>
     Spec_Service spec \<noteq> zero_Service \<and> Spec_JNLPService spec \<noteq> zero_Service \<and>
     Spec_ConfigurationAsCode spec \<noteq> None"

lemma fill_spec_complete:
  "Container_Name c = JenkinsMasterContainerName \<Longrightarrow> jenkins_container_complete c \<Longrightarrow>
   spec_complete (fill_spec api c m spec)"
  by (auto simp: spec_complete_def fill_spec_def Let_def list_all_iff setDefaultsForContainer_complete
      split: option.splits)

lemma fill_spec_id:
  assumes "Spec_Master spec = Some m" "Master_Containers m = c # cs" "list_all container_complete cs"
    "Master_BasePlugins m \<noteq> []" "Spec_Service spec \<noteq> zero_Service" "Spec_JNLPService spec \<noteq> zero_Service"
    "Spec_ConfigurationAsCode spec \<noteq> None"
  shows "fill_spec api c m spec = spec"
proof -
  have "map setDefaultsForContainer cs = cs"
    using assms(3) by (induction cs) (simp_all add: setDefaultsForContainer_id)
  moreover have "m\<lparr>Master_Containers := c # cs\<rparr> = m" using assms(2) [symmetric] by simp
  moreover have "spec\<lparr>Spec_Master := Some m\<rparr> = spec" using assms(1) [symmetric] by simp
  ultimately show ?thesis using assms by (auto simp: fill_spec_def Let_def)
qed

lemma spec_complete_roles [simp]: "spec_complete (spec\<lparr>Spec_Roles := r\<rparr>) = spec_complete spec"
  by (simp add: spec_complete_def)

lemma getJenkinsMasterContainer_ok:
  "getJenkinsMasterContainer ext g spec = Inr c \<Longrightarrow> Container_Name c = JenkinsMasterContainerName"
  by (auto simp: getJenkinsMasterContainer_def split: option.splits if_splits)

lemma set_status_spec_simps [simp]:
  "Jenkins_Meta (set_status_spec spec j) = Jenkins_Meta j"
  "Jenkins_Spec (set_status_spec spec j) = Jenkins_Spec j"
  "Jenkins_Status j = Some st \<Longrightarrow> status_spec (set_status_spec spec j) = Some spec"
  by (simp_all add: set_status_spec_def status_spec_def)

lemma master_image_ok:
  assumes "master_image ext j img s = Some (r, s')"
  shows "extends (\<lambda>q. \<exists>nm. q = GetReq K_JenkinsImage nm) s s' \<and> globals s' = globals s \<and> events s' = events s
    \<and> (\<forall>i. r = Inr i \<longrightarrow> i \<noteq> [])"
  using assms
  by (auto simp: master_image_def Let_def Client_Get_def call_eq extends_def JenkinsImage_t_def
      split: if_splits sum.splits)

lemma getCalculatedSpec_cases:
  assumes "getCalculatedSpec api ext j s = Some ((r, j'), s')"
  obtains (bad_name) err where "getJenkinsMasterContainer ext (globals s) (Jenkins_Spec j) = Inl err"
      "r = Inl err" "s' = s" "j' = set_status_spec (Jenkins_Spec j) j"
    | (no_image) c err m where "getJenkinsMasterContainer ext (globals s) (Jenkins_Spec j) = Inr c"
      "master_image ext j (Container_Image c) s = Some (Inl err, s')" "r = Inl err"
      "j' = set_status_spec ((Jenkins_Spec j)\<lparr>Spec_Master := Some m\<rparr>) j"
    | (calculated) c imageName s1 m roles where
      "getJenkinsMasterContainer ext (globals s) (Jenkins_Spec j) = Inr c"
      "master_image ext j (Container_Image c) s = Some (Inr imageName, s1)"
      "m = put_first c (getCalculatedJenkinsMaster (Jenkins_Spec j) c)"
      "default_roles ext j s1 = Some (roles, s')"
      "r = Inr ((fill_spec api (default_jenkins_container imageName c) m (Jenkins_Spec j))\<lparr>Spec_Roles := roles\<rparr>)"
      "j' = set_status_spec ((fill_spec api (default_jenkins_container imageName c) m (Jenkins_Spec j))\<lparr>Spec_Roles := roles\<rparr>) j"
  using assms
  by (cases "Jenkins_Status j")
     (auto simp: getCalculatedSpec_def Let_def split: sum.splits elim!: bind_pairE)


lemma default_role_reads:
  assumes "default_roles ext j s = Some (roles, s')"
  shows "extends (\<lambda>q. q = GetReq K_ClusterRole (nn '''' EditClusterRole)) s s' \<and> globals s' = globals s
    \<and> events s' = events s"
  using assms
  by (auto simp: default_roles_def GetDefaultRoleBinding_def Client_Get_def call_eq extends_def ClusterRole_t_def
      split: option.splits)

lemma default_roles_total: "\<exists>roles s'. default_roles ext j s = Some (roles, s')"
  by (auto simp: default_roles_def GetDefaultRoleBinding_def Client_Get_def call_eq split: option.split)

definition is_defaults_read :: "request \<Rightarrow> bool" where
  "is_defaults_read q \<longleftrightarrow> (\<exists>nm. q = GetReq K_JenkinsImage nm) \<or> q = GetReq K_ClusterRole (nn '''' EditClusterRole)"

lemma getCalculatedSpec_reads:
  assumes "getCalculatedSpec api ext j s = Some ((r, j'), s')"
  shows "extends is_defaults_read s s' \<and> globals s' = globals s \<and> events s' = events s"
  using assms
proof (cases rule: getCalculatedSpec_cases)
  case bad_name
  then show ?thesis by simp
next
  case (no_image c err m)
  from master_image_ok [OF no_image(2)] show ?thesis
    by (auto simp: is_defaults_read_def elim: extends_mono)
next
  case (calculated c imageName s1 m roles)
  have "extends is_defaults_read s s1" "extends is_defaults_read s1 s'"
    using master_image_ok [OF calculated(2)] default_role_reads [OF calculated(4)]
    by (auto simp: is_defaults_read_def elim: extends_mono)
  with master_image_ok [OF calculated(2)] default_role_reads [OF calculated(4)] show ?thesis
    using extends_trans by auto
qed

lemma getCalculatedSpec_status:
  assumes "getCalculatedSpec api ext j s = Some ((Inr spec, j'), s')"
  shows "status_spec j' = Some spec"
  using assms
proof (cases rule: getCalculatedSpec_cases)
  case (calculated c imageName s1 m roles)
  obtain st where "Jenkins_Status j = Some st"
    using assms by (cases "Jenkins_Status j") (auto simp: getCalculatedSpec_def)
  with calculated show ?thesis by simp
qed simp_all

section \<open>Properties\<close>

text \<open>
  The status of a Jenkins is not written by \<open>setDefaults\<close>: whatever it returns, it reports no
  change and has sent nothing but reads of a JenkinsImage and of the edit cluster role.
\<close>

theorem setDefaults_never_writes:
  assumes "setDefaults api ext j s = Some (((changed, err), j'), s')"
  shows "\<not> changed \<and> list_all is_defaults_read (new_calls s s') \<and> globals s' = globals s \<and> events s' = events s"
proof -
  from assms obtain r where "getCalculatedSpec api ext j s = Some ((r, j'), s')" "\<not> changed"
    by (auto simp: setDefaults_def dest: getCalculatedSpec_status elim!: bind_pairE split: sum.splits if_splits)
  with getCalculatedSpec_reads show ?thesis
    by (blast dest: extends_new_calls)
qed

text \<open>
  C15. A calculated specification is complete: the Jenkins container comes first, under its name,
  with an image, the pull policy Always, both probes, resources and the two environment variables;
  every other container has a pull policy and resources; base plugins, both services and
  configuration as code are set; the user's environment of the first container is kept, in front;
  and it is what the status of the returned Jenkins holds.
\<close>

theorem getCalculatedSpec_complete:
  assumes "getCalculatedSpec api ext j s = Some ((Inr spec, j'), s')"
  shows "spec_complete spec \<and> status_spec j' = Some spec \<and>
    (\<forall>c. first_container (Jenkins_Spec j) = Some c \<longrightarrow>
       (\<exists>c' extra. first_container spec = Some c' \<and> Container_Env c' = Container_Env c @ extra \<and>
          set (map Env_Name extra) \<subseteq> {JavaOptsVariableName, KubernetesTrustCertsVariableName}))"
  using assms
proof (cases rule: getCalculatedSpec_cases)
  case (calculated c imageName s1 m roles)
  let ?c = "default_jenkins_container imageName c"
  have "Container_Name ?c = JenkinsMasterContainerName" "jenkins_container_complete ?c"
    using getJenkinsMasterContainer_ok [OF calculated(1)] master_image_ok [OF calculated(2)]
    by (simp_all add: default_jenkins_container_complete)
  then have "spec_complete spec" using calculated(5) fill_spec_complete by simp
  moreover have "first_container spec = Some ?c"
    using calculated(5) by (auto simp: first_container_def fill_spec_def Let_def split: option.splits)
  moreover have "first_container (Jenkins_Spec j) = Some d \<Longrightarrow> c = d" for d
    using calculated(1) by (auto simp: getJenkinsMasterContainer_def split: if_splits)
  ultimately show ?thesis
    using getCalculatedSpec_status [OF assms] default_jenkins_container_env [of imageName c] by blast
qed simp_all

text \<open>
  Calculating is idempotent: when a calculated specification with roles and without an image
  reference is requested again, by any Jenkins with a status, in any state, with any settings of
  the operator, the result is that specification itself and nothing is read or written.
\<close>

theorem getCalculatedSpec_idempotent:
  assumes "getCalculatedSpec api ext j s = Some ((Inr spec, j'), s')"
    and "Spec_Roles spec \<noteq> None" and "Spec_JenkinsImageRef spec = ''''"
    and "Jenkins_Spec k = spec" and "Jenkins_Status k \<noteq> None"
  shows "getCalculatedSpec api' ext' k t = Some ((Inr spec, set_status_spec spec k), t)"
proof -
  have "spec_complete spec"
    using assms(1)
  proof (cases rule: getCalculatedSpec_cases)
    case (calculated c imageName s1 m roles)
    then show ?thesis
      using getJenkinsMasterContainer_ok [OF calculated(1)] master_image_ok [OF calculated(2)]
      by (simp add: fill_spec_complete default_jenkins_container_complete)
  qed simp_all
  then obtain m c cs where m: "Spec_Master spec = Some m" "Master_Containers m = c # cs"
    "Container_Name c = JenkinsMasterContainerName" "jenkins_container_complete c"
    "list_all container_complete cs" "Master_BasePlugins m \<noteq> []"
    and rest: "Spec_Service spec \<noteq> zero_Service" "Spec_JNLPService spec \<noteq> zero_Service"
    "Spec_ConfigurationAsCode spec \<noteq> None"
    by (auto simp: spec_complete_def)
  have master: "getJenkinsMasterContainer ext' (globals t) spec = Inr c"
    using m by (simp add: getJenkinsMasterContainer_def first_container_def)
  have pf: "put_first c (getCalculatedJenkinsMaster spec c) = m"
    using m by (simp add: put_first_def getCalculatedJenkinsMaster_def)
  have img: "master_image ext' k (Container_Image c) t = Some (Inr (Container_Image c), t)"
    using m(4) assms(3,4) by (simp add: master_image_def jenkins_container_complete_def)
  have fill: "fill_spec api' (default_jenkins_container (Container_Image c) c) m spec = spec"
    using fill_spec_id [OF m(1,2,5,6) rest] m(4) by (simp add: default_jenkins_container_id)
  obtain roles where roles: "Spec_Roles spec = Some roles" using assms(2) by blast
  then have same: "spec\<lparr>Spec_Roles := Some roles\<rparr> = spec" by simp
  show ?thesis
    using assms(5)
    by (auto simp: getCalculatedSpec_def default_roles_def Let_def assms(4) master pf img fill roles same)
qed

text \<open>
  When the calculation panics: exactly when the Jenkins has no status, or its first container is
  well named and it refers to a JenkinsImage that is reported built but has no build.
\<close>

theorem getCalculatedSpec_panics:
  "getCalculatedSpec api ext j s = None \<longleftrightarrow>
     Jenkins_Status j = None \<or>
     (\<exists>c img w. getJenkinsMasterContainer ext (globals s) (Jenkins_Spec j) = Inr c \<and>
        Spec_JenkinsImageRef (Jenkins_Spec j) \<noteq> '''' \<and>
        do_call ext (GetReq K_JenkinsImage (nn (jenkins_namespace j) (Spec_JenkinsImageRef (Jenkins_Spec j)))) (world s)
          = (Returned (O_JenkinsImage img), w) \<and>
        JImage_Phase img = ImageBuildSuccessful \<and> JImage_Builds img = [])"
proof -
  let ?q = "GetReq K_JenkinsImage (nn (jenkins_namespace j) (Spec_JenkinsImageRef (Jenkins_Spec j)))"
  let ?r = "fst (do_call ext ?q (world s))"
  have image_panics: "master_image ext j i s = None \<longleftrightarrow> Spec_JenkinsImageRef (Jenkins_Spec j) \<noteq> '''' \<and>
      (\<exists>img. ?r = Returned (O_JenkinsImage img) \<and> JImage_Phase img = ImageBuildSuccessful \<and> JImage_Builds img = [])" for i
    using ty_JenkinsImage.decode_Inr_iff [of ?r]
    by (auto simp: master_image_def Let_def Client_Get_def call_eq JenkinsImage_t_def split: sum.splits)
  show ?thesis
  proof (cases "getJenkinsMasterContainer ext (globals s) (Jenkins_Spec j)")
    case (Inl err)
    then show ?thesis by (cases "Jenkins_Status j") (simp_all add: getCalculatedSpec_def Let_def)
  next
    case (Inr c)
    have "getCalculatedSpec api ext j s = None \<longleftrightarrow> Jenkins_Status j = None \<or> master_image ext j (Container_Image c) s = None"
    proof (cases "master_image ext j (Container_Image c) s")
      case None
      with Inr show ?thesis by (cases "Jenkins_Status j") (simp_all add: getCalculatedSpec_def Let_def)
    next
      case (Some rs)
      obtain r s1 where "rs = (r, s1)" by (cases rs)
      moreover obtain roles s2 where "default_roles ext j s1 = Some (roles, s2)"
        using default_roles_total by blast
      ultimately show ?thesis
        using Inr Some by (cases "Jenkins_Status j"; cases r) (simp_all add: getCalculatedSpec_def Let_def)
    qed
    then show ?thesis
      unfolding image_panics using Inr by (auto simp: prod_eq_iff)
  qed
qed

section \<open>Concrete instances\<close>

definition sample_api :: JenkinsAPIConnectionSettings where
  "sample_api = \<lparr>API_Hostname = '''', API_Port = 0, API_UseNodePort = False\<rparr>"

definition edit_role :: ClusterRole where
  "edit_role = \<lparr>CR_Meta = empty_meta\<lparr>Meta_Name := ''edit''\<rparr>, CR_Kind = ''ClusterRole''\<rparr>"

definition started_jenkins :: Jenkins where
  "started_jenkins = sample_jenkins\<lparr>Jenkins_Status := Some zero_JenkinsStatus\<rparr>"

definition role_world :: "unit ext" where
  "role_world = table_ext (\<lambda>_. Returned (O_ClusterRole edit_role))"

lemma started_jenkins_simps [simp]:
  "Jenkins_Status started_jenkins = Some zero_JenkinsStatus"
  "Spec_Master (Jenkins_Spec started_jenkins) = None" "Spec_Roles (Jenkins_Spec started_jenkins) = None"
  "Spec_JenkinsImageRef (Jenkins_Spec started_jenkins) = ''''"
  by (simp_all add: started_jenkins_def sample_jenkins_def zero_Jenkins_def zero_JenkinsSpec_def)

text \<open>The smallest Jenkins, without any setting, on a cluster with the edit role.\<close>

lemma calculated_started:
  "\<exists>spec. getCalculatedSpec sample_api role_world started_jenkins (initial ()) =
     Some ((Inr spec, set_status_spec spec started_jenkins),
       (initial ())\<lparr>calls := [GetReq K_ClusterRole (nn '''' EditClusterRole)]\<rparr>)
     \<and> Spec_Roles spec \<noteq> None \<and> Spec_JenkinsImageRef spec = ''''"
proof -
  have role: "default_roles role_world started_jenkins (initial ()) =
      Some (Some [\<lparr>RoleRef_APIGroup = AuthorizationAPIGroup, RoleRef_Kind = ''ClusterRole'', RoleRef_Name = ''edit''\<rparr>],
        (initial ())\<lparr>calls := [GetReq K_ClusterRole (nn '''' EditClusterRole)]\<rparr>)"
    by (simp add: default_roles_def GetDefaultRoleBinding_def Client_Get_def call_eq role_world_def
        ClusterRole_t_def edit_role_def NewRoleBinding_def)
  have "Spec_JenkinsImageRef (fill_spec api c m spec) = Spec_JenkinsImageRef spec" for api c m spec
    by (simp add: fill_spec_def Let_def split: option.split)
  then show ?thesis
    by (simp add: getCalculatedSpec_def Let_def getJenkinsMasterContainer_def first_container_def
        master_image_def role)
qed

theorem setDefaults_never_writes_witness:
  "\<exists>j' s'. setDefaults sample_api role_world started_jenkins (initial ()) = Some (((False, None), j'), s')
     \<and> list_all is_defaults_read (calls s') \<and> calls s' \<noteq> []"
proof -
  obtain spec where c: "getCalculatedSpec sample_api role_world started_jenkins (initial ()) =
     Some ((Inr spec, set_status_spec spec started_jenkins),
       (initial ())\<lparr>calls := [GetReq K_ClusterRole (nn '''' EditClusterRole)]\<rparr>)"
    using calculated_started by blast
  then have run: "setDefaults sample_api role_world started_jenkins (initial ()) = Some (((False, None),
      set_status_spec spec started_jenkins), (initial ())\<lparr>calls := [GetReq K_ClusterRole (nn '''' EditClusterRole)]\<rparr>)"
    by (simp add: setDefaults_def)
  from setDefaults_never_writes [OF run] run show ?thesis by (simp add: new_calls_def)
qed

theorem getCalculatedSpec_complete_witness:
  "\<exists>spec j' s'. getCalculatedSpec sample_api role_world started_jenkins (initial ()) = Some ((Inr spec, j'), s')
     \<and> spec_complete spec \<and> status_spec j' = Some spec"
proof -
  obtain spec j' s' where c: "getCalculatedSpec sample_api role_world started_jenkins (initial ()) =
     Some ((Inr spec, j'), s')"
    using calculated_started by blast
  with getCalculatedSpec_complete [OF c] show ?thesis by blast
qed

theorem getCalculatedSpec_idempotent_witness:
  "\<exists>spec j' s' k. getCalculatedSpec sample_api role_world started_jenkins (initial ()) = Some ((Inr spec, j'), s')
     \<and> k = started_jenkins\<lparr>Jenkins_Spec := spec\<rparr>
     \<and> getCalculatedSpec (sample_api\<lparr>API_UseNodePort := True\<rparr>) script_ext k (initial []) =
         Some ((Inr spec, set_status_spec spec k), initial [])"
proof -
  obtain spec j' s' where c: "getCalculatedSpec sample_api role_world started_jenkins (initial ()) =
     Some ((Inr spec, j'), s')" "Spec_Roles spec \<noteq> None" "Spec_JenkinsImageRef spec = ''''"
    using calculated_started by blast
  have "Jenkins_Spec (started_jenkins\<lparr>Jenkins_Spec := spec\<rparr>) = spec"
    "Jenkins_Status (started_jenkins\<lparr>Jenkins_Spec := spec\<rparr>) \<noteq> None" by simp_all
  with c getCalculatedSpec_idempotent [OF c] show ?thesis by blast
qed

end
