(* ===== verification/Backup_Controller.thy ===== *)
theory Backup_Controller
  imports Status_Update
begin

text \<open>
  \<open>controllers/backup_controller.go\<close>: one Reconcile of a Backup.  The instance is threaded through
  the steps as the Go code mutates it: its conditions are set in memory, and a status update that
  succeeds replaces it by the server's answer.
\<close>

section \<open>Names\<close>

definition BackupInitialized :: string where "BackupInitialized = ''BackupInitialized''"
definition QuietDownStarted :: string where "QuietDownStarted = ''QuietDownStarted''"
definition BackupCompleted :: string where "BackupCompleted = ''BackupCompleted''"
definition QuietDownCancelled :: string where "QuietDownCancelled = ''QuietDownCancelled''"

lemmas backup_condition_types = BackupInitialized_def QuietDownStarted_def BackupCompleted_def
  QuietDownCancelled_def

definition defaultJenkinsHome :: string where "defaultJenkinsHome = ''/var/lib/jenkins''"
definition JenkinsBackupVolumePath :: string where "JenkinsBackupVolumePath = ''/jenkins-backups''"
definition ScriptsVolumePath :: string where "ScriptsVolumePath = ''/jenkins-operator-scripts''"
definition QuietDownScriptPath :: string where
  "QuietDownScriptPath = ScriptsVolumePath @ ''/quietdown.sh''"
definition CancelQuietDownScriptPath :: string where
  "CancelQuietDownScriptPath = ScriptsVolumePath @ ''/cancelquietdown.sh''"

definition RestartScriptPath :: string where
  "RestartScriptPath = ScriptsVolumePath @ ''/restart.sh''"
definition SafeRestartScriptPath :: string where
  "SafeRestartScriptPath = ScriptsVolumePath @ ''/saferestart.sh''"

section \<open>Steps\<close>

text \<open>\<open>SetCondition\<close> on the instance followed by \<open>Status().Update\<close>, and the update alone.\<close>

definition record_backup ::
  "'w ext \<Rightarrow> Backup \<Rightarrow> string \<Rightarrow> string \<Rightarrow> string \<Rightarrow> 'w st \<Rightarrow> ((error option \<times> Backup) \<times> 'w st) option" where
  "record_backup ext = record_condition ext Backup_t Backup_Conditions put_Backup_Conditions"

definition backup_name :: "Backup \<Rightarrow> string" where
  "backup_name b = Meta_Name (Backup_Meta b)"

definition performJenkinsQuietDown ::
  "'w ext \<Rightarrow> kubeExecClient \<Rightarrow> Pod \<Rightarrow> Backup \<Rightarrow> 'w st \<Rightarrow> ((error option \<times> Backup) \<times> 'w st) option" where
  "performJenkinsQuietDown ext e pod b s =
     do { let execQuietDown = Join '' '' [''sh'', QuietDownScriptPath];
          (err, s) \<leftarrow> MakeRequest ext e pod execQuietDown s;
          case err of
            Some err \<Rightarrow> record_backup ext b QuietDownStarted ConditionFalse (error_string err) s
          | None \<Rightarrow> record_backup ext b QuietDownStarted ConditionTrue '''' s }"

definition performJenkinsCancelQuietDown ::
  "'w ext \<Rightarrow> kubeExecClient \<Rightarrow> Pod \<Rightarrow> Backup \<Rightarrow> 'w st \<Rightarrow> ((error option \<times> Backup) \<times> 'w st) option" where
  "performJenkinsCancelQuietDown ext e pod b s =
     do { let execCancelQuietDown = Join '' '' [''sh'', CancelQuietDownScriptPath];
          (err, s) \<leftarrow> MakeRequest ext e pod execCancelQuietDown s;
          case err of
            Some err \<Rightarrow> record_backup ext b QuietDownCancelled ConditionFalse
                (''CancelQuietDown failed with error '' @ error_string err) s
          | None \<Rightarrow> record_backup ext b QuietDownCancelled ConditionTrue '''' s }"

definition backupToLocation :: "Backup \<Rightarrow> string" where
  "backupToLocation b = JenkinsBackupVolumePath @ ''/'' @ Backup_BackupVolumeRef (Backup_Spec b)
     @ ''/'' @ backup_name b @ ''/''"

definition sub_locations :: "BackupOptions \<Rightarrow> string list" where
  "sub_locations opts =
     (if Options_Config opts then [''*.xml''] else []) @
     (if Options_Jobs opts then [''jobs''] else []) @
     (if Options_Plugins opts then [''plugins''] else [])"

text \<open>The loop over the locations: a failed copy is recorded and the loop goes on.\<close>

fun backup_loop ::
  "'w ext \<Rightarrow> kubeExecClient \<Rightarrow> Pod \<Rightarrow> string \<Rightarrow> string list \<Rightarrow> Backup \<Rightarrow> 'w st \<Rightarrow>
   ((error option \<times> Backup) \<times> 'w st) option" where
  "backup_loop ext e pod toLocation [] b s = Some ((None, b), s)"
| "backup_loop ext e pod toLocation (sl # sls) b s =
     do { let backupFromSubLocation = Join ''/'' [defaultJenkinsHome, sl];
          let execBackupSubLocation = Join '' '' [''cp'', ''-r'', backupFromSubLocation, toLocation];
          (err, s) \<leftarrow> MakeRequest ext e pod execBackupSubLocation s;
          case err of
            None \<Rightarrow> backup_loop ext e pod toLocation sls b s
          | Some err \<Rightarrow>
              do { ((err, b), s) \<leftarrow> record_backup ext b BackupCompleted ConditionFalse
                     (''Failed to backup from '' @ backupFromSubLocation @ '' '' @ error_string err) s;
                   case err of
                     Some err \<Rightarrow> Some ((Some err, b), s)
                   | None \<Rightarrow> backup_loop ext e pod toLocation sls b s } }"

definition performJenkinsBackup ::
  "'w ext \<Rightarrow> kubeExecClient \<Rightarrow> Pod \<Rightarrow> Backup \<Rightarrow> BackupStrategy \<Rightarrow> 'w st \<Rightarrow>
   ((error option \<times> Backup) \<times> 'w st) option" where
  "performJenkinsBackup ext e pod b strategy s =
     do { let toLocation = backupToLocation b;
          let execCreateBackupDir = Join '' '' [''mkdir'', toLocation];
          (err, s) \<leftarrow> MakeRequest ext e pod execCreateBackupDir s;
          case err of
            Some err \<Rightarrow> record_backup ext b BackupCompleted ConditionFalse
                (''Failed to create backup directory '' @ toLocation @ '' '' @ error_string err) s
          | None \<Rightarrow>
              (let sls = sub_locations (Strategy_Options strategy) in
               if length sls > 0
               then do { ((err, b), s) \<leftarrow> backup_loop ext e pod toLocation sls b s;
                         case err of
                           Some err \<Rightarrow> Some ((Some err, b), s)
                         | None \<Rightarrow> update_status ext Backup_t b s }
               else Some ((None, b), s)) }"

section \<open>Notifications\<close>

definition sendNewBackupCompletedNotification ::
  "Jenkins \<Rightarrow> Backup \<Rightarrow> error option \<Rightarrow> 'w st \<Rightarrow> 'w st" where
  "sendNewBackupCompletedNotification j b err =
     send \<lparr>Event_Jenkins = j, Event_Controller = BackupController, Event_Level = NotificationLevelInfo,
       Event_Reason = NewBackupCompleted OperatorSource
         [''Backup '' @ jenkins_name j @ '' completed for Jenkins '' @ [CHR 39] @ backup_name b @ [CHR 39]
          @ '' in namespace '' @ [CHR 39] @ jenkins_namespace j @ [CHR 39] @ '' with err '' @ show_err err] []\<rparr>"

definition sendNewBackupInProgressNotification ::
  "Jenkins \<Rightarrow> Backup \<Rightarrow> string \<Rightarrow> error option \<Rightarrow> 'w st \<Rightarrow> 'w st" where
  "sendNewBackupInProgressNotification j b message err =
     send \<lparr>Event_Jenkins = j, Event_Controller = BackupController, Event_Level = NotificationLevelInfo,
       Event_Reason = NewBackupInProgress OperatorSource
         [''Backup '' @ jenkins_name j @ '' in progress for Jenkins '' @ [CHR 39] @ backup_name b @ [CHR 39]
          @ '' in namespace '' @ [CHR 39] @ jenkins_namespace j @ [CHR 39] @ '' with message '' @ [CHR 39]
          @ message @ [CHR 39] @ '' err '' @ show_err err] []\<rparr>"

section \<open>The pod\<close>

text \<open>The controller has its own copies of the three lookups of \<open>configuration.go\<close>.\<close>

definition Backup_GetJenkinsDeployment ::
  "'w ext \<Rightarrow> Jenkins \<Rightarrow> 'w st \<Rightarrow> ((error + Deployment) \<times> 'w st) option" where
  "Backup_GetJenkinsDeployment ext j s =
     Client_Get ext Deployment_t (nn (jenkins_namespace j) (GetJenkinsDeploymentName j)) s"

definition Backup_GetReplicaSetByDeployment ::
  "'w ext \<Rightarrow> Jenkins \<Rightarrow> 'w st \<Rightarrow> ((error + ReplicaSet) \<times> 'w st) option" where
  "Backup_GetReplicaSetByDeployment ext j s =
     do { (r, s) \<leftarrow> Backup_GetJenkinsDeployment ext j s;
          deployment \<leftarrow> (case r of Inl _ \<Rightarrow> None | Inr d \<Rightarrow> Some d);
          let sel = (case asSelector ext (Depl_Selector deployment) of Inl _ \<Rightarrow> None | Inr x \<Rightarrow> Some x);
          (r, s) \<leftarrow> Client_List ext ReplicaSet_t (select sel) s;
          Some (case r of
                  Inl err \<Rightarrow> Inl (no_replicaSet (Some err))
                | Inr [] \<Rightarrow> Inl (no_replicaSet None)
                | Inr (rs # _) \<Rightarrow> Inr rs, s) }"

definition Backup_GetPodByDeployment ::
  "'w ext \<Rightarrow> Jenkins \<Rightarrow> 'w st \<Rightarrow> ((error + Pod) \<times> 'w st) option" where
  "Backup_GetPodByDeployment ext j s =
     do { (r, s) \<leftarrow> Backup_GetReplicaSetByDeployment ext j s;
          case r of
            Inl err \<Rightarrow> Some (Inl err, s)
          | Inr replicaSet \<Rightarrow>
              (case asSelector ext (RS_Selector replicaSet) of
                 Inl err \<Rightarrow> Some (Inl err, s)
               | Inr sel \<Rightarrow>
                   do { (r, s) \<leftarrow> Client_List ext Pod_t (select (Some sel)) s;
                        Some (case r of
                                Inl err \<Rightarrow> Inl (no_pod (Some err))
                              | Inr [] \<Rightarrow> Inl (no_pod None)
                              | Inr (pod # _) \<Rightarrow> Inr pod, s) }) }"

lemma Backup_GetPodByDeployment_eq: "Backup_GetPodByDeployment = GetPodByDeployment"
  by (intro ext) (simp add: Backup_GetPodByDeployment_def GetPodByDeployment_def
      Backup_GetReplicaSetByDeployment_def GetReplicaSetByDeployment_def
      Backup_GetJenkinsDeployment_def GetJenkinsDeployment_def)

section \<open>Reconcile\<close>

text \<open>
  \<open>run_backup\<close> is the part of Reconcile after the exec client is ready (lines 149 to 192), its two
  conditional steps being definitions of their own.
\<close>

definition quietDown_stage ::
  "'w ext \<Rightarrow> kubeExecClient \<Rightarrow> Pod \<Rightarrow> Jenkins \<Rightarrow> BackupStrategy \<Rightarrow> Backup \<Rightarrow> 'w st \<Rightarrow>
   ((error option \<times> Backup) \<times> 'w st) option" where
  "quietDown_stage ext e pod j strategy b s =
     (if Strategy_QuietDownDuringBackup strategy
      then do { ((err, b), s) \<leftarrow> performJenkinsQuietDown ext e pod b s;
                Some ((err, b), sendNewBackupInProgressNotification j b ''quietDown'' err s) }
      else Some ((None, b), s))"

definition cancelQuietDown_stage ::
  "'w ext \<Rightarrow> kubeExecClient \<Rightarrow> Pod \<Rightarrow> Jenkins \<Rightarrow> BackupStrategy \<Rightarrow> Backup \<Rightarrow> 'w st \<Rightarrow>
   ((error option \<times> Backup) \<times> 'w st) option" where
  "cancelQuietDown_stage ext e pod j strategy b s =
     (if Strategy_QuietDownDuringBackup strategy
      then do { ((err, b), s) \<leftarrow> performJenkinsCancelQuietDown ext e pod b s;
                Some ((err, b), sendNewBackupInProgressNotification j b ''cancelQuietDown'' err s) }
      else Some ((None, b), s))"

definition run_backup ::
  "'w ext \<Rightarrow> kubeExecClient \<Rightarrow> Pod \<Rightarrow> Jenkins \<Rightarrow> BackupStrategy \<Rightarrow> Backup \<Rightarrow> 'w st \<Rightarrow>
   ((Result \<times> error option) \<times> 'w st) option" where
  "run_backup ext e pod j strategy b s =
     do { ((err, b), s) \<leftarrow> record_backup ext b BackupInitialized ConditionTrue '''' s;
          if err \<noteq> None then Some ((no_requeue, err), s) else
          do { ((err, b), s) \<leftarrow> quietDown_stage ext e pod j strategy b s;
               if err \<noteq> None then Some ((no_requeue, err), s) else
          do { ((err, b), s) \<leftarrow> performJenkinsBackup ext e pod b strategy s;
               let s = sendNewBackupInProgressNotification j b ''backup'' err s;
               if err \<noteq> None then Some ((no_requeue, err), s) else
          do { ((err, b), s) \<leftarrow> cancelQuietDown_stage ext e pod j strategy b s;
               if err \<noteq> None then Some ((no_requeue, err), s) else
          do { let s = sendNewBackupCompletedNotification j b err s;
               ((err, b), s) \<leftarrow> record_backup ext b BackupCompleted ConditionTrue '''' s;
               Some ((no_requeue, err), s) }}}}}"

definition Backup_Reconcile ::
  "'w ext \<Rightarrow> Request \<Rightarrow> 'w st \<Rightarrow> ((Result \<times> error option) \<times> 'w st) option" where
  "Backup_Reconcile ext req s =
     do { let execClient = NewKubeExecClient;
          let ns = NN_Namespace (Req_NamespacedName req);
          (r, s) \<leftarrow> Client_Get ext Backup_t (Req_NamespacedName req) s;
          case r of
            Inl err \<Rightarrow> Some (ignore_not_found err, s)
          | Inr b \<Rightarrow>
              if length (Backup_Conditions b) > 0 then Some ((no_requeue, None), s) else
              do { (r, s) \<leftarrow> Client_Get ext BackupStrategy_t (nn ns (Backup_StrategyRef (Backup_Spec b))) s;
                   case r of
                     Inl err \<Rightarrow> Some (ignore_not_found err, s)
                   | Inr strategy \<Rightarrow>
              do { (r, s) \<leftarrow> Client_Get ext Jenkins_t (nn ns (Backup_JenkinsRef (Backup_Spec b))) s;
                   case r of
                     Inl err \<Rightarrow> Some (ignore_not_found err, s)
                   | Inr j \<Rightarrow>
              do { (r, s) \<leftarrow> Backup_GetPodByDeployment ext j s;
                   case r of
                     Inl err \<Rightarrow> Some ((no_requeue, Some err), s)
                   | Inr pod \<Rightarrow>
              do { ((err, execClient), s) \<leftarrow> InitKubeGoClient ext execClient s;
                   case err of
                     Some err \<Rightarrow>
                       do { ((err, b), s) \<leftarrow> record_backup ext b BackupInitialized ConditionFalse
                              (error_string err) s;
                            Some ((no_requeue, err), s) }
                   | None \<Rightarrow> run_backup ext execClient pod j strategy b s }}}}}"

section \<open>What the steps run and record\<close>

text \<open>The server keeps the name and the specification of a Backup whose status is updated.\<close>

definition keeps_backup :: "'w ext \<Rightarrow> bool" where
  "keeps_backup ext \<longleftrightarrow> keeps ext Backup_t (\<lambda>b. (Backup_Spec b, backup_name b))"

lemma put_backup_simps [simp]:
  "Backup_Spec (put_Backup_Conditions cs b) = Backup_Spec b"
  "backup_name (put_Backup_Conditions cs b) = backup_name b"
  by (simp_all add: put_Backup_Conditions_def backup_name_def)

lemmas record_backup_ran = bst.record_condition_runs [folded record_backup_def]
lemmas script_then_record = bst.script_then_record [folded record_backup_def]

lemma record_backup_keeps:
  assumes "record_backup ext b t st rsn s = Some ((err, b'), s')" "keeps_backup ext"
  shows "Backup_Spec b' = Backup_Spec b \<and> backup_name b' = backup_name b"
  using bst.record_condition_keeps [OF assms(1) [unfolded record_backup_def] assms(2) [unfolded keeps_backup_def]]
  by simp

definition quietdown_script :: string where
  "quietdown_script = ''sh /jenkins-operator-scripts/quietdown.sh''"
definition cancelquietdown_script :: string where
  "cancelquietdown_script = ''sh /jenkins-operator-scripts/cancelquietdown.sh''"
definition mkdir_script :: "string \<Rightarrow> string" where
  "mkdir_script loc = ''mkdir '' @ loc"
definition cp_script :: "string \<Rightarrow> string \<Rightarrow> string" where
  "cp_script loc sl = ''cp -r /var/lib/jenkins/'' @ sl @ '' '' @ loc"

lemma script_joins:
  "Join '' '' [''sh'', QuietDownScriptPath] = quietdown_script"
  "Join '' '' [''sh'', CancelQuietDownScriptPath] = cancelquietdown_script"
  "Join '' '' [''mkdir'', loc] = mkdir_script loc"
  "Join '' '' [''cp'', ''-r'', Join ''/'' [defaultJenkinsHome, sl], loc] = cp_script loc sl"
  by (simp_all add: quietdown_script_def cancelquietdown_script_def mkdir_script_def cp_script_def
      QuietDownScriptPath_def CancelQuietDownScriptPath_def ScriptsVolumePath_def defaultJenkinsHome_def)

lemma performJenkinsQuietDown_ran:
  assumes "exec_available ext" and "performJenkinsQuietDown ext e pod b s = Some ((err, b'), s')"
  shows "runs [script_stream pod quietdown_script] s s' \<and>
    (keeps_backup ext \<longrightarrow> Backup_Spec b' = Backup_Spec b \<and> backup_name b' = backup_name b)"
  using assms(2) unfolding performJenkinsQuietDown_def script_joins Let_def
  by (auto simp: Option.bind_eq_Some_conv split: option.splits
      dest: record_backup_keeps intro: script_then_record [OF assms(1)])

lemma performJenkinsCancelQuietDown_ran:
  assumes "exec_available ext" and "performJenkinsCancelQuietDown ext e pod b s = Some ((err, b'), s')"
  shows "runs [script_stream pod cancelquietdown_script] s s' \<and>
    (keeps_backup ext \<longrightarrow> Backup_Spec b' = Backup_Spec b \<and> backup_name b' = backup_name b)"
  using assms(2) unfolding performJenkinsCancelQuietDown_def script_joins Let_def
  by (auto simp: Option.bind_eq_Some_conv split: option.splits
      dest: record_backup_keeps intro: script_then_record [OF assms(1)])

definition copies :: "Pod \<Rightarrow> string \<Rightarrow> string list \<Rightarrow> request list" where
  "copies pod loc sls = map (\<lambda>sl. script_stream pod (cp_script loc sl)) sls"

lemma copies_Cons: "copies pod loc (sl # sls) = script_stream pod (cp_script loc sl) # copies pod loc sls"
  by (simp add: copies_def)

definition copy_failed :: "string \<Rightarrow> error \<Rightarrow> string" where
  "copy_failed sl err = ''Failed to backup from '' @ Join ''/'' [defaultJenkinsHome, sl] @ '' '' @ error_string err"

lemma backup_loop_Cons:
  "backup_loop ext e pod loc (sl # sls) b s =
     do { (err, s) \<leftarrow> MakeRequest ext e pod (cp_script loc sl) s;
          case err of
            None \<Rightarrow> backup_loop ext e pod loc sls b s
          | Some err \<Rightarrow>
              do { ((err, b), s) \<leftarrow> record_backup ext b BackupCompleted ConditionFalse (copy_failed sl err) s;
                   case err of
                     Some err \<Rightarrow> Some ((Some err, b), s)
                   | None \<Rightarrow> backup_loop ext e pod loc sls b s } }"
  by (simp only: backup_loop.simps Let_def script_joins copy_failed_def)

lemma backup_loop_cases:
  assumes "backup_loop ext e pod loc (sl # sls) b s = Some ((err, b'), s')"
  obtains (copied) s1 where "MakeRequest ext e pod (cp_script loc sl) s = Some (None, s1)"
      "backup_loop ext e pod loc sls b s1 = Some ((err, b'), s')"
    | (recorded) er s1 rsn b1 s2 where "MakeRequest ext e pod (cp_script loc sl) s = Some (Some er, s1)"
      "record_backup ext b BackupCompleted ConditionFalse rsn s1 = Some ((None, b1), s2)"
      "backup_loop ext e pod loc sls b1 s2 = Some ((err, b'), s')"
    | (stopped) er s1 rsn x where "MakeRequest ext e pod (cp_script loc sl) s = Some (Some er, s1)"
      "record_backup ext b BackupCompleted ConditionFalse rsn s1 = Some ((err, b'), s')" "err = Some x"
  using assms unfolding backup_loop_Cons
  by (elim bind_pairE) (auto split: option.splits elim!: bind_pairE)

lemma backup_loop_ran:
  assumes "exec_available ext" and "backup_loop ext e pod loc sls b s = Some ((err, b'), s')"
  shows "\<exists>k. runs (copies pod loc (take k sls)) s s' \<and> (err = None \<longrightarrow> k \<ge> length sls) \<and>
    (keeps_backup ext \<longrightarrow> Backup_Spec b' = Backup_Spec b \<and> backup_name b' = backup_name b)"
  using assms(2)
proof (induction sls arbitrary: b s)
  case Nil
  then show ?case by (intro exI [of _ 0]) (simp add: copies_def)
next
  case (Cons sl sls)
  from Cons.prems show ?case
  proof (cases rule: backup_loop_cases)
    case (copied s1)
    from Cons.IH [OF copied(2)] obtain k where "runs (copies pod loc (take k sls)) s1 s'"
      and "err = None \<longrightarrow> k \<ge> length sls"
      and "keeps_backup ext \<longrightarrow> Backup_Spec b' = Backup_Spec b \<and> backup_name b' = backup_name b" by blast
    then show ?thesis using runs_Cons [OF MakeRequest_runs [OF assms(1) copied(1)]]
      by (intro exI [of _ "Suc k"]) (simp add: copies_Cons)
  next
    case (recorded er s1 rsn b1 s2)
    from Cons.IH [OF recorded(3)] obtain k where "runs (copies pod loc (take k sls)) s2 s'"
      and "err = None \<longrightarrow> k \<ge> length sls"
      and "keeps_backup ext \<longrightarrow> Backup_Spec b' = Backup_Spec b1 \<and> backup_name b' = backup_name b1" by blast
    then show ?thesis
      using runs_Cons [OF script_then_record [OF assms(1) recorded(1,2)]] record_backup_keeps [OF recorded(2)]
      by (intro exI [of _ "Suc k"]) (simp add: copies_Cons)
  next
    case (stopped er s1 rsn x)
    from script_then_record [OF assms(1) stopped(1,2)] record_backup_keeps [OF stopped(2)] stopped(3)
    show ?thesis by (intro exI [of _ 1]) (simp add: copies_def)
  qed
qed

lemma performJenkinsBackup_cases:
  assumes "performJenkinsBackup ext e pod b strategy s = Some ((err, b'), s')"
  obtains (mkdir_failed) er s1 rsn where
      "MakeRequest ext e pod (mkdir_script (backupToLocation b)) s = Some (Some er, s1)"
      "record_backup ext b BackupCompleted ConditionFalse rsn s1 = Some ((err, b'), s')"
    | (no_options) "MakeRequest ext e pod (mkdir_script (backupToLocation b)) s = Some (None, s')"
      "sub_locations (Strategy_Options strategy) = []" "err = None" "b' = b"
    | (stopped) s1 er where
      "MakeRequest ext e pod (mkdir_script (backupToLocation b)) s = Some (None, s1)" "sub_locations (Strategy_Options strategy) \<noteq> []"
      "backup_loop ext e pod (backupToLocation b) (sub_locations (Strategy_Options strategy)) b s1 = Some ((err, b'), s')" "err = Some er"
    | (copied) s1 b1 s2 where
      "MakeRequest ext e pod (mkdir_script (backupToLocation b)) s = Some (None, s1)" "sub_locations (Strategy_Options strategy) \<noteq> []"
      "backup_loop ext e pod (backupToLocation b) (sub_locations (Strategy_Options strategy)) b s1 = Some ((None, b1), s2)"
      "update_status ext Backup_t b1 s2 = Some ((err, b'), s')"
  using assms unfolding performJenkinsBackup_def script_joins Let_def
  by (elim bind_pairE) (auto split: option.splits if_splits elim!: bind_pairE)

lemma performJenkinsBackup_ran:
  assumes "exec_available ext" and "performJenkinsBackup ext e pod b strategy s = Some ((err, b'), s')"
  shows "\<exists>k. runs (script_stream pod (mkdir_script (backupToLocation b)) #
        copies pod (backupToLocation b) (take k (sub_locations (Strategy_Options strategy)))) s s' \<and>
    (err = None \<longrightarrow> k \<ge> length (sub_locations (Strategy_Options strategy)) \<or>
       (k = 0 \<and> (\<exists>w. err_of (fst (do_call ext (script_stream pod (mkdir_script (backupToLocation b))) w)) \<noteq> None))) \<and>
    (keeps_backup ext \<longrightarrow> Backup_Spec b' = Backup_Spec b \<and> backup_name b' = backup_name b)"
  using assms(2)
proof (cases rule: performJenkinsBackup_cases)
  case (mkdir_failed er s1 rsn)
  from script_then_record [OF assms(1) mkdir_failed] record_backup_keeps [OF mkdir_failed(2)]
    MakeRequest_failed [OF assms(1) mkdir_failed(1)]
  show ?thesis by (intro exI [of _ 0]) (auto simp: copies_def)
next
  case no_options
  with MakeRequest_runs [OF assms(1) no_options(1)] show ?thesis
    by (intro exI [of _ 0]) (simp add: copies_def)
next
  case (stopped s1 er)
  from backup_loop_ran [OF assms(1) stopped(3)] runs_Cons [OF MakeRequest_runs [OF assms(1) stopped(1)]]
  show ?thesis by (metis stopped(4) option.distinct(1))
next
  case (copied s1 b1 s2)
  from backup_loop_ran [OF assms(1) copied(3)]
  obtain k where k: "runs (copies pod (backupToLocation b) (take k (sub_locations (Strategy_Options strategy)))) s1 s2"
    "k \<ge> length (sub_locations (Strategy_Options strategy))"
    "keeps_backup ext \<longrightarrow> Backup_Spec b1 = Backup_Spec b \<and> backup_name b1 = backup_name b" by blast
  have upd: "runs [] s2 s'" "keeps_backup ext \<longrightarrow> Backup_Spec b' = Backup_Spec b1 \<and> backup_name b' = backup_name b1"
    using bst.update_status_runs [OF copied(4)] bst.update_status_keeps [OF copied(4)]
    by (auto simp: keeps_backup_def)
  have "runs (script_stream pod (mkdir_script (backupToLocation b)) #
      copies pod (backupToLocation b) (take k (sub_locations (Strategy_Options strategy)))) s s'"
    using runs_trans [OF runs_Cons [OF MakeRequest_runs [OF assms(1) copied(1)] k(1)] upd(1)] by simp
  with k(2,3) upd(2) show ?thesis by (intro exI [of _ k]) simp
qed

text \<open>The stages of a run that returns no error.\<close>

lemma run_backup_cases:
  assumes "run_backup ext e pod j strategy b s = Some ((res, None), s')"
  obtains b1 s1 b2 s2 b3 s3 b4 s4 b5 where
    "record_backup ext b BackupInitialized ConditionTrue '''' s = Some ((None, b1), s1)"
    "quietDown_stage ext e pod j strategy b1 s1 = Some ((None, b2), s2)"
    "performJenkinsBackup ext e pod b2 strategy s2 = Some ((None, b3), s3)"
    "cancelQuietDown_stage ext e pod j strategy b3
       (sendNewBackupInProgressNotification j b3 ''backup'' None s3) = Some ((None, b4), s4)"
    "record_backup ext b4 BackupCompleted ConditionTrue ''''
       (sendNewBackupCompletedNotification j b4 None s4) = Some ((None, b5), s')"
    "res = no_requeue"
  using assms unfolding run_backup_def Let_def
  by (elim bind_pairE) (auto split: if_splits elim!: bind_pairE intro: that)

definition backup_plan :: "Pod \<Rightarrow> BackupStrategy \<Rightarrow> Backup \<Rightarrow> request list \<Rightarrow> request list" where
  "backup_plan pod strategy b cps =
     (if Strategy_QuietDownDuringBackup strategy then [script_stream pod quietdown_script] else []) @
     [script_stream pod (mkdir_script (backupToLocation b))] @ cps @
     (if Strategy_QuietDownDuringBackup strategy then [script_stream pod cancelquietdown_script] else [])"

lemma backupToLocation_cong:
  "Backup_Spec b' = Backup_Spec b \<Longrightarrow> backup_name b' = backup_name b \<Longrightarrow> backupToLocation b' = backupToLocation b"
  by (simp add: backupToLocation_def)

lemma runs_notifications [simp]:
  "runs qs s (sendNewBackupInProgressNotification j b m err t) = runs qs s t"
  "runs qs (sendNewBackupInProgressNotification j b m err s) t = runs qs s t"
  "runs qs (sendNewBackupCompletedNotification j b err s) t = runs qs s t"
  by (simp_all add: sendNewBackupInProgressNotification_def sendNewBackupCompletedNotification_def)

lemma quietDown_stage_ran:
  assumes "exec_available ext" and "quietDown_stage ext e pod j strategy b s = Some ((err, b'), s')"
  shows "runs (if Strategy_QuietDownDuringBackup strategy then [script_stream pod quietdown_script] else []) s s' \<and>
    (keeps_backup ext \<longrightarrow> Backup_Spec b' = Backup_Spec b \<and> backup_name b' = backup_name b)"
  using assms(2) performJenkinsQuietDown_ran [OF assms(1), of e pod b s]
  by (auto simp: quietDown_stage_def split: if_splits elim!: bind_pairE)

lemma cancelQuietDown_stage_ran:
  assumes "exec_available ext" and "cancelQuietDown_stage ext e pod j strategy b s = Some ((err, b'), s')"
  shows "runs (if Strategy_QuietDownDuringBackup strategy then [script_stream pod cancelquietdown_script] else []) s s'"
  using assms(2) performJenkinsCancelQuietDown_ran [OF assms(1), of e pod b s]
  by (auto simp: cancelQuietDown_stage_def split: if_splits elim!: bind_pairE)

section \<open>Properties\<close>


text \<open>
  C40. What a completed backup reports: whenever a run returns no error, its last request stores
  the condition BackupCompleted with status True, whatever became of the commands in the pod.
\<close>

theorem run_backup_reports_success:
  assumes "run_backup ext e pod j strategy b s = Some ((res, None), s')"
  shows "\<exists>c. last (calls s') = StatusUpdateReq (O_Backup c) \<and> IsTrueFor (Backup_Conditions c) BackupCompleted"
  using assms
proof (rule run_backup_cases)
  fix b4 b5 s4
  assume "record_backup ext b4 BackupCompleted ConditionTrue ''''
       (sendNewBackupCompletedNotification j b4 None s4) = Some ((None, b5), s')"
  then show ?thesis
    unfolding record_backup_def by (rule bst.record_condition_ok) (auto simp: IsTrueFor_iff)
qed

text \<open>
  A backup runs once: for a Backup that already has a condition, Reconcile reads it, sends
  nothing else and asks for no requeue.
\<close>

theorem Backup_Reconcile_once:
  assumes "do_call ext (GetReq K_Backup (Req_NamespacedName req)) (world s) = (Returned (O_Backup b), w)"
    and "Backup_Conditions b \<noteq> []"
  shows "Backup_Reconcile ext req s =
    Some ((no_requeue, None), s\<lparr>world := w, calls := calls s @ [GetReq K_Backup (Req_NamespacedName req)]\<rparr>)"
  using assms
  by (simp add: Backup_Reconcile_def Client_Get_def call_eq Backup_t_def Let_def)

section \<open>Concrete runs\<close>

lemma failing_answers_simps [simp]:
  "failing_answers bad (StatusUpdateReq obj) = Returned obj"
  "failing_answers bad (NewForConfigReq c) = Done"
  "failing_answers bad (NewSPDYExecutorReq a b c' d) = Done"
  "failing_answers bad (StreamReq a b c' d) = (if bad (last d) then Failed (PlainError ''exit code 1'') else Done)"
  by (simp_all add: failing_answers_def ok_answers_def)

lemma err_of_simps [simp]: "err_of (Failed e) = Some e" "err_of (Returned obj) = None" "err_of Done = None"
  by (simp_all add: err_of_def)

lemma failing_available: "exec_available (table_ext (failing_answers bad))"
  by (simp add: exec_available_def)

lemma failing_keeps: "keeps_backup (table_ext (failing_answers bad))"
  by (simp add: keeps_backup_def keeps_def)

lemma record_backup_failing:
  "\<exists>c s'. record_backup (table_ext (failing_answers bad)) b t st rsn s = Some ((None, c), s')
     \<and> Backup_Spec c = Backup_Spec b \<and> backup_name c = backup_name b"
  by (simp add: record_backup_def record_condition_def set_condition_def Now_eq update_status_def
      Client_StatusUpdate_def call_eq Let_def) (simp add: Backup_t_def)

lemma MakeRequest_failing:
  "EC_client e = Some c \<Longrightarrow> \<exists>s'. MakeRequest (table_ext (failing_answers bad)) e pod script s
     = Some (if bad script then Some (PlainError ''exit code 1'') else None, s')"
  by (simp add: MakeRequest_def newScriptRequest_def runPodExec_def call_eq script_command_def
      stream_in_backup_def)

lemma backup_loop_failing:
  assumes "EC_client e = Some c"
  shows "\<exists>b' s'. backup_loop (table_ext (failing_answers bad)) e pod loc sls b s = Some ((None, b'), s')"
proof (induction sls arbitrary: b s)
  case (Cons sl sls)
  obtain s1 where 1: "MakeRequest (table_ext (failing_answers bad)) e pod (cp_script loc sl) s
      = Some (if bad (cp_script loc sl) then Some (PlainError ''exit code 1'') else None, s1)"
    using MakeRequest_failing [OF assms] by blast
  obtain b1 s2 where 2: "record_backup (table_ext (failing_answers bad)) b BackupCompleted ConditionFalse
      (copy_failed sl (PlainError ''exit code 1'')) s1 = Some ((None, b1), s2)"
    using record_backup_failing by blast
  show ?case using Cons.IH [of b s1] Cons.IH [of b1 s2] by (simp add: backup_loop_Cons 1 2 del: backup_loop.simps)
qed simp

text \<open>With status updates that succeed, every run ends without an error.\<close>

lemma run_backup_failing:
  assumes "EC_client e = Some c"
  shows "\<exists>s'. run_backup (table_ext (failing_answers bad)) e pod j strategy b s = Some ((no_requeue, None), s')"
proof -
  let ?x = "table_ext (failing_answers bad)"
  have rec: "\<exists>c' s'. record_backup ?x b t st rsn s = Some ((None, c'), s')" for b t st rsn and s :: "unit st"
    using record_backup_failing by blast
  have req: "\<exists>r s'. MakeRequest ?x e pod script s = Some (r, s')" for script and s :: "unit st"
    using MakeRequest_failing [OF assms] by blast
  have upd: "\<exists>s'. update_status ?x Backup_t b s = Some ((None, b), s')" for b and s :: "unit st"
    by (simp add: update_status_def Client_StatusUpdate_def call_eq Backup_t_def)
  have qd: "\<exists>b' s'. performJenkinsQuietDown ?x e pod b s = Some ((None, b'), s')" for b s
    using req [of quietdown_script s] rec
    unfolding performJenkinsQuietDown_def script_joins Let_def by (auto split: option.splits; blast)
  have cq: "\<exists>b' s'. performJenkinsCancelQuietDown ?x e pod b s = Some ((None, b'), s')" for b s
    using req [of cancelquietdown_script s] rec
    unfolding performJenkinsCancelQuietDown_def script_joins Let_def by (auto split: option.splits; blast)
  have bk: "\<exists>b' s'. performJenkinsBackup ?x e pod b strategy s = Some ((None, b'), s')" for b s
  proof -
    let ?loc = "backupToLocation b" let ?sls = "sub_locations (Strategy_Options strategy)"
    obtain r s1 where 1: "MakeRequest ?x e pod (mkdir_script ?loc) s = Some (r, s1)" using req by blast
    obtain b2 s2 where 2: "backup_loop ?x e pod ?loc ?sls b s1 = Some ((None, b2), s2)"
      using backup_loop_failing [OF assms] by blast
    obtain s3 where 3: "update_status ?x Backup_t b2 s2 = Some ((None, b2), s3)" using upd by blast
    show ?thesis
      using rec [of b BackupCompleted ConditionFalse _ s1]
      by (cases r) (simp_all add: performJenkinsBackup_def script_joins Let_def 1 2 3 del: Join.simps)
  qed
  have q: "\<exists>b' s'. quietDown_stage ?x e pod j strategy b s = Some ((None, b'), s')" for b s
    using qd [of b s] by (auto simp: quietDown_stage_def)
  have k: "\<exists>b' s'. cancelQuietDown_stage ?x e pod j strategy b s = Some ((None, b'), s')" for b s
    using cq [of b s] by (auto simp: cancelQuietDown_stage_def)
  obtain b1 s1 where 1: "record_backup ?x b BackupInitialized ConditionTrue '''' s = Some ((None, b1), s1)"
    using rec by blast
  obtain b2 s2 where 2: "quietDown_stage ?x e pod j strategy b1 s1 = Some ((None, b2), s2)" using q by blast
  obtain b3 s3 where 3: "performJenkinsBackup ?x e pod b2 strategy s2 = Some ((None, b3), s3)" using bk by blast
  obtain b4 s4 where 4: "cancelQuietDown_stage ?x e pod j strategy b3
      (sendNewBackupInProgressNotification j b3 ''backup'' None s3) = Some ((None, b4), s4)" using k by blast
  obtain b5 s5 where 5: "record_backup ?x b4 BackupCompleted ConditionTrue ''''
      (sendNewBackupCompletedNotification j b4 None s4) = Some ((None, b5), s5)" using rec by blast
  show ?thesis by (simp add: run_backup_def 1 2 3 4 5 Let_def)
qed


text \<open>Every command fails, and the backup is recorded as completed.\<close>

theorem run_backup_reports_success_witness:
  "\<exists>s' c. run_backup (table_ext (failing_answers (\<lambda>_. True))) \<lparr>EC_client = Some ''config''\<rparr> sample_pod
      sample_jenkins (sample_strategy True) (sample_backup []) (initial ()) = Some ((no_requeue, None), s')
    \<and> (\<forall>q w. is_stream q \<longrightarrow> fst (do_call (table_ext (failing_answers (\<lambda>_. True))) q w) = Failed (PlainError ''exit code 1''))
    \<and> last (calls s') = StatusUpdateReq (O_Backup c) \<and> IsTrueFor (Backup_Conditions c) BackupCompleted"
proof -
  obtain s' where run: "run_backup (table_ext (failing_answers (\<lambda>_. True))) \<lparr>EC_client = Some ''config''\<rparr>
      sample_pod sample_jenkins (sample_strategy True) (sample_backup []) (initial ())
      = Some ((no_requeue, None), s')"
    using run_backup_failing by fastforce
  have "is_stream q \<Longrightarrow> failing_answers (\<lambda>_. True) q = Failed (PlainError ''exit code 1'')" for q
    by (cases q) auto
  with run run_backup_reports_success [OF run] show ?thesis by auto
qed

theorem Backup_Reconcile_once_witness:
  "\<exists>c s'. Backup_Reconcile (table_ext (\<lambda>_. Returned (O_Backup (sample_backup [c]))))
      \<lparr>Req_NamespacedName = nn ''ns'' ''b''\<rparr> (initial ()) = Some ((no_requeue, None), s')
    \<and> calls s' = [GetReq K_Backup (nn ''ns'' ''b'')]"
proof -
  fix c
  show ?thesis
    using Backup_Reconcile_once [of "table_ext (\<lambda>_. Returned (O_Backup (sample_backup [c])))"
        "\<lparr>Req_NamespacedName = nn ''ns'' ''b''\<rparr>" "initial ()" "sample_backup [c]" "()"]
    by (rule_tac x = c in exI) (simp add: sample_backup_def)
qed

end
