(* ===== verification/Cluster_APIs.thy ===== *)
theory Cluster_APIs
  imports Sample_World
begin

text \<open>
  What the operator asks once about the cluster and keeps in package variables: whether the Route, the
  Prometheus and the OpenShift proxy API are served, the proxy configuration and the image registry
  (\<open>resources/route.go\<close>, \<open>base/service_monitor.go\<close>, \<open>resources/proxy.go\<close>, \<open>resources/registry.go\<close>).
\<close>

section \<open>API groups\<close>

definition set_globals :: "(Globals \<Rightarrow> Globals) \<Rightarrow> 'w st \<Rightarrow> 'w st" where
  "set_globals f s = s\<lparr>globals := f (globals s)\<rparr>"

lemma set_globals_simps [simp]:
  "world (set_globals f s) = world s" "calls (set_globals f s) = calls s"
  "events (set_globals f s) = events s" "globals (set_globals f s) = f (globals s)"
  by (simp_all add: set_globals_def)

definition IsRouteAPIAvailable :: "'w ext \<Rightarrow> 'w st \<Rightarrow> (bool \<times> 'w st) option" where
  "IsRouteAPIAvailable ext s =
     (if RouteAPIChecked (globals s) then Some (RouteAPIAvailable (globals s), s)
      else do { (err, s) \<leftarrow> ServerSupportsVersion ext ''route.openshift.io'' ''v1'' s;
                let s = set_globals (\<lambda>g. g\<lparr>RouteAPIChecked := True, RouteAPIAvailable := (err = None)\<rparr>) s;
                Some (RouteAPIAvailable (globals s), s) })"

definition IsPrometheusAPIAvailable :: "'w ext \<Rightarrow> 'w st \<Rightarrow> (bool \<times> 'w st) option" where
  "IsPrometheusAPIAvailable ext s =
     (if PrometheusAPIChecked (globals s) then Some (PrometheusAPIAvailable (globals s), s)
      else do { (err, s) \<leftarrow> ServerSupportsVersion ext ''monitoring.coreos.com'' ''v1'' s;
                let s = set_globals (\<lambda>g. g\<lparr>PrometheusAPIChecked := True, PrometheusAPIAvailable := (err = None)\<rparr>) s;
                Some (PrometheusAPIAvailable (globals s), s) })"

definition IsOpenshiftProxyAPIAvailable :: "'w ext \<Rightarrow> 'w st \<Rightarrow> (bool \<times> 'w st) option" where
  "IsOpenshiftProxyAPIAvailable ext s =
     (if ProxyAPIChecked (globals s) then Some (ProxyAPIAvailable (globals s), s)
      else do { (err, s) \<leftarrow> ServerSupportsVersion ext ''config.openshift.io'' ''v1'' s;
                let s = set_globals (\<lambda>g. g\<lparr>ProxyAPIChecked := True, ProxyAPIAvailable := (err = None)\<rparr>) s;
                Some (ProxyAPIAvailable (globals s), s) })"

text \<open>
  The contract of the three: the first call asks the server, all later ones answer from the package
  variables; \<open>probes n\<close> is the program that calls the check \<open>n\<close> times.
\<close>

fun probes :: "('w st \<Rightarrow> (bool \<times> 'w st) option) \<Rightarrow> nat \<Rightarrow> 'w st \<Rightarrow> (bool list \<times> 'w st) option" where
  "probes check 0 s = Some ([], s)"
| "probes check (Suc n) s =
     do { (b, s) \<leftarrow> check s; (bs, s) \<leftarrow> probes check n s; Some (b # bs, s) }"

locale cached_check =
  fixes check :: "'w st \<Rightarrow> (bool \<times> 'w st) option"
    and known :: "Globals \<Rightarrow> bool"
    and answer :: "Globals \<Rightarrow> bool"
    and query :: request
  assumes answered: "known (globals s) \<Longrightarrow> check s = Some (answer (globals s), s)"
    and first_time: "\<not> known (globals s) \<Longrightarrow>
      \<exists>s'. check s = Some (answer (globals s'), s') \<and> calls s' = calls s @ [query] \<and> known (globals s')
        \<and> events s' = events s"
begin

lemma probes_known:
  "known (globals s) \<Longrightarrow> probes check n s = Some (replicate n (answer (globals s)), s)"
  by (induction n) (simp_all add: answered)

lemma probes_once:
  "\<exists>b s'. probes check n s = Some (replicate n b, s') \<and> events s' = events s \<and>
     calls s' = calls s @ (if n = 0 \<or> known (globals s) then [] else [query])"
proof (cases "n = 0 \<or> known (globals s)")
  case True
  then show ?thesis using probes_known [of s n] by auto
next
  case False
  then obtain m where n: "n = Suc m" by (cases n) auto
  obtain s' where s': "check s = Some (answer (globals s'), s')" "calls s' = calls s @ [query]"
    "known (globals s')" "events s' = events s"
    using first_time [of s] False by blast
  have "probes check n s = Some (replicate n (answer (globals s')), s')"
    using probes_known [OF s'(3), of m] by (simp add: n s'(1))
  with s' False show ?thesis by auto
qed

end

interpretation route_api: cached_check "IsRouteAPIAvailable ext" RouteAPIChecked RouteAPIAvailable
  "ServerSupportsVersionReq ''route.openshift.io'' ''v1''"
  by unfold_locales (auto simp: IsRouteAPIAvailable_def ServerSupportsVersion_def call_eq Let_def)

interpretation prometheus_api: cached_check "IsPrometheusAPIAvailable ext" PrometheusAPIChecked
  PrometheusAPIAvailable "ServerSupportsVersionReq ''monitoring.coreos.com'' ''v1''"
  by unfold_locales (auto simp: IsPrometheusAPIAvailable_def ServerSupportsVersion_def call_eq Let_def)

interpretation proxy_api: cached_check "IsOpenshiftProxyAPIAvailable ext" ProxyAPIChecked ProxyAPIAvailable
  "ServerSupportsVersionReq ''config.openshift.io'' ''v1''"
  by unfold_locales (auto simp: IsOpenshiftProxyAPIAvailable_def ServerSupportsVersion_def call_eq Let_def)

section \<open>The proxy\<close>

definition openshiftGlobalProxy :: string where "openshiftGlobalProxy = ''cluster''"
definition envHTTPProxyName :: string where "envHTTPProxyName = ''http_proxy''"
definition envHTTPSProxyName :: string where "envHTTPSProxyName = ''https_proxy''"
definition envNoProxyName :: string where "envNoProxyName = ''no_proxy''"

definition allProxyEnvVarNames :: "string list" where
  "allProxyEnvVarNames = [envHTTPProxyName, envHTTPSProxyName, envNoProxyName]"

lemmas proxy_names = allProxyEnvVarNames_def envHTTPProxyName_def envHTTPSProxyName_def envNoProxyName_def

definition ToEnvVar :: "Proxy \<Rightarrow> EnvVar list" where
  "ToEnvVar proxy =
     [EnvValue envHTTPProxyName (Proxy_HTTPProxy proxy),
      EnvValue envHTTPSProxyName (Proxy_HTTPSProxy proxy),
      EnvValue envNoProxyName (Proxy_NoProxy proxy)]"

definition findProxyEnvVar :: "EnvVar list \<Rightarrow> string \<Rightarrow> EnvVar option" where
  "findProxyEnvVar proxyEnvVar name = find (\<lambda>e. name = Env_Name e) proxyEnvVar"

definition IsProxyOverridden :: "EnvVar list \<Rightarrow> bool" where
  "IsProxyOverridden envVar \<longleftrightarrow> list_ex (\<lambda>n. findProxyEnvVar envVar n \<noteq> None) allProxyEnvVarNames"

definition dropEmptyProxyEnv :: "EnvVar list \<Rightarrow> EnvVar list" where
  "dropEmptyProxyEnv = filter (\<lambda>e. Env_Value e \<noteq> '''')"

definition QueryProxyConfig :: "'w ext \<Rightarrow> 'w st \<Rightarrow> (error option \<times> 'w st) option" where
  "QueryProxyConfig ext s =
     do { (r, s) \<leftarrow> Client_Get ext Proxy_t \<lparr>NN_Namespace = '''', NN_Name = openshiftGlobalProxy\<rparr> s;
          case r of
            Inl err \<Rightarrow> Some (Some err, s)
          | Inr p \<Rightarrow> Some (None, set_globals (\<lambda>g. g\<lparr>GlobalProxy := p, ProxyEnvVars := ToEnvVar p\<rparr>) s) }"

lemma findProxyEnvVar_None: "findProxyEnvVar es n = None \<longleftrightarrow> n \<notin> Env_Name ` set es"
  by (auto simp: findProxyEnvVar_def find_None_iff)

lemma IsProxyOverridden_iff:
  "IsProxyOverridden es \<longleftrightarrow> (\<exists>e \<in> set es. Env_Name e \<in> set allProxyEnvVarNames)"
  by (auto simp: IsProxyOverridden_def list_ex_iff findProxyEnvVar_None)

lemma dropEmptyProxyEnv_idem [simp]: "dropEmptyProxyEnv (dropEmptyProxyEnv es) = dropEmptyProxyEnv es"
  by (simp add: dropEmptyProxyEnv_def)

section \<open>The image registry\<close>

definition DefaultOpenShiftImageRegistryNamespace :: string where
  "DefaultOpenShiftImageRegistryNamespace = ''openshift-image-registry''"
definition DefaultOpenShiftImageRegistryServiceName :: string where
  "DefaultOpenShiftImageRegistryServiceName = ''image-registry''"

definition cache_not_started :: string where
  "cache_not_started = ''the cache is not started, can not read objects''"

definition IsImageRegistryAvailableCached :: "Globals \<Rightarrow> bool" where
  "IsImageRegistryAvailableCached g = isImageRegistryAvailable g"

text \<open>A \<open>Get\<close> that fails leaves the zero value in the object it was given.\<close>

definition IsImageRegistryAvailable :: "'w ext \<Rightarrow> 'w st \<Rightarrow> (bool \<times> 'w st) option" where
  "IsImageRegistryAvailable ext s =
     (if imageRegistryAlreadyChecked (globals s) then Some (isImageRegistryAvailable (globals s), s)
      else do { (r, s) \<leftarrow> Client_Get ext Namespace_t
                  \<lparr>NN_Namespace = '''', NN_Name = DefaultOpenShiftImageRegistryNamespace\<rparr> s;
                s \<leftarrow> (if (case r of Inl err \<Rightarrow> IsNotFound err | Inr _ \<Rightarrow> False)
                     then Some (set_globals (\<lambda>g. g\<lparr>isImageRegistryAvailable := False\<rparr>) s)
                     else do { let ns = (case r of Inl _ \<Rightarrow> '''' | Inr m \<Rightarrow> Meta_Name m);
                               (svc, s) \<leftarrow> Client_Get ext Service_t
                                  \<lparr>NN_Namespace = ns, NN_Name = ''image-registry''\<rparr> s;
                               if (case svc of Inl err \<Rightarrow> IsNotFound err | Inr _ \<Rightarrow> False)
                               then Some (set_globals (\<lambda>g. g\<lparr>isImageRegistryAvailable := False\<rparr>) s)
                               else do { let ip = (case svc of Inl _ \<Rightarrow> '''' | Inr x \<Rightarrow> Svc_ClusterIP x);
                                         Some (set_globals (\<lambda>g. g\<lparr>isImageRegistryAvailable :=
                                             (length ip \<noteq> 0 \<and> ip \<noteq> ''None''),
                                           imageRegistryAlreadyChecked := False\<rparr>) s) } });
                let s = (case r of
                           Inl err \<Rightarrow> if error_string err \<noteq> cache_not_started
                             then set_globals (\<lambda>g. g\<lparr>imageRegistryAlreadyChecked := False\<rparr>) s else s
                         | Inr _ \<Rightarrow> s);
                Some (isImageRegistryAvailable (globals s), s) })"

lemma IsImageRegistryAvailable_unchecked:
  assumes "\<not> imageRegistryAlreadyChecked (globals s)"
    and "IsImageRegistryAvailable ext s = Some (b, s')"
  shows "\<not> imageRegistryAlreadyChecked (globals s')" "calls s' \<noteq> calls s"
  using assms
  by (auto simp: IsImageRegistryAvailable_def Client_Get_def call_eq Let_def split: sum.splits if_splits)

section \<open>Properties\<close>

text \<open>
  The availability of an API group is asked at most once: for each of the three checks, any
  number of calls gives the same answer every time and sends one discovery request in all, or none
  when the answer is known already.
\<close>

theorem api_checks_ask_once:
  "\<exists>a b c s1 s2 s3.
     probes (IsRouteAPIAvailable ext) n s = Some (replicate n a, s1) \<and>
     probes (IsPrometheusAPIAvailable ext) n s = Some (replicate n b, s2) \<and>
     probes (IsOpenshiftProxyAPIAvailable ext) n s = Some (replicate n c, s3) \<and>
     calls s1 = calls s @ (if n = 0 \<or> RouteAPIChecked (globals s) then []
       else [ServerSupportsVersionReq ''route.openshift.io'' ''v1'']) \<and>
     calls s2 = calls s @ (if n = 0 \<or> PrometheusAPIChecked (globals s) then []
       else [ServerSupportsVersionReq ''monitoring.coreos.com'' ''v1'']) \<and>
     calls s3 = calls s @ (if n = 0 \<or> ProxyAPIChecked (globals s) then []
       else [ServerSupportsVersionReq ''config.openshift.io'' ''v1''])"
  using route_api.probes_once [of ext n s] prometheus_api.probes_once [of ext n s]
    proxy_api.probes_once [of ext n s] by metis

text \<open>
  The image registry is asked for again on every call: \<open>imageRegistryAlreadyChecked\<close>, which
  starts as false, stays false, so each call sends at least one request.
\<close>

theorem image_registry_never_cached:
  assumes "\<not> imageRegistryAlreadyChecked (globals s)"
    and "probes (IsImageRegistryAvailable ext) n s = Some (bs, s')"
  shows "\<not> imageRegistryAlreadyChecked (globals s') \<and> length (calls s') \<ge> length (calls s) + n"
  using assms
proof (induction n arbitrary: s bs)
  case (Suc n)
  then obtain b s1 bs' where 1: "IsImageRegistryAvailable ext s = Some (b, s1)"
    and 2: "probes (IsImageRegistryAvailable ext) n s1 = Some (bs', s')"
    by (auto split: Option.bind_splits)
  have "length (calls s1) \<ge> length (calls s) + 1"
    using 1 Suc.prems(1)
    by (auto simp: IsImageRegistryAvailable_def Client_Get_def call_eq Let_def split: sum.splits if_splits)
  with Suc.IH [OF IsImageRegistryAvailable_unchecked(1) [OF Suc.prems(1) 1] 2] show ?case by simp
qed simp

theorem image_registry_never_cached_witness:
  "\<exists>bs s'. probes (IsImageRegistryAvailable (table_ext (\<lambda>_. Failed (ApiError NotFound '''')))) 3 (initial ())
     = Some (bs, s') \<and> \<not> imageRegistryAlreadyChecked (globals s') \<and> length (calls s') \<ge> 3"
proof -
  let ?x = "table_ext (\<lambda>_. Failed (ApiError NotFound ''''))"
  have step: "\<exists>s'. IsImageRegistryAvailable ?x s = Some (False, s') \<and> \<not> imageRegistryAlreadyChecked (globals s')"
    if "\<not> imageRegistryAlreadyChecked (globals s)" for s
    using that by (simp add: IsImageRegistryAvailable_def Client_Get_def call_eq Let_def)
  have total: "\<exists>bs s'. probes (IsImageRegistryAvailable ?x) n s = Some (bs, s')"
    if "\<not> imageRegistryAlreadyChecked (globals s)" for n s
    using that
  proof (induction n arbitrary: s)
    case (Suc n)
    from step [OF Suc.prems] obtain s1 where 1: "IsImageRegistryAvailable ?x s = Some (False, s1)"
      "\<not> imageRegistryAlreadyChecked (globals s1)" by blast
    from Suc.IH [OF 1(2)] show ?case by (auto simp: 1(1))
  qed simp
  have init: "\<not> imageRegistryAlreadyChecked (globals (initial ()))" by (simp add: initial_globals_def)
  obtain bs s' where run: "probes (IsImageRegistryAvailable ?x) 3 (initial ()) = Some (bs, s')"
    using total [OF init] by blast
  from image_registry_never_cached [OF init run] run show ?thesis by auto
qed

end
