(* ===== verification/Pod_Spec.thy ===== *)
theory Pod_Spec
  imports Spec_Defaults Backup_Controller Cluster_APIs
begin

text \<open>
  \<open>resources/pod.go\<close> and \<open>resources/deployment.go\<close>: the deployment of the Jenkins pod, its containers,
  init containers and volumes.  A function that reads through \<open>jenkins.Status.Spec.Master\<close> is partial,
  as the Go code panics on a \<open>nil\<close> pointer or an empty container list.
\<close>

section \<open>Names\<close>

definition JenkinsSideCarImageEnvVar :: string where "JenkinsSideCarImageEnvVar = ''JENKINS_SIDECAR_IMAGE''"
definition JenkinsBackupImageEnvVar :: string where "JenkinsBackupImageEnvVar = ''JENKINS_BACKUP_IMAGE''"
definition JenkinsHomeVolumeName :: string where "JenkinsHomeVolumeName = ''jenkins-home''"
definition jenkinsPath :: string where "jenkinsPath = ''/var/jenkins''"
definition jenkinsScriptsVolumeName :: string where "jenkinsScriptsVolumeName = ''scripts''"
definition JenkinsScriptsVolumePath :: string where "JenkinsScriptsVolumePath = jenkinsPath @ ''/scripts''"
definition InitScriptName :: string where "InitScriptName = ''init.sh''"
definition basePluginsVolumeName :: string where "basePluginsVolumeName = ''base-plugins''"
definition basePluginsFileName :: string where "basePluginsFileName = ''base-plugins''"
definition BasePluginsVolumePath :: string where
  "BasePluginsVolumePath = jenkinsPath @ ''/'' @ basePluginsFileName"
definition jenkinsOperatorCredentialsVolumeName :: string where
  "jenkinsOperatorCredentialsVolumeName = ''operator-credentials''"
definition jenkinsOperatorCredentialsVolumePath :: string where
  "jenkinsOperatorCredentialsVolumePath = jenkinsPath @ ''/operator-credentials''"
definition jenkinsInitConfigurationVolumeName :: string where
  "jenkinsInitConfigurationVolumeName = ''init-configuration''"
definition jenkinsInitConfigurationVolumePath :: string where
  "jenkinsInitConfigurationVolumePath = jenkinsPath @ ''/init-configuration''"
definition ConfigurationAsCodeVolumeName :: string where "ConfigurationAsCodeVolumeName = ''casc-config''"
definition ConfigurationAsCodeVolumePath :: string where
  "ConfigurationAsCodeVolumePath = jenkinsPath @ ''/configuration-as-code''"
definition ConfigurationAsCodeSecretVolumeName :: string where
  "ConfigurationAsCodeSecretVolumeName = ''casc-secret''"
definition ConfigurationAsCodeSecretVolumePath :: string where
  "ConfigurationAsCodeSecretVolumePath = ''/tmp'' @ ''/configuration-as-code-secrets''"
definition httpPortName :: string where "httpPortName = ''http''"
definition jnlpPortName :: string where "jnlpPortName = ''jnlp''"
definition JenkinsDefaultConfigMapName :: string where
  "JenkinsDefaultConfigMapName = ''jenkins-default-configuration''"
definition ConfigSidecarName :: string where "ConfigSidecarName = ''config''"
definition ConfigInitContainerName :: string where "ConfigInitContainerName = ''config-init''"
definition PluginsInitContainerName :: string where "PluginsInitContainerName = ''plugins-init''"
definition BackupSidecarName :: string where "BackupSidecarName = ''backup''"
definition BackupInitContainerName :: string where "BackupInitContainerName = ''backup-init''"
definition JenkinsSCConfigReqURL :: string where
  "JenkinsSCConfigReqURL = ''http://localhost:8080/reload-configuration-as-code/?casc-reload-token=$(POD_NAME)''"
definition JenkinsSCConfigReqMethod :: string where "JenkinsSCConfigReqMethod = ''POST''"
definition JenkinsSCConfigReqRetry :: string where "JenkinsSCConfigReqRetry = ''10''"
definition JenkinsSCConfigLabel :: string where "JenkinsSCConfigLabel = ''type''"
definition JenkinsSCConfigLabelValue :: "string \<Rightarrow> string" where
  "JenkinsSCConfigLabelValue n = n @ ''-jenkins-config''"
definition JenkinsBackupVolumeMountName :: string where "JenkinsBackupVolumeMountName = ''backup-pool''"
definition ScriptsVolumeMountName :: string where "ScriptsVolumeMountName = ''helper-scripts''"
definition SidecarCPULimit :: string where "SidecarCPULimit = ''100m''"
definition SidecarMEMLimit :: string where "SidecarMEMLimit = ''100Mi''"
definition SidecarCPURequest :: string where "SidecarCPURequest = ''50m''"
definition SidecarMEMRequest :: string where "SidecarMEMRequest = ''50Mi''"
definition backupVolumeSuffix :: string where "backupVolumeSuffix = ''-jenkins-backup''"

definition GetJenkinsBackupPoolName :: "string \<Rightarrow> string" where
  "GetJenkinsBackupPoolName bv = bv @ ''-'' @ JenkinsBackupVolumeMountName"

definition GetJenkinsBackupPVCName :: "string \<Rightarrow> string" where
  "GetJenkinsBackupPVCName bv = bv @ backupVolumeSuffix"

definition getJenkinsBackupVolumePath :: "string \<Rightarrow> string" where
  "getJenkinsBackupVolumePath bv = path_Join [JenkinsBackupVolumePath, bv]"

definition casc_default_volume :: string where
  "casc_default_volume = ''casc-default-'' @ JenkinsDefaultConfigMapName"

definition casc_init_volume :: "ConfigMapRef \<Rightarrow> string" where
  "casc_init_volume cm = ''casc-init-'' @ ConfigMapRef_Name cm"

section \<open>Volumes and mounts\<close>

definition getEmptyDirVolume :: "string \<Rightarrow> Volume" where
  "getEmptyDirVolume n = (empty_volume n)\<lparr>Vol_EmptyDir := True\<rparr>"

text \<open>The mode is octal 0644 unless one is given.\<close>

definition getConfigMapVolume :: "string \<Rightarrow> string \<Rightarrow> int32 list \<Rightarrow> Volume" where
  "getConfigMapVolume n configMapName mode =
     (empty_volume n)\<lparr>Vol_ConfigMap := Some \<lparr>CMVol_Name = configMapName,
        CMVol_DefaultMode = Some (case mode of [] \<Rightarrow> 420 | m # _ \<Rightarrow> m),
        CMVol_Optional = None, CMVol_Items = ''''\<rparr>\<rparr>"

definition getSecretVolume :: "string \<Rightarrow> string \<Rightarrow> Volume" where
  "getSecretVolume n secretName =
     (empty_volume n)\<lparr>Vol_Secret := Some \<lparr>SecVol_SecretName = secretName, SecVol_DefaultMode = Some 420,
        SecVol_Optional = None, SecVol_Items = ''''\<rparr>\<rparr>"

definition getPVCVolume :: "string \<Rightarrow> string \<Rightarrow> Volume" where
  "getPVCVolume n claimName =
     (empty_volume n)\<lparr>Vol_PVC := Some \<lparr>PVCVol_ClaimName = claimName, PVCVol_ReadOnly = False\<rparr>\<rparr>"

definition getSubPathVolumeMount :: "string \<Rightarrow> string \<Rightarrow> string \<Rightarrow> bool \<Rightarrow> VolumeMount" where
  "getSubPathVolumeMount n mountPath subPath readOnly =
     \<lparr>Mount_Name = n, Mount_ReadOnly = readOnly, Mount_MountPath = mountPath, Mount_SubPath = subPath,
      Mount_Other = ''''\<rparr>"

definition getVolumeMount :: "string \<Rightarrow> string \<Rightarrow> bool \<Rightarrow> VolumeMount" where
  "getVolumeMount n mountPath readOnly =
     \<lparr>Mount_Name = n, Mount_ReadOnly = readOnly, Mount_MountPath = mountPath, Mount_SubPath = '''',
      Mount_Other = ''''\<rparr>"

text \<open>The volumes for configuration as code, lines 177 to 197.\<close>

definition casc_volumes :: "Jenkins \<Rightarrow> Volume list" where
  "casc_volumes j =
     (case Option.bind (status_spec j) Spec_ConfigurationAsCode of
        None \<Rightarrow> []
      | Some casc \<Rightarrow>
          if CasC_Enabled casc
          then [getEmptyDirVolume ConfigurationAsCodeVolumeName] @
            (if CasC_DefaultConfig casc
             then [getConfigMapVolume casc_default_volume JenkinsDefaultConfigMapName []] else []) @
            map (\<lambda>cm. getConfigMapVolume (casc_init_volume cm) (ConfigMapRef_Name cm) []) (CasC_Configurations casc) @
            (if length (SecretRef_Name (CasC_Secret casc)) > 0
             then [getSecretVolume ConfigurationAsCodeSecretVolumeName (SecretRef_Name (CasC_Secret casc))] else [])
          else [])"

definition GetJenkinsMasterPodBaseVolumes :: "Jenkins \<Rightarrow> Volume list" where
  "GetJenkinsMasterPodBaseVolumes j =
     [getConfigMapVolume jenkinsScriptsVolumeName (getScriptsConfigMapName j) [511],
      getConfigMapVolume jenkinsInitConfigurationVolumeName (GetInitConfigurationConfigMapName j) [],
      getConfigMapVolume basePluginsVolumeName (GetBasePluginsVolumeNameConfigMapName j) [],
      getSecretVolume jenkinsOperatorCredentialsVolumeName (GetOperatorCredentialsSecretName j)] @
     (if Persistent_Enabled (Spec_PersistentSpec (Jenkins_Spec j))
      then [getPVCVolume JenkinsHomeVolumeName (jenkins_name j)]
      else [getEmptyDirVolume JenkinsHomeVolumeName]) @
     map (\<lambda>bv. getPVCVolume bv (bv @ ''-jenkins-backup'')) (Spec_BackupVolumes (Jenkins_Spec j)) @
     casc_volumes j"

definition GetJenkinsMasterContainerBaseVolumeMounts :: "Jenkins \<Rightarrow> JenkinsSpec \<Rightarrow> VolumeMount list option" where
  "GetJenkinsMasterContainerBaseVolumeMounts j spec =
     do { home \<leftarrow> getJenkinsHomePath j;
          Some ([getVolumeMount JenkinsHomeVolumeName home False,
                 getVolumeMount jenkinsScriptsVolumeName JenkinsScriptsVolumePath True,
                 getVolumeMount jenkinsInitConfigurationVolumeName jenkinsInitConfigurationVolumePath True,
                 getSubPathVolumeMount basePluginsVolumeName BasePluginsVolumePath basePluginsFileName False] @
                (case Spec_ConfigurationAsCode spec of
                   None \<Rightarrow> []
                 | Some casc \<Rightarrow>
                     if CasC_Enabled casc
                     then [getVolumeMount ConfigurationAsCodeVolumeName ConfigurationAsCodeVolumePath False] @
                       (if length (SecretRef_Name (CasC_Secret casc)) > 0
                        then [getVolumeMount ConfigurationAsCodeSecretVolumeName
                                ConfigurationAsCodeSecretVolumePath False] else [])
                     else [])) }"

section \<open>The Jenkins container\<close>

definition EnvFieldRef :: "string \<Rightarrow> string \<Rightarrow> string \<Rightarrow> EnvVar" where
  "EnvFieldRef n v path = \<lparr>Env_Name = n, Env_Value = '''',
     Env_ValueFrom = Some (FieldRef \<lparr>FieldRef_APIVersion = v, FieldRef_FieldPath = path\<rparr>)\<rparr>"

definition GetJenkinsMasterContainerBaseEnvs :: "Jenkins \<Rightarrow> EnvVar list option" where
  "GetJenkinsMasterContainerBaseEnvs j =
     do { home \<leftarrow> getJenkinsHomePath j;
          spec \<leftarrow> status_spec j;
          Some ([EnvFieldRef ''POD_NAME'' ''v1'' ''metadata.name'',
                 EnvValue ''OPENSHIFT_ENABLE_OAUTH'' ''true'',
                 EnvValue ''JENKINS_SERVICE_NAME'' (GetJenkinsHTTPServiceName j),
                 EnvValue ''JNLP_SERVICE_NAME'' (GetJenkinsJNLPServiceName j),
                 EnvValue ''OPENSHIFT_ENABLE_REDIRECT_PROMPT'' ''true'',
                 EnvValue ''COPY_REFERENCE_FILE_LOG'' (home @ ''/'' @ ''copy_reference_file.log'')] @
                (case Spec_ConfigurationAsCode spec of
                   None \<Rightarrow> []
                 | Some casc \<Rightarrow>
                     (if length (SecretRef_Name (CasC_Secret casc)) > 0
                      then [EnvValue ''SECRETS'' ConfigurationAsCodeSecretVolumePath] else []) @
                     (if CasC_Enabled casc
                      then [EnvValue ''CASC_JENKINS_CONFIG'' ConfigurationAsCodeVolumePath] else []))) }"

definition GetTCPContainerPort :: "string \<Rightarrow> int32 \<Rightarrow> ContainerPort" where
  "GetTCPContainerPort portName portNumber =
     \<lparr>Port_Name = portName, Port_ContainerPort = portNumber, Port_Protocol = ''TCP'', Port_Host = ''''\<rparr>"

definition GetJenkinsContainer :: "Jenkins \<Rightarrow> Container \<Rightarrow> EnvVar list \<Rightarrow> KContainer option" where
  "GetJenkinsContainer j c envs =
     do { spec \<leftarrow> status_spec j;
          mounts \<leftarrow> GetJenkinsMasterContainerBaseVolumeMounts j spec;
          let lifecycle = (if Spec_ForceBasePluginsInstall (Jenkins_Spec j)
                then \<lparr>PostStart = Some (ExecAction [''bash'', ''-c'', JenkinsScriptsVolumePath @ ''/'' @ InitScriptName]),
                      PreStop = None\<rparr>
                else \<lparr>PostStart = None, PreStop = None\<rparr>);
          Some (empty_container\<lparr>KC_Name := JenkinsMasterContainerName, KC_Image := Container_Image c,
                  KC_Lifecycle := Some lifecycle, KC_ImagePullPolicy := Container_ImagePullPolicy c,
                  KC_LivenessProbe := Container_LivenessProbe c, KC_ReadinessProbe := Container_ReadinessProbe c,
                  KC_Ports := [GetTCPContainerPort httpPortName DefaultHTTPPortInt32,
                               GetTCPContainerPort jnlpPortName DefaultJNLPPortInt32],
                  KC_SecurityContext := Container_SecurityContext c, KC_Env := envs,
                  KC_Resources := Container_Resources c, KC_VolumeMounts := mounts @ Container_VolumeMounts c,
                  KC_Command := Container_Command c\<rparr>) }"

text \<open>The package variable \<open>ProxyEnvVars\<close> is cleaned where it is used, so it is threaded through.\<close>

definition NewJenkinsMasterContainer :: "Jenkins \<Rightarrow> Globals \<Rightarrow> (KContainer \<times> Globals) option" where
  "NewJenkinsMasterContainer j g =
     do { spec \<leftarrow> status_spec j;
          c \<leftarrow> first_container spec;
          base \<leftarrow> GetJenkinsMasterContainerBaseEnvs j;
          home \<leftarrow> getJenkinsHomePath j;
          let envs = base @ Container_Env c;
          let envs = (if list_ex (\<lambda>e. Env_Name e = ''JENKINS_HOME'') (Container_Env c) then envs
                      else envs @ [EnvValue ''JENKINS_HOME'' home]);
          let useProxy = (Spec_ProxyConfigurationEnabled (Jenkins_Spec j) \<and> \<not> IsProxyOverridden envs);
          let g = (if useProxy then g\<lparr>ProxyEnvVars := dropEmptyProxyEnv (ProxyEnvVars g)\<rparr> else g);
          let envs = (if useProxy then envs @ ProxyEnvVars g else envs);
          k \<leftarrow> GetJenkinsContainer j c envs;
          Some (k, g) }"

section \<open>Side containers\<close>

definition getJenkinsSideCarImage :: "'w ext \<Rightarrow> string" where
  "getJenkinsSideCarImage ext =
     (let img = Getenv ext JenkinsSideCarImageEnvVar in if length img = 0 then DefaultJenkinsSideCarImage else img)"

definition getJenkinsBackupImage :: "'w ext \<Rightarrow> string" where
  "getJenkinsBackupImage ext =
     (let img = Getenv ext JenkinsBackupImageEnvVar in if length img = 0 then DefaultJenkinsBackupImage else img)"

definition sidecar_resources :: ResourceRequirements where
  "sidecar_resources = GetResourceRequirements SidecarCPURequest SidecarMEMRequest SidecarCPULimit SidecarMEMLimit"

text \<open>The variables that come from the map \<open>envs\<close> follow POD_NAME in any order.\<close>

definition NewJenkinsConfigContainer :: "'w ext \<Rightarrow> Jenkins \<Rightarrow> KContainer option" where
  "NewJenkinsConfigContainer ext j =
     do { home \<leftarrow> getJenkinsHomePath j;
          let envs = [(''LABEL'', JenkinsSCConfigLabel),
                      (''LABEL_VALUE'', JenkinsSCConfigLabelValue (jenkins_name j)),
                      (''FOLDER'', ConfigurationAsCodeVolumePath),
                      (''REQ_URL'', JenkinsSCConfigReqURL),
                      (''REQ_METHOD'', JenkinsSCConfigReqMethod),
                      (''REQ_RETRY_CONNECT'', JenkinsSCConfigReqRetry)];
          Some (empty_container\<lparr>KC_Name := ConfigSidecarName, KC_Image := getJenkinsSideCarImage ext,
                  KC_ImagePullPolicy := PullIfNotPresent,
                  KC_Env := EnvFieldRef ''POD_NAME'' '''' ''metadata.name'' # map (\<lambda>(k, v). EnvValue k v) envs,
                  KC_Resources := sidecar_resources,
                  KC_VolumeMounts :=
                    [getVolumeMount ConfigurationAsCodeVolumeName ConfigurationAsCodeVolumePath False,
                     getVolumeMount JenkinsHomeVolumeName home True,
                     getVolumeMount jenkinsScriptsVolumeName JenkinsScriptsVolumePath True]\<rparr>) }"

definition pool_mount :: "string \<Rightarrow> VolumeMount" where
  "pool_mount bv = getVolumeMount (GetJenkinsBackupPoolName bv) (getJenkinsBackupVolumePath bv) False"

definition NewJenkinsBackupContainer :: "'w ext \<Rightarrow> Jenkins \<Rightarrow> KContainer option" where
  "NewJenkinsBackupContainer ext j =
     do { home \<leftarrow> getJenkinsHomePath j;
          Some (empty_container\<lparr>KC_Name := BackupSidecarName, KC_Image := getJenkinsBackupImage ext,
                  KC_ImagePullPolicy := PullIfNotPresent,
                  KC_Command := Some [''/bin/sh'', ''-c'', ''--''],
                  KC_Args := Some [''while true; do sleep 30; done;''],
                  KC_VolumeMounts :=
                    [getVolumeMount ScriptsVolumeMountName ScriptsVolumePath False,
                     getVolumeMount JenkinsHomeVolumeName home False] @
                    map pool_mount (Spec_BackupVolumes (Jenkins_Spec j)),
                  KC_Stdin := True, KC_TTY := True\<rparr>) }"

definition init_container :: "string \<Rightarrow> Container \<Rightarrow> string list \<Rightarrow> VolumeMount list \<Rightarrow> KContainer" where
  "init_container n c command mounts =
     empty_container\<lparr>KC_Name := n, KC_Image := Container_Image c,
       KC_ImagePullPolicy := Container_ImagePullPolicy c, KC_Command := Some command,
       KC_Resources := sidecar_resources, KC_VolumeMounts := mounts\<rparr>"

definition NewJenkinsPluginsInitContainer :: "JenkinsSpec \<Rightarrow> KContainer option" where
  "NewJenkinsPluginsInitContainer spec =
     do { c \<leftarrow> first_container spec;
          Some (init_container PluginsInitContainerName c [''bash'', ''-c'', ''ls'']
            [getVolumeMount jenkinsScriptsVolumeName JenkinsScriptsVolumePath False,
             getVolumeMount basePluginsVolumeName BasePluginsVolumePath False]) }"

definition config_init_command :: string where
  "config_init_command = ''if [ `ls '' @ jenkinsPath @ ''/casc-* > /dev/null 2>&1; echo $?` -eq 0 ]; then find ''
     @ jenkinsPath @ ''/casc-* -type f -exec cp -fL {} '' @ ConfigurationAsCodeVolumePath @ '' '' @ [CHR 92]
     @ '';; fi''"

definition NewJenkinsConfigInitContainer :: "JenkinsSpec \<Rightarrow> KContainer option" where
  "NewJenkinsConfigInitContainer spec =
     do { c \<leftarrow> first_container spec;
          let casc = Spec_ConfigurationAsCode spec;
          Some (init_container ConfigInitContainerName c [''bash'', ''-c'', config_init_command]
            ([getVolumeMount ConfigurationAsCodeVolumeName ConfigurationAsCodeVolumePath False] @
             (if (case casc of None \<Rightarrow> True | Some k \<Rightarrow> CasC_DefaultConfig k)
              then [getVolumeMount casc_default_volume (jenkinsPath @ ''/'' @ casc_default_volume) False] else []) @
             (case casc of
                None \<Rightarrow> []
              | Some k \<Rightarrow>
                  if CasC_Enabled k
                  then map (\<lambda>cm. getVolumeMount (casc_init_volume cm) (jenkinsPath @ ''/'' @ casc_init_volume cm) False)
                    (CasC_Configurations k)
                  else []))) }"

text \<open>One helper script of the backup init container, as the template prints it.\<close>

definition helper_script :: "string \<Rightarrow> string \<Rightarrow> string" where
  "helper_script path action =
     (let bs = [CHR 92]; heredoc = action @ ''heredoc'' in
      ''cat > '' @ path @ '' << '' @ heredoc @ newline @
      ''SERVER=http://localhost:8080'' @ newline @
      ''CRUMB='' @ bs @ ''$(curl --user '' @ bs @ ''$USER:'' @ bs @ ''$APITOKEN '' @ bs @
        ''$SERVER/crumbIssuer/api/xml?xpath=concat'' @ bs @ ''(//crumbRequestField,%22:%22,//crumb'' @ bs @ '')) '' @ newline @
      ''curl -X POST --user '' @ bs @ ''$USER:'' @ bs @ ''$APITOKEN -H '' @ [CHR 34] @ bs @ ''$CRUMB'' @ [CHR 34] @ '' '' @
        bs @ ''$SERVER/'' @ action @ newline @
      heredoc @ newline)"

definition backup_init_command :: string where
  "backup_init_command =
     helper_script QuietDownScriptPath ''quietDown'' @ newline @
     helper_script CancelQuietDownScriptPath ''cancelQuietDown'' @ '' '' @ newline @
     helper_script RestartScriptPath ''restart'' @ newline @
     helper_script SafeRestartScriptPath ''safeRestart'' @ newline"

definition NewJenkinsBackupInitContainer :: "JenkinsSpec \<Rightarrow> KContainer option" where
  "NewJenkinsBackupInitContainer spec =
     do { c \<leftarrow> first_container spec;
          Some (init_container BackupInitContainerName c [''bash'', ''-c'', backup_init_command]
            ([getVolumeMount ScriptsVolumeMountName ScriptsVolumePath False] @
             map pool_mount (Spec_BackupVolumes spec))) }"

definition convertJenkinsContainerToKubernetesContainer :: "Container \<Rightarrow> KContainer" where
  "convertJenkinsContainerToKubernetesContainer c =
     \<lparr>KC_Name = Container_Name c, KC_Image = Container_Image c, KC_Command = Container_Command c,
      KC_Args = Container_Args c, KC_WorkingDir = Container_WorkingDir c, KC_Ports = Container_Ports c,
      KC_EnvFrom = Container_EnvFrom c, KC_Env = Container_Env c, KC_Resources = Container_Resources c,
      KC_VolumeMounts = Container_VolumeMounts c, KC_LivenessProbe = Container_LivenessProbe c,
      KC_ReadinessProbe = Container_ReadinessProbe c, KC_Lifecycle = Container_Lifecycle c,
      KC_ImagePullPolicy = Container_ImagePullPolicy c, KC_SecurityContext = Container_SecurityContext c,
      KC_Stdin = False, KC_TTY = False\<rparr>"

section \<open>The pod\<close>

text \<open>The slice \<open>spec.Master.Containers[1:]\<close> of an empty list panics.\<close>

definition newContainers ::
  "'w ext \<Rightarrow> Jenkins \<Rightarrow> JenkinsSpec \<Rightarrow> Globals \<Rightarrow> (KContainer list \<times> Globals) option" where
  "newContainers ext j spec g =
     do { (master, g) \<leftarrow> NewJenkinsMasterContainer j g;
          casc \<leftarrow> (case Spec_ConfigurationAsCode spec of
              None \<Rightarrow> Some []
            | Some k \<Rightarrow>
                do { config \<leftarrow> (if CasC_Enabled k \<and> CasC_EnableAutoReload k
                       then map_option (\<lambda>c. [c]) (NewJenkinsConfigContainer ext j) else Some []);
                     m \<leftarrow> Spec_Master spec;
                     _ \<leftarrow> first_container spec;
                     Some (config @ map convertJenkinsContainerToKubernetesContainer (tl (Master_Containers m))) });
          backup \<leftarrow> (if length (Spec_BackupVolumes spec) > 0
                     then map_option (\<lambda>c. [c]) (NewJenkinsBackupContainer ext j) else Some []);
          Some (master # casc @ backup, g) }"

definition newInitContainers :: "JenkinsSpec \<Rightarrow> KContainer list option" where
  "newInitContainers spec =
     do { plugins \<leftarrow> NewJenkinsPluginsInitContainer spec;
          config \<leftarrow> (if (case Spec_ConfigurationAsCode spec of None \<Rightarrow> True | Some k \<Rightarrow> CasC_Enabled k)
                     then map_option (\<lambda>c. [c]) (NewJenkinsConfigInitContainer spec) else Some []);
          backup \<leftarrow> (if length (Spec_BackupVolumes spec) > 0
                     then map_option (\<lambda>c. [c]) (NewJenkinsBackupInitContainer spec) else Some []);
          Some (plugins # config @ backup) }"

definition getJenkinsVolumes :: "Jenkins \<Rightarrow> JenkinsSpec \<Rightarrow> Volume list option" where
  "getJenkinsVolumes j spec =
     do { m \<leftarrow> Spec_Master spec;
          let backupVolumeNames = Spec_BackupVolumes (Jenkins_Spec j);
          Some (GetJenkinsMasterPodBaseVolumes j @ Master_Volumes m @
            (if length backupVolumeNames > 0
             then map (\<lambda>bv. getPVCVolume (GetJenkinsBackupPoolName bv) (GetJenkinsBackupPVCName bv)) backupVolumeNames
               @ [getEmptyDirVolume ScriptsVolumeMountName]
             else [])) }"

definition NewJenkinsDeployment ::
  "'w ext \<Rightarrow> ObjectMeta \<Rightarrow> Jenkins \<Rightarrow> JenkinsSpec \<Rightarrow> Globals \<Rightarrow> (Deployment \<times> Globals) option" where
  "NewJenkinsDeployment ext objectMeta j spec g =
     do { m \<leftarrow> Spec_Master spec;
          let serviceAccountName = Meta_Name objectMeta;
          let objectMeta = objectMeta\<lparr>Meta_Annotations := Master_Annotations m,
                Meta_Name := GetJenkinsDeploymentName j\<rparr>;
          inits \<leftarrow> newInitContainers spec;
          (containers, g) \<leftarrow> newContainers ext j spec g;
          volumes \<leftarrow> getJenkinsVolumes j spec;
          Some (\<lparr>Depl_Meta = empty_meta\<lparr>Meta_Name := Meta_Name objectMeta,
                   Meta_Namespace := Meta_Namespace objectMeta, Meta_Labels := Meta_Labels objectMeta\<rparr>,
                 Depl_Replicas = Some 1, Depl_StrategyType = ''RollingUpdate'',
                 Depl_TemplateMeta = objectMeta,
                 Depl_TemplateSpec = \<lparr>Pod_ServiceAccountName = serviceAccountName,
                   Pod_NodeSelector = Master_NodeSelector m, Pod_InitContainers = inits,
                   Pod_Containers = containers, Pod_Volumes = volumes,
                   Pod_SecurityContext = Master_SecurityContext m,
                   Pod_ImagePullSecrets = Master_ImagePullSecrets m,
                   Pod_Tolerations = Master_Tolerations m,
                   Pod_PriorityClassName = Master_PriorityClassName m, Pod_RestartPolicy = ''''\<rparr>,
                 Depl_Selector = Some \<lparr>MatchLabels = Meta_Labels objectMeta, MatchExpressions = ''''\<rparr>,
                 Depl_AvailableReplicas = 0, Depl_Status = ''''\<rparr>, g) }"

section \<open>Lemmas\<close>

lemma Vol_Name_simps [simp]:
  "Vol_Name (getEmptyDirVolume n) = n" "Vol_Name (getConfigMapVolume n c m) = n"
  "Vol_Name (getSecretVolume n x) = n" "Vol_Name (getPVCVolume n y) = n"
  by (simp_all add: getEmptyDirVolume_def getConfigMapVolume_def getSecretVolume_def getPVCVolume_def empty_volume_def)

lemma Mount_simps [simp]:
  "Mount_Name (getVolumeMount n p r) = n" "Mount_MountPath (getVolumeMount n p r) = p"
  "Mount_Name (getSubPathVolumeMount n p q r) = n" "Mount_MountPath (getSubPathVolumeMount n p q r) = p"
  "Mount_Name (pool_mount bv) = GetJenkinsBackupPoolName bv"
  "Mount_MountPath (pool_mount bv) = getJenkinsBackupVolumePath bv"
  by (simp_all add: getVolumeMount_def getSubPathVolumeMount_def pool_mount_def)

lemma EnvValue_simps [simp]:
  "Env_Name (EnvValue n v) = n" "Env_Value (EnvValue n v) = v" "Env_Name (EnvFieldRef n v p) = n"
  by (simp_all add: EnvValue_def EnvFieldRef_def)

lemma init_container_simps [simp]:
  "KC_Name (init_container n c cmd ms) = n" "KC_VolumeMounts (init_container n c cmd ms) = ms"
  by (simp_all add: init_container_def)

lemma first_container_cases:
  "first_container spec = Some c \<longleftrightarrow> (\<exists>m cs. Spec_Master spec = Some m \<and> Master_Containers m = c # cs)"
  by (auto simp: first_container_def split: Option.bind_splits list.splits)

definition volume_names :: "Volume list \<Rightarrow> string set" where
  "volume_names vs = Vol_Name ` set vs"

definition mount_names :: "VolumeMount list \<Rightarrow> string set" where
  "mount_names ms = Mount_Name ` set ms"

lemma mount_names_simps [simp]:
  "mount_names [] = {}" "mount_names (m # ms) = insert (Mount_Name m) (mount_names ms)"
  "mount_names (ms @ ms') = mount_names ms \<union> mount_names ms'"
  "mount_names (map pool_mount bvs) = GetJenkinsBackupPoolName ` set bvs"
  by (simp_all add: mount_names_def image_Un image_image)

text \<open>The volumes the operator mounts, as a set of names.\<close>

definition base_names :: "string set" where
  "base_names = {JenkinsHomeVolumeName, jenkinsScriptsVolumeName, jenkinsInitConfigurationVolumeName,
     basePluginsVolumeName}"

definition casc_names :: "Configuration \<Rightarrow> string set" where
  "casc_names k = {ConfigurationAsCodeVolumeName} \<union> (if CasC_DefaultConfig k then {casc_default_volume} else {}) \<union>
     casc_init_volume ` set (CasC_Configurations k) \<union>
     (if SecretRef_Name (CasC_Secret k) \<noteq> '''' then {ConfigurationAsCodeSecretVolumeName} else {})"

definition backup_names :: "string list \<Rightarrow> string set" where
  "backup_names bvs = (if bvs = [] then {} else insert ScriptsVolumeMountName (GetJenkinsBackupPoolName ` set bvs))"

lemmas name_sets = base_names_def casc_names_def backup_names_def

lemma getJenkinsVolumes_names:
  assumes "getJenkinsVolumes j spec = Some vs" and "status_spec j = Some spec"
    and "Spec_ConfigurationAsCode spec = Some k"
  shows "base_names \<union> (if CasC_Enabled k then casc_names k else {}) \<union> backup_names (Spec_BackupVolumes (Jenkins_Spec j))
    \<subseteq> volume_names vs"
  using assms
  by (auto simp: getJenkinsVolumes_def GetJenkinsMasterPodBaseVolumes_def casc_volumes_def name_sets
      volume_names_def image_Un image_image Let_def elim!: bind_eq_Some_conv [THEN iffD1, elim_format])

lemma base_mounts:
  assumes "GetJenkinsMasterContainerBaseVolumeMounts j spec = Some ms" and "Spec_ConfigurationAsCode spec = Some k"
  shows "mount_names ms \<subseteq> base_names \<union> (if CasC_Enabled k then casc_names k else {})"
  using assms
  by (auto simp: GetJenkinsMasterContainerBaseVolumeMounts_def name_sets Option.bind_eq_Some_conv)

lemma master_container_parts:
  assumes "NewJenkinsMasterContainer j g = Some (k, g')"
  obtains spec c ms home base where "status_spec j = Some spec" "first_container spec = Some c"
    "GetJenkinsMasterContainerBaseVolumeMounts j spec = Some ms" "getJenkinsHomePath j = Some home"
    "GetJenkinsMasterContainerBaseEnvs j = Some base"
    "KC_VolumeMounts k = ms @ Container_VolumeMounts c" "KC_Name k = JenkinsMasterContainerName"
    "KC_Image k = Container_Image c"
    "\<exists>extra. KC_Env k = base @ Container_Env c @ (if list_ex (\<lambda>e. Env_Name e = ''JENKINS_HOME'') (Container_Env c)
        then [] else [EnvValue ''JENKINS_HOME'' home]) @ extra"
  using assms
  by (auto simp: NewJenkinsMasterContainer_def GetJenkinsContainer_def Let_def Option.bind_eq_Some_conv)

lemma first_container_member: "first_container spec = Some c \<Longrightarrow> \<exists>m. Spec_Master spec = Some m \<and> c \<in> set (Master_Containers m)"
  by (auto simp: first_container_cases)

definition user_mounts :: "JenkinsSpec \<Rightarrow> string set" where
  "user_mounts spec = (case Spec_Master spec of None \<Rightarrow> {}
     | Some m \<Rightarrow> (\<Union>c \<in> set (Master_Containers m). mount_names (Container_VolumeMounts c)))"

lemma user_mountsI: "Spec_Master spec = Some m \<Longrightarrow> c \<in> set (Master_Containers m) \<Longrightarrow>
    mount_names (Container_VolumeMounts c) \<subseteq> user_mounts spec"
  by (auto simp: user_mounts_def)

lemma convert_mounts [simp]:
  "KC_VolumeMounts (convertJenkinsContainerToKubernetesContainer c) = Container_VolumeMounts c"
  "KC_Name (convertJenkinsContainerToKubernetesContainer c) = Container_Name c"
  by (simp_all add: convertJenkinsContainerToKubernetesContainer_def)

lemma newContainers_mounts:
  assumes "newContainers ext j spec g = Some (ks, g')" and "status_spec j = Some spec"
    and "Spec_ConfigurationAsCode spec = Some casc" and "k \<in> set ks"
    and "Spec_BackupVolumes spec = Spec_BackupVolumes (Jenkins_Spec j)"
  shows "mount_names (KC_VolumeMounts k) \<subseteq> base_names \<union> (if CasC_Enabled casc then casc_names casc else {})
    \<union> backup_names (Spec_BackupVolumes (Jenkins_Spec j)) \<union> user_mounts spec"
proof -
  from assms(1,3) obtain master g1 config m backup where
    master: "NewJenkinsMasterContainer j g = Some (master, g1)"
    and config: "(if CasC_Enabled casc \<and> CasC_EnableAutoReload casc
        then map_option (\<lambda>c. [c]) (NewJenkinsConfigContainer ext j) else Some []) = Some config"
    and m: "Spec_Master spec = Some m"
    and backup: "(if length (Spec_BackupVolumes spec) > 0
        then map_option (\<lambda>c. [c]) (NewJenkinsBackupContainer ext j) else Some []) = Some backup"
    and ks: "ks = master # (config @ map convertJenkinsContainerToKubernetesContainer (tl (Master_Containers m))) @ backup"
    by (auto simp: newContainers_def Option.bind_eq_Some_conv simp del: map_option_eq_Some split del: if_split)
  from assms(4) consider "k = master" | "k \<in> set config"
    | c where "c \<in> set (Master_Containers m)" "k = convertJenkinsContainerToKubernetesContainer c" | "k \<in> set backup"
    unfolding ks by (auto dest: list.set_sel(2) [rotated]) (metis list.sel(2) list.set_sel(2))
  then show ?thesis
  proof cases
    case 1
    from master show ?thesis
      using assms(2,3) base_mounts [of j spec _ casc] user_mountsI [OF m]
      by (elim master_container_parts) (fastforce simp: 1 first_container_cases m)
  next
    case 2
    with config show ?thesis
      by (auto simp: NewJenkinsConfigContainer_def name_sets Option.bind_eq_Some_conv Let_def split: if_splits)
  next
    case (3 c)
    then show ?thesis using user_mountsI [OF m 3(1)] by auto
  next
    case 4
    with backup show ?thesis
      by (auto simp: NewJenkinsBackupContainer_def name_sets Option.bind_eq_Some_conv assms(5) split: if_splits)
  qed
qed


lemma newInitContainers_mounts:
  assumes "newInitContainers spec = Some ks" and "Spec_ConfigurationAsCode spec = Some casc" and "k \<in> set ks"
  shows "mount_names (KC_VolumeMounts k) \<subseteq> base_names \<union> (if CasC_Enabled casc then casc_names casc else {})
    \<union> backup_names (Spec_BackupVolumes spec)"
proof -
  from assms(1,2) obtain plugins config backup where
    plugins: "NewJenkinsPluginsInitContainer spec = Some plugins"
    and config: "(if CasC_Enabled casc then map_option (\<lambda>c. [c]) (NewJenkinsConfigInitContainer spec) else Some [])
        = Some config"
    and backup: "(if length (Spec_BackupVolumes spec) > 0
        then map_option (\<lambda>c. [c]) (NewJenkinsBackupInitContainer spec) else Some []) = Some backup"
    and ks: "ks = plugins # config @ backup"
    by (auto simp: newInitContainers_def Option.bind_eq_Some_conv simp del: map_option_eq_Some split del: if_split)
  from assms(3) consider "k = plugins" | "k \<in> set config" | "k \<in> set backup" unfolding ks by auto
  then show ?thesis
  proof cases
    case 1
    with plugins show ?thesis
      by (auto simp: NewJenkinsPluginsInitContainer_def name_sets Option.bind_eq_Some_conv)
  next
    case 2
    with config assms(2) show ?thesis
      by (auto simp: NewJenkinsConfigInitContainer_def name_sets mount_names_def image_Un image_image
          Option.bind_eq_Some_conv Let_def split: if_splits)
  next
    case 3
    with backup show ?thesis
      by (auto simp: NewJenkinsBackupInitContainer_def name_sets Option.bind_eq_Some_conv split: if_splits)
  qed
qed

lemma NewJenkinsDeployment_parts:
  assumes "NewJenkinsDeployment ext meta j spec g = Some (d, g')"
  obtains m inits containers volumes where "Spec_Master spec = Some m" "newInitContainers spec = Some inits"
    "newContainers ext j spec g = Some (containers, g')" "getJenkinsVolumes j spec = Some volumes"
    "Pod_InitContainers (Depl_TemplateSpec d) = inits" "Pod_Containers (Depl_TemplateSpec d) = containers"
    "Pod_Volumes (Depl_TemplateSpec d) = volumes" "Pod_ServiceAccountName (Depl_TemplateSpec d) = Meta_Name meta"
    "Meta_Name (Depl_Meta d) = GetJenkinsDeploymentName j" "Meta_Namespace (Depl_Meta d) = Meta_Namespace meta"
    "Meta_Labels (Depl_TemplateMeta d) = Meta_Labels meta" "Depl_Replicas d = Some 1"
    "Depl_Selector d = Some \<lparr>MatchLabels = Meta_Labels meta, MatchExpressions = ''''\<rparr>"
  using assms by (auto simp: NewJenkinsDeployment_def Option.bind_eq_Some_conv Let_def)

text \<open>Home path and base environment are defined on a specification with a first container.\<close>

lemma getJenkinsHomePath_Some:
  "status_spec j = Some spec \<Longrightarrow> first_container spec = Some c \<Longrightarrow>
   getJenkinsHomePath j = Some (case find (\<lambda>e. Env_Name e = ''JENKINS_HOME'') (Container_Env c) of
     None \<Rightarrow> ''/var/lib/jenkins'' | Some e \<Rightarrow> Env_Value e)"
  by (simp add: getJenkinsHomePath_def)

lemma base_envs_home:
  "GetJenkinsMasterContainerBaseEnvs j = Some base \<Longrightarrow> find (\<lambda>e. Env_Name e = ''JENKINS_HOME'') base = None"
  by (auto simp: GetJenkinsMasterContainerBaseEnvs_def find_append Option.bind_eq_Some_conv split: option.split)

lemma NewJenkinsMasterContainer_total:
  assumes "status_spec j = Some spec" and "first_container spec = Some c"
  shows "\<exists>k g'. NewJenkinsMasterContainer j g = Some (k, g')"
  using getJenkinsHomePath_Some [OF assms] assms
  by (simp add: NewJenkinsMasterContainer_def GetJenkinsMasterContainerBaseEnvs_def GetJenkinsContainer_def
      GetJenkinsMasterContainerBaseVolumeMounts_def Let_def)

lemma newContainers_total:
  assumes "status_spec j = Some spec" and "first_container spec = Some c"
  shows "\<exists>ks g'. newContainers ext j spec g = Some (ks, g')"
proof -
  obtain k g' where "NewJenkinsMasterContainer j g = Some (k, g')"
    using NewJenkinsMasterContainer_total [OF assms] by blast
  moreover obtain config where "NewJenkinsConfigContainer ext j = Some config"
    using getJenkinsHomePath_Some [OF assms] by (simp add: NewJenkinsConfigContainer_def)
  moreover obtain backup where "NewJenkinsBackupContainer ext j = Some backup"
    using getJenkinsHomePath_Some [OF assms] by (simp add: NewJenkinsBackupContainer_def)
  moreover obtain m where "Spec_Master spec = Some m"
    using assms(2) by (auto simp: first_container_cases)
  ultimately show ?thesis
    using assms(2) by (simp add: newContainers_def split: option.split)
qed

lemma newInitContainers_total:
  "first_container spec = Some c \<Longrightarrow> \<exists>ks. newInitContainers spec = Some ks"
  by (simp add: newInitContainers_def NewJenkinsPluginsInitContainer_def NewJenkinsConfigInitContainer_def
      NewJenkinsBackupInitContainer_def Let_def)

lemma getJenkinsVolumes_contains:
  "getJenkinsVolumes j spec = Some vs \<Longrightarrow> Spec_Master spec = Some m \<Longrightarrow>
   volume_names (GetJenkinsMasterPodBaseVolumes j @ Master_Volumes m) \<subseteq> volume_names vs"
  by (auto simp: getJenkinsVolumes_def volume_names_def image_Un Let_def)

lemma resolved_mounts:
  assumes "NewJenkinsDeployment ext meta j spec g = Some (d, g')"
    and "status_spec j = Some spec" and "Spec_ConfigurationAsCode spec \<noteq> None"
    and "Spec_BackupVolumes spec = Spec_BackupVolumes (Jenkins_Spec j)"
    and "k \<in> set (Pod_InitContainers (Depl_TemplateSpec d) @ Pod_Containers (Depl_TemplateSpec d))"
  shows "mount_names (KC_VolumeMounts k) \<subseteq> volume_names (Pod_Volumes (Depl_TemplateSpec d)) \<union> user_mounts spec"
proof -
  obtain casc where casc: "Spec_ConfigurationAsCode spec = Some casc" using assms(3) by blast
  obtain inits containers volumes where parts: "newInitContainers spec = Some inits"
    "newContainers ext j spec g = Some (containers, g')" "getJenkinsVolumes j spec = Some volumes"
    "Pod_InitContainers (Depl_TemplateSpec d) = inits" "Pod_Containers (Depl_TemplateSpec d) = containers"
    "Pod_Volumes (Depl_TemplateSpec d) = volumes"
    using NewJenkinsDeployment_parts [OF assms(1)] by metis
  note vols = getJenkinsVolumes_names [OF parts(3) assms(2) casc]
  from assms(5) parts consider "k \<in> set inits" | "k \<in> set containers" by auto
  then show ?thesis
  proof cases
    case 1
    show ?thesis using newInitContainers_mounts [OF parts(1) casc 1] vols by (auto simp: parts assms(4))
  next
    case 2
    show ?thesis using newContainers_mounts [OF parts(2) assms(2) casc 2 assms(4)] vols by (auto simp: parts)
  qed
qed

section \<open>Properties\<close>

text \<open>
  C7. No volume mount dangles: in the deployment built from the specification of the status, with
  configuration as code set and the backup volumes requested, every mount of every container and
  init container names a volume of the pod, or is one the user wrote in a container of his own.
\<close>

theorem deployment_mounts_resolve:
  assumes "NewJenkinsDeployment ext meta j spec g = Some (d, g')"
    and "status_spec j = Some spec" and "Spec_ConfigurationAsCode spec \<noteq> None"
    and "Spec_BackupVolumes spec = Spec_BackupVolumes (Jenkins_Spec j)"
    and "k \<in> set (Pod_InitContainers (Depl_TemplateSpec d) @ Pod_Containers (Depl_TemplateSpec d))"
  shows "mount_names (KC_VolumeMounts k) \<subseteq> volume_names (Pod_Volumes (Depl_TemplateSpec d)) \<union> user_mounts spec"
  by (rule resolved_mounts [OF assms])

text \<open>
  C16. Building the deployment does not panic: for a Jenkins whose status holds a complete
  specification, as \<open>getCalculatedSpec\<close> leaves it, there is a deployment.  It is named after the CR,
  has one replica, runs under the service account of the given metadata, its selector is the labels
  of its pods, and its first container is the Jenkins container.
\<close>

theorem NewJenkinsDeployment_total:
  assumes "status_spec j = Some spec" and "spec_complete spec"
  shows "\<exists>d g'. NewJenkinsDeployment ext meta j spec g = Some (d, g') \<and>
    Meta_Name (Depl_Meta d) = GetJenkinsDeploymentName j \<and> Depl_Replicas d = Some 1 \<and>
    Pod_ServiceAccountName (Depl_TemplateSpec d) = Meta_Name meta \<and>
    map_option MatchLabels (Depl_Selector d) = Some (Meta_Labels (Depl_TemplateMeta d)) \<and>
    map_option KC_Name (List.find (\<lambda>_. True) (Pod_Containers (Depl_TemplateSpec d))) = Some JenkinsMasterContainerName"
proof -
  obtain m c cs where m: "Spec_Master spec = Some m" "Master_Containers m = c # cs"
    using assms(2) by (auto simp: spec_complete_def)
  then have c: "first_container spec = Some c" by (simp add: first_container_cases)
  obtain inits where inits: "newInitContainers spec = Some inits" using newInitContainers_total [OF c] by blast
  obtain ks g1 where ks: "newContainers ext j spec g = Some (ks, g1)" using newContainers_total [OF assms(1) c] by blast
  then obtain k g2 ks' where k: "NewJenkinsMasterContainer j g = Some (k, g2)" "ks = k # ks'"
    by (auto simp: newContainers_def Option.bind_eq_Some_conv)
  then have "KC_Name k = JenkinsMasterContainerName" by (elim master_container_parts) simp
  with m(1) inits ks k(2) show ?thesis by (simp add: NewJenkinsDeployment_def getJenkinsVolumes_def Let_def)
qed

text \<open>
  C17. The Jenkins container has one home: the value its environment gives JENKINS_HOME is the path
  where the home volume is mounted, whether the user set it or not.
\<close>

theorem master_container_home:
  assumes "NewJenkinsMasterContainer j g = Some (k, g')"
  shows "\<exists>e m. find (\<lambda>e. Env_Name e = ''JENKINS_HOME'') (KC_Env k) = Some e \<and>
    find (\<lambda>m. Mount_Name m = JenkinsHomeVolumeName) (KC_VolumeMounts k) = Some m \<and>
    Env_Value e = Mount_MountPath m \<and> getJenkinsHomePath j = Some (Env_Value e)"
  using assms
proof (rule master_container_parts)
  fix spec c ms home base
  assume spec: "status_spec j = Some spec" "first_container spec = Some c"
    and ms: "GetJenkinsMasterContainerBaseVolumeMounts j spec = Some ms" and home: "getJenkinsHomePath j = Some home"
    and base: "GetJenkinsMasterContainerBaseEnvs j = Some base"
    and mounts: "KC_VolumeMounts k = ms @ Container_VolumeMounts c"
    and env: "\<exists>extra. KC_Env k = base @ Container_Env c @
      (if list_ex (\<lambda>e. Env_Name e = ''JENKINS_HOME'') (Container_Env c) then [] else [EnvValue ''JENKINS_HOME'' home]) @ extra"
  have m: "find (\<lambda>m. Mount_Name m = JenkinsHomeVolumeName) (KC_VolumeMounts k) =
      Some (getVolumeMount JenkinsHomeVolumeName home False)"
    using ms home by (auto simp: mounts GetJenkinsMasterContainerBaseVolumeMounts_def)
  have "\<exists>e. find (\<lambda>e. Env_Name e = ''JENKINS_HOME'') (KC_Env k) = Some e \<and> Env_Value e = home"
  proof (cases "find (\<lambda>e. Env_Name e = ''JENKINS_HOME'') (Container_Env c)")
    case None
    then have "\<not> list_ex (\<lambda>e. Env_Name e = ''JENKINS_HOME'') (Container_Env c)"
      by (simp add: find_None_iff list_ex_iff)
    with env None base_envs_home [OF base] show ?thesis by (auto simp: find_append)
  next
    case (Some e)
    with env getJenkinsHomePath_Some [OF spec] home base_envs_home [OF base] show ?thesis
      by (auto simp: find_append)
  qed
  with m home show ?thesis by auto
qed

text \<open>
  The package variable with the proxy settings does no harm across calls: building the Jenkins
  container again, with the variable as the first call left it, gives the same container and leaves
  the variable alone.
\<close>

theorem master_container_repeatable:
  assumes "NewJenkinsMasterContainer j g = Some (k, g')"
  shows "NewJenkinsMasterContainer j g' = Some (k, g')"
proof -
  from assms obtain spec c base home where facts: "status_spec j = Some spec" "first_container spec = Some c"
    "GetJenkinsMasterContainerBaseEnvs j = Some base" "getJenkinsHomePath j = Some home"
    by (auto simp: NewJenkinsMasterContainer_def Option.bind_eq_Some_conv)
  have clean: "ProxyEnvVars g' = dropEmptyProxyEnv (ProxyEnvVars g) \<and> g' = g\<lparr>ProxyEnvVars := ProxyEnvVars g'\<rparr> \<or> g' = g"
    using assms facts by (auto simp: NewJenkinsMasterContainer_def Let_def Option.bind_eq_Some_conv split: if_splits)
  show ?thesis
    using assms clean
    by (auto simp: NewJenkinsMasterContainer_def facts Let_def Option.bind_eq_Some_conv split: if_splits)
qed

text \<open>Joining a plain name to the backup directory.\<close>

lemma Split_plain: "sep \<notin> set s \<Longrightarrow> Split sep s = [s]"
  by (induction s) auto

lemma Split_append: "Split sep (a @ sep # b) = Split sep a @ Split sep b"
  by (induction a) (auto split: list.splits)

definition plain_name :: "string \<Rightarrow> bool" where
  "plain_name n \<longleftrightarrow> n \<noteq> [] \<and> CHR ''/'' \<notin> set n \<and> n \<noteq> ''.'' \<and> n \<noteq> ''..''"

lemma backup_path_plain: "plain_name bv \<Longrightarrow> getJenkinsBackupVolumePath bv = JenkinsBackupVolumePath @ ''/'' @ bv"
proof -
  assume plain: "plain_name bv"
  then have "Split (CHR ''/'') (''/jenkins-backups/'' @ bv) = ['''', ''jenkins-backups'', bv]"
    by (simp add: plain_name_def Split_plain)
  with plain show ?thesis
    by (simp add: getJenkinsBackupVolumePath_def JenkinsBackupVolumePath_def path_Clean_def clean_step_def
        plain_name_def Let_def)
qed

lemma newContainers_backup:
  assumes "newContainers ext j spec g = Some (ks, g')" and "Spec_BackupVolumes spec \<noteq> []"
  obtains k where "k \<in> set ks" "NewJenkinsBackupContainer ext j = Some k"
  using assms by (auto simp: newContainers_def Option.bind_eq_Some_conv)

definition helper_scripts :: "(string \<times> string) list" where
  "helper_scripts = [(QuietDownScriptPath, ''quietDown''), (CancelQuietDownScriptPath, ''cancelQuietDown''),
     (RestartScriptPath, ''restart''), (SafeRestartScriptPath, ''safeRestart'')]"

lemma backup_init_writes:
  assumes "(p, a) \<in> set helper_scripts"
  shows "Contains backup_init_command (helper_script p a)"
proof -
  let ?q = "helper_script QuietDownScriptPath ''quietDown''"
  let ?c = "helper_script CancelQuietDownScriptPath ''cancelQuietDown''"
  let ?r = "helper_script RestartScriptPath ''restart''"
  let ?s = "helper_script SafeRestartScriptPath ''safeRestart''"
  have "backup_init_command = [] @ ?q @ newline @ ?c @ '' '' @ newline @ ?r @ newline @ ?s @ newline"
    "backup_init_command = (?q @ newline) @ ?c @ '' '' @ newline @ ?r @ newline @ ?s @ newline"
    "backup_init_command = (?q @ newline @ ?c @ '' '' @ newline) @ ?r @ newline @ ?s @ newline"
    "backup_init_command = (?q @ newline @ ?c @ '' '' @ newline @ ?r @ newline) @ ?s @ newline"
    by (simp_all only: backup_init_command_def append_assoc append_Nil)
  then have "Contains backup_init_command ?q" "Contains backup_init_command ?c"
    "Contains backup_init_command ?r" "Contains backup_init_command ?s"
    by (metis Contains_append)+
  with assms show ?thesis by (auto simp: helper_scripts_def)
qed

text \<open>
  C18. A backup has where to go: in a pod built for backup volumes there is a container under the
  name that scripts are streamed to, and for a Backup that refers to one of these volumes by a plain
  name, the directory its copies go to lies in the directory where this container mounts the volume.
\<close>

theorem backup_goes_to_mounted_volume:
  assumes "newContainers ext j spec g = Some (ks, g')"
    and "Spec_BackupVolumes spec = Spec_BackupVolumes (Jenkins_Spec j)"
    and "Backup_BackupVolumeRef (Backup_Spec b) \<in> set (Spec_BackupVolumes spec)"
    and "plain_name (Backup_BackupVolumeRef (Backup_Spec b))"
  shows "\<exists>k m. k \<in> set ks \<and> m \<in> set (KC_VolumeMounts k) \<and>
    stream_in_backup pod cmd = StreamReq (Meta_Namespace (Pod_Meta pod)) (Meta_Name (Pod_Meta pod)) (KC_Name k) cmd \<and>
    Mount_Name m = GetJenkinsBackupPoolName (Backup_BackupVolumeRef (Backup_Spec b)) \<and>
    backupToLocation b = Mount_MountPath m @ ''/'' @ backup_name b @ ''/''"
proof -
  let ?bv = "Backup_BackupVolumeRef (Backup_Spec b)"
  have "Spec_BackupVolumes spec \<noteq> []" using assms(3) by auto
  then obtain k where k: "k \<in> set ks" "NewJenkinsBackupContainer ext j = Some k"
    using newContainers_backup [OF assms(1)] by blast
  have "KC_Name k = ''backup''" "pool_mount ?bv \<in> set (KC_VolumeMounts k)"
    using k(2) assms(2,3)
    by (auto simp: NewJenkinsBackupContainer_def Option.bind_eq_Some_conv BackupSidecarName_def)
  moreover have "backupToLocation b = Mount_MountPath (pool_mount ?bv) @ ''/'' @ backup_name b @ ''/''"
    by (simp add: backupToLocation_def backup_path_plain [OF assms(4)])
  ultimately show ?thesis
    using k(1) by (intro exI [of _ k] exI [of _ "pool_mount ?bv"]) (simp add: stream_in_backup_def)
qed


section \<open>Concrete instances\<close>

text \<open>A Jenkins with one backup volume and the calculated specification.\<close>

definition backed_spec :: JenkinsSpec where
  "backed_spec = (fill_spec sample_api (default_jenkins_container ''img''
      (zero_Container\<lparr>Container_Name := JenkinsMasterContainerName\<rparr>))
      (zero_JenkinsMaster\<lparr>Master_Containers := [zero_Container]\<rparr>) zero_JenkinsSpec)\<lparr>Spec_BackupVolumes := [''v'']\<rparr>"

definition backed_jenkins :: Jenkins where
  "backed_jenkins = sample_jenkins\<lparr>Jenkins_Spec := zero_JenkinsSpec\<lparr>Spec_BackupVolumes := [''v'']\<rparr>,
     Jenkins_Status := Some (zero_JenkinsStatus\<lparr>Status_Spec := Some backed_spec\<rparr>)\<rparr>"

lemma backed_simps [simp]:
  "status_spec backed_jenkins = Some backed_spec" "Spec_BackupVolumes backed_spec = [''v'']"
  "Spec_BackupVolumes (Jenkins_Spec backed_jenkins) = [''v'']"
  by (simp_all add: backed_jenkins_def backed_spec_def status_spec_def)

lemma backed_complete: "spec_complete backed_spec"
proof -
  have "spec_complete (fill_spec sample_api (default_jenkins_container ''img''
      (zero_Container\<lparr>Container_Name := JenkinsMasterContainerName\<rparr>))
      (zero_JenkinsMaster\<lparr>Master_Containers := [zero_Container]\<rparr>) zero_JenkinsSpec)"
    by (rule fill_spec_complete) (simp_all add: default_jenkins_container_complete)
  then show ?thesis by (simp add: backed_spec_def spec_complete_def)
qed

theorem NewJenkinsDeployment_total_witness:
  "\<exists>d g'. NewJenkinsDeployment script_ext (NewResourceObjectMeta backed_jenkins) backed_jenkins backed_spec
      initial_globals = Some (d, g') \<and> Depl_Replicas d = Some 1"
  using NewJenkinsDeployment_total [OF backed_simps(1) backed_complete, of script_ext
      "NewResourceObjectMeta backed_jenkins" initial_globals] by blast

lemma backed_casc: "Spec_ConfigurationAsCode backed_spec \<noteq> None"
  using backed_complete by (simp add: spec_complete_def)

lemma backed_deployment: "\<exists>d g'. NewJenkinsDeployment script_ext (NewResourceObjectMeta backed_jenkins)
    backed_jenkins backed_spec initial_globals = Some (d, g') \<and> Pod_Containers (Depl_TemplateSpec d) \<noteq> []"
proof -
  obtain m c cs where m: "Spec_Master backed_spec = Some m" "Master_Containers m = c # cs"
    using backed_complete by (auto simp: spec_complete_def)
  then have c: "first_container backed_spec = Some c" by (simp add: first_container_cases)
  obtain inits where inits: "newInitContainers backed_spec = Some inits" using newInitContainers_total [OF c] by blast
  obtain ks g1 where ks: "newContainers script_ext backed_jenkins backed_spec initial_globals = Some (ks, g1)"
    using newContainers_total [OF backed_simps(1) c] by blast
  then have "ks \<noteq> []" by (auto simp: newContainers_def Option.bind_eq_Some_conv)
  with m(1) inits ks show ?thesis by (simp add: NewJenkinsDeployment_def getJenkinsVolumes_def Let_def)
qed

theorem deployment_mounts_resolve_witness:
  "\<exists>d g' k. NewJenkinsDeployment script_ext (NewResourceObjectMeta backed_jenkins) backed_jenkins backed_spec
      initial_globals = Some (d, g') \<and> k \<in> set (Pod_Containers (Depl_TemplateSpec d)) \<and>
      mount_names (KC_VolumeMounts k) \<subseteq> volume_names (Pod_Volumes (Depl_TemplateSpec d)) \<union> user_mounts backed_spec"
proof -
  obtain d g' where d: "NewJenkinsDeployment script_ext (NewResourceObjectMeta backed_jenkins) backed_jenkins
      backed_spec initial_globals = Some (d, g')" "Pod_Containers (Depl_TemplateSpec d) \<noteq> []"
    using backed_deployment by blast
  let ?k = "hd (Pod_Containers (Depl_TemplateSpec d))"
  have "?k \<in> set (Pod_InitContainers (Depl_TemplateSpec d) @ Pod_Containers (Depl_TemplateSpec d))"
    using d(2) by simp
  from deployment_mounts_resolve [OF d(1) backed_simps(1) backed_casc _ this] d show ?thesis
    by (intro exI [of _ d] exI [of _ g'] exI [of _ ?k]) simp
qed

lemma backed_master: "\<exists>k g'. NewJenkinsMasterContainer backed_jenkins initial_globals = Some (k, g')"
proof -
  obtain m c cs where "Spec_Master backed_spec = Some m" "Master_Containers m = c # cs"
    using backed_complete by (auto simp: spec_complete_def)
  then have "first_container backed_spec = Some c" by (simp add: first_container_cases)
  then show ?thesis by (rule NewJenkinsMasterContainer_total [OF backed_simps(1)])
qed

theorem master_container_home_witness:
  "\<exists>k g' e. NewJenkinsMasterContainer backed_jenkins initial_globals = Some (k, g') \<and>
     find (\<lambda>e. Env_Name e = ''JENKINS_HOME'') (KC_Env k) = Some e \<and>
     getJenkinsHomePath backed_jenkins = Some (Env_Value e)"
proof -
  obtain k g' where k: "NewJenkinsMasterContainer backed_jenkins initial_globals = Some (k, g')"
    using backed_master by blast
  from master_container_home [OF k] k show ?thesis by blast
qed

theorem master_container_repeatable_witness:
  "\<exists>k g'. NewJenkinsMasterContainer backed_jenkins initial_globals = Some (k, g') \<and>
     NewJenkinsMasterContainer backed_jenkins g' = Some (k, g')"
proof -
  obtain k g' where k: "NewJenkinsMasterContainer backed_jenkins initial_globals = Some (k, g')"
    using backed_master by blast
  from master_container_repeatable [OF k] k show ?thesis by blast
qed

theorem backup_goes_to_mounted_volume_witness:
  "\<exists>ks g' k m. newContainers script_ext backed_jenkins backed_spec initial_globals = Some (ks, g') \<and>
     k \<in> set ks \<and> m \<in> set (KC_VolumeMounts k) \<and> backupToLocation (sample_backup []) = Mount_MountPath m @ ''/b/''"
proof -
  obtain m c cs where "Spec_Master backed_spec = Some m" "Master_Containers m = c # cs"
    using backed_complete by (auto simp: spec_complete_def)
  then have "first_container backed_spec = Some c" by (simp add: first_container_cases)
  then obtain ks g' where ks: "newContainers script_ext backed_jenkins backed_spec initial_globals = Some (ks, g')"
    using newContainers_total [OF backed_simps(1)] by blast
  have "Backup_BackupVolumeRef (Backup_Spec (sample_backup [])) = ''v''" "backup_name (sample_backup []) = ''b''"
    by (simp_all add: sample_backup_def backup_name_def)
  with backup_goes_to_mounted_volume [OF ks, of "sample_backup []" sample_pod "[]"] ks show ?thesis
    by (auto simp: plain_name_def)
qed


end
