(* ===== verification/Config_Maps.thy ===== *)
theory Config_Maps
  imports Pod_Spec
begin

text \<open>
  \<open>resources/scripts_configmap.go\<close>, \<open>init_configuration_configmap.go\<close>, \<open>plugins_configmap.go\<close> and
  \<open>base/configmap.go\<close>: the config maps the pod mounts.  The bash script that installs plugins is a format
  of \<open>fmt.Sprintf\<close>; the start script and the groovy script are \<open>text/template\<close> texts, given here as the
  text they render to.
\<close>

section \<open>Formats\<close>

text \<open>
  \<open>fmt.Sprintf\<close> on strings, for verbs without flags: a verb other than \<open>%s\<close> and \<open>%v\<close>, a missing and an
  extra argument print what Go prints for them.
\<close>

fun Sprintf :: "string \<Rightarrow> string list \<Rightarrow> string" where
  "Sprintf [] [] = []"
| "Sprintf [] (a # as) = ''%!(EXTRA '' @ Join '', '' (map (\<lambda>x. ''string='' @ x) (a # as)) @ '')''"
| "Sprintf [c] as = (if c = CHR ''%'' then ''%!(NOVERB)'' else [c]) @ Sprintf [] as"
| "Sprintf (c # d # s) as =
     (if c \<noteq> CHR ''%'' then c # Sprintf (d # s) as
      else if d = CHR ''%'' then CHR ''%'' # Sprintf s as
      else case as of
             [] \<Rightarrow> ''%!'' @ [d] @ ''(MISSING)'' @ Sprintf s []
           | a # as' \<Rightarrow> (if d = CHR ''s'' \<or> d = CHR ''v'' then a else ''%!'' @ [d] @ ''(string='' @ a @ '')'')
               @ Sprintf s as')"

section \<open>The scripts\<close>

definition installPluginsCommand :: string where "installPluginsCommand = ''install-plugins.sh''"
definition createOperatorUserFileName :: string where "createOperatorUserFileName = ''createOperatorUser.groovy''"

text \<open>The lines of \<open>installPluginsBashFmt\<close>, function by function.\<close>

definition install_head :: "string list" where
  "install_head =
    [''#!/bin/bash -eu'',
     '''',
     ''# Resolve dependencies and download plugins given on the command line'',
     ''#'',
     ''# FROM jenkins'',
     ''# RUN install-plugins.sh docker-slaves github-branch-source'',
     '''',
     ''set -o pipefail'',
     ''echo Waiting 10s to have jenkins container filesystem ready'',
     ''sleep 10'',
     ''REF_DIR=${REF:-%s/plugins}'',
     ''FAILED='' @ [CHR 34] @ ''$REF_DIR/failed-plugins.txt'' @ [CHR 34],
     '''',
     ''. /usr/local/bin/jenkins-support'',
     '''',
     ''getLockFile() {'',
     ''    printf '' @ [CHR 39] @ ''%%s'' @ [CHR 39] @ '' '' @ [CHR 34] @ ''$REF_DIR/${1}.lock'' @ [CHR 34],
     ''}'',
     '''',
     ''getArchiveFilename() {'',
     ''    printf '' @ [CHR 39] @ ''%%s'' @ [CHR 39] @ '' '' @ [CHR 34] @ ''$REF_DIR/${1}.jpi'' @ [CHR 34],
     ''}'']"

definition install_download :: "string list" where
  "install_download =
    ['''',
     ''download() {'',
     ''    local plugin originalPlugin version lock ignoreLockFile'',
     ''    plugin='' @ [CHR 34] @ ''$1'' @ [CHR 34],
     ''    version='' @ [CHR 34] @ ''${2:-latest}'' @ [CHR 34],
     ''    ignoreLockFile='' @ [CHR 34] @ ''${3:-}'' @ [CHR 34],
     ''    lock='' @ [CHR 34] @ ''$(getLockFile '' @ [CHR 34] @ ''$plugin'' @ [CHR 34] @ '')'' @ [CHR 34],
     '''',
     ''    if [[ $ignoreLockFile ]] || mkdir '' @ [CHR 34] @ ''$lock'' @ [CHR 34] @ '' &>/dev/null; then'',
     ''        if ! doDownload '' @ [CHR 34] @ ''$plugin'' @ [CHR 34] @ '' '' @ [CHR 34] @ ''$version'' @ [CHR 34] @ ''; then'',
     ''            # some plugin don'' @ [CHR 39] @ ''t follow the rules about artifact ID'',
     ''            # typically: docker-plugin'',
     ''            originalPlugin='' @ [CHR 34] @ ''$plugin'' @ [CHR 34],
     ''            plugin='' @ [CHR 34] @ ''${plugin}-plugin'' @ [CHR 34],
     ''            if ! doDownload '' @ [CHR 34] @ ''$plugin'' @ [CHR 34] @ '' '' @ [CHR 34] @ ''$version'' @ [CHR 34] @ ''; then'',
     ''                echo '' @ [CHR 34] @ ''Failed to download plugin: $originalPlugin or $plugin'' @ [CHR 34] @ '' >&2'',
     ''                echo '' @ [CHR 34] @ ''Not downloaded: ${originalPlugin}'' @ [CHR 34] @ '' >> '' @ [CHR 34] @ ''$FAILED'' @ [CHR 34],
     ''                return 1'',
     ''            fi'',
     ''        fi'',
     '''',
     ''        if ! checkIntegrity '' @ [CHR 34] @ ''$plugin'' @ [CHR 34] @ ''; then'',
     ''            echo '' @ [CHR 34] @ ''Downloaded file is not a valid ZIP: $(getArchiveFilename '' @ [CHR 34] @ ''$plugin'' @ [CHR 34] @ '')'' @ [CHR 34] @ '' >&2'',
     ''            echo '' @ [CHR 34] @ ''Download integrity: ${plugin}'' @ [CHR 34] @ '' >> '' @ [CHR 34] @ ''$FAILED'' @ [CHR 34],
     ''            return 1'',
     ''        fi'',
     '''',
     ''    fi'',
     ''}'',
     '''',
     ''doDownload() {'',
     ''    local plugin version url jpi'',
     ''    plugin='' @ [CHR 34] @ ''$1'' @ [CHR 34],
     ''    version='' @ [CHR 34] @ ''$2'' @ [CHR 34],
     ''    jpi='' @ [CHR 34] @ ''$(getArchiveFilename '' @ [CHR 34] @ ''$plugin'' @ [CHR 34] @ '')'' @ [CHR 34],
     '''',
     ''    # If plugin already exists and is the same version do not download'',
     ''    if test -f '' @ [CHR 34] @ ''$jpi'' @ [CHR 34] @ '' && unzip -p '' @ [CHR 34] @ ''$jpi'' @ [CHR 34] @ '' META-INF/MANIFEST.MF | tr -d '' @ [CHR 39, CHR 92] @ ''r'' @ [CHR 39] @ '' | grep '' @ [CHR 34] @ ''^Plugin-Version: ${version}$'' @ [CHR 34] @ '' > /dev/null; then'',
     ''        echo '' @ [CHR 34] @ ''Using provided plugin: $plugin'' @ [CHR 34],
     ''        return 0'',
     ''    fi'',
     '''',
     ''    if [[ '' @ [CHR 34] @ ''$version'' @ [CHR 34] @ '' == '' @ [CHR 34] @ ''latest'' @ [CHR 34] @ '' && -n '' @ [CHR 34] @ ''$JENKINS_UC_LATEST'' @ [CHR 34] @ '' ]]; then'',
     ''        # If version-specific Update Center is available, which is the case for LTS versions,'',
     ''        # use it to resolve latest versions.'',
     ''        url='' @ [CHR 34] @ ''$JENKINS_UC_LATEST/latest/${plugin}.hpi'' @ [CHR 34],
     ''    elif [[ '' @ [CHR 34] @ ''$version'' @ [CHR 34] @ '' == '' @ [CHR 34] @ ''experimental'' @ [CHR 34] @ '' && -n '' @ [CHR 34] @ ''$JENKINS_UC_EXPERIMENTAL'' @ [CHR 34] @ '' ]]; then'',
     ''        # Download from the experimental update center'',
     ''        url='' @ [CHR 34] @ ''$JENKINS_UC_EXPERIMENTAL/latest/${plugin}.hpi'' @ [CHR 34],
     ''    elif [[ '' @ [CHR 34] @ ''$version'' @ [CHR 34] @ '' == incrementals* ]] ; then'',
     ''        # Download from Incrementals repo: https://jenkins.io/blog/2018/05/15/incremental-deployment/'',
     ''        # Example URL: https://repo.jenkins-ci.org/incrementals/org/jenkins-ci/plugins/workflow/workflow-support/2.19-rc289.d09828a05a74/workflow-support-2.19-rc289.d09828a05a74.hpi'',
     ''        local groupId incrementalsVersion'',
     ''        arrIN=(${version//;/ })'',
     ''        groupId=${arrIN[1]}'',
     ''        incrementalsVersion=${arrIN[2]}'',
     ''        url='' @ [CHR 34] @ ''${JENKINS_INCREMENTALS_REPO_MIRROR}/$(echo '' @ [CHR 34] @ ''${groupId}'' @ [CHR 34] @ '' | tr '' @ [CHR 39] @ ''.'' @ [CHR 39] @ '' '' @ [CHR 39] @ ''/'' @ [CHR 39] @ '')/${plugin}/${incrementalsVersion}/${plugin}-${incrementalsVersion}.hpi'' @ [CHR 34],
     ''    else'',
     ''        JENKINS_UC_DOWNLOAD=${JENKINS_UC_DOWNLOAD:-'' @ [CHR 34] @ ''$JENKINS_UC/download'' @ [CHR 34] @ ''}'',
     ''        url='' @ [CHR 34] @ ''$JENKINS_UC_DOWNLOAD/plugins/$plugin/$version/${plugin}.hpi'' @ [CHR 34],
     ''    fi'',
     '''',
     ''    echo '' @ [CHR 34] @ ''Downloading plugin: $plugin from $url'' @ [CHR 34],
     ''    retry_command curl '' @ [CHR 34] @ ''${CURL_OPTIONS:--sSfL}'' @ [CHR 34] @ '' --connect-timeout '' @ [CHR 34] @ ''${CURL_CONNECTION_TIMEOUT:-20}'' @ [CHR 34] @ '' --retry '' @ [CHR 34] @ ''${CURL_RETRY:-5}'' @ [CHR 34] @ '' --retry-delay '' @ [CHR 34] @ ''${CURL_RETRY_DELAY:-0}'' @ [CHR 34] @ '' --retry-max-time '' @ [CHR 34] @ ''${CURL_RETRY_MAX_TIME:-60}'' @ [CHR 34] @ '' '' @ [CHR 34] @ ''$url'' @ [CHR 34] @ '' -o '' @ [CHR 34] @ ''$jpi'' @ [CHR 34],
     ''    return $?'',
     ''}'',
     '''',
     ''checkIntegrity() {'',
     ''    local plugin jpi'',
     ''    plugin='' @ [CHR 34] @ ''$1'' @ [CHR 34],
     ''    jpi='' @ [CHR 34] @ ''$(getArchiveFilename '' @ [CHR 34] @ ''$plugin'' @ [CHR 34] @ '')'' @ [CHR 34],
     '''',
     ''    unzip -t -qq '' @ [CHR 34] @ ''$jpi'' @ [CHR 34] @ '' >/dev/null'',
     ''    return $?'',
     ''}'']"

definition install_plugins :: "string list" where
  "install_plugins =
    ['''',
     ''bundledPlugins() {'',
     ''    local JENKINS_WAR=/usr/share/jenkins/jenkins.war'',
     ''    if [ -f $JENKINS_WAR ]'',
     ''    then'',
     ''        TEMP_PLUGIN_DIR=/tmp/plugintemp.$$'',
     ''        for i in $(jar tf $JENKINS_WAR | grep -E '' @ [CHR 39] @ ''[^detached-]plugins.*'' @ [CHR 92] @ ''..pi'' @ [CHR 39] @ '' | sort)'',
     ''        do'',
     ''            rm -fr $TEMP_PLUGIN_DIR'',
     ''            mkdir -p $TEMP_PLUGIN_DIR'',
     ''            PLUGIN=$(basename '' @ [CHR 34] @ ''$i'' @ [CHR 34] @ ''|cut -f1 -d'' @ [CHR 39] @ ''.'' @ [CHR 39] @ '')'',
     ''            (cd $TEMP_PLUGIN_DIR;jar xf '' @ [CHR 34] @ ''$JENKINS_WAR'' @ [CHR 34] @ '' '' @ [CHR 34] @ ''$i'' @ [CHR 34] @ '';jar xvf '' @ [CHR 34] @ ''$TEMP_PLUGIN_DIR/$i'' @ [CHR 34] @ '' META-INF/MANIFEST.MF >/dev/null 2>&1)'',
     ''            VER=$(grep -E -i Plugin-Version '' @ [CHR 34] @ ''$TEMP_PLUGIN_DIR/META-INF/MANIFEST.MF'' @ [CHR 34] @ ''|cut -d: -f2|sed '' @ [CHR 39] @ ''s/ //'' @ [CHR 39] @ '')'',
     ''            echo '' @ [CHR 34] @ ''$PLUGIN:$VER'' @ [CHR 34],
     ''        done'',
     ''        rm -fr $TEMP_PLUGIN_DIR'',
     ''    else'',
     ''        rm -f '' @ [CHR 34] @ ''$TEMP_ALREADY_INSTALLED'' @ [CHR 34],
     ''        echo '' @ [CHR 34] @ ''ERROR file not found: $JENKINS_WAR'' @ [CHR 34],
     ''        exit 1'',
     ''    fi'',
     ''}'',
     '''',
     ''versionFromPlugin() {'',
     ''    local plugin=$1'',
     ''    if [[ $plugin =~ .*:.* ]]; then'',
     ''        echo '' @ [CHR 34] @ ''${plugin##*:}'' @ [CHR 34],
     ''    else'',
     ''        echo '' @ [CHR 34] @ ''latest'' @ [CHR 34],
     ''    fi'',
     '''',
     ''}'',
     '''',
     ''installedPlugins() {'',
     ''    for f in '' @ [CHR 34] @ ''$REF_DIR'' @ [CHR 34] @ ''/*.jpi; do'',
     ''        echo '' @ [CHR 34] @ ''$(basename '' @ [CHR 34] @ ''$f'' @ [CHR 34] @ '' | sed -e '' @ [CHR 39] @ ''s/'' @ [CHR 92] @ ''.jpi//'' @ [CHR 39] @ ''):$(get_plugin_version '' @ [CHR 34] @ ''$f'' @ [CHR 34] @ '')'' @ [CHR 34],
     ''    done'',
     ''}'',
     '''',
     ''jenkinsMajorMinorVersion() {'',
     ''    local JENKINS_WAR'',
     ''    JENKINS_WAR=/usr/share/jenkins/jenkins.war'',
     ''    if [[ -f '' @ [CHR 34] @ ''$JENKINS_WAR'' @ [CHR 34] @ '' ]]; then'',
     ''        local version major minor'',
     ''        version='' @ [CHR 34] @ ''$(java -jar /usr/share/jenkins/jenkins.war --version)'' @ [CHR 34],
     ''        major='' @ [CHR 34] @ ''$(echo '' @ [CHR 34] @ ''$version'' @ [CHR 34] @ '' | cut -d '' @ [CHR 39] @ ''.'' @ [CHR 39] @ '' -f 1)'' @ [CHR 34],
     ''        minor='' @ [CHR 34] @ ''$(echo '' @ [CHR 34] @ ''$version'' @ [CHR 34] @ '' | cut -d '' @ [CHR 39] @ ''.'' @ [CHR 39] @ '' -f 2)'' @ [CHR 34],
     ''        echo '' @ [CHR 34] @ ''$major.$minor'' @ [CHR 34],
     ''    else'',
     ''        echo '' @ [CHR 34] @ ''ERROR file not found: $JENKINS_WAR'' @ [CHR 34],
     ''        return 1'',
     ''    fi'',
     ''}'']"

definition install_main :: "string list" where
  "install_main =
    ['''',
     ''main() {'',
     ''    local plugin pluginVersion jenkinsVersion'',
     ''    local plugins=()'',
     '''',
     ''    mkdir -p '' @ [CHR 34] @ ''$REF_DIR'' @ [CHR 34] @ '' || exit 1'',
     ''    rm -f '' @ [CHR 34] @ ''$FAILED'' @ [CHR 34],
     '''',
     ''    # Read plugins from stdin or from the command line arguments'',
     ''    if [[ ($# -eq 0) ]]; then'',
     ''        while read -r line || [ '' @ [CHR 34] @ ''$line'' @ [CHR 34] @ '' != '' @ [CHR 34, CHR 34] @ '' ]; do'',
     ''            # Remove leading/trailing spaces, comments, and empty lines'',
     ''            plugin=$(echo '' @ [CHR 34] @ ''${line}'' @ [CHR 34] @ '' | tr -d '' @ [CHR 39, CHR 92] @ ''r'' @ [CHR 39] @ '' | sed -e '' @ [CHR 39] @ ''s/^[ '' @ [CHR 92] @ ''t]*//g'' @ [CHR 39] @ '' -e '' @ [CHR 39] @ ''s/[ '' @ [CHR 92] @ ''t]*$//g'' @ [CHR 39] @ '' -e '' @ [CHR 39] @ ''s/[ '' @ [CHR 92] @ ''t]*#.*$//g'' @ [CHR 39] @ '' -e '' @ [CHR 39] @ ''/^[ '' @ [CHR 92] @ ''t]*$/d'' @ [CHR 39] @ '')'',
     '''',
     ''            # Avoid adding empty plugin into array'',
     ''            if [ ${#plugin} -ne 0 ]; then'',
     ''                plugins+=('' @ [CHR 34] @ ''${plugin}'' @ [CHR 34] @ '')'',
     ''            fi'',
     ''        done'',
     ''    else'',
     ''        plugins=('' @ [CHR 34] @ ''$@'' @ [CHR 34] @ '')'',
     ''    fi'',
     '''',
     ''    # Create lockfile manually before first run to make sure any explicit version set is used.'',
     ''    echo '' @ [CHR 34] @ ''Creating initial locks...'' @ [CHR 34],
     ''    for plugin in '' @ [CHR 34] @ ''${plugins[@]}'' @ [CHR 34] @ ''; do'',
     ''        mkdir '' @ [CHR 34] @ ''$(getLockFile '' @ [CHR 34] @ ''${plugin%%:*}'' @ [CHR 34] @ '')'' @ [CHR 34],
     ''    done'',
     '''',
     ''    echo '' @ [CHR 34] @ ''Analyzing war...'' @ [CHR 34],
     ''    bundledPlugins='' @ [CHR 34] @ ''$(bundledPlugins)'' @ [CHR 34],
     '''',
     ''    echo '' @ [CHR 34] @ ''Registering preinstalled plugins...'' @ [CHR 34],
     ''    installedPlugins='' @ [CHR 34] @ ''$(installedPlugins)'' @ [CHR 34],
     '''',
     ''    # Check if there'' @ [CHR 39] @ ''s a version-specific update center, which is the case for LTS versions'',
     ''    jenkinsVersion='' @ [CHR 34] @ ''$(jenkinsMajorMinorVersion)'' @ [CHR 34],
     ''    if curl -fsL -o /dev/null '' @ [CHR 34] @ ''$JENKINS_UC/$jenkinsVersion'' @ [CHR 34] @ ''; then'',
     ''        JENKINS_UC_LATEST='' @ [CHR 34] @ ''$JENKINS_UC/$jenkinsVersion'' @ [CHR 34],
     ''        echo '' @ [CHR 34] @ ''Using version-specific update center: $JENKINS_UC_LATEST...'' @ [CHR 34],
     ''    else'',
     ''        JENKINS_UC_LATEST='',
     ''    fi'',
     '''',
     ''    echo '' @ [CHR 34] @ ''Downloading plugins...'' @ [CHR 34],
     ''    for plugin in '' @ [CHR 34] @ ''${plugins[@]}'' @ [CHR 34] @ ''; do'',
     ''        pluginVersion='' @ [CHR 34, CHR 34],
     '''',
     ''        if [[ $plugin =~ .*:.* ]]; then'',
     ''            pluginVersion=$(versionFromPlugin '' @ [CHR 34] @ ''${plugin}'' @ [CHR 34] @ '')'',
     ''            plugin='' @ [CHR 34] @ ''${plugin%%:*}'' @ [CHR 34],
     ''        fi'',
     '''',
     ''        download '' @ [CHR 34] @ ''$plugin'' @ [CHR 34] @ '' '' @ [CHR 34] @ ''$pluginVersion'' @ [CHR 34] @ '' '' @ [CHR 34] @ ''true'' @ [CHR 34] @ '' &'',
     ''    done'',
     ''    wait'',
     '''',
     ''    echo'',
     ''    echo '' @ [CHR 34] @ ''WAR bundled plugins:'' @ [CHR 34],
     ''    echo '' @ [CHR 34] @ ''${bundledPlugins}'' @ [CHR 34],
     ''    echo'',
     ''    echo '' @ [CHR 34] @ ''Installed plugins:'' @ [CHR 34],
     ''    installedPlugins'',
     '''',
     ''    if [[ -f $FAILED ]]; then'',
     ''        echo '' @ [CHR 34] @ ''Some plugins failed to download!'' @ [CHR 34] @ '' '' @ [CHR 34] @ ''$(<'' @ [CHR 34] @ ''$FAILED'' @ [CHR 34] @ '')'' @ [CHR 34] @ '' >&2'',
     ''        exit 1'',
     ''    fi'',
     '''',
     ''    echo '' @ [CHR 34] @ ''Cleaning up locks'' @ [CHR 34],
     ''    rm -r '' @ [CHR 34] @ ''$REF_DIR'' @ [CHR 34] @ ''/*.lock'',
     ''}'',
     '''',
     ''main '' @ [CHR 34] @ ''$@'' @ [CHR 34],
     '''']"

definition installPluginsBashFmt :: string where
  "installPluginsBashFmt = Join newline (install_head @ install_download @ install_plugins @ install_main)"

text \<open>
  The template of \<open>init.sh\<close>: the two actions that start with a trim marker remove the newlines before
  them, and each plugin of the range stands between two newlines.
\<close>

definition init_before_plugins :: "string \<Rightarrow> string" where
  "init_before_plugins home = Join newline
     [''#!/usr/bin/env bash'',
      ''set -e'',
      ''set -x'',
      '''',
      ''if [ '' @ [CHR 34] @ ''${DEBUG_JENKINS_OPERATOR}'' @ [CHR 34] @ '' == '' @ [CHR 34] @ ''true'' @ [CHR 34] @ '' ]; then'',
      [CHR 9] @ ''echo '' @ [CHR 34] @ ''Printing debug messages - begin'' @ [CHR 34],
      [CHR 9] @ ''id'',
      [CHR 9] @ ''env'',
      [CHR 9] @ ''ls -la '' @ home,
      [CHR 9] @ ''echo '' @ [CHR 34] @ ''Printing debug messages - end'' @ [CHR 34],
      ''else'',
      ''    echo '' @ [CHR 34] @ ''To print debug messages set environment variable '' @ [CHR 39] @ ''DEBUG_JENKINS_OPERATOR'' @ [CHR 39] @ '' to '' @ [CHR 39] @ ''true'' @ [CHR 39, CHR 34],
      ''fi'',
      '''',
      ''# https://wiki.jenkins.io/display/JENKINS/Post-initialization+script'',
      ''mkdir -p '' @ home @ ''/init.groovy.d'',
      ''cp -n '' @ jenkinsInitConfigurationVolumePath @ ''/*.groovy '' @ home @ ''/init.groovy.d'',
      '''',
      ''mkdir -p '' @ home @ ''/scripts'',
      ''cp '' @ JenkinsScriptsVolumePath @ ''/*.sh '' @ home @ ''/scripts'',
      ''chmod +x '' @ home @ ''/scripts/*.sh'',
      '''',
      ''echo '' @ [CHR 34] @ ''Installing plugins required by Operator - begin'' @ [CHR 34],
      ''cat > '' @ home @ ''/base-plugins << EOF'']"

definition init_plugin :: "PluginSpec \<Rightarrow> string" where
  "init_plugin p = newline @ Plugin_Name p @ '':'' @ Plugin_Version p @
     (if Plugin_DownloadURL p \<noteq> '''' then '':'' @ Plugin_DownloadURL p else '''') @ newline"

definition init_after_plugins :: "string \<Rightarrow> string" where
  "init_after_plugins home = Join newline
     ['''',
      ''EOF'',
      '''',
      ''if [[ -z '' @ [CHR 34] @ ''${OPENSHIFT_JENKINS_IMAGE_VERSION}'' @ [CHR 34] @ '' ]]; then'',
      ''  '' @ installPluginsCommand @ '' < '' @ home @ ''/base-plugins'',
      ''else'',
      ''  '' @ installPluginsCommand @ '' '' @ home @ ''/base-plugins'',
      ''fi'',
      ''echo '' @ [CHR 34] @ ''Installing plugins required by Operator - end'' @ [CHR 34],
      '''']"

definition initBashTemplate :: "string \<Rightarrow> PluginSpec list \<Rightarrow> string" where
  "initBashTemplate home plugins =
     init_before_plugins home @ newline @ concat (map init_plugin plugins) @ init_after_plugins home"

definition base_plugins_of_status :: "Jenkins \<Rightarrow> PluginSpec list option" where
  "base_plugins_of_status j =
     do { spec \<leftarrow> status_spec j; m \<leftarrow> Spec_Master spec; Some (Master_BasePlugins m) }"

definition buildInitBashScript :: "Jenkins \<Rightarrow> string option" where
  "buildInitBashScript j =
     do { home \<leftarrow> getJenkinsHomePath j;
          plugins \<leftarrow> base_plugins_of_status j;
          Some (initBashTemplate home plugins) }"

text \<open>The template of \<open>createOperatorUser.groovy\<close>.\<close>

definition create_operator_user :: "string \<Rightarrow> string" where
  "create_operator_user created = Join newline
     ['''',
      ''def jenkins = jenkins.model.Jenkins.getInstance()'',
      ''def operatorUserCreatedFile = new File('' @ [CHR 39] @ created @ [CHR 39] @ '')'',
      '''',
      ''if (!operatorUserCreatedFile.exists()) {'',
      [CHR 9] @ ''def hudsonRealm = new HudsonPrivateSecurityRealm(false)'',
      [CHR 9] @ ''hudsonRealm.createAccount('',
      [CHR 9, CHR 9] @ ''new File('' @ [CHR 39] @ jenkinsOperatorCredentialsVolumePath @ ''/'' @ OperatorCredentialsSecretUserNameKey @ [CHR 39] @ '').text,'',
      [CHR 9, CHR 9] @ ''new File('' @ [CHR 39] @ jenkinsOperatorCredentialsVolumePath @ ''/'' @ OperatorCredentialsSecretPasswordKey @ [CHR 39] @ '').text)'',
      [CHR 9] @ ''jenkins.setSecurityRealm(hudsonRealm)'',
      '''',
      [CHR 9] @ ''def strategy = new FullControlOnceLoggedInAuthorizationStrategy()'',
      [CHR 9] @ ''strategy.setAllowAnonymousRead(false)'',
      [CHR 9] @ ''jenkins.setAuthorizationStrategy(strategy)'',
      [CHR 9] @ ''jenkins.save()'',
      '''',
      [CHR 9] @ ''operatorUserCreatedFile.createNewFile()'',
      ''}'']"

definition createOperatorUserGroovyFmtTemplate :: "bool \<Rightarrow> string \<Rightarrow> string" where
  "createOperatorUserGroovyFmtTemplate enable created =
     newline @ ''import hudson.security.*'' @ (if enable then create_operator_user created else '''') @ newline"

definition buildCreateJenkinsOperatorUserGroovyScript :: "Jenkins \<Rightarrow> string option" where
  "buildCreateJenkinsOperatorUserGroovyScript j =
     do { home \<leftarrow> getJenkinsHomePath j;
          Some (createOperatorUserGroovyFmtTemplate
            (AuthorizationStrategy (Spec_JenkinsAPISettings (Jenkins_Spec j)) = CreateUserAuthorizationStrategy)
            (home @ ''/operatorUserCreated'')) }"

section \<open>The config maps\<close>

definition with_name :: "string \<Rightarrow> ObjectMeta \<Rightarrow> ObjectMeta" where
  "with_name n meta = meta\<lparr>Meta_Name := n\<rparr>"

definition NewScriptsConfigMap :: "ObjectMeta \<Rightarrow> Jenkins \<Rightarrow> ConfigMap option" where
  "NewScriptsConfigMap meta j =
     do { initBashScript \<leftarrow> buildInitBashScript j;
          home \<leftarrow> getJenkinsHomePath j;
          Some \<lparr>CM_Meta = with_name (getScriptsConfigMapName j) meta,
                CM_Data = [(InitScriptName, initBashScript),
                           (installPluginsCommand, Sprintf installPluginsBashFmt [home])]\<rparr> }"

definition NewInitConfigurationConfigMap :: "ObjectMeta \<Rightarrow> Jenkins \<Rightarrow> ConfigMap option" where
  "NewInitConfigurationConfigMap meta j =
     do { createJenkinsOperatorUserGroovy \<leftarrow> buildCreateJenkinsOperatorUserGroovyScript j;
          Some \<lparr>CM_Meta = with_name (GetInitConfigurationConfigMapName j) meta,
                CM_Data = [(createOperatorUserFileName, createJenkinsOperatorUserGroovy)]\<rparr> }"

text \<open>\<open>Sprintln\<close> ends each \<open>name:version\<close> with a newline.\<close>

fun getPluginsList :: "PluginSpec list \<Rightarrow> string" where
  "getPluginsList [] = []"
| "getPluginsList (p # ps) = Plugin_Name p @ '':'' @ Plugin_Version p @ newline @ getPluginsList ps"

definition NewBasePluginConfigMap :: "ObjectMeta \<Rightarrow> Jenkins \<Rightarrow> ConfigMap option" where
  "NewBasePluginConfigMap meta j =
     do { plugins \<leftarrow> base_plugins_of_status j;
          Some \<lparr>CM_Meta = with_name (GetBasePluginsVolumeNameConfigMapName j) meta,
                CM_Data = [(basePluginsFileName, getPluginsList plugins)]\<rparr> }"

definition write_config_map ::
  "'w ext \<Rightarrow> Jenkins \<Rightarrow> ConfigMap \<Rightarrow> 'w st \<Rightarrow> (error option \<times> 'w st) option" where
  "write_config_map ext j cm s =
     do { (err, s) \<leftarrow> CreateOrUpdateResource ext ConfigMap_t j cm s; Some (WithStack err, s) }"

definition createScriptsConfigMap ::
  "'w ext \<Rightarrow> ObjectMeta \<Rightarrow> Jenkins \<Rightarrow> 'w st \<Rightarrow> (error option \<times> 'w st) option" where
  "createScriptsConfigMap ext meta j s =
     do { cm \<leftarrow> NewScriptsConfigMap meta j; write_config_map ext j cm s }"

definition createInitConfigurationConfigMap ::
  "'w ext \<Rightarrow> ObjectMeta \<Rightarrow> Jenkins \<Rightarrow> 'w st \<Rightarrow> (error option \<times> 'w st) option" where
  "createInitConfigurationConfigMap ext meta j s =
     do { cm \<leftarrow> NewInitConfigurationConfigMap meta j; write_config_map ext j cm s }"

definition createBasePluginsConfigMap ::
  "'w ext \<Rightarrow> ObjectMeta \<Rightarrow> Jenkins \<Rightarrow> 'w st \<Rightarrow> (error option \<times> 'w st) option" where
  "createBasePluginsConfigMap ext meta j s =
     do { cm \<leftarrow> NewBasePluginConfigMap meta j; write_config_map ext j cm s }"

section \<open>Lemmas\<close>

lemma Sprintf_plain: "CHR ''%'' \<notin> set a \<Longrightarrow> b \<noteq> [] \<Longrightarrow> Sprintf (a @ b) as = a @ Sprintf b as"
proof (induction a)
  case (Cons c a)
  then show ?case by (cases "a @ b") auto
qed simp

lemma Sprintf_verb_s: "Sprintf (CHR ''%'' # CHR ''s'' # s) (a # as) = a @ Sprintf s as"
  by simp

lemma Sprintf_percent: "Sprintf (CHR ''%'' # CHR ''%'' # s) as = CHR ''%'' # Sprintf s as"
  by simp

lemma getPluginsList_append: "getPluginsList (ps @ qs) = getPluginsList ps @ getPluginsList qs"
  by (induction ps) simp_all

lemma Split_first: "sep \<notin> set w \<Longrightarrow> Split sep (w @ sep # b) = w # Split sep b"
  by (simp add: Split_append Split_plain)

text \<open>Reading the list back, line by line.\<close>

lemma getPluginsList_lines:
  assumes "\<forall>p \<in> set ps. hd newline \<notin> set (Plugin_Name p) \<and> hd newline \<notin> set (Plugin_Version p)"
  shows "Split (hd newline) (getPluginsList ps) = map (\<lambda>p. Plugin_Name p @ '':'' @ Plugin_Version p) ps @ [[]]"
  using assms
proof (induction ps)
  case (Cons p ps)
  have "hd newline \<notin> set (Plugin_Name p @ '':'' @ Plugin_Version p)"
    using Cons.prems by (auto simp: newline_def char_of_def)
  from Split_first [OF this, of "getPluginsList ps"]
  have "Split (hd newline) (getPluginsList (p # ps)) =
      (Plugin_Name p @ '':'' @ Plugin_Version p) # Split (hd newline) (getPluginsList ps)"
    by (simp add: newline_def)
  with Cons show ?case by simp
qed (simp add: newline_def)


lemma init_plugin_shown: "p \<in> set ps \<Longrightarrow>
    Contains (initBashTemplate home ps) (newline @ Plugin_Name p @ '':'' @ Plugin_Version p)"
proof -
  assume "p \<in> set ps"
  then obtain qs rs where ps: "ps = qs @ p # rs" by (auto dest: split_list)
  show ?thesis
    unfolding initBashTemplate_def ps
    using Contains_append [of "init_before_plugins home @ newline @ concat (map init_plugin qs)"
        "newline @ Plugin_Name p @ '':'' @ Plugin_Version p"]
    by (simp add: init_plugin_def)
qed

lemma NewScriptsConfigMap_total:
  assumes "status_spec j = Some spec" and "first_container spec = Some c"
  obtains cm m home where "Spec_Master spec = Some m" "NewScriptsConfigMap meta j = Some cm"
    "Meta_Name (CM_Meta cm) = getScriptsConfigMapName j"
    "map_of (CM_Data cm) InitScriptName = Some (initBashTemplate home (Master_BasePlugins m))"
proof -
  obtain m where m: "Spec_Master spec = Some m" using assms(2) by (auto simp: first_container_cases)
  obtain home where home: "getJenkinsHomePath j = Some home" using getJenkinsHomePath_Some [OF assms] by blast
  show ?thesis
    by (rule that [of m "\<lparr>CM_Meta = with_name (getScriptsConfigMapName j) meta,
          CM_Data = [(InitScriptName, initBashTemplate home (Master_BasePlugins m)),
                     (installPluginsCommand, Sprintf installPluginsBashFmt [home])]\<rparr>" home])
       (simp_all add: m NewScriptsConfigMap_def buildInitBashScript_def base_plugins_of_status_def assms(1) home
         with_name_def)
qed

section \<open>Properties\<close>

text \<open>
  C20. The command that installs the base plugins exists: when the installation is forced, the Jenkins
  container runs, after it starts, a file under the mount of a config map volume; the config map of that
  name which \<open>NewScriptsConfigMap\<close> builds has the file, and its script lists every base plugin of the
  specification.
\<close>

theorem start_script_installs_plugins:
  assumes "NewJenkinsMasterContainer j g = Some (k, g')" and "Spec_ForceBasePluginsInstall (Jenkins_Spec j)"
  shows "\<exists>cm m v key script. NewScriptsConfigMap meta j = Some cm \<and> m \<in> set (KC_VolumeMounts k) \<and>
    v \<in> set (GetJenkinsMasterPodBaseVolumes j) \<and> Vol_Name v = Mount_Name m \<and>
    map_option CMVol_Name (Vol_ConfigMap v) = Some (Meta_Name (CM_Meta cm)) \<and>
    map_of (CM_Data cm) key = Some script \<and>
    Option.bind (KC_Lifecycle k) PostStart = Some (ExecAction [''bash'', ''-c'', Mount_MountPath m @ ''/'' @ key]) \<and>
    list_all (\<lambda>p. Contains script (newline @ Plugin_Name p @ '':'' @ Plugin_Version p)) (the (base_plugins_of_status j))"
proof -
  obtain spec c ms where parts: "status_spec j = Some spec" "first_container spec = Some c"
    "GetJenkinsMasterContainerBaseVolumeMounts j spec = Some ms" "KC_VolumeMounts k = ms @ Container_VolumeMounts c"
    using assms(1) by (rule master_container_parts)
  obtain cm master home where cm: "Spec_Master spec = Some master" "NewScriptsConfigMap meta j = Some cm"
    "Meta_Name (CM_Meta cm) = getScriptsConfigMapName j"
    "map_of (CM_Data cm) InitScriptName = Some (initBashTemplate home (Master_BasePlugins master))"
    using parts(1,2) by (rule NewScriptsConfigMap_total)
  let ?m = "getVolumeMount jenkinsScriptsVolumeName JenkinsScriptsVolumePath True"
  let ?v = "getConfigMapVolume jenkinsScriptsVolumeName (getScriptsConfigMapName j) [511]"
  have m: "?m \<in> set (KC_VolumeMounts k)"
    using parts(3) by (auto simp: parts(4) GetJenkinsMasterContainerBaseVolumeMounts_def Option.bind_eq_Some_conv)
  have v: "?v \<in> set (GetJenkinsMasterPodBaseVolumes j)"
    "map_option CMVol_Name (Vol_ConfigMap ?v) = Some (Meta_Name (CM_Meta cm))"
    by (simp_all add: GetJenkinsMasterPodBaseVolumes_def getConfigMapVolume_def empty_volume_def cm(3))
  have start: "Option.bind (KC_Lifecycle k) PostStart =
      Some (ExecAction [''bash'', ''-c'', Mount_MountPath ?m @ ''/'' @ InitScriptName])"
    using assms by (auto simp: NewJenkinsMasterContainer_def GetJenkinsContainer_def Let_def Option.bind_eq_Some_conv)
  have shown: "list_all (\<lambda>p. Contains (initBashTemplate home (Master_BasePlugins master))
      (newline @ Plugin_Name p @ '':'' @ Plugin_Version p)) (the (base_plugins_of_status j))"
    using init_plugin_shown cm(1) parts(1) by (simp add: base_plugins_of_status_def list_all_iff)
  have "Vol_Name ?v = Mount_Name ?m" by simp
  with m v start shown cm(2,4) show ?thesis by blast
qed

definition forced_jenkins :: Jenkins where
  "forced_jenkins = backed_jenkins\<lparr>Jenkins_Spec := (Jenkins_Spec backed_jenkins)\<lparr>Spec_ForceBasePluginsInstall := True\<rparr>\<rparr>"

theorem start_script_installs_plugins_witness:
  "\<exists>k g' cm. NewJenkinsMasterContainer forced_jenkins initial_globals = Some (k, g') \<and>
     NewScriptsConfigMap (NewResourceObjectMeta forced_jenkins) forced_jenkins = Some cm \<and>
     Option.bind (KC_Lifecycle k) PostStart \<noteq> None"
proof -
  obtain m c cs where "Spec_Master backed_spec = Some m" "Master_Containers m = c # cs"
    using backed_complete by (auto simp: spec_complete_def)
  then have c: "first_container backed_spec = Some c" by (simp add: first_container_cases)
  have forced: "Spec_ForceBasePluginsInstall (Jenkins_Spec forced_jenkins)"
    and spec: "status_spec forced_jenkins = Some backed_spec"
    using backed_simps(1) by (simp_all add: forced_jenkins_def status_spec_def)
  obtain k g' where k: "NewJenkinsMasterContainer forced_jenkins initial_globals = Some (k, g')"
    using NewJenkinsMasterContainer_total [OF spec c] by blast
  from start_script_installs_plugins [OF k forced, of "NewResourceObjectMeta forced_jenkins"] k
  show ?thesis by auto
qed

end
