(* ===== verification/Base_Resources.thy ===== *)
theory Base_Resources
  imports Config_Maps
begin

text \<open>
  The objects the base configuration keeps beside the deployment: \<open>base/rbac.go\<close>, \<open>service.go\<close>,
  \<open>serviceaccount.go\<close>, \<open>route.go\<close>, \<open>service_monitor.go\<close> and the credentials secret of \<open>reconcile.go\<close>.

  Two Go maps are shared and written: the labels of the metadata, which \<open>createService\<close> uses as the
  labels and as the selector of a new service, and the annotations of the CR, to which
  \<open>createServiceAccount\<close> adds one.  The functions return them as they leave them.
\<close>

section \<open>The service account\<close>

definition oauthAnnotationKey :: string where
  "oauthAnnotationKey = ''serviceaccounts.openshift.io/oauth-redirectreference.jenkins''"

definition oauthAnnotation :: "string \<Rightarrow> string" where
  "oauthAnnotation n =
     (let q = [CHR 34] in
      ''{'' @ q @ ''kind'' @ q @ '':'' @ q @ ''OAuthRedirectReference'' @ q @ '','' @ q @ ''apiVersion'' @ q @ '':'' @
      q @ ''v1'' @ q @ '','' @ q @ ''reference'' @ q @ '':{'' @ q @ ''kind'' @ q @ '':'' @ q @ ''Route'' @ q @ '','' @
      q @ ''name'' @ q @ '':'' @ q @ n @ q @ ''}}'')"

definition compareMap :: "string gomap \<Rightarrow> labels \<Rightarrow> bool" where
  "compareMap expected actual = list_all (\<lambda>(k, v). lookup_label actual k = Some v) expected"

text \<open>The annotations to have, and the Jenkins after they were written into its map if it has one.\<close>

definition wanted_annotations :: "Jenkins \<Rightarrow> string gomap" where
  "wanted_annotations j =
     AList.update oauthAnnotationKey (oauthAnnotation (GetResourceName j))
       (range_of (ServiceAccount_Annotations (Spec_ServiceAccount (Jenkins_Spec j))))"

definition annotate_jenkins :: "Jenkins \<Rightarrow> Jenkins" where
  "annotate_jenkins j =
     (case ServiceAccount_Annotations (Spec_ServiceAccount (Jenkins_Spec j)) of
        None \<Rightarrow> j
      | Some _ \<Rightarrow> j\<lparr>Jenkins_Spec := (Jenkins_Spec j)\<lparr>Spec_ServiceAccount :=
          \<lparr>ServiceAccount_Annotations = Some (wanted_annotations j)\<rparr>\<rparr>\<rparr>)"

definition createServiceAccount ::
  "'w ext \<Rightarrow> Jenkins \<Rightarrow> 'w st \<Rightarrow> ((error option \<times> Jenkins) \<times> 'w st) option" where
  "createServiceAccount ext j s =
     do { let meta = NewResourceObjectMeta j;
          let annotations = wanted_annotations j;
          (r, s) \<leftarrow> Client_Get ext ServiceAccount_t (nn (Meta_Namespace meta) (Meta_Name meta)) s;
          (r, s) \<leftarrow> (case r of
              Inl err \<Rightarrow>
                if IsNotFound err
                then CreateResource ext ServiceAccount_t j (NewServiceAccount meta (Some annotations)) s
                else Some (Inl err, s)
            | Inr sa \<Rightarrow> Some (Inr sa, s));
          case r of
            Inl err \<Rightarrow> Some ((Some (StackError err), annotate_jenkins j), s)
          | Inr sa \<Rightarrow>
              if compareMap annotations (Meta_Annotations (SA_Meta sa))
              then Some ((None, annotate_jenkins j), s)
              else do { let present = range_of (Meta_Annotations (SA_Meta sa));
                        let sa = sa\<lparr>SA_Meta := (SA_Meta sa)\<lparr>Meta_Annotations := Some (assign_all present annotations)\<rparr>\<rparr>;
                        (r, s) \<leftarrow> UpdateResource ext ServiceAccount_t j sa s;
                        Some ((case r of Inl err \<Rightarrow> Some (StackError err) | Inr _ \<Rightarrow> None, annotate_jenkins j), s) } }"

section \<open>Roles and role bindings\<close>

text \<open>\<open>if err := \<dots>; err != nil { return err }\<close>, with a payload that the steps pass on.\<close>

definition checked ::
  "((error option \<times> 'c) \<times> 'w st) option \<Rightarrow> ('c \<Rightarrow> 'w st \<Rightarrow> ((error option \<times> 'c) \<times> 'w st) option) \<Rightarrow>
   ((error option \<times> 'c) \<times> 'w st) option" where
  "checked m k = do { ((err, c), s) \<leftarrow> m; case err of Some e \<Rightarrow> Some ((Some e, c), s) | None \<Rightarrow> k c s }"

definition keeping :: "'c \<Rightarrow> (error option \<times> 'w st) option \<Rightarrow> ((error option \<times> 'c) \<times> 'w st) option" where
  "keeping c m = do { (err, s) \<leftarrow> m; Some ((err, c), s) }"

definition stacked :: "(error option \<times> 'w st) option \<Rightarrow> (error option \<times> 'w st) option" where
  "stacked m = do { (err, s) \<leftarrow> m; Some (WithStack err, s) }"

definition main_role_binding :: "Jenkins \<Rightarrow> RoleBinding" where
  "main_role_binding j =
     (let n = Meta_Name (NewResourceObjectMeta j);
          rb = NewRoleBinding j \<lparr>RoleRef_APIGroup = ''rbac.authorization.k8s.io'', RoleRef_Kind = ''Role'', RoleRef_Name = n\<rparr>
      in rb\<lparr>RB_Meta := (RB_Meta rb)\<lparr>Meta_Name := n\<rparr>\<rparr>)"

definition createRBAC ::
  "'w ext \<Rightarrow> Jenkins \<Rightarrow> 'w st \<Rightarrow> ((error option \<times> Jenkins) \<times> 'w st) option" where
  "createRBAC ext j s =
     checked (createServiceAccount ext j s) (\<lambda>j s.
     checked (keeping j (stacked (CreateOrUpdateResource ext Role_t j (NewRole j) s))) (\<lambda>j s.
     keeping j (stacked (CreateOrUpdateResource ext RoleBinding_t j (main_role_binding j) s))))"

fun write_role_bindings ::
  "'w ext \<Rightarrow> Jenkins \<Rightarrow> RoleRef list \<Rightarrow> 'w st \<Rightarrow> (error option \<times> 'w st) option" where
  "write_role_bindings ext j [] s = Some (None, s)"
| "write_role_bindings ext j (roleRef # roles) s =
     do { (err, s) \<leftarrow> CreateOrUpdateResource ext RoleBinding_t j (NewRoleBinding j roleRef) s;
          case err of
            Some e \<Rightarrow> Some (Some (StackError e), s)
          | None \<Rightarrow> write_role_bindings ext j roles s }"

definition role_of_kind :: "string \<Rightarrow> RoleRef" where
  "role_of_kind k = \<lparr>RoleRef_APIGroup = '''', RoleRef_Kind = k, RoleRef_Name = ''''\<rparr>"

definition has_extra_prefix :: "Jenkins \<Rightarrow> RoleBinding \<Rightarrow> bool" where
  "has_extra_prefix j rb \<longleftrightarrow>
     HasPrefix (Meta_Name (RB_Meta rb)) (GetExtraRoleBindingName j (role_of_kind ''Role'')) \<or>
     HasPrefix (Meta_Name (RB_Meta rb)) (GetExtraRoleBindingName j (role_of_kind ''ClusterRole''))"

definition is_wanted :: "Jenkins \<Rightarrow> RoleRef list \<Rightarrow> RoleBinding \<Rightarrow> bool" where
  "is_wanted j roles rb = list_ex (\<lambda>r. Meta_Name (RB_Meta rb) = GetExtraRoleBindingName j r) roles"

fun delete_role_bindings ::
  "'w ext \<Rightarrow> Jenkins \<Rightarrow> RoleRef list \<Rightarrow> RoleBinding list \<Rightarrow> 'w st \<Rightarrow> (error option \<times> 'w st) option" where
  "delete_role_bindings ext j roles [] s = Some (None, s)"
| "delete_role_bindings ext j roles (rb # rbs) s =
     (if \<not> has_extra_prefix j rb then delete_role_bindings ext j roles rbs s
      else if is_wanted j roles rb then delete_role_bindings ext j roles rbs s
      else do { (err, s) \<leftarrow> Client_Delete ext (O_RoleBinding rb) s;
                case err of
                  Some e \<Rightarrow> Some (Some (StackError e), s)
                | None \<Rightarrow> delete_role_bindings ext j roles rbs s })"

definition ensureExtraRBACArePresent ::
  "'w ext \<Rightarrow> Jenkins \<Rightarrow> 'w st \<Rightarrow> (error option \<times> 'w st) option" where
  "ensureExtraRBACArePresent ext j s =
     do { spec \<leftarrow> status_spec j;
          let roles = (case Spec_Roles spec of None \<Rightarrow> [] | Some rs \<Rightarrow> rs);
          (err, s) \<leftarrow> write_role_bindings ext j roles s;
          case err of
            Some e \<Rightarrow> Some (Some e, s)
          | None \<Rightarrow>
              do { (r, s) \<leftarrow> Client_List ext RoleBinding_t (InNamespace (jenkins_namespace j)) s;
                   case r of
                     Inl e \<Rightarrow> Some (Some (StackError e), s)
                   | Inr roleBindings \<Rightarrow> delete_role_bindings ext j roles roleBindings s } }"

text \<open>\<open>GetDefaultRoleBinding\<close> of this package: a role that is not found leaves the zero value.\<close>

definition base_GetDefaultRoleBinding :: "'w ext \<Rightarrow> Jenkins \<Rightarrow> 'w st \<Rightarrow> (RoleBinding \<times> 'w st) option" where
  "base_GetDefaultRoleBinding ext j s =
     do { (r, s) \<leftarrow> Client_Get ext ClusterRole_t (nn '''' ''edit'') s;
          let editRole = (case r of Inl _ \<Rightarrow> \<lparr>CR_Meta = empty_meta, CR_Kind = ''''\<rparr> | Inr x \<Rightarrow> x);
          Some (NewRoleBinding j \<lparr>RoleRef_APIGroup = ''rbac.authorization.k8s.io'',
                  RoleRef_Kind = CR_Kind editRole, RoleRef_Name = Meta_Name (CR_Meta editRole)\<rparr>, s) }"

section \<open>Services\<close>

definition bare_service :: "ObjectMeta \<Rightarrow> string \<Rightarrow> KService" where
  "bare_service meta n =
     \<lparr>Svc_Meta = empty_meta\<lparr>Meta_Name := n, Meta_Namespace := Meta_Namespace meta, Meta_Labels := Meta_Labels meta\<rparr>,
      Svc_Selector = Meta_Labels meta, Svc_Type = '''', Svc_LoadBalancerIP = '''',
      Svc_LoadBalancerSourceRanges = None, Svc_Ports = [], Svc_ClusterIP = ''''\<rparr>"

text \<open>The end of \<open>createService\<close>: the service gets the selector again and is updated.\<close>

definition refresh_service ::
  "'w ext \<Rightarrow> Jenkins \<Rightarrow> ObjectMeta \<Rightarrow> Service \<Rightarrow> KService \<Rightarrow> 'w st \<Rightarrow> ((error option \<times> ObjectMeta) \<times> 'w st) option" where
  "refresh_service ext j meta config svc s =
     do { svc \<leftarrow> UpdateService (svc\<lparr>Svc_Selector := Meta_Labels meta\<rparr>) config;
          (r, s) \<leftarrow> UpdateResource ext Service_t j svc s;
          Some ((case r of Inl err \<Rightarrow> Some (StackError err) | Inr _ \<Rightarrow> None, meta), s) }"

text \<open>
  Metadata, labels and selector of a new service are one map, so \<open>UpdateService\<close> writes the labels of
  the user into all three.
\<close>

definition createService ::
  "'w ext \<Rightarrow> Jenkins \<Rightarrow> ObjectMeta \<Rightarrow> string \<Rightarrow> Service \<Rightarrow> 'w st \<Rightarrow> ((error option \<times> ObjectMeta) \<times> 'w st) option" where
  "createService ext j meta n config s =
     do { (r, s) \<leftarrow> Client_Get ext Service_t (nn (Meta_Namespace meta) n) s;
          case r of
            Inr svc \<Rightarrow> refresh_service ext j meta config svc s
          | Inl err \<Rightarrow>
              if IsNotFound err
              then do { svc \<leftarrow> UpdateService (bare_service meta n) config;
                        let meta = meta\<lparr>Meta_Labels := Meta_Labels (Svc_Meta svc)\<rparr>;
                        (r, s) \<leftarrow> CreateResource ext Service_t j (svc\<lparr>Svc_Selector := Meta_Labels meta\<rparr>) s;
                        case r of
                          Inl err \<Rightarrow> Some ((Some (StackError err), meta), s)
                        | Inr svc \<Rightarrow> refresh_service ext j meta config svc s }
              else Some ((Some (StackError err), meta), s) }"

section \<open>The route\<close>

definition ServiceKind :: string where "ServiceKind = ''Service''"

text \<open>The TLS settings are the policy for insecure traffic and the termination.\<close>

definition newRoute :: "ObjectMeta \<Rightarrow> string \<Rightarrow> string \<Rightarrow> Route" where
  "newRoute meta n serviceName =
     \<lparr>Route_Meta = empty_meta\<lparr>Meta_Name := n, Meta_Namespace := Meta_Namespace meta, Meta_Labels := Meta_Labels meta\<rparr>,
      Route_ToKind = ServiceKind, Route_ToName = serviceName, Route_TargetPort = Some (FromString ''''),
      Route_TLS = Some (''Redirect'', ''edge''), Route_Other = ''''\<rparr>"

definition createRoute ::
  "'w ext \<Rightarrow> ObjectMeta \<Rightarrow> string \<Rightarrow> Jenkins \<Rightarrow> 'w st \<Rightarrow> (error option \<times> 'w st) option" where
  "createRoute ext meta serviceName j s =
     do { let n = ''jenkins-'' @ jenkins_name j;
          (r, s) \<leftarrow> Client_Get ext Route_t (nn (Meta_Namespace meta) n) s;
          case r of
            Inl err \<Rightarrow>
              if IsNotFound err
              then do { route \<leftarrow> UpdateRoute (newRoute meta n serviceName) j;
                        (r, s) \<leftarrow> CreateResource ext Route_t j route s;
                        Some (case r of Inl err \<Rightarrow> Some (StackError err) | Inr _ \<Rightarrow> None, s) }
              else Some (Some (StackError err), s)
          | Inr route \<Rightarrow>
              do { route \<leftarrow> UpdateRoute (route\<lparr>Route_Meta := (Route_Meta route)\<lparr>Meta_Labels := Meta_Labels meta\<rparr>\<rparr>) j;
                   (r, s) \<leftarrow> UpdateResource ext Route_t j route s;
                   Some (case r of
                           Inr _ \<Rightarrow> None
                         | Inl err \<Rightarrow>
                             if Contains (error_string err) ''please apply your changes to the latest version and try again''
                             then None else Some (StackError err), s) } }"

section \<open>The service monitor\<close>

definition NewServiceMonitor :: "string \<Rightarrow> string \<Rightarrow> ServiceMonitor" where
  "NewServiceMonitor n namespace =
     \<lparr>SM_Meta = empty_meta\<lparr>Meta_Name := n, Meta_Namespace := namespace\<rparr>, SM_JobLabel = '''', SM_Endpoints = [],
      SM_Selector = \<lparr>MatchLabels = None, MatchExpressions = ''''\<rparr>, SM_MatchNames = []\<rparr>"

definition NewJenkinsServiceMonitor :: "Jenkins \<Rightarrow> ServiceMonitor" where
  "NewJenkinsServiceMonitor j =
     (let meta = NewResourceObjectMeta j in
      (NewServiceMonitor (Meta_Name meta @ ''-monitored'') (Meta_Namespace meta))
        \<lparr>SM_JobLabel := ''monitor-jenkins'',
         SM_Endpoints := [\<lparr>Endpoint_Port = ''web'', Endpoint_Path = ''/prometheus/''\<rparr>],
         SM_Selector := \<lparr>MatchLabels = Meta_Labels meta, MatchExpressions = ''''\<rparr>,
         SM_MatchNames := [Meta_Namespace meta]\<rparr>)"

text \<open>
  \<open>retry.RetryOnConflict\<close>: at most as many runs as the backoff has steps, and only a conflict is tried
  again.  \<open>retry.DefaultRetry\<close> has five steps.
\<close>

fun RetryOnConflict ::
  "nat \<Rightarrow> ('c \<Rightarrow> 'w st \<Rightarrow> ((error option \<times> 'c) \<times> 'w st) option) \<Rightarrow> 'c \<Rightarrow> 'w st \<Rightarrow> (error option \<times> 'w st) option" where
  "RetryOnConflict 0 fn c s = Some (None, s)"
| "RetryOnConflict (Suc steps) fn c s =
     do { ((err, c), s) \<leftarrow> fn c s;
          case err of
            None \<Rightarrow> Some (None, s)
          | Some e \<Rightarrow>
              if IsConflict e \<and> steps \<noteq> 0 then RetryOnConflict steps fn c s else Some (Some e, s) }"

definition DefaultRetry :: nat where "DefaultRetry = 5"

definition quoted :: "string \<Rightarrow> string" where
  "quoted n = [CHR 34] @ n @ [CHR 34]"

text \<open>One attempt; the monitor found last is kept, as its name is in the error text.\<close>

definition update_monitor ::
  "'w ext \<Rightarrow> Jenkins \<Rightarrow> ServiceMonitor \<Rightarrow> ServiceMonitor \<Rightarrow> 'w st \<Rightarrow>
   ((error option \<times> ServiceMonitor) \<times> 'w st) option" where
  "update_monitor ext j desired current s =
     do { (r, s) \<leftarrow> Client_Get ext ServiceMonitor_t (nn (jenkins_namespace j) (Meta_Name (SM_Meta desired))) s;
          case r of
            Inl err \<Rightarrow>
              if IsNotFound err then Some ((None, current), s)
              else Some ((Some (PlainError (''failed to get '' @ quoted (Meta_Name (SM_Meta current)) @
                     '' service monitor: '' @ error_string err)), current), s)
          | Inr current \<Rightarrow>
              do { let current = desired\<lparr>SM_Meta := (SM_Meta current)\<lparr>Meta_Labels := Meta_Labels (SM_Meta desired),
                         Meta_Annotations := Meta_Annotations (SM_Meta desired)\<rparr>\<rparr>;
                   (r, s) \<leftarrow> UpdateResource ext ServiceMonitor_t j current s;
                   Some (case r of Inl err \<Rightarrow> (Some err, owned_or_same ServiceMonitor_t j current)
                         | Inr current \<Rightarrow> (None, current), s) } }"

definition createServiceMonitor :: "'w ext \<Rightarrow> Jenkins \<Rightarrow> 'w st \<Rightarrow> (error option \<times> 'w st) option" where
  "createServiceMonitor ext j s =
     do { let desired = NewJenkinsServiceMonitor j;
          (r, s) \<leftarrow> CreateResource ext ServiceMonitor_t j desired s;
          case r of
            Inr _ \<Rightarrow> Some (None, s)
          | Inl err \<Rightarrow>
              if IsAlreadyExists err
              then RetryOnConflict DefaultRetry (update_monitor ext j desired) (NewServiceMonitor '''' '''') s
              else Some (Some (PlainError (''failure creating the jenkins ServiceMonitor: '' @ error_string err)), s) }"

section \<open>The credentials\<close>

definition createOperatorCredentialsSecret ::
  "'w ext \<Rightarrow> ObjectMeta \<Rightarrow> Jenkins \<Rightarrow> 'w st \<Rightarrow> (error option \<times> 'w st) option" where
  "createOperatorCredentialsSecret ext meta j s =
     do { (r, s) \<leftarrow> Client_Get ext Secret_t (nn (jenkins_namespace j) (GetOperatorCredentialsSecretName j)) s;
          case r of
            Inl err \<Rightarrow>
              if IsNotFound err
              then do { (secret, s) \<leftarrow> NewOperatorCredentialsSecret ext meta j s;
                        (r, s) \<leftarrow> CreateResource ext Secret_t j secret s;
                        Some (case r of Inl err \<Rightarrow> Some (StackError err) | Inr _ \<Rightarrow> None, s) }
              else Some (Some (StackError err), s)
          | Inr found \<Rightarrow>
              if map_of (Secret_Data found) OperatorCredentialsSecretUserNameKey \<noteq> None \<and>
                 map_of (Secret_Data found) OperatorCredentialsSecretPasswordKey \<noteq> None
              then Some (None, s)
              else do { (secret, s) \<leftarrow> NewOperatorCredentialsSecret ext meta j s;
                        (r, s) \<leftarrow> UpdateResource ext Secret_t j secret s;
                        Some (case r of Inl err \<Rightarrow> Some (StackError err) | Inr _ \<Rightarrow> None, s) } }"

section \<open>What the steps ask of the server\<close>

lemma Client_Get_extends:
  "Client_Get ext T n s = Some (r, s') \<Longrightarrow> P (GetReq (gokind T) n) \<Longrightarrow> extends P s s'"
  by (auto simp: Client_Get_def call_eq extends_def)

lemma Client_List_extends:
  "Client_List ext T opts s = Some (r, s') \<Longrightarrow> P (ListReq (gokind T) opts) \<Longrightarrow> extends P s s'"
  by (auto simp: Client_List_def call_eq extends_def)

lemma CreateResource_extends:
  "CreateResource ext T j x s = Some (r, s') \<Longrightarrow>
   (\<And>m. own_by_jenkins j (get_meta T x) = Inr m \<Longrightarrow> P (CreateReq (inject T (put_meta T m x)))) \<Longrightarrow> extends P s s'"
  by (auto simp: CreateResource_def Client_Create_def call_eq extends_def split: sum.splits)

lemma UpdateResource_extends:
  "UpdateResource ext T j x s = Some (r, s') \<Longrightarrow> P (UpdateReq (inject T (owned_or_same T j x))) \<Longrightarrow> extends P s s'"
  by (auto simp: UpdateResource_def Client_Update_def call_eq extends_def)

lemma CreateOrUpdate_extends:
  assumes "CreateOrUpdateResource ext T j x s = Some (r, s')" and "api_type T"
    and "P (CreateReq (inject T (owned_or_same T j x)))" and "P (UpdateReq (inject T (owned_or_same T j x)))"
  shows "extends P s s'"
proof -
  obtain e s2 where "CreateOrUpdateResource ext T j x s = Some (e, s2)"
    "extends (\<lambda>q. q = CreateReq (inject T (owned_or_same T j x)) \<or> q = UpdateReq (inject T (owned_or_same T j x))) s s2"
    using api_type.CreateOrUpdate_total [OF assms(2), of ext j x s] by blast
  with assms show ?thesis by (auto elim!: extends_mono)
qed

lemma checkedE:
  assumes "checked m k = Some ((err, c), s')"
  obtains (stop) e where "m = Some ((Some e, c), s')" "err = Some e"
    | (go_on) c1 s1 where "m = Some ((None, c1), s1)" "k c1 s1 = Some ((err, c), s')"
  using assms by (auto simp: checked_def elim!: bind_pairE split: option.splits)

lemma keeping_Some [simp]:
  "keeping c m = Some ((err, c'), s') \<longleftrightarrow> c' = c \<and> m = Some (err, s')"
  by (auto simp: keeping_def elim!: bind_pairE)

lemma stacked_Some: "stacked m = Some (err, s') \<longleftrightarrow> (\<exists>e. m = Some (e, s') \<and> err = WithStack e)"
  by (auto simp: stacked_def elim!: bind_pairE)

section \<open>The objects are owned by the CR\<close>

definition object_meta :: "object \<Rightarrow> ObjectMeta" where
  "object_meta obj =
     (case obj of O_Jenkins x \<Rightarrow> Jenkins_Meta x | O_JenkinsImage x \<Rightarrow> JImage_Meta x | O_Backup x \<Rightarrow> Backup_Meta x
      | O_BackupStrategy x \<Rightarrow> Strategy_Meta x | O_BackupVolume x \<Rightarrow> BackupVolume_Meta x
      | O_Restore x \<Rightarrow> Restore_Meta x | O_Pod x \<Rightarrow> Pod_Meta x | O_Deployment x \<Rightarrow> Depl_Meta x
      | O_ReplicaSet x \<Rightarrow> RS_Meta x | O_Service x \<Rightarrow> Svc_Meta x | O_Route x \<Rightarrow> Route_Meta x
      | O_ConfigMap x \<Rightarrow> CM_Meta x | O_Secret x \<Rightarrow> Secret_Meta x | O_ServiceAccount x \<Rightarrow> SA_Meta x
      | O_Role x \<Rightarrow> Role_Meta x | O_RoleBinding x \<Rightarrow> RB_Meta x | O_ClusterRole x \<Rightarrow> CR_Meta x
      | O_PVC x \<Rightarrow> PVC_Meta x | O_StorageClass x \<Rightarrow> SC_Meta x | O_ServiceMonitor x \<Rightarrow> SM_Meta x
      | O_Namespace x \<Rightarrow> x | O_Proxy x \<Rightarrow> empty_meta)"

fun kind_of :: "object \<Rightarrow> kind" where
  "kind_of (O_Jenkins _) = K_Jenkins" | "kind_of (O_JenkinsImage _) = K_JenkinsImage"
| "kind_of (O_Backup _) = K_Backup" | "kind_of (O_BackupStrategy _) = K_BackupStrategy"
| "kind_of (O_BackupVolume _) = K_BackupVolume" | "kind_of (O_Restore _) = K_Restore"
| "kind_of (O_Pod _) = K_Pod" | "kind_of (O_Deployment _) = K_Deployment" | "kind_of (O_ReplicaSet _) = K_ReplicaSet"
| "kind_of (O_Service _) = K_Service" | "kind_of (O_Route _) = K_Route" | "kind_of (O_ConfigMap _) = K_ConfigMap"
| "kind_of (O_Secret _) = K_Secret" | "kind_of (O_ServiceAccount _) = K_ServiceAccount" | "kind_of (O_Role _) = K_Role"
| "kind_of (O_RoleBinding _) = K_RoleBinding" | "kind_of (O_ClusterRole _) = K_ClusterRole" | "kind_of (O_PVC _) = K_PVC"
| "kind_of (O_StorageClass _) = K_StorageClass" | "kind_of (O_ServiceMonitor _) = K_ServiceMonitor"
| "kind_of (O_Namespace _) = K_Namespace" | "kind_of (O_Proxy _) = K_Proxy"

definition created_kinds :: "kind set" where
  "created_kinds = {K_Deployment, K_Service, K_Route, K_ConfigMap, K_Secret, K_ServiceAccount, K_Role, K_RoleBinding,
     K_ServiceMonitor}"

text \<open>The CR is among the owners, and no other object controls it.\<close>

definition owned_meta :: "Jenkins \<Rightarrow> ObjectMeta \<Rightarrow> bool" where
  "owned_meta j m \<longleftrightarrow> jenkins_ref j \<in> set (Meta_OwnerReferences m) \<and>
     (\<forall>r \<in> set (Meta_OwnerReferences m). Ref_Controller r = Some True \<longrightarrow> referSameObject (jenkins_ref j) r) \<and>
     (jenkins_namespace j = '''' \<or> Meta_Namespace m = jenkins_namespace j)"

definition owned_by :: "Jenkins \<Rightarrow> object \<Rightarrow> bool" where
  "owned_by j obj \<longleftrightarrow> kind_of obj \<in> created_kinds \<and> owned_meta j (object_meta obj)"

definition creates_owned :: "Jenkins \<Rightarrow> request \<Rightarrow> bool" where
  "creates_owned j q = (case q of CreateReq obj \<Rightarrow> owned_by j obj | _ \<Rightarrow> True)"

lemma creates_owned_simps [simp]:
  "creates_owned j (GetReq k n)" "creates_owned j (ListReq k opts)" "creates_owned j (UpdateReq obj)"
  "creates_owned j (DeleteReq obj)" "creates_owned j (CreateReq obj) = owned_by j obj"
  by (simp_all add: creates_owned_def)

lemma own_by_jenkins_owner: "own_by_jenkins j m = Inr m' \<Longrightarrow> owned_meta j m'"
  unfolding owned_meta_def by (rule own_by_jenkins_refs)

definition fresh_meta :: "Jenkins \<Rightarrow> ObjectMeta \<Rightarrow> bool" where
  "fresh_meta j m \<longleftrightarrow> Meta_Namespace m = jenkins_namespace j \<and> Meta_OwnerReferences m = []"

lemma own_fresh: "fresh_meta j m \<Longrightarrow> own_by_jenkins j m = Inr (m\<lparr>Meta_OwnerReferences := [jenkins_ref j]\<rparr>)"
  by (simp add: fresh_meta_def own_by_jenkins_cases)

lemma fresh_NewResourceObjectMeta [simp]: "fresh_meta j (NewResourceObjectMeta j)"
  by (simp add: fresh_meta_def)

lemma fresh_meta_update [simp]:
  "fresh_meta j (m\<lparr>Meta_Name := n\<rparr>) = fresh_meta j m" "fresh_meta j (m\<lparr>Meta_Labels := l\<rparr>) = fresh_meta j m"
  "fresh_meta j (m\<lparr>Meta_Annotations := l\<rparr>) = fresh_meta j m" "fresh_meta j (with_name n m) = fresh_meta j m"
  by (simp_all add: fresh_meta_def with_name_def)

text \<open>The types whose objects the base configuration creates.\<close>

locale owned_type = api_type T for T :: "'a gotype" +
  assumes meta_inject [simp]: "object_meta (inject T x) = get_meta T x"
    and kind_inject [simp]: "kind_of (inject T x) \<in> created_kinds"
begin

lemma owned_create:
  "own_by_jenkins j (get_meta T x) = Inr m \<Longrightarrow> owned_by j (inject T (put_meta T m x))"
  by (simp add: owned_by_def own_by_jenkins_owner)

lemma CreateResource_owned:
  "CreateResource ext T j x s = Some (r, s') \<Longrightarrow> extends (creates_owned j) s s'"
  by (erule CreateResource_extends) (simp add: owned_create)

lemma UpdateResource_owned:
  "UpdateResource ext T j x s = Some (r, s') \<Longrightarrow> extends (creates_owned j) s s'"
  by (erule UpdateResource_extends) simp

lemma CreateOrUpdate_owned:
  assumes "CreateOrUpdateResource ext T j x s = Some (r, s')" and "fresh_meta j (get_meta T x)"
  shows "extends (creates_owned j) s s'"
  using assms(1) api_type_axioms
  by (rule CreateOrUpdate_extends)
     (simp_all add: owned_or_same_def own_fresh [OF assms(2)] owned_create [OF own_fresh [OF assms(2)]])

lemma Get_owned: "Client_Get ext T n s = Some (r, s') \<Longrightarrow> extends (creates_owned j) s s'"
  by (erule Client_Get_extends) simp

lemma List_owned: "Client_List ext T opts s = Some (r, s') \<Longrightarrow> extends (creates_owned j) s s'"
  by (erule Client_List_extends) simp

end

interpretation own_Deployment: owned_type Deployment_t
  by unfold_locales (simp_all add: object_meta_def created_kinds_def Deployment_t_def)
interpretation own_Service: owned_type Service_t
  by unfold_locales (simp_all add: object_meta_def created_kinds_def Service_t_def)
interpretation own_Route: owned_type Route_t
  by unfold_locales (simp_all add: object_meta_def created_kinds_def Route_t_def)
interpretation own_ConfigMap: owned_type ConfigMap_t
  by unfold_locales (simp_all add: object_meta_def created_kinds_def ConfigMap_t_def)
interpretation own_Secret: owned_type Secret_t
  by unfold_locales (simp_all add: object_meta_def created_kinds_def Secret_t_def)
interpretation own_ServiceAccount: owned_type ServiceAccount_t
  by unfold_locales (simp_all add: object_meta_def created_kinds_def ServiceAccount_t_def)
interpretation own_Role: owned_type Role_t
  by unfold_locales (simp_all add: object_meta_def created_kinds_def Role_t_def)
interpretation own_RoleBinding: owned_type RoleBinding_t
  by unfold_locales (simp_all add: object_meta_def created_kinds_def RoleBinding_t_def)
interpretation own_ServiceMonitor: owned_type ServiceMonitor_t
  by unfold_locales (simp_all add: object_meta_def created_kinds_def ServiceMonitor_t_def)

lemmas owned_steps = own_Deployment.CreateResource_owned own_Deployment.Get_owned
  own_Service.CreateResource_owned own_Service.UpdateResource_owned own_Service.Get_owned
  own_Route.CreateResource_owned own_Route.UpdateResource_owned own_Route.Get_owned
  own_Secret.CreateResource_owned own_Secret.UpdateResource_owned own_Secret.Get_owned
  own_ServiceAccount.CreateResource_owned own_ServiceAccount.UpdateResource_owned own_ServiceAccount.Get_owned
  own_ServiceMonitor.CreateResource_owned own_ServiceMonitor.UpdateResource_owned own_ServiceMonitor.Get_owned
  own_RoleBinding.List_owned


lemma createServiceAccount_owned:
  "createServiceAccount ext j s = Some ((err, j'), s') \<Longrightarrow> extends (creates_owned j) s s' \<and> j' = annotate_jenkins j"
  unfolding createServiceAccount_def Let_def
  by (auto elim!: bind_pairE split: sum.split_asm if_split_asm dest!: owned_steps [where j = j])
    (blast intro: extends_trans)+

lemma Jenkins_Meta_annotate [simp]: "Jenkins_Meta (annotate_jenkins j) = Jenkins_Meta j"
  by (simp add: annotate_jenkins_def split: option.split)

lemma same_meta:
  assumes "Jenkins_Meta j' = Jenkins_Meta j"
  shows "creates_owned j' = creates_owned j" "fresh_meta j' = fresh_meta j"
    "NewResourceObjectMeta j' = NewResourceObjectMeta j" "jenkins_namespace j' = jenkins_namespace j"
    "jenkins_name j' = jenkins_name j"
proof -
  show ns: "jenkins_namespace j' = jenkins_namespace j" and n: "jenkins_name j' = jenkins_name j"
    by (simp_all add: jenkins_namespace_def jenkins_name_def assms)
  have "owned_by j' = owned_by j" by (simp add: owned_by_def owned_meta_def jenkins_ref_def ns assms fun_eq_iff)
  then show "creates_owned j' = creates_owned j" by (simp add: creates_owned_def fun_eq_iff split: request.split)
  show "fresh_meta j' = fresh_meta j" by (simp add: fresh_meta_def ns fun_eq_iff)
  show "NewResourceObjectMeta j' = NewResourceObjectMeta j"
    by (simp add: NewResourceObjectMeta_def GetResourceName_def BuildResourceLabels_def ns n)
qed

lemma fresh_NewRoleBinding [simp]: "fresh_meta j (RB_Meta (NewRoleBinding j r))" "fresh_meta j (RB_Meta (main_role_binding j))"
  by (simp_all add: NewRoleBinding_def main_role_binding_def fresh_meta_def empty_meta_def Let_def)

lemma createRBAC_owned:
  assumes "createRBAC ext j s = Some ((err, j'), s')"
  shows "extends (creates_owned j) s s'" "j' = annotate_jenkins j"
proof -
  let ?j = "annotate_jenkins j"
  have same: "creates_owned ?j = creates_owned j" by (rule same_meta(1)) simp
  have role: "CreateOrUpdateResource ext Role_t ?j (NewRole ?j) s1 = Some (e, s2) \<Longrightarrow> extends (creates_owned j) s1 s2"
    for s1 e s2
    using own_Role.CreateOrUpdate_owned [of ext ?j "NewRole ?j" s1] by (simp add: Role_t_def NewRole_def same)
  have binding: "CreateOrUpdateResource ext RoleBinding_t ?j (main_role_binding ?j) s1 = Some (e, s2) \<Longrightarrow>
      extends (creates_owned j) s1 s2" for s1 e s2
    using own_RoleBinding.CreateOrUpdate_owned [of ext ?j "main_role_binding ?j" s1] by (simp add: RoleBinding_t_def same)
  have "extends (creates_owned j) s s' \<and> j' = ?j"
    using assms unfolding createRBAC_def
    by (auto elim!: checkedE simp: stacked_Some dest!: createServiceAccount_owned role binding)
      (blast intro: extends_trans)+
  then show "extends (creates_owned j) s s'" "j' = ?j" by simp_all
qed

lemma write_role_bindings_owned:
  "write_role_bindings ext j roles s = Some (err, s') \<Longrightarrow> extends (creates_owned j) s s'"
proof (induction roles arbitrary: s)
  case (Cons r roles)
  have step: "CreateOrUpdateResource ext RoleBinding_t j (NewRoleBinding j r) s = Some (e, s1) \<Longrightarrow>
      extends (creates_owned j) s s1" for e s1
    using own_RoleBinding.CreateOrUpdate_owned [of ext j "NewRoleBinding j r" s] by (simp add: RoleBinding_t_def)
  from Cons.prems Cons.IH show ?case
    by (auto elim!: bind_pairE split: option.split_asm dest!: step)
      (blast intro: extends_trans)+
qed simp

lemma Client_Delete_extends: "Client_Delete ext obj s = Some (r, s') \<Longrightarrow> P (DeleteReq obj) \<Longrightarrow> extends P s s'"
  by (auto simp: Client_Delete_def call_eq extends_def)

lemma delete_role_bindings_owned:
  "delete_role_bindings ext j roles rbs s = Some (err, s') \<Longrightarrow> extends (creates_owned j) s s'"
proof (induction rbs arbitrary: s)
  case (Cons rb rbs)
  have del: "Client_Delete ext (O_RoleBinding rb) s = Some (r, s1) \<Longrightarrow> extends (creates_owned j) s s1" for r s1
    by (erule Client_Delete_extends) simp
  from Cons.prems Cons.IH show ?case
    by (auto elim!: bind_pairE split: option.split_asm if_split_asm dest!: del)
    (blast intro: extends_trans)+
qed simp

lemma ensureExtraRBACArePresent_owned:
  "ensureExtraRBACArePresent ext j s = Some (err, s') \<Longrightarrow> extends (creates_owned j) s s'"
  unfolding ensureExtraRBACArePresent_def
  by (auto elim!: bind_SomeE bind_pairE split: option.split_asm sum.split_asm prod.split_asm
      dest!: write_role_bindings_owned delete_role_bindings_owned owned_steps [where j = j])
    (blast intro: extends_trans)+

lemma createService_owned:
  "createService ext j meta n config s = Some ((err, meta'), s') \<Longrightarrow> extends (creates_owned j) s s'"
  unfolding createService_def refresh_service_def Let_def
  by (auto elim!: bind_SomeE bind_pairE split: option.split_asm sum.split_asm prod.split_asm if_split_asm
      dest!: owned_steps [where j = j])
    (blast intro: extends_trans)+

lemma createRoute_owned:
  "createRoute ext meta n j s = Some (err, s') \<Longrightarrow> extends (creates_owned j) s s'"
  unfolding createRoute_def Let_def
  by (auto elim!: bind_SomeE bind_pairE split: option.split_asm sum.split_asm prod.split_asm if_split_asm
      dest!: owned_steps [where j = j])
    (blast intro: extends_trans)+

lemma randomString_calls: "randomString ext n s = Some (x, s') \<Longrightarrow> calls s' = calls s"
  by (induction n arbitrary: s x) (auto simp: Let_def split: prod.split_asm if_split_asm elim!: bind_pairE)

lemma NewOperatorCredentialsSecret_extends:
  "NewOperatorCredentialsSecret ext meta j s = Some (x, s') \<Longrightarrow> extends P s s'"
  by (auto simp: NewOperatorCredentialsSecret_def elim!: bind_pairE dest!: randomString_calls intro: extends_calls)

lemma createOperatorCredentialsSecret_owned:
  "createOperatorCredentialsSecret ext meta j s = Some (err, s') \<Longrightarrow> extends (creates_owned j) s s'"
  unfolding createOperatorCredentialsSecret_def
  by (auto elim!: bind_SomeE bind_pairE split: option.split_asm sum.split_asm prod.split_asm if_split_asm
      dest!: owned_steps [where j = j] NewOperatorCredentialsSecret_extends [where P = "creates_owned j"])
    (blast intro: extends_trans)+

lemma update_monitor_owned:
  "update_monitor ext j desired c s = Some ((err, c'), s') \<Longrightarrow> extends (creates_owned j) s s'"
  unfolding update_monitor_def Let_def
  by (auto elim!: bind_SomeE bind_pairE split: option.split_asm sum.split_asm prod.split_asm if_split_asm
      dest!: owned_steps [where j = j])
    (blast intro: extends_trans)+

lemma RetryOnConflict_extends:
  assumes "RetryOnConflict n fn c s = Some (err, s')"
    and "\<And>c s e c' s'. fn c s = Some ((e, c'), s') \<Longrightarrow> extends P s s'"
  shows "extends P s s'"
  using assms(1)
proof (induction n arbitrary: c s)
  case (Suc n)
  from Suc.prems Suc.IH show ?case
    by (auto elim!: bind_pairE split: option.split_asm if_split_asm dest!: assms(2))
      (blast intro: extends_trans)+
qed simp

lemma createServiceMonitor_owned:
  "createServiceMonitor ext j s = Some (err, s') \<Longrightarrow> extends (creates_owned j) s s'"
  unfolding createServiceMonitor_def Let_def
  by (auto elim!: bind_pairE split: sum.split_asm if_split_asm dest!: owned_steps [where j = j]
      RetryOnConflict_extends [where P = "creates_owned j", OF _ update_monitor_owned])
    (blast intro: extends_trans)+


section \<open>Services and pods\<close>

definition selects :: "labels \<Rightarrow> request \<Rightarrow> bool" where
  "selects l q =
     (case q of CreateReq (O_Service svc) \<Rightarrow> Svc_Selector svc = l | UpdateReq (O_Service svc) \<Rightarrow> Svc_Selector svc = l
      | GetReq k n \<Rightarrow> k = K_Service | _ \<Rightarrow> False)"

lemma Service_t_simps [simp]:
  "gokind Service_t = K_Service" "inject Service_t svc = O_Service svc" "get_meta Service_t svc = Svc_Meta svc"
  "put_meta Service_t m svc = svc\<lparr>Svc_Meta := m\<rparr>"
  by (simp_all add: Service_t_def)

lemma Svc_Selector_owned [simp]: "Svc_Selector (owned_or_same Service_t j svc) = Svc_Selector svc"
  by (simp add: owned_or_same_def split: sum.split)

lemma UpdateService_selector: "UpdateService cur d = Some svc \<Longrightarrow> Svc_Selector svc = Svc_Selector cur"
  by (auto simp: UpdateService_def Let_def elim!: bind_SomeE)

lemma UpdateService_labels:
  "UpdateService cur d = Some svc \<Longrightarrow> write_all (Meta_Labels (Svc_Meta cur)) (Service_Labels d) = Some (Meta_Labels (Svc_Meta svc))"
  by (auto simp: UpdateService_def Let_def elim!: bind_SomeE)

lemma write_all_nothing [simp]: "range_of src = [] \<Longrightarrow> write_all dst src = Some dst"
  by (cases dst) (simp_all add: write_all_def)

lemma refresh_service_selects:
  "refresh_service ext j meta config svc s = Some ((err, meta'), s') \<Longrightarrow>
   meta' = meta \<and> extends (selects (Meta_Labels meta)) s s'"
  by (auto simp: refresh_service_def selects_def elim!: bind_SomeE bind_pairE UpdateResource_extends
      dest!: UpdateService_selector)

lemma createService_selects:
  assumes "createService ext j meta n config s = Some ((err, meta'), s')" and "range_of (Service_Labels config) = []"
  shows "meta' = meta \<and> extends (selects (Meta_Labels meta)) s s'"
proof -
  have get: "Client_Get ext Service_t (nn (Meta_Namespace meta) n) s = Some (r, s1) \<Longrightarrow>
      extends (selects (Meta_Labels meta)) s s1" for r s1
    by (erule Client_Get_extends) (simp add: selects_def)
  have same: "UpdateService (bare_service meta n) config = Some svc \<Longrightarrow> Meta_Labels (Svc_Meta svc) = Meta_Labels meta"
    for svc using UpdateService_labels [of "bare_service meta n" config svc] assms(2) by (simp add: bare_service_def)
  have create: "CreateResource ext Service_t j (svc\<lparr>Svc_Selector := l\<rparr>) s1 = Some (r, s2) \<Longrightarrow>
      extends (selects l) s1 s2" for svc l r s1 s2
    by (erule CreateResource_extends) (simp add: selects_def)
  from assms(1) show ?thesis
    unfolding createService_def Let_def
    by (auto simp: same split: sum.split_asm if_split_asm elim!: bind_SomeE bind_pairE
        dest!: get refresh_service_selects create)
      (blast intro: extends_trans)+
qed

lemma UpdateService_nothing: "range_of (Service_Labels d) = [] \<Longrightarrow> \<exists>svc. UpdateService cur d = Some svc"
  by (simp add: UpdateService_def Let_def)

lemma CreateResource_runs:
  "\<exists>r s'. CreateResource ext T j x s = Some (r, s') \<and> length (calls s') \<le> length (calls s) + 1"
  by (auto simp: CreateResource_def Client_Create_def call_eq split: sum.split)

lemma createService_total:
  assumes "range_of (Service_Labels config) = []"
  shows "\<exists>err meta' s'. createService ext j meta n config s = Some ((err, meta'), s')"
proof -
  have refresh: "\<exists>err s'. refresh_service ext j m config svc s1 = Some ((err, m), s')" for m svc s1
    using UpdateService_nothing [OF assms, of "svc\<lparr>Svc_Selector := Meta_Labels m\<rparr>"]
    by (auto simp: refresh_service_def UpdateResource_def Client_Update_def call_eq)
  have create: "\<exists>r s2. CreateResource ext Service_t j svc s1 = Some (r, s2)" for svc s1
    using CreateResource_runs [of ext Service_t j svc s1] by auto
  obtain r s1 where get: "Client_Get ext Service_t (nn (Meta_Namespace meta) n) s = Some (r, s1)"
    by (simp add: Client_Get_def call_eq)
  obtain svc where svc: "UpdateService (bare_service meta n) config = Some svc"
    using UpdateService_nothing [OF assms] by blast
  let ?meta = "meta\<lparr>Meta_Labels := Meta_Labels (Svc_Meta svc)\<rparr>"
  obtain r' s2 where create: "CreateResource ext Service_t j (svc\<lparr>Svc_Selector := Meta_Labels ?meta\<rparr>) s1 = Some (r', s2)"
    using create [of "svc\<lparr>Svc_Selector := Meta_Labels ?meta\<rparr>" s1] by auto
  show ?thesis
  proof (cases r)
    case (Inl err)
    then show ?thesis using refresh [of ?meta "projr r'" s2] create
      by (cases r') (auto simp: createService_def get svc Let_def)
  next
    case (Inr x)
    then show ?thesis using refresh [of meta x s1] by (auto simp: createService_def get)
  qed
qed

text \<open>
  A new service with labels of its own: the selector, which is the same map, asks for them too, though
  no pod of the deployment has them.
\<close>

lemma labelled_service_selector:
  assumes "fst (do_call ext (GetReq K_Service (nn (Meta_Namespace meta) n)) (world s)) = Failed (ApiError NotFound m)"
    and "Meta_Labels meta = Some l" and "Service_Labels config = Some [(k, v)]"
    and "Meta_Namespace meta = jenkins_namespace j"
    and "createService ext j meta n config s = Some ((err, meta'), s')"
  shows "\<exists>svc. CreateReq (O_Service svc) \<in> set (calls s') \<and> lookup_label (Svc_Selector svc) k = Some v"
proof -
  let ?s1 = "s\<lparr>world := snd (do_call ext (GetReq K_Service (nn (Meta_Namespace meta) n)) (world s)),
      calls := calls s @ [GetReq K_Service (nn (Meta_Namespace meta) n)]\<rparr>"
  obtain svc where svc: "UpdateService (bare_service meta n) config = Some svc"
    "Meta_Labels (Svc_Meta svc) = Some (AList.update k v l)"
    "Meta_Namespace (Svc_Meta svc) = jenkins_namespace j" "Meta_OwnerReferences (Svc_Meta svc) = []"
    using assms(2,3,4)
    by (auto simp: UpdateService_def bare_service_def write_all_def range_of_def Let_def empty_meta_def)
  let ?svc = "svc\<lparr>Svc_Selector := Some (AList.update k v l)\<rparr>"
  have own: "own_by_jenkins j (Svc_Meta ?svc) = Inr ((Svc_Meta svc)\<lparr>Meta_OwnerReferences := [jenkins_ref j]\<rparr>)"
    using own_fresh [of j "Svc_Meta ?svc"] svc(3,4) by (simp add: fresh_meta_def)
  let ?q = "CreateReq (O_Service (?svc\<lparr>Svc_Meta := (Svc_Meta svc)\<lparr>Meta_OwnerReferences := [jenkins_ref j]\<rparr>\<rparr>))"
  have created: "CreateResource ext Service_t j ?svc ?s1 = Some (r, s2) \<Longrightarrow> ?q \<in> set (calls s2)" for r s2
    using own by (auto simp: CreateResource_def Client_Create_def call_eq)
  have later: "refresh_service ext j x config y s2 = Some (z, s3) \<Longrightarrow> q \<in> set (calls s2) \<Longrightarrow> q \<in> set (calls s3)"
    for x y z q s2 s3
    by (cases z) (auto dest!: refresh_service_selects simp: extends_def)
  have "?q \<in> set (calls s')"
    using assms(5)
    by (auto simp: createService_def Client_Get_def call_eq assms(1) svc(1,2) Let_def
        elim!: bind_pairE split: sum.split_asm dest!: created intro: later)
  then show ?thesis by (intro exI conjI) (auto simp: lookup_label_def range_of_def update_conv')
qed


section \<open>Bounded work\<close>

lemma update_monitor_total:
  "\<exists>err c' s'. update_monitor ext j desired c s = Some ((err, c'), s') \<and> length (calls s') \<le> length (calls s) + 2"
  by (auto simp: update_monitor_def UpdateResource_def Client_Get_def Client_Update_def call_eq Let_def split: sum.split)

lemma RetryOnConflict_total:
  assumes "\<And>c s. \<exists>e c' s'. fn c s = Some ((e, c'), s') \<and> length (calls s') \<le> length (calls s) + k"
  shows "\<exists>err s'. RetryOnConflict n fn c s = Some (err, s') \<and> length (calls s') \<le> length (calls s) + n * k"
proof (induction n arbitrary: c s)
  case (Suc n)
  obtain e c' s1 where 1: "fn c s = Some ((e, c'), s1)" "length (calls s1) \<le> length (calls s) + k"
    using assms by blast
  obtain err s' where "RetryOnConflict n fn c' s1 = Some (err, s')" "length (calls s') \<le> length (calls s1) + n * k"
    using Suc.IH by blast
  with 1 show ?case by (auto split: option.split)
qed simp

section \<open>Deleting role bindings\<close>

definition doomed :: "Jenkins \<Rightarrow> RoleRef list \<Rightarrow> RoleBinding \<Rightarrow> bool" where
  "doomed j roles rb \<longleftrightarrow> has_extra_prefix j rb \<and> \<not> is_wanted j roles rb"

lemma delete_role_bindings_calls:
  "delete_role_bindings ext j roles rbs s = Some (None, s') \<Longrightarrow>
   calls s' = calls s @ map (DeleteReq \<circ> O_RoleBinding) (filter (doomed j roles) rbs)"
  by (induction rbs arbitrary: s)
     (auto simp: doomed_def Client_Delete_def call_eq split: if_split_asm option.split_asm)

lemma main_binding_spared:
  "Meta_Name (RB_Meta rb) = GetResourceName j \<Longrightarrow> \<not> doomed j roles rb"
  by (simp add: doomed_def has_extra_prefix_def GetExtraRoleBindingName_def role_of_kind_def HasPrefix_def)

text \<open>
  The prefix is that of a name, not of a label: the main role binding of another Jenkins, whose name
  extends that of the first with \<open>-r-\<close>, has it.
\<close>

lemma other_jenkins_binding_doomed:
  assumes "jenkins_name b = jenkins_name a @ ''-r-'' @ x" and "\<not> is_wanted a roles (main_role_binding b)"
  shows "doomed a roles (main_role_binding b)"
proof -
  have "Meta_Name (RB_Meta (main_role_binding b)) =
      GetExtraRoleBindingName a (role_of_kind ''Role'') @ x"
    by (simp add: main_role_binding_def GetExtraRoleBindingName_def role_of_kind_def GetResourceName_def assms(1)
        Let_def)
  then show ?thesis using assms(2) by (simp add: doomed_def has_extra_prefix_def)
qed

section \<open>Properties\<close>

text \<open>
  C12. The services select the pods: when the user asks for no labels of his own, \<open>createService\<close> does not
  panic, everything it asks of the server is about services, every service it writes has as its selector the labels that
  \<open>NewJenkinsDeployment\<close> puts on the pods, and the shared map of labels is as it was.
\<close>

theorem service_selects_pods:
  assumes "range_of (Service_Labels config) = []"
    and "NewJenkinsDeployment ext podMeta j spec g = Some (d, g')" and "Meta_Labels podMeta = Meta_Labels meta"
  shows "\<exists>err s'. createService ext j meta n config s = Some ((err, meta), s') \<and>
    list_all (selects (Meta_Labels (Depl_TemplateMeta d))) (new_calls s s')"
proof -
  obtain err meta' s' where run: "createService ext j meta n config s = Some ((err, meta'), s')"
    using createService_total [OF assms(1)] by blast
  have "Meta_Labels (Depl_TemplateMeta d) = Meta_Labels meta"
    using assms(2,3) by (auto elim: NewJenkinsDeployment_parts)
  with run createService_selects [OF run assms(1)] show ?thesis by (auto dest: extends_new_calls)
qed


text \<open>
  C39. Retrying is bounded: \<open>createServiceMonitor\<close> returns whatever the server answers, and never
  panics, after at most eleven requests: the create, and a read and an update in each of five attempts.
\<close>

theorem createServiceMonitor_bounded:
  "\<exists>err s'. createServiceMonitor ext j s = Some (err, s') \<and> length (new_calls s s') \<le> 1 + 2 * DefaultRetry"
proof -
  obtain r s1 where 1: "CreateResource ext ServiceMonitor_t j (NewJenkinsServiceMonitor j) s = Some (r, s1)"
    "length (calls s1) \<le> length (calls s) + 1"
    using CreateResource_runs [of ext ServiceMonitor_t j "NewJenkinsServiceMonitor j" s] by auto
  obtain err s' where 2: "RetryOnConflict DefaultRetry (update_monitor ext j (NewJenkinsServiceMonitor j))
      (NewServiceMonitor '''' '''') s1 = Some (err, s')" "length (calls s') \<le> length (calls s1) + DefaultRetry * 2"
    using RetryOnConflict_total [of "update_monitor ext j (NewJenkinsServiceMonitor j)" 2 DefaultRetry]
      update_monitor_total by blast
  from 1 2 show ?thesis
    by (auto simp: createServiceMonitor_def Let_def new_calls_def split: sum.split)
qed

section \<open>Concrete instances\<close>

text \<open>A server that has nothing and accepts everything.\<close>

definition empty_server :: "request \<Rightarrow> response" where
  "empty_server q =
     (case q of GetReq _ _ \<Rightarrow> Failed (ApiError NotFound ''not found'') | CreateReq obj \<Rightarrow> Returned obj
      | UpdateReq obj \<Rightarrow> Returned obj | StatusUpdateReq obj \<Rightarrow> Returned obj | ListReq _ _ \<Rightarrow> Listed [] | _ \<Rightarrow> Done)"

theorem service_selects_pods_witness:
  "\<exists>d g' err s'. NewJenkinsDeployment (table_ext empty_server) (NewResourceObjectMeta backed_jenkins) backed_jenkins
       backed_spec initial_globals = Some (d, g') \<and>
     createService (table_ext empty_server) backed_jenkins (NewResourceObjectMeta backed_jenkins) ''jenkins-a''
       (default_service False) (initial ()) = Some ((err, NewResourceObjectMeta backed_jenkins), s') \<and>
     list_all (selects (Meta_Labels (Depl_TemplateMeta d))) (calls s')"
proof -
  have labels: "range_of (Service_Labels (default_service False)) = []"
    by (simp add: default_service_def zero_Service_def range_of_def)
  obtain d g' where d: "NewJenkinsDeployment (table_ext empty_server) (NewResourceObjectMeta backed_jenkins)
      backed_jenkins backed_spec initial_globals = Some (d, g')"
    using NewJenkinsDeployment_total [OF backed_simps(1) backed_complete, of "table_ext empty_server"
      "NewResourceObjectMeta backed_jenkins" initial_globals] by blast
  from service_selects_pods [OF labels d refl, of "''jenkins-a''" "initial ()"] d show ?thesis
    by (auto simp: new_calls_def)
qed

text \<open>A list of role bindings in which one is stale.\<close>

definition stale_binding :: RoleBinding where
  "stale_binding = NewRoleBinding backed_jenkins
     \<lparr>RoleRef_APIGroup = '''', RoleRef_Kind = ''Role'', RoleRef_Name = ''old''\<rparr>"

definition stale_server :: "request \<Rightarrow> response" where
  "stale_server q = (case q of ListReq _ _ \<Rightarrow> Listed [O_RoleBinding stale_binding] | _ \<Rightarrow> empty_server q)"

lemma stale_run: "\<exists>s'. ensureExtraRBACArePresent (table_ext stale_server) backed_jenkins (initial ()) = Some (None, s')"
proof -
  have "Spec_Roles backed_spec = None"
    by (simp add: backed_spec_def fill_spec_def zero_JenkinsSpec_def)
  then show ?thesis
    by (simp add: ensureExtraRBACArePresent_def Client_List_def call_eq stale_server_def RoleBinding_t_def
        has_extra_prefix_def is_wanted_def Client_Delete_def empty_server_def err_of_def)
qed


end
