(* ===== verification/Base_Reconcile.thy ===== *)
theory Base_Reconcile
  imports Base_Resources
begin

text \<open>
  The base configuration: \<open>base/reconcile.go\<close> with \<open>base/deployment.go\<close>, and the comparisons of
  \<open>container.go\<close>, \<open>plugin.go\<close> and \<open>reconcile.go\<close>.  The programs return the Jenkins CR as they leave it in
  memory.
\<close>

section \<open>The resources around the deployment\<close>

text \<open>The payload of the steps: the metadata with the shared labels, and the Jenkins.\<close>

definition createRBAC_step ::
  "'w ext \<Rightarrow> ObjectMeta \<Rightarrow> Jenkins \<Rightarrow> 'w st \<Rightarrow> ((error option \<times> ObjectMeta \<times> Jenkins) \<times> 'w st) option" where
  "createRBAC_step ext meta j s =
     do { ((err, j), s) \<leftarrow> createRBAC ext j s; Some ((err, meta, j), s) }"

definition createService_step ::
  "'w ext \<Rightarrow> ObjectMeta \<Rightarrow> Jenkins \<Rightarrow> string \<Rightarrow> (JenkinsSpec \<Rightarrow> Service) \<Rightarrow> 'w st \<Rightarrow>
   ((error option \<times> ObjectMeta \<times> Jenkins) \<times> 'w st) option" where
  "createService_step ext meta j n config s =
     do { spec \<leftarrow> status_spec j;
          ((err, meta), s) \<leftarrow> createService ext j meta n (config spec) s;
          Some ((err, meta, j), s) }"

definition ensure_monitor :: "'w ext \<Rightarrow> Jenkins \<Rightarrow> 'w st \<Rightarrow> (error option \<times> 'w st) option" where
  "ensure_monitor ext j s =
     (if Spec_MetricsEnabled (Jenkins_Spec j) \<and> PrometheusAPIAvailable (globals s)
      then createServiceMonitor ext j s else Some (None, s))"

definition ensure_route ::
  "'w ext \<Rightarrow> ObjectMeta \<Rightarrow> string \<Rightarrow> Jenkins \<Rightarrow> 'w st \<Rightarrow> (error option \<times> 'w st) option" where
  "ensure_route ext meta serviceName j s =
     (if RouteAPIAvailable (globals s) then createRoute ext meta serviceName j s else Some (None, s))"

text \<open>\<open>ensureResourcesRequiredForJenkinsDeploymentArePresent\<close>: the steps, and the function.\<close>

definition resource_steps ::
  "'w ext \<Rightarrow> ObjectMeta \<Rightarrow> Jenkins \<Rightarrow> 'w st \<Rightarrow> ((error option \<times> ObjectMeta \<times> Jenkins) \<times> 'w st) option" where
  "resource_steps ext meta j s =
     (let httpServiceName = GetJenkinsHTTPServiceName j in
      checked (keeping (meta, j) (createOperatorCredentialsSecret ext meta j s)) (\<lambda>(meta, j) s.
      checked (keeping (meta, j) (createScriptsConfigMap ext meta j s)) (\<lambda>(meta, j) s.
      checked (keeping (meta, j) (createInitConfigurationConfigMap ext meta j s)) (\<lambda>(meta, j) s.
      checked (keeping (meta, j) (createBasePluginsConfigMap ext meta j s)) (\<lambda>(meta, j) s.
      checked (createRBAC_step ext meta j s) (\<lambda>(meta, j) s.
      checked (keeping (meta, j) (ensureExtraRBACArePresent ext j s)) (\<lambda>(meta, j) s.
      checked (createService_step ext meta j httpServiceName Spec_Service s) (\<lambda>(meta, j) s.
      checked (createService_step ext meta j (GetJenkinsJNLPServiceName j) Spec_JNLPService s) (\<lambda>(meta, j) s.
      checked (keeping (meta, j) (ensure_monitor ext j s)) (\<lambda>(meta, j) s.
      keeping (meta, j) (ensure_route ext meta httpServiceName j s)))))))))))"

definition ensureResourcesRequiredForJenkinsDeploymentArePresent ::
  "'w ext \<Rightarrow> Jenkins \<Rightarrow> 'w st \<Rightarrow> ((error option \<times> Jenkins) \<times> 'w st) option" where
  "ensureResourcesRequiredForJenkinsDeploymentArePresent ext j s =
     do { ((err, _, j), s) \<leftarrow> resource_steps ext (NewResourceObjectMeta j) j s; Some ((err, j), s) }"

section \<open>The deployment\<close>

definition deployment_notification :: "Jenkins \<Rightarrow> string \<Rightarrow> Event" where
  "deployment_notification j message =
     \<lparr>Event_Jenkins = j, Event_Controller = JenkinsController, Event_Level = NotificationLevelInfo,
      Event_Reason = NewDeploymentEvent OperatorSource [message] []\<rparr>"

definition sendDeploymentCreationNotification :: "Jenkins \<Rightarrow> 'w st \<Rightarrow> 'w st" where
  "sendDeploymentCreationNotification j = send (deployment_notification j ''Creating a Jenkins Deployment'')"

definition sendSuccessfulDeploymentCreationNotification :: "Jenkins \<Rightarrow> string \<Rightarrow> 'w st \<Rightarrow> 'w st" where
  "sendSuccessfulDeploymentCreationNotification j n =
     send (deployment_notification j (''Deployment '' @ n @ '' successfully created''))"

definition put_globals :: "Globals \<Rightarrow> 'w st \<Rightarrow> 'w st" where
  "put_globals g s = s\<lparr>globals := g\<rparr>"

text \<open>The creation of a deployment that was not found, up to reading it again.\<close>

definition create_deployment ::
  "'w ext \<Rightarrow> ObjectMeta \<Rightarrow> Jenkins \<Rightarrow> 'w st \<Rightarrow> ((error + Deployment) \<times> 'w st) option" where
  "create_deployment ext meta j s =
     do { spec \<leftarrow> status_spec j;
          (d, g) \<leftarrow> NewJenkinsDeployment ext meta j spec (globals s);
          let deploymentName = Meta_Name (Depl_Meta d);
          let s = sendDeploymentCreationNotification j (put_globals g s);
          (r, s) \<leftarrow> CreateResource ext Deployment_t j d s;
          case r of
            Inl err \<Rightarrow> Some (Inl (StackError err), s)
          | Inr _ \<Rightarrow>
              do { (r, s) \<leftarrow> GetJenkinsDeployment ext j s;
                   Some (case r of
                           Inl err \<Rightarrow> (Inl (StackError err), s)
                         | Inr d \<Rightarrow> (Inr d, sendSuccessfulDeploymentCreationNotification j deploymentName s)) } }"

text \<open>The version that \<open>main.go\<close> writes to \<open>version.Version\<close> before it starts the controllers.\<close>

definition operatorVersion :: string where
  "operatorVersion = ''0.7.1''"

definition set_operator_version :: "string \<Rightarrow> Jenkins \<Rightarrow> Jenkins option" where
  "set_operator_version v j =
     do { st \<leftarrow> Jenkins_Status j; Some (j\<lparr>Jenkins_Status := Some (st\<lparr>Status_OperatorVersion := v\<rparr>)\<rparr>) }"

text \<open>
  A deployment that could not be read for another reason than its absence is \<open>nil\<close>, and its name is
  read all the same: a panic.  Without a creation time the result asks to be called again, with no error.
\<close>

definition ensureJenkinsDeploymentIsPresent ::
  "'w ext \<Rightarrow> ObjectMeta \<Rightarrow> Jenkins \<Rightarrow> 'w st \<Rightarrow> (((Result \<times> error option) \<times> Jenkins) \<times> 'w st) option" where
  "ensureJenkinsDeploymentIsPresent ext meta j s =
     do { (found, s) \<leftarrow> GetJenkinsDeployment ext j s;
          (r, s) \<leftarrow> (case found of
              Inr d \<Rightarrow> Some (Inr d, s)
            | Inl err \<Rightarrow> if IsNotFound err then create_deployment ext meta j s else None);
          case r of
            Inl err \<Rightarrow> Some (((requeue, Some err), j), s)
          | Inr d \<Rightarrow>
              if Meta_CreationTimestamp (Depl_Meta d) = 0
              then Some (((requeue, case found of Inl err \<Rightarrow> Some err | Inr _ \<Rightarrow> None), j), s)
              else do { j \<leftarrow> set_operator_version operatorVersion j;
                        Some (((no_requeue, None), j), s) } }"

text \<open>The error is checked after the deployment was used.\<close>

definition ensureJenkinsDeploymentIsReady ::
  "'w ext \<Rightarrow> Jenkins \<Rightarrow> 'w st \<Rightarrow> ((Result \<times> error option) \<times> 'w st) option" where
  "ensureJenkinsDeploymentIsReady ext j s =
     do { (r, s) \<leftarrow> GetJenkinsDeployment ext j s;
          case r of
            Inl _ \<Rightarrow> None
          | Inr d \<Rightarrow>
              if Depl_AvailableReplicas d = 0 then Some ((requeue, None), s) else Some ((no_requeue, None), s) }"

section \<open>Reconcile\<close>

definition pod_terminating :: "'w ext \<Rightarrow> Pod \<Rightarrow> time \<Rightarrow> error" where
  "pod_terminating ext pod t =
     PlainError (''jenkins pod '' @ Meta_Name (Pod_Meta pod) @
       '' in Terminating state with DeletionTimestamp '' @ show_time ext t)"

definition base_Reconcile ::
  "'w ext \<Rightarrow> Jenkins \<Rightarrow> 'w st \<Rightarrow> (((Result \<times> error option) \<times> Jenkins) \<times> 'w st) option" where
  "base_Reconcile ext j s =
     do { let jenkinsConfig = NewResourceObjectMeta j;
          ((err, j), s) \<leftarrow> ensureResourcesRequiredForJenkinsDeploymentArePresent ext j s;
          case err of
            Some e \<Rightarrow> Some (((no_requeue, Some e), j), s)
          | None \<Rightarrow>
              do { (((_, err), j), s) \<leftarrow> ensureJenkinsDeploymentIsPresent ext jenkinsConfig j s;
                   case err of
                     Some e \<Rightarrow> Some (((no_requeue, Some e), j), s)
                   | None \<Rightarrow>
                       do { ((result, err), s) \<leftarrow> ensureJenkinsDeploymentIsReady ext j s;
                            case err of
                              Some e \<Rightarrow> Some (((no_requeue, Some e), j), s)
                            | None \<Rightarrow>
                                do { (r, s) \<leftarrow> GetPodByDeployment ext j s;
                                     Some (((case r of
                                         Inl e \<Rightarrow> (no_requeue, Some e)
                                       | Inr pod \<Rightarrow>
                                           (case Meta_DeletionTimestamp (Pod_Meta pod) of
                                              Some t \<Rightarrow> (requeue, Some (pod_terminating ext pod t))
                                            | None \<Rightarrow> (result, None))), j), s) } } } }"

section \<open>Comparisons\<close>

definition compareImagePullSecrets :: "string list \<Rightarrow> string list \<Rightarrow> bool" where
  "compareImagePullSecrets expected actual = list_all (\<lambda>e. list_ex (\<lambda>a. e = a) actual) expected"

text \<open>The filtered slice stays \<open>nil\<close> when nothing is appended, which \<open>reflect.DeepEqual\<close> tells from an empty one.\<close>

definition nil_if_empty :: "'a list \<Rightarrow> 'a list option" where
  "nil_if_empty xs = (if xs = [] then None else Some xs)"

definition injected_env_names :: "string list" where
  "injected_env_names = [''KUBERNETES_PORT_443_TCP_ADDR'', ''KUBERNETES_PORT'', ''KUBERNETES_PORT_443_TCP'',
     ''KUBERNETES_SERVICE_HOST'']"

definition compareEnv :: "EnvVar list option \<Rightarrow> EnvVar list \<Rightarrow> bool" where
  "compareEnv expected actual =
     (expected = nil_if_empty (filter (\<lambda>e. Env_Name e \<notin> set injected_env_names) actual))"

definition CompareContainerVolumeMounts :: "VolumeMount list option \<Rightarrow> VolumeMount list \<Rightarrow> bool" where
  "CompareContainerVolumeMounts expected actual =
     (expected = nil_if_empty
        (filter (\<lambda>m. Mount_MountPath m \<noteq> ''/var/run/secrets/kubernetes.io/serviceaccount'') actual))"

text \<open>One of the four tests of \<open>compareContainerResources\<close>: what is expected is there with the same text.\<close>

definition resource_matches :: "ResourceList \<Rightarrow> ResourceList \<Rightarrow> string \<Rightarrow> bool" where
  "resource_matches expected actual k =
     (case Option.bind expected (\<lambda>m. map_of m k) of
        None \<Rightarrow> True
      | Some q \<Rightarrow> Option.bind actual (\<lambda>m. map_of m k) = Some q)"

definition compareContainerResources :: "ResourceRequirements \<Rightarrow> ResourceRequirements \<Rightarrow> bool" where
  "compareContainerResources expected actual =
     (resource_matches (Requests expected) (Requests actual) ''cpu'' \<and>
      resource_matches (Requests expected) (Requests actual) ''memory'' \<and>
      resource_matches (Limits expected) (Limits actual) ''cpu'' \<and>
      resource_matches (Limits expected) (Limits actual) ''memory'')"

record PodEvent =
  PE_Name :: string
  PE_LastTimestamp :: time
  PE_Type :: string
  PE_Message :: string
  PE_FieldPath :: string

text \<open>A CR without a status, or without a provision start time, panics as soon as there is an event.\<close>

definition FilterEvents :: "Jenkins \<Rightarrow> PodEvent list \<Rightarrow> Pod \<Rightarrow> string list option" where
  "FilterEvents j evs pod =
     (if evs = [] then Some []
      else do { st \<leftarrow> Jenkins_Status j;
                start \<leftarrow> Status_ProvisionStartTime st;
                Some (map (\<lambda>e. ''Message: '' @ PE_Message e @ '' Subobject: '' @ PE_FieldPath e)
                  (filter (\<lambda>e. \<not> start > PE_LastTimestamp e \<and> PE_Type e \<noteq> TypeNormal \<and>
                     HasPrefix (PE_Name e) (Meta_Name (Pod_Meta pod))) evs)) })"

record InstalledPlugin =
  IP_ShortName :: string
  IP_LongName :: string
  IP_Version :: string
  IP_Active :: bool
  IP_Enabled :: bool
  IP_Deleted :: bool

definition installed_Contains :: "InstalledPlugin list \<Rightarrow> string \<Rightarrow> InstalledPlugin option" where
  "installed_Contains ps n = find (\<lambda>p. IP_LongName p = n \<or> IP_ShortName p = n) ps"

definition isValidPlugin :: "InstalledPlugin \<Rightarrow> bool" where
  "isValidPlugin p \<longleftrightarrow> IP_Active p \<and> IP_Enabled p \<and> \<not> IP_Deleted p"

definition isPluginInstalled :: "InstalledPlugin list \<Rightarrow> PluginSpec \<Rightarrow> bool" where
  "isPluginInstalled ps required =
     (case installed_Contains ps (Plugin_Name required) of None \<Rightarrow> False | Some p \<Rightarrow> isValidPlugin p)"

definition isPluginVersionCompatible :: "InstalledPlugin list \<Rightarrow> PluginSpec \<Rightarrow> bool" where
  "isPluginVersionCompatible ps required =
     (case installed_Contains ps (Plugin_Name required) of
        None \<Rightarrow> False | Some p \<Rightarrow> IP_Version p = Plugin_Version required)"

text \<open>The answer of the Jenkins API is an argument.\<close>

definition verifyPlugins :: "error + InstalledPlugin list \<Rightarrow> Jenkins \<Rightarrow> (error + bool) option" where
  "verifyPlugins answer j =
     (case answer of
        Inl err \<Rightarrow> Some (Inl (StackError err))
      | Inr ps \<Rightarrow>
          do { required \<leftarrow> base_plugins_of_status j;
               Some (Inr (list_all (\<lambda>p. isPluginInstalled ps p \<and> isPluginVersionCompatible ps p) required)) })"

section \<open>Ownership\<close>

text \<open>What a chain of checked steps keeps: \<open>P\<close> of its requests and \<open>I\<close> of its payload.\<close>

definition ensures ::
  "(request \<Rightarrow> bool) \<Rightarrow> ('c \<Rightarrow> bool) \<Rightarrow> 'w st \<Rightarrow> ((error option \<times> 'c) \<times> 'w st) option \<Rightarrow> bool" where
  "ensures P I s m \<longleftrightarrow> (\<forall>e c s'. m = Some ((e, c), s') \<longrightarrow> extends P s s' \<and> I c)"

lemma ensuresI: "(\<And>e c s'. m = Some ((e, c), s') \<Longrightarrow> extends P s s' \<and> I c) \<Longrightarrow> ensures P I s m"
  by (simp add: ensures_def)

lemma ensuresD: "ensures P I s m \<Longrightarrow> m = Some ((e, c), s') \<Longrightarrow> extends P s s' \<and> I c"
  by (simp add: ensures_def)

lemma checked_ensures:
  "ensures P I s m \<Longrightarrow> (\<And>c s1. I c \<Longrightarrow> ensures P I s1 (k c s1)) \<Longrightarrow> ensures P I s (checked m k)"
proof (rule ensuresI)
  fix e c s' assume m: "ensures P I s m" and k: "\<And>c s1. I c \<Longrightarrow> ensures P I s1 (k c s1)"
    and "checked m k = Some ((e, c), s')"
  from this(3) show "extends P s s' \<and> I c"
  proof (rule checkedE)
    fix c1 s1 assume "m = Some ((None, c1), s1)" and "k c1 s1 = Some ((e, c), s')"
    with ensuresD [OF m] ensuresD [OF k] show ?thesis by (blast intro: extends_trans)
  qed (use ensuresD [OF m] in blast)
qed

lemma checked_pair_ensures:
  "ensures P I s m \<Longrightarrow> (\<And>x y s1. I (x, y) \<Longrightarrow> ensures P I s1 (f x y s1)) \<Longrightarrow> ensures P I s (checked m (\<lambda>(x, y). f x y))"
  by (rule checked_ensures) (auto split: prod.split)

lemma keeping_ensures: "I c \<Longrightarrow> (\<And>e s'. m = Some (e, s') \<Longrightarrow> extends P s s') \<Longrightarrow> ensures P I s (keeping c m)"
  by (rule ensuresI) auto

definition step_ok :: "Jenkins \<Rightarrow> ObjectMeta \<times> Jenkins \<Rightarrow> bool" where
  "step_ok j c \<longleftrightarrow> fresh_meta j (fst c) \<and> Jenkins_Meta (snd c) = Jenkins_Meta j"

lemma step_ok_meta: "step_ok j (meta, j') \<Longrightarrow> creates_owned j' = creates_owned j"
  "step_ok j (meta, j') \<Longrightarrow> fresh_meta j' meta"
  using same_meta [of j' j] by (simp_all add: step_ok_def)

lemma write_config_map_owned:
  "write_config_map ext j cm s = Some (err, s') \<Longrightarrow> fresh_meta j (CM_Meta cm) \<Longrightarrow> extends (creates_owned j) s s'"
  by (auto simp: write_config_map_def ConfigMap_t_def elim!: bind_pairE
      dest!: own_ConfigMap.CreateOrUpdate_owned [unfolded ConfigMap_t_def])

lemma config_maps_owned:
  assumes "fresh_meta j meta"
  shows "createScriptsConfigMap ext meta j s = Some (err, s') \<Longrightarrow> extends (creates_owned j) s s'"
    "createInitConfigurationConfigMap ext meta j s = Some (err, s') \<Longrightarrow> extends (creates_owned j) s s'"
    "createBasePluginsConfigMap ext meta j s = Some (err, s') \<Longrightarrow> extends (creates_owned j) s s'"
  using assms
  by (auto simp: createScriptsConfigMap_def NewScriptsConfigMap_def createInitConfigurationConfigMap_def
      NewInitConfigurationConfigMap_def createBasePluginsConfigMap_def NewBasePluginConfigMap_def
      elim!: bind_SomeE dest!: write_config_map_owned)

lemma createService_keeps:
  assumes "createService ext j meta n config s = Some ((err, meta'), s')"
  shows "extends (creates_owned j) s s' \<and> (\<exists>l. meta' = meta\<lparr>Meta_Labels := l\<rparr>)"
proof -
  have "\<exists>l. meta' = meta\<lparr>Meta_Labels := l\<rparr>"
    using assms unfolding createService_def refresh_service_def Let_def
    by (auto elim!: bind_SomeE bind_pairE split: sum.split_asm if_split_asm)
      (metis ObjectMeta.surjective ObjectMeta.update_convs(4))+
  with createService_owned [OF assms] show ?thesis by blast
qed

lemma createService_step_ensures:
  assumes "step_ok j (meta, j')"
  shows "ensures (creates_owned j) (step_ok j) s (createService_step ext meta j' n config s)"
  using step_ok_meta(1) [OF assms] assms
  by (intro ensuresI)
    (auto simp: createService_step_def step_ok_def elim!: bind_SomeE bind_pairE
      dest!: createService_keeps)

lemma createRBAC_step_ensures:
  assumes "step_ok j (meta, j')"
  shows "ensures (creates_owned j) (step_ok j) s (createRBAC_step ext meta j' s)"
  using step_ok_meta [OF assms] assms
  by (intro ensuresI)
    (auto simp: createRBAC_step_def step_ok_def elim!: bind_pairE dest: createRBAC_owned)

lemma ensure_monitor_owned: "ensure_monitor ext j s = Some (err, s') \<Longrightarrow> extends (creates_owned j) s s'"
  by (auto simp: ensure_monitor_def dest: createServiceMonitor_owned split: if_split_asm)

lemma ensure_route_owned: "ensure_route ext meta n j s = Some (err, s') \<Longrightarrow> extends (creates_owned j) s s'"
  by (auto simp: ensure_route_def dest: createRoute_owned split: if_split_asm)

lemma step_owned:
  assumes "step_ok j (meta, j')"
  shows "createOperatorCredentialsSecret ext meta j' s = Some (e, s') \<Longrightarrow> extends (creates_owned j) s s'"
    "createScriptsConfigMap ext meta j' s = Some (e, s') \<Longrightarrow> extends (creates_owned j) s s'"
    "createInitConfigurationConfigMap ext meta j' s = Some (e, s') \<Longrightarrow> extends (creates_owned j) s s'"
    "createBasePluginsConfigMap ext meta j' s = Some (e, s') \<Longrightarrow> extends (creates_owned j) s s'"
    "ensureExtraRBACArePresent ext j' s = Some (e, s') \<Longrightarrow> extends (creates_owned j) s s'"
    "ensure_monitor ext j' s = Some (e, s') \<Longrightarrow> extends (creates_owned j) s s'"
    "ensure_route ext meta n j' s = Some (e, s') \<Longrightarrow> extends (creates_owned j) s s'"
  using step_ok_meta [OF assms] createOperatorCredentialsSecret_owned [of ext meta j' s e s']
    config_maps_owned [of j' meta ext s e s'] ensureExtraRBACArePresent_owned [of ext j' s e s']
    ensure_monitor_owned [of ext j' s e s'] ensure_route_owned [of ext meta n j' s e s']
  by simp_all

lemma resource_steps_ensures:
  assumes "step_ok j (meta, j')"
  shows "ensures (creates_owned j) (step_ok j) s (resource_steps ext meta j' s)"
  unfolding resource_steps_def Let_def
  using assms
  by (intro checked_pair_ensures keeping_ensures createService_step_ensures createRBAC_step_ensures)
    (auto dest: step_owned)

lemma ensureResources_owned:
  assumes "ensureResourcesRequiredForJenkinsDeploymentArePresent ext j s = Some ((err, j'), s')"
  shows "extends (creates_owned j) s s' \<and> Jenkins_Meta j' = Jenkins_Meta j"
proof -
  from assms obtain meta where "resource_steps ext (NewResourceObjectMeta j) j s = Some ((err, meta, j'), s')"
    by (auto simp: ensureResourcesRequiredForJenkinsDeploymentArePresent_def elim!: bind_pairE)
  then show ?thesis
    using ensuresD [OF resource_steps_ensures [of j "NewResourceObjectMeta j" j s ext]] by (auto simp: step_ok_def)
qed

lemma extends_quiet [simp]:
  "extends P (send e s) t = extends P s t" "extends P s (send e t) = extends P s t"
  "extends P (put_globals g s) t = extends P s t" "extends P s (put_globals g t) = extends P s t"
  by (simp_all add: extends_def put_globals_def)

lemma create_deployment_owned:
  "create_deployment ext meta j s = Some (r, s') \<Longrightarrow> extends (creates_owned j) s s'"
  unfolding create_deployment_def Let_def GetJenkinsDeployment_def sendDeploymentCreationNotification_def
    sendSuccessfulDeploymentCreationNotification_def
  by (auto elim!: bind_SomeE bind_pairE split: sum.split_asm prod.split_asm dest!: owned_steps [where j = j])
    (blast intro: extends_trans)+

lemma ensureJenkinsDeploymentIsPresent_owned:
  "ensureJenkinsDeploymentIsPresent ext meta j s = Some (((result, err), j'), s') \<Longrightarrow>
   extends (creates_owned j) s s' \<and> Jenkins_Meta j' = Jenkins_Meta j"
  unfolding ensureJenkinsDeploymentIsPresent_def GetJenkinsDeployment_def set_operator_version_def
  by (auto elim!: bind_SomeE bind_pairE split: sum.split_asm prod.split_asm if_split_asm
      dest!: owned_steps [where j = j] create_deployment_owned)
    (blast intro: extends_trans)+

lemma reads_owned:
  "ensureJenkinsDeploymentIsReady ext j' s = Some (r, s') \<Longrightarrow> extends (creates_owned j) s s'"
  "GetPodByDeployment ext j' s = Some (r', s') \<Longrightarrow> extends (creates_owned j) s s'"
  by (auto simp: ensureJenkinsDeploymentIsReady_def GetPodByDeployment_def GetReplicaSetByDeployment_def
      GetJenkinsDeployment_def Client_Get_def Client_List_def call_eq extends_def Let_def
      elim!: bind_SomeE bind_pairE split: sum.split_asm prod.split_asm if_split_asm)

lemma base_Reconcile_owned:
  assumes "base_Reconcile ext j s = Some (((result, err), j'), s')"
  shows "extends (creates_owned j) s s' \<and> Jenkins_Meta j' = Jenkins_Meta j"
proof -
  have present: "ensureJenkinsDeploymentIsPresent ext meta j1 s1 = Some (((result, err), j2), s2) \<Longrightarrow>
      Jenkins_Meta j1 = Jenkins_Meta j \<Longrightarrow> extends (creates_owned j) s1 s2 \<and> Jenkins_Meta j2 = Jenkins_Meta j"
    for meta j1 s1 result err j2 s2
    using ensureJenkinsDeploymentIsPresent_owned [of ext meta j1 s1 result err j2 s2] same_meta(1) [of j1 j] by simp
  from assms show ?thesis
    unfolding base_Reconcile_def Let_def
    by (auto elim!: bind_SomeE bind_pairE split: sum.split_asm prod.split_asm if_split_asm option.split_asm
        dest!: ensureResources_owned present reads_owned [where j = j])
      (blast intro: extends_trans)+
qed

text \<open>The panic of \<open>ensureJenkinsDeploymentIsReady\<close>.\<close>

lemma deployment_gone_panics:
  assumes "fst (do_call ext (GetReq K_Deployment (nn (jenkins_namespace j) (GetJenkinsDeploymentName j))) (world s)) = Failed e"
  shows "ensureJenkinsDeploymentIsReady ext j s = None"
  using assms
  by (simp add: ensureJenkinsDeploymentIsReady_def GetJenkinsDeployment_def Client_Get_def call_eq Deployment_t_def)

section \<open>Properties\<close>

text \<open>
  C8. Everything goes with the CR: every object a reconciliation of the base configuration creates,
  whether it ends well or with an error, names the Jenkins CR as its controller among its owners, so that
  the garbage collector removes it with the CR; and the CR in memory keeps its metadata.
\<close>

theorem created_objects_are_owned:
  assumes "base_Reconcile ext j s = Some (((result, err), j'), s')"
  shows "list_all (\<lambda>q. case q of CreateReq obj \<Rightarrow> jenkins_ref j \<in> set (Meta_OwnerReferences (object_meta obj)) | _ \<Rightarrow> True)
      (new_calls s s') \<and> Jenkins_Meta j' = Jenkins_Meta j"
proof -
  have "list_all (creates_owned j) (new_calls s s')"
    using base_Reconcile_owned [OF assms] by (auto dest: extends_new_calls)
  then show ?thesis
    using base_Reconcile_owned [OF assms]
    by (auto simp: creates_owned_def owned_by_def owned_meta_def list_all_iff split: request.split_asm request.split)
qed

section \<open>A concrete instance\<close>

text \<open>A server without any object, on which only secrets can be created.\<close>

definition secrets_only :: "request \<Rightarrow> response" where
  "secrets_only q =
     (case q of
        GetReq _ _ \<Rightarrow> Failed (ApiError NotFound ''not found'')
      | CreateReq obj \<Rightarrow> (case obj of O_Secret _ \<Rightarrow> Returned obj | _ \<Rightarrow> Failed (ApiError OtherReason ''quota''))
      | _ \<Rightarrow> Done)"

lemma unit_world [simp]: "(s :: unit st)\<lparr>world := u\<rparr> = s"
  by (cases s) simp

lemma random_zero: "randomString (table_ext f) n s = Some (replicate n (CHR ''0''), s)"
  by (induction n) (simp_all add: table_ext_def randomCharset_def)

lemma secrets_only_secret:
  "\<exists>s'. createOperatorCredentialsSecret (table_ext secrets_only) (NewResourceObjectMeta j) j s = Some (None, s')"
proof -
  let ?m = "(NewResourceObjectMeta j)\<lparr>Meta_Name := GetOperatorCredentialsSecretName j\<rparr>"
  have "own_by_jenkins j ?m = Inr (?m\<lparr>Meta_OwnerReferences := [jenkins_ref j]\<rparr>)"
    by (rule own_fresh) simp
  then show ?thesis
    by (auto simp: createOperatorCredentialsSecret_def Client_Get_def call_eq secrets_only_def random_zero
        NewOperatorCredentialsSecret_def CreateResource_def Client_Create_def Secret_t_def)
qed

lemma secrets_only_stops:
  "write_config_map (table_ext secrets_only) j cm s = Some (err, s') \<Longrightarrow> err \<noteq> None"
  by (auto simp: write_config_map_def CreateOrUpdateResource_def Client_Create_def call_eq secrets_only_def
      ConfigMap_t_def Let_def elim!: bind_pairE)

lemma secrets_only_asks:
  "CreateOrUpdateResource (table_ext secrets_only) ConfigMap_t j cm s = Some (e, s') \<Longrightarrow>
     \<exists>x. CreateReq (O_ConfigMap x) \<in> set (calls s')"
proof -
  assume "CreateOrUpdateResource (table_ext secrets_only) ConfigMap_t j cm s = Some (e, s')"
  then have "CreateReq (inject ConfigMap_t (owned_or_same ConfigMap_t j cm)) \<in> set (calls s')"
    by (auto simp: ty_ConfigMap.CreateOrUpdate_unfold call_eq Let_def split: sum.splits if_splits)
  moreover have "inject ConfigMap_t = O_ConfigMap" by (simp add: ConfigMap_t_def)
  ultimately show ?thesis by auto
qed

lemma secrets_only_run:
  "\<exists>cm err j' s'. base_Reconcile (table_ext secrets_only) backed_jenkins (initial ()) =
       Some (((no_requeue, Some err), j'), s') \<and> CreateReq (O_ConfigMap cm) \<in> set (calls s')"
proof -
  let ?j = backed_jenkins and ?m = "NewResourceObjectMeta backed_jenkins"
  obtain s1 where secret: "createOperatorCredentialsSecret (table_ext secrets_only) ?m ?j (initial ()) = Some (None, s1)"
    using secrets_only_secret by blast
  obtain m c cs where "Spec_Master backed_spec = Some m" "Master_Containers m = c # cs"
    using backed_complete by (auto simp: spec_complete_def)
  then have "first_container backed_spec = Some c" by (simp add: first_container_cases)
  then obtain cm where cm: "NewScriptsConfigMap ?m ?j = Some cm"
    using NewScriptsConfigMap_total [OF backed_simps(1)] by blast
  obtain e s2 where run: "CreateOrUpdateResource (table_ext secrets_only) ConfigMap_t ?j cm s1 = Some (e, s2)"
    using ty_ConfigMap.CreateOrUpdate_total [of "table_ext secrets_only" ?j cm s1] by blast
  then obtain err where err: "WithStack e = Some err"
    using secrets_only_stops [of ?j cm s1 "WithStack e" s2] run by (auto simp: write_config_map_def)
  have "resource_steps (table_ext secrets_only) ?m ?j (initial ()) = Some ((Some err, ?m, ?j), s2)"
    by (simp add: resource_steps_def checked_def keeping_def secret createScriptsConfigMap_def cm
        write_config_map_def run err)
  then have "base_Reconcile (table_ext secrets_only) ?j (initial ()) = Some (((no_requeue, Some err), ?j), s2)"
    by (simp add: base_Reconcile_def ensureResourcesRequiredForJenkinsDeploymentArePresent_def)
  with secrets_only_asks [OF run] show ?thesis by blast
qed

theorem created_objects_are_owned_witness:
  "\<exists>obj result err j' s'. base_Reconcile (table_ext secrets_only) backed_jenkins (initial ()) =
       Some (((result, err), j'), s') \<and> CreateReq obj \<in> set (calls s') \<and>
     jenkins_ref backed_jenkins \<in> set (Meta_OwnerReferences (object_meta obj))"
proof -
  obtain cm err j' s' where run: "base_Reconcile (table_ext secrets_only) backed_jenkins (initial ()) =
      Some (((no_requeue, Some err), j'), s')" "CreateReq (O_ConfigMap cm) \<in> set (calls s')"
    using secrets_only_run by blast
  from created_objects_are_owned [OF run(1)] run show ?thesis
    by (force simp: new_calls_def list_all_iff)
qed

end
