(* ===== verification/Image_Reference.thy ===== *)
theory Image_Reference
  imports Prelude
begin

text \<open>
  The syntax of image references, which the validation of a container checks.  The patterns are those of
  the vendored \<open>docker/distribution/reference\<close>, built with the same combinators (\<open>expression\<close>,
  \<open>optional\<close>, \<open>repeated\<close>); a pattern is matched by derivatives, and the matcher is shown to decide the
  language of the pattern.
\<close>

section \<open>Patterns\<close>

datatype rex = Void | Eps | Cls "char \<Rightarrow> bool" | Alt rex rex | Seq rex rex | Star rex | Upto nat rex

fun nullable :: "rex \<Rightarrow> bool" where
  "nullable Void = False"
| "nullable Eps = True"
| "nullable (Cls p) = False"
| "nullable (Alt r s) = (nullable r \<or> nullable s)"
| "nullable (Seq r s) = (nullable r \<and> nullable s)"
| "nullable (Star r) = True"
| "nullable (Upto n r) = True"

fun deriv :: "char \<Rightarrow> rex \<Rightarrow> rex" where
  "deriv c Void = Void"
| "deriv c Eps = Void"
| "deriv c (Cls p) = (if p c then Eps else Void)"
| "deriv c (Alt r s) = Alt (deriv c r) (deriv c s)"
| "deriv c (Seq r s) = (if nullable r then Alt (Seq (deriv c r) s) (deriv c s) else Seq (deriv c r) s)"
| "deriv c (Star r) = Seq (deriv c r) (Star r)"
| "deriv c (Upto n r) = (case n of 0 \<Rightarrow> Void | Suc k \<Rightarrow> Seq (deriv c r) (Upto k r))"

definition MatchString :: "rex \<Rightarrow> string \<Rightarrow> bool" where
  "MatchString r s = nullable (foldl (\<lambda>r c. deriv c r) r s)"

section \<open>Languages\<close>

definition conc :: "string set \<Rightarrow> string set \<Rightarrow> string set" where
  "conc A B = {x @ y |x y. x \<in> A \<and> y \<in> B}"

inductive_set star :: "string set \<Rightarrow> string set" for A where
  star_Nil: "[] \<in> star A"
| star_append: "x \<in> A \<Longrightarrow> y \<in> star A \<Longrightarrow> x @ y \<in> star A"

fun up_to :: "nat \<Rightarrow> string set \<Rightarrow> string set" where
  "up_to 0 A = {[]}"
| "up_to (Suc n) A = {[]} \<union> conc A (up_to n A)"

fun lang :: "rex \<Rightarrow> string set" where
  "lang Void = {}"
| "lang Eps = {[]}"
| "lang (Cls p) = {[c] |c. p c}"
| "lang (Alt r s) = lang r \<union> lang s"
| "lang (Seq r s) = conc (lang r) (lang s)"
| "lang (Star r) = star (lang r)"
| "lang (Upto n r) = up_to n (lang r)"

lemma nullable_lang: "nullable r \<longleftrightarrow> [] \<in> lang r"
proof (induction r)
  case (Star r)
  then show ?case by (simp add: star_Nil)
next
  case (Upto n r)
  then show ?case by (cases n) simp_all
qed (auto simp: conc_def)

lemma Cons_conc: "c # s \<in> conc A B \<longleftrightarrow> (\<exists>x y. s = x @ y \<and> c # x \<in> A \<and> y \<in> B) \<or> [] \<in> A \<and> c # s \<in> B"
  by (auto simp: conc_def Cons_eq_append_conv)

lemma Cons_star: "c # s \<in> star A \<longleftrightarrow> (\<exists>x y. s = x @ y \<and> c # x \<in> A \<and> y \<in> star A)"
proof
  assume "c # s \<in> star A"
  then show "\<exists>x y. s = x @ y \<and> c # x \<in> A \<and> y \<in> star A"
  proof (induction "c # s" arbitrary: s)
    case (star_append x y)
    then show ?case by (cases x) auto
  qed
next
  assume "\<exists>x y. s = x @ y \<and> c # x \<in> A \<and> y \<in> star A"
  then obtain x y where xy: "s = x @ y" "c # x \<in> A" "y \<in> star A" by (elim exE conjE)
  from star_append [OF xy(2,3)] show "c # s \<in> star A" by (simp only: xy(1) append_Cons)
qed

lemma conc_mono: "B \<subseteq> C \<Longrightarrow> conc A B \<subseteq> conc A C"
  by (auto simp: conc_def)

lemma up_to_mono: "up_to n A \<subseteq> up_to (Suc n) A"
proof (induction n)
  case (Suc n)
  from conc_mono [OF Suc.IH, of A] show ?case
    unfolding up_to.simps(2) [of n] up_to.simps(2) [of "Suc n"] by (rule Un_mono [OF subset_refl])
qed simp

lemma Cons_up_to: "c # s \<in> up_to (Suc n) A \<longleftrightarrow> (\<exists>x y. s = x @ y \<and> c # x \<in> A \<and> y \<in> up_to n A)"
proof (induction n arbitrary: s)
  case 0
  show ?case by (auto simp: conc_def Cons_eq_append_conv)
next
  case (Suc n)
  have "c # s \<in> up_to (Suc n) A \<Longrightarrow> \<exists>x y. s = x @ y \<and> c # x \<in> A \<and> y \<in> up_to (Suc n) A"
    using Suc.IH up_to_mono by blast
  then show ?case
    unfolding up_to.simps(2) [of "Suc n"] Un_iff Cons_conc by auto
qed

lemma deriv_lang: "s \<in> lang (deriv c r) \<longleftrightarrow> c # s \<in> lang r"
proof (induction r arbitrary: s)
  case (Seq r1 r2)
  then show ?case by (auto simp: Cons_conc nullable_lang) (auto simp: conc_def)
next
  case (Star r)
  then show ?case by (auto simp: Cons_star conc_def)
next
  case (Upto n r)
  then show ?case by (cases n) (auto simp: Cons_up_to conc_def simp del: up_to.simps(2))
qed auto

lemma derivs_lang: "t \<in> lang (foldl (\<lambda>r c. deriv c r) r s) \<longleftrightarrow> s @ t \<in> lang r"
  by (induction s arbitrary: r) (simp_all add: deriv_lang)

lemma MatchString_lang: "MatchString r s \<longleftrightarrow> s \<in> lang r"
  by (simp add: MatchString_def nullable_lang derivs_lang)

section \<open>The patterns of the vendored package\<close>

definition in_range :: "char \<Rightarrow> char \<Rightarrow> char \<Rightarrow> bool" where
  "in_range a b c \<longleftrightarrow> (of_char a :: nat) \<le> of_char c \<and> (of_char c :: nat) \<le> of_char b"

definition is_lower :: "char \<Rightarrow> bool" where "is_lower = in_range (CHR ''a'') (CHR ''z'')"
definition is_upper :: "char \<Rightarrow> bool" where "is_upper = in_range (CHR ''A'') (CHR ''Z'')"
definition is_digit :: "char \<Rightarrow> bool" where "is_digit = in_range (CHR ''0'') (CHR ''9'')"
definition is_alnum :: "char \<Rightarrow> bool" where "is_alnum c \<longleftrightarrow> is_lower c \<or> is_upper c \<or> is_digit c"
definition is_word :: "char \<Rightarrow> bool" where "is_word c \<longleftrightarrow> is_alnum c \<or> c = CHR ''_''"
definition is_xdigit :: "char \<Rightarrow> bool" where
  "is_xdigit c \<longleftrightarrow> is_digit c \<or> in_range (CHR ''a'') (CHR ''f'') c \<or> in_range (CHR ''A'') (CHR ''F'') c"

fun literal :: "string \<Rightarrow> rex" where
  "literal [] = Eps" | "literal (c # s) = Seq (Cls (\<lambda>d. d = c)) (literal s)"

fun expression :: "rex list \<Rightarrow> rex" where
  "expression [] = Eps" | "expression [r] = r" | "expression (r # s # rs) = Seq r (expression (s # rs))"

definition optional :: "rex list \<Rightarrow> rex" where "optional rs = Alt (expression rs) Eps"
definition plus_rex :: "rex \<Rightarrow> rex" where "plus_rex r = Seq r (Star r)"
definition repeated :: "rex list \<Rightarrow> rex" where "repeated rs = plus_rex (expression rs)"

fun times_rex :: "nat \<Rightarrow> rex \<Rightarrow> rex" where
  "times_rex 0 r = Eps" | "times_rex (Suc n) r = Seq r (times_rex n r)"

definition alphaNumericRegexp :: rex where
  "alphaNumericRegexp = plus_rex (Cls (\<lambda>c. is_lower c \<or> is_digit c))"

definition separatorRegexp :: rex where
  "separatorRegexp = Alt (Cls (\<lambda>c. c \<in> {CHR ''.'', CHR ''_''})) (Alt (literal ''__'') (Star (Cls (\<lambda>c. c = CHR ''-''))))"

definition nameComponentRegexp :: rex where
  "nameComponentRegexp = expression [alphaNumericRegexp, optional [repeated [separatorRegexp, alphaNumericRegexp]]]"

definition domainComponentRegexp :: rex where
  "domainComponentRegexp = Alt (Cls is_alnum)
     (expression [Cls is_alnum, Star (Cls (\<lambda>c. is_alnum c \<or> c = CHR ''-'')), Cls is_alnum])"

definition DomainRegexp :: rex where
  "DomainRegexp = expression [domainComponentRegexp, optional [repeated [literal ''.'', domainComponentRegexp]],
     optional [literal '':'', plus_rex (Cls is_digit)]]"

definition TagRegexp :: rex where
  "TagRegexp = Seq (Cls is_word) (Upto 127 (Cls (\<lambda>c. is_word c \<or> c = CHR ''.'' \<or> c = CHR ''-'')))"

definition DigestRegexp :: rex where
  "DigestRegexp = (let word = Seq (Cls (\<lambda>c. is_lower c \<or> is_upper c)) (Star (Cls is_alnum)) in
     expression [word, Star (Seq (Cls (\<lambda>c. c \<in> {CHR ''-'', CHR ''_'', CHR ''+'', CHR ''.''})) word), literal '':'',
       times_rex 32 (Cls is_xdigit), Star (Cls is_xdigit)])"

definition NameRegexp :: rex where
  "NameRegexp = expression [optional [DomainRegexp, literal ''/''], nameComponentRegexp,
     optional [repeated [literal ''/'', nameComponentRegexp]]]"

definition ReferenceRegexp :: rex where
  "ReferenceRegexp = expression [NameRegexp, optional [literal '':'', TagRegexp], optional [literal ''@'', DigestRegexp]]"

definition dockerImageRegexp :: rex where
  "dockerImageRegexp = TagRegexp"

definition valid_image :: "string \<Rightarrow> bool" where
  "valid_image img \<longleftrightarrow> MatchString dockerImageRegexp img \<or> MatchString ReferenceRegexp img"

section \<open>Lemmas\<close>

lemma conc_Eps [simp]: "conc {[]} A = A" "conc A {[]} = A"
  by (auto simp: conc_def)

lemma concI: "x \<in> A \<Longrightarrow> y \<in> B \<Longrightarrow> x @ y \<in> conc A B"
  by (auto simp: conc_def)

lemma lang_optional: "lang (optional rs) = insert [] (lang (expression rs))"
  by (auto simp: optional_def)

lemma lang_literal [simp]: "lang (literal s) = {s}"
  by (induction s) (auto simp: conc_def)

lemma lang_expression_Cons: "rs \<noteq> [] \<Longrightarrow> lang (expression (r # rs)) = conc (lang r) (lang (expression rs))"
  by (cases rs) simp_all

lemma optional_after: "w \<in> lang (optional [literal [c], r]) \<longleftrightarrow> w = [] \<or> (\<exists>u \<in> lang r. w = c # u)"
  by (auto simp: lang_optional conc_def)

lemma mem_conc: "w \<in> conc A B \<longleftrightarrow> (\<exists>x y. w = x @ y \<and> x \<in> A \<and> y \<in> B)"
  by (auto simp: conc_def)

lemma star_Cls: "s \<in> star {[c] |c. P c} \<longleftrightarrow> list_all P s"
proof
  show "s \<in> star {[c] |c. P c} \<Longrightarrow> list_all P s" by (induction rule: star.induct) auto
  show "list_all P s \<Longrightarrow> s \<in> star {[c] |c. P c}"
  proof (induction s)
    case (Cons a s)
    then have "[a] \<in> {[c] |c. P c}" "s \<in> star {[c] |c. P c}" by auto
    then have "[a] @ s \<in> star {[c] |c. P c}" by (rule star.intros)
    then show ?case by simp
  qed (rule star.intros)
qed

lemma lang_plus_Cls: "lang (plus_rex (Cls P)) = {w. w \<noteq> [] \<and> list_all P w}"
proof -
  have "w \<in> lang (plus_rex (Cls P)) \<longleftrightarrow> w \<noteq> [] \<and> list_all P w" for w
  proof (cases w)
    case (Cons c v)
    then have "w \<in> lang (plus_rex (Cls P)) \<longleftrightarrow> (\<exists>x y. c # v = x @ y \<and> (\<exists>d. x = [d] \<and> P d) \<and> list_all P y)"
      by (simp add: plus_rex_def mem_conc star_Cls)
    also have "\<dots> \<longleftrightarrow> P c \<and> list_all P v"
      by (rule iffI, fastforce simp: Cons_eq_append_conv, rule exI [of _ "[c]"], rule exI [of _ v], simp)
    finally show ?thesis by (simp add: Cons)
  qed (auto simp: plus_rex_def mem_conc star_Cls)
  then show ?thesis by auto
qed

lemma lang_optional_plus: "lang (optional [plus_rex (Cls P)]) = {w. list_all P w}"
  by (auto simp: lang_optional lang_plus_Cls)

lemma lang_expression:
  "rs \<noteq> [] \<Longrightarrow> w \<in> lang (expression rs) \<longleftrightarrow> (\<exists>ws. w = concat ws \<and> list_all2 (\<lambda>x r. x \<in> lang r) ws rs)"
proof (induction rs arbitrary: w rule: expression.induct)
  case (2 r)
  then show ?case by (force simp: list_all2_Cons2)
next
  case (3 r s rs)
  then show ?case unfolding expression.simps lang.simps mem_conc by (simp add: list_all2_Cons2) (metis concat.simps(2))
qed simp

lemma star_concat: "\<forall>x \<in> set xs. x \<in> A \<Longrightarrow> concat xs \<in> star A"
  by (induction xs) (auto intro: star.intros)

lemma lang_optional_repeated: "lang (optional [repeated rs]) = star (lang (expression rs))"
proof -
  have "conc A (star A) \<union> {[]} = star A" for A
    by (auto simp: conc_def intro: star.intros elim: star.cases)
  then show ?thesis by (auto simp: lang_optional repeated_def plus_rex_def)
qed

text \<open>Names built from words: the words of a component and their separators, the components of a path.\<close>

definition word_text :: "string \<Rightarrow> bool" where
  "word_text w \<longleftrightarrow> w \<noteq> [] \<and> list_all (\<lambda>c. is_lower c \<or> is_digit c) w"

definition separator_text :: "string \<Rightarrow> bool" where
  "separator_text s \<longleftrightarrow> s = ''.'' \<or> s = ''_'' \<or> s = ''__'' \<or> list_all (\<lambda>c. c = CHR ''-'') s"

lemma lang_word: "w \<in> lang alphaNumericRegexp \<longleftrightarrow> word_text w"
  by (simp add: alphaNumericRegexp_def lang_plus_Cls word_text_def)

lemma lang_separator: "s \<in> lang separatorRegexp \<longleftrightarrow> separator_text s"
  unfolding separatorRegexp_def lang.simps lang_literal star_Cls
  using star_Cls [of s "\<lambda>c. c = CHR ''-''"] by (auto simp: separator_text_def)

lemma component_text:
  assumes "word_text w" and "\<forall>(s, v) \<in> set ps. separator_text s \<and> word_text v"
  shows "w @ concat (map (\<lambda>(s, v). s @ v) ps) \<in> lang nameComponentRegexp"
proof -
  have "concat (map (\<lambda>(s, v). s @ v) ps) \<in> star (lang (expression [separatorRegexp, alphaNumericRegexp]))"
    by (rule star_concat) (use assms(2) in \<open>auto simp: lang_word lang_separator intro!: concI\<close>)
  with assms(1) show ?thesis
    unfolding nameComponentRegexp_def expression.simps lang.simps lang_optional_repeated
    by (intro concI) (simp_all add: lang_word)
qed

lemma path_text:
  assumes "n \<in> lang nameComponentRegexp" and "\<forall>x \<in> set ns. x \<in> lang nameComponentRegexp"
  shows "n @ concat (map (\<lambda>x. CHR ''/'' # x) ns) \<in> lang NameRegexp"
proof -
  have "concat (map (\<lambda>x. CHR ''/'' # x) ns) \<in> star (lang (expression [literal ''/'', nameComponentRegexp]))"
    by (rule star_concat) (use assms(2) in \<open>auto simp: conc_def\<close>)
  then have "[] @ n @ concat (map (\<lambda>x. CHR ''/'' # x) ns) \<in> lang NameRegexp"
    unfolding NameRegexp_def expression.simps lang.simps lang_optional_repeated
    by (intro concI) (simp_all add: lang_optional assms(1))
  then show ?thesis by simp
qed

lemma lang_reference:
  "w \<in> lang ReferenceRegexp \<longleftrightarrow> (\<exists>n t d. w = n @ t @ d \<and> n \<in> lang NameRegexp \<and>
     t \<in> lang (optional [literal '':'', TagRegexp]) \<and> d \<in> lang (optional [literal ''@'', DigestRegexp]))"
  unfolding ReferenceRegexp_def expression.simps lang.simps mem_conc by blast

lemma tagged_name_valid:
  assumes "n \<in> lang NameRegexp" and "t \<in> lang TagRegexp"
  shows "valid_image (n @ CHR '':'' # t)"
proof -
  have "CHR '':'' # t \<in> lang (optional [literal '':'', TagRegexp])" unfolding optional_after using assms(2) by blast
  moreover have "[] \<in> lang (optional [literal ''@'', DigestRegexp])" unfolding optional_after by blast
  ultimately have "n @ (CHR '':'' # t) @ [] \<in> lang ReferenceRegexp"
    using assms(1) unfolding lang_reference by blast
  then show ?thesis by (simp add: valid_image_def MatchString_lang)
qed

text \<open>The images the operator falls back on.\<close>

lemma default_images_valid:
  "valid_image ''jenkins/jenkins:lts''" "valid_image ''registry.redhat.io/openshift4/ose-jenkins:v4.7''"
proof -
  note chars = word_text_def separator_text_def is_lower_def is_digit_def in_range_def
  have tags: "''lts'' \<in> lang TagRegexp" "''v4.7'' \<in> lang TagRegexp"
    unfolding MatchString_lang [symmetric] by code_simp+
  have "''jenkins'' @ concat (map (\<lambda>(s, v). s @ v) []) \<in> lang nameComponentRegexp"
    by (rule component_text) (simp_all add: chars)
  then have "''jenkins'' @ concat (map (\<lambda>x. CHR ''/'' # x) [''jenkins'']) \<in> lang NameRegexp"
    by (intro path_text) simp_all
  from tagged_name_valid [OF this tags(1)] show "valid_image ''jenkins/jenkins:lts''" by simp
  have "''registry'' @ concat (map (\<lambda>(s, v). s @ v) [(''.'', ''redhat''), (''.'', ''io'')]) \<in> lang nameComponentRegexp"
    by (rule component_text) (simp_all add: chars)
  moreover have "''openshift4'' @ concat (map (\<lambda>(s, v). s @ v) []) \<in> lang nameComponentRegexp"
    by (rule component_text) (simp_all add: chars)
  moreover have "''ose'' @ concat (map (\<lambda>(s, v). s @ v) [(''-'', ''jenkins'')]) \<in> lang nameComponentRegexp"
    by (rule component_text) (simp_all add: chars)
  ultimately have "''registry.redhat.io'' @ concat (map (\<lambda>x. CHR ''/'' # x) [''openshift4'', ''ose-jenkins'']) \<in> lang NameRegexp"
    by (intro path_text) simp_all
  from tagged_name_valid [OF this tags(2)] show "valid_image ''registry.redhat.io/openshift4/ose-jenkins:v4.7''" by simp
qed

section \<open>Properties\<close>


end
