(* ===== verification/Validation.thy ===== *)
theory Validation
  imports Pod_Spec Image_Reference
begin

text \<open>
  The checks of \<open>base/validate.go\<close> on the specification of a Jenkins, each a list of messages.  The
  receiver's \<open>r.Configuration.Jenkins\<close> is the argument \<open>rj\<close>.  \<open>validateJenkinsMasterContainerCommand\<close> and
  \<open>validateImagePullSecrets\<close> have no caller in the program.
\<close>

section \<open>Messages\<close>

definition quoted :: "string \<Rightarrow> string" where
  "quoted s = [CHR 39] @ s @ [CHR 39]"

text \<open>The loop that collects the messages of a check per element and stops at the first error.\<close>

fun for_messages ::
  "('a \<Rightarrow> 'w st \<Rightarrow> ((error + string list) \<times> 'w st) option) \<Rightarrow> 'a list \<Rightarrow> string list \<Rightarrow> 'w st \<Rightarrow>
   ((error + string list) \<times> 'w st) option" where
  "for_messages check [] messages s = Some (Inr messages, s)"
| "for_messages check (x # xs) messages s =
     do { (r, s) \<leftarrow> check x s;
          case r of
            Inl err \<Rightarrow> Some (Inl err, s)
          | Inr msg \<Rightarrow> for_messages check xs (messages @ msg) s }"

section \<open>The command of the Jenkins container\<close>

definition operator_init_script :: string where
  "operator_init_script = JenkinsScriptsVolumePath @ ''/'' @ InitScriptName @ '' && ''"

definition invalid_command_message :: "string \<Rightarrow> string" where
  "invalid_command_message containerName =
     ''spec.master.containers['' @ containerName @ ''].command is invalid, make sure it looks like '' @
     quoted (''[bash -c '' @ operator_init_script @ ''<optional-custom-command> && exec <command-which-start-jenkins>]'') @
     '', otherwise the operator won'' @ [CHR 39] @ ''t configure default user and install plugins. '' @
     quoted ''exec'' @ '' is required to propagate signals to the Jenkins.''"

text \<open>
  A command of fewer than three words is indexed out of range where the words before it are right.
\<close>

definition validateJenkinsMasterContainerCommand :: "Jenkins \<Rightarrow> string list option" where
  "validateJenkinsMasterContainerCommand rj =
     (case GetJenkinsMasterContainer rj of
        None \<Rightarrow> Some []
      | Some c \<Rightarrow>
          (case Container_Command c of
             None \<Rightarrow> Some []
           | Some cmd \<Rightarrow>
               let invalid = Some [invalid_command_message (Container_Name c)] in
               if length cmd < 1 then None
               else if cmd ! 0 \<noteq> ''bash'' then invalid
               else if length cmd < 2 then None
               else if cmd ! 1 \<noteq> ''-c'' then invalid
               else if length cmd < 3 then None
               else if \<not> HasPrefix (cmd ! 2) operator_init_script then invalid
               else if \<not> Contains (cmd ! 2) ''exec'' then invalid
               else Some []))"

section \<open>Objects the specification refers to\<close>

text \<open>The outcome of a \<open>Get\<close>: a message when the object is not found, any other error as it is.\<close>

definition found_or :: "string \<Rightarrow> (error + 'a) \<Rightarrow> error + string list" where
  "found_or message r =
     (case r of
        Inr _ \<Rightarrow> Inr []
      | Inl err \<Rightarrow> if IsNotFound err then Inr [message] else Inl (StackError err))"

definition pull_secret_keys :: "string list" where
  "pull_secret_keys = [''docker-server'', ''docker-username'', ''docker-password'', ''docker-email'']"

text \<open>A secret that is not found is looked at as an empty one.\<close>

definition validateImagePullSecret ::
  "'w ext \<Rightarrow> Jenkins \<Rightarrow> string \<Rightarrow> 'w st \<Rightarrow> ((error + string list) \<times> 'w st) option" where
  "validateImagePullSecret ext rj secretName s =
     do { (r, s) \<leftarrow> Client_Get ext Secret_t (nn (jenkins_namespace rj) secretName) s;
          let data = (case r of Inl _ \<Rightarrow> [] | Inr secret \<Rightarrow> Secret_Data secret);
          let missing = map (\<lambda>k. ''Secret '' @ quoted secretName @
                '' defined in spec.master.imagePullSecrets doesn'' @ [CHR 39] @ ''t have '' @ quoted k @ '' key.'')
              (filter (\<lambda>k. map_of data k = None) pull_secret_keys);
          Some (case found_or (''Secret '' @ secretName @ '' not found defined in spec.master.imagePullSecrets'') r of
                  Inl err \<Rightarrow> Inl err
                | Inr messages \<Rightarrow> Inr (messages @ missing), s) }"

definition validateImagePullSecrets ::
  "'w ext \<Rightarrow> Jenkins \<Rightarrow> 'w st \<Rightarrow> ((error + string list) \<times> 'w st) option" where
  "validateImagePullSecrets ext rj s =
     do { actualSpec \<leftarrow> status_spec rj;
          m \<leftarrow> Spec_Master actualSpec;
          for_messages (validateImagePullSecret ext rj) (Master_ImagePullSecrets m) [] s }"

definition not_found_for_volume :: "'w ext \<Rightarrow> string \<Rightarrow> string \<Rightarrow> Volume \<Rightarrow> string" where
  "not_found_for_volume ext what n v = what @ '' '' @ quoted n @ '' not found for volume '' @ quoted (show_volume ext v)"

definition validatePersistentVolumeClaim ::
  "'w ext \<Rightarrow> Jenkins \<Rightarrow> Volume \<Rightarrow> 'w st \<Rightarrow> ((error + string list) \<times> 'w st) option" where
  "validatePersistentVolumeClaim ext rj v s =
     do { src \<leftarrow> Vol_PVC v;
          let n = PVCVol_ClaimName src;
          (r, s) \<leftarrow> Client_Get ext PVC_t (nn (jenkins_namespace rj) n) s;
          Some (found_or (not_found_for_volume ext ''PersistentVolumeClaim'' n v) r, s) }"

definition validateConfigMapVolume ::
  "'w ext \<Rightarrow> Jenkins \<Rightarrow> Volume \<Rightarrow> 'w st \<Rightarrow> ((error + string list) \<times> 'w st) option" where
  "validateConfigMapVolume ext rj v s =
     do { src \<leftarrow> Vol_ConfigMap v;
          if CMVol_Optional src = Some True then Some (Inr [], s)
          else do { let n = CMVol_Name src;
                    (r, s) \<leftarrow> Client_Get ext ConfigMap_t (nn (jenkins_namespace rj) n) s;
                    Some (found_or (not_found_for_volume ext ''ConfigMap'' n v) r, s) } }"

definition validateSecretVolume ::
  "'w ext \<Rightarrow> Jenkins \<Rightarrow> Volume \<Rightarrow> 'w st \<Rightarrow> ((error + string list) \<times> 'w st) option" where
  "validateSecretVolume ext rj v s =
     do { src \<leftarrow> Vol_Secret v;
          if SecVol_Optional src = Some True then Some (Inr [], s)
          else do { let n = SecVol_SecretName src;
                    (r, s) \<leftarrow> Client_Get ext Secret_t (nn (jenkins_namespace rj) n) s;
                    Some (found_or (not_found_for_volume ext ''Secret'' n v) r, s) } }"

definition validate_volume ::
  "'w ext \<Rightarrow> Jenkins \<Rightarrow> Volume \<Rightarrow> 'w st \<Rightarrow> ((error + string list) \<times> 'w st) option" where
  "validate_volume ext rj v s =
     (if Vol_ConfigMap v \<noteq> None then validateConfigMapVolume ext rj v s
      else if Vol_Secret v \<noteq> None then validateSecretVolume ext rj v s
      else if Vol_PVC v \<noteq> None then validatePersistentVolumeClaim ext rj v s
      else Some (Inr [], s))"

definition validateVolumes :: "'w ext \<Rightarrow> Jenkins \<Rightarrow> 'w st \<Rightarrow> ((error + string list) \<times> 'w st) option" where
  "validateVolumes ext rj s =
     do { actualSpec \<leftarrow> status_spec rj;
          m \<leftarrow> Spec_Master actualSpec;
          for_messages (validate_volume ext rj) (Master_Volumes m) [] s }"

section \<open>Volumes, containers and their mounts\<close>

definition reserved_message :: "Volume \<Rightarrow> string" where
  "reserved_message v = ''Jenkins Master pod volume '' @ quoted (Vol_Name v) @ '' is reserved please choose different one''"

definition validateReservedVolumes :: "Jenkins \<Rightarrow> string list option" where
  "validateReservedVolumes rj =
     do { actualSpec \<leftarrow> status_spec rj;
          m \<leftarrow> Spec_Master actualSpec;
          Some (concat (map (\<lambda>baseVolume.
              map reserved_message (filter (\<lambda>v. Vol_Name baseVolume = Vol_Name v) (Master_Volumes m)))
            (GetJenkinsMasterPodBaseVolumes rj))) }"

definition mount_messages :: "Volume list \<Rightarrow> Container \<Rightarrow> VolumeMount \<Rightarrow> string list" where
  "mount_messages allVolumes c mnt =
     (let place = quoted (Mount_Name mnt) @ '' volume mount in container '' @ quoted (Container_Name c) in
      (if length (Mount_MountPath mnt) = 0 then [''mountPath not set for '' @ place] else []) @
      (if \<not> list_ex (\<lambda>v. Mount_Name mnt = Vol_Name v) allVolumes then [''Not found volume for '' @ place] else []))"

definition validateContainerVolumeMounts :: "Jenkins \<Rightarrow> Container \<Rightarrow> string list option" where
  "validateContainerVolumeMounts rj c =
     do { actualSpec \<leftarrow> status_spec rj;
          m \<leftarrow> Spec_Master actualSpec;
          let allVolumes = GetJenkinsMasterPodBaseVolumes rj @ Master_Volumes m;
          Some (concat (map (mount_messages allVolumes c) (Container_VolumeMounts c))) }"

definition validateContainer :: "Jenkins \<Rightarrow> Container \<Rightarrow> string list option" where
  "validateContainer rj c =
     do { mounts \<leftarrow> validateContainerVolumeMounts rj c;
          Some ((if Container_Image c = '''' then [''Image not set''] else []) @
                (if \<not> valid_image (Container_Image c) then [''Invalid image''] else []) @
                (if Container_ImagePullPolicy c = '''' then [''Image pull policy not set''] else []) @
                mounts) }"

text \<open>Lines 187 to 193: the messages of all containers, each with the name of its container.\<close>

fun container_messages :: "Jenkins \<Rightarrow> Container list \<Rightarrow> string list option" where
  "container_messages rj [] = Some []"
| "container_messages rj (c # cs) =
     do { msg \<leftarrow> validateContainer rj c;
          rest \<leftarrow> container_messages rj cs;
          Some (map (\<lambda>m. ''Container `'' @ Container_Name c @ ''` - '' @ m) msg @ rest) }"

section \<open>The environment\<close>

definition requiredFlags :: "bool gomap" where
  "requiredFlags = [(''-Djenkins.install.runSetupWizard=false'', False), (''-Djava.awt.headless=true'', False)]"

text \<open>The loop over the flags that are set; the inner loop marks the one required flag equal to it.\<close>

fun mark_flags :: "string list \<Rightarrow> bool gomap \<Rightarrow> bool gomap" where
  "mark_flags [] flags = flags"
| "mark_flags (f # fs) flags =
     mark_flags fs (map (\<lambda>(k, b). if f = k then (k, True) else (k, b)) flags)"

definition missing_flag_message :: "string \<Rightarrow> string" where
  "missing_flag_message f = ''Jenkins Master container env '' @ quoted JavaOptsVariableName @
     '' doesn'' @ [CHR 39] @ ''t have required flag '' @ quoted f"

text \<open>
  The last JAVA_OPTS of the user counts.  The messages come in the order of an iteration over the
  map of the required flags, here its list.  The base environment is computed and not used.
\<close>

definition validateJenkinsMasterPodEnvs :: "Jenkins \<Rightarrow> string list option" where
  "validateJenkinsMasterPodEnvs rj =
     do { _ \<leftarrow> GetJenkinsMasterContainerBaseEnvs rj;
          actualSpec \<leftarrow> status_spec rj;
          c \<leftarrow> first_container actualSpec;
          let javaOpts = (case last_match (\<lambda>e. Env_Name e = JavaOptsVariableName) (Container_Env c) of
                None \<Rightarrow> '''' | Some e \<Rightarrow> Env_Value e);
          let flags = mark_flags (Split (CHR '' '') javaOpts) requiredFlags;
          Some (map (\<lambda>(f, _). missing_flag_message f) (filter (\<lambda>(_, isSet). \<not> isSet) flags)) }"

section \<open>Plugins\<close>

definition missing_plugin_message :: "string \<Rightarrow> string" where
  "missing_plugin_message n = ''Missing plugin '' @ quoted n @ '' in spec.master.basePlugins''"

definition verifyBasePlugins :: "Plugin list \<Rightarrow> PluginSpec list \<Rightarrow> string list" where
  "verifyBasePlugins requiredBasePlugins given =
     map (\<lambda>p. missing_plugin_message (PName p))
       (filter (\<lambda>p. \<not> list_ex (\<lambda>b. PName p = Plugin_Name b) given) requiredBasePlugins)"

text \<open>
  The map \<open>allPlugins\<close> has the plugins that parse as keys, each once, with no dependencies;
  \<open>keys\<close> is the order in which it is visited and \<open>ord\<close> the one of the inner map of \<open>VerifyDependencies\<close>.
\<close>

definition parsed_plugins :: "PluginSpec list \<Rightarrow> (error + Plugin) list" where
  "parsed_plugins = map (\<lambda>p. NewPlugin (Plugin_Name p) (Plugin_Version p) (Plugin_DownloadURL p))"

fun lefts :: "('a + 'b) list \<Rightarrow> 'a list" where
  "lefts [] = []" | "lefts (Inl x # r) = x # lefts r" | "lefts (Inr _ # r) = lefts r"

fun rights :: "('a + 'b) list \<Rightarrow> 'b list" where
  "rights [] = []" | "rights (Inl _ # r) = rights r" | "rights (Inr x # r) = x # rights r"

definition validatePlugins ::
  "(Plugin list gomap \<Rightarrow> Plugin list gomap) \<Rightarrow> (Plugin list \<Rightarrow> Plugin list) \<Rightarrow>
   Plugin list \<Rightarrow> PluginSpec list \<Rightarrow> string list" where
  "validatePlugins ord keys requiredBasePlugins given =
     (let plugins = parsed_plugins given;
          allPlugins = map (\<lambda>p. (p, [])) (keys (remdups (rights plugins)))
      in map error_string (lefts plugins) @
         VerifyDependencies ord [allPlugins] @
         verifyBasePlugins requiredBasePlugins given)"

section \<open>Lemmas\<close>

lemma mark_flags_eq: "mark_flags fs flags = map (\<lambda>(k, b). (k, b \<or> k \<in> set fs)) flags"
  by (induction fs flags rule: mark_flags.induct) auto

lemma lefts_Nil: "lefts xs = [] \<longleftrightarrow> (\<forall>x \<in> set xs. \<exists>y. x = Inr y)"
  by (induction xs rule: lefts.induct) auto

lemma set_rights: "set (rights xs) = {y. Inr y \<in> set xs}"
  by (induction xs rule: rights.induct) auto

lemma for_messages_Nil:
  "for_messages check xs ms s = Some (Inr r, s') \<Longrightarrow> \<exists>more. r = ms @ more"
  by (induction check xs ms s rule: for_messages.induct) (fastforce elim!: bind_pairE split: sum.splits)+

text \<open>What a container needs to pass, in a pod with the volumes \<open>vs\<close>.\<close>

definition mount_ok :: "Volume list \<Rightarrow> VolumeMount \<Rightarrow> bool" where
  "mount_ok vs mnt \<longleftrightarrow> Mount_MountPath mnt \<noteq> '''' \<and> Mount_Name mnt \<in> volume_names vs"

definition container_ok :: "Volume list \<Rightarrow> Container \<Rightarrow> bool" where
  "container_ok vs c \<longleftrightarrow> Container_Image c \<noteq> '''' \<and> valid_image (Container_Image c) \<and>
     Container_ImagePullPolicy c \<noteq> '''' \<and> list_all (mount_ok vs) (Container_VolumeMounts c)"

lemma mount_messages_Nil: "mount_messages vs c mnt = [] \<longleftrightarrow> mount_ok vs mnt"
  by (auto simp: mount_messages_def mount_ok_def volume_names_def list_ex_iff Let_def)

lemma validateContainer_Nil:
  assumes "status_spec rj = Some spec" and "Spec_Master spec = Some m"
  shows "validateContainer rj c = Some [] \<longleftrightarrow>
    container_ok (GetJenkinsMasterPodBaseVolumes rj @ Master_Volumes m) c"
  using assms
  by (auto simp: validateContainer_def validateContainerVolumeMounts_def container_ok_def list_all_iff
      mount_messages_Nil Let_def)

lemma container_messages_Nil:
  "container_messages rj cs = Some [] \<longleftrightarrow> (\<forall>c \<in> set cs. validateContainer rj c = Some [])"
  by (induction cs) (auto simp: Option.bind_eq_Some_conv)

lemma validateReservedVolumes_Nil:
  assumes "status_spec rj = Some spec" and "Spec_Master spec = Some m"
  shows "validateReservedVolumes rj = Some [] \<longleftrightarrow>
    volume_names (GetJenkinsMasterPodBaseVolumes rj) \<inter> volume_names (Master_Volumes m) = {}"
  using assms by (auto simp: validateReservedVolumes_def volume_names_def filter_empty_conv)

definition java_opts :: "Container \<Rightarrow> string" where
  "java_opts c = (case last_match (\<lambda>e. Env_Name e = JavaOptsVariableName) (Container_Env c) of
     None \<Rightarrow> '''' | Some e \<Rightarrow> Env_Value e)"

lemma validateJenkinsMasterPodEnvs_Nil:
  assumes "status_spec rj = Some spec" and "first_container spec = Some c"
  shows "validateJenkinsMasterPodEnvs rj = Some [] \<longleftrightarrow>
    fst ` set requiredFlags \<subseteq> set (Split (CHR '' '') (java_opts c))"
proof -
  have "\<exists>base. GetJenkinsMasterContainerBaseEnvs rj = Some base"
    using assms getJenkinsHomePath_Some [OF assms] by (simp add: GetJenkinsMasterContainerBaseEnvs_def)
  then show ?thesis
    using assms
    by (auto simp: validateJenkinsMasterPodEnvs_def mark_flags_eq java_opts_def [symmetric] requiredFlags_def
        Let_def filter_empty_conv)
qed

text \<open>The plugins that pass: each parses, no name has two versions, and every required name is there.\<close>

definition plugin_ok :: "PluginSpec \<Rightarrow> bool" where
  "plugin_ok p \<longleftrightarrow> NamePattern_match (Plugin_Name p) \<and> VersionPattern_match (Plugin_Version p) \<and>
     (Plugin_DownloadURL p = '''' \<or> DownloadURLPattern_match (Plugin_DownloadURL p))"

lemma NewPlugin_Inr:
  "NewPlugin n v u = Inr p \<longleftrightarrow> validatePlugin n v u = None \<and>
     p = \<lparr>PName = n, PVersion = v, PDownloadURL = u, rootPluginNameAndVersion = ''''\<rparr>"
  by (auto simp: NewPlugin_def split: option.splits)

lemma verifyBasePlugins_Nil:
  "verifyBasePlugins req given = [] \<longleftrightarrow> PName ` set req \<subseteq> Plugin_Name ` set given"
  by (auto simp: verifyBasePlugins_def filter_empty_conv list_ex_iff image_iff)

lemma lefts_parsed: "lefts (parsed_plugins given) = [] \<longleftrightarrow> list_all plugin_ok given"
  by (auto simp: lefts_Nil parsed_plugins_def NewPlugin_Inr validatePlugin_None plugin_ok_def list_all_iff)

lemma rights_map: "(\<And>x. x \<in> set xs \<Longrightarrow> f x = Inr (g x)) \<Longrightarrow> rights (map f xs) = map g xs"
  by (induction xs) auto

lemma rights_parsed:
  assumes "list_all plugin_ok given"
  shows "rights (parsed_plugins given) = map (\<lambda>p. \<lparr>PName = Plugin_Name p, PVersion = Plugin_Version p,
    PDownloadURL = Plugin_DownloadURL p, rootPluginNameAndVersion = ''''\<rparr>) given"
  unfolding parsed_plugins_def
  by (rule rights_map) (use assms in \<open>simp add: NewPlugin_Inr validatePlugin_None plugin_ok_def list_all_iff\<close>)

definition consistent :: "PluginSpec list \<Rightarrow> bool" where
  "consistent given \<longleftrightarrow> (\<forall>p \<in> set given. \<forall>q \<in> set given. Plugin_Name p = Plugin_Name q \<longrightarrow>
     Plugin_Version p = Plugin_Version q)"

lemma validatePlugins_Nil:
  assumes "\<And>m. set (ord m) = set m" and "\<And>ps. set (keys ps) = set ps"
  shows "validatePlugins ord keys req given = [] \<longleftrightarrow>
    list_all plugin_ok given \<and> consistent given \<and> PName ` set req \<subseteq> Plugin_Name ` set given"
proof (cases "list_all plugin_ok given")
  case True
  have "set (all_entries [map (\<lambda>p. (p, [])) (keys (remdups (rights (parsed_plugins given))))]) =
      (\<lambda>p. versioned p p) ` set (rights (parsed_plugins given))"
    by (auto simp: all_entries_def value_entries_def assms(2))
  then show ?thesis
    using True lefts_parsed [of given]
    by (simp add: validatePlugins_def Let_def VerifyDependencies_Nil [OF assms(1)] verifyBasePlugins_Nil
        consistent_def rights_parsed)
next
  case False
  then show ?thesis using lefts_parsed [of given] by (simp add: validatePlugins_def Let_def)
qed

end
