(* ===== verification/Config_Validation.thy ===== *)
theory Config_Validation
  imports Validation
begin

text \<open>
  The rest of \<open>base/validate.go\<close>: the configuration as code with its two config maps that the
  validation creates, and \<open>Validate\<close> itself.  Creating the default config map writes its name and
  namespace into the package variable \<open>defaultConfigMap\<close>, and a successful \<open>Create\<close> leaves the answer of
  the server in it.
\<close>

section \<open>The proxy\<close>

definition JenkinsProxyConfigMapName :: string where "JenkinsProxyConfigMapName = ''jenkins-proxy-configuration''"

text \<open>
  The four groups of the first match of \<open>^http?://([^:@]+):([^:@]+)?@([0-9a-zA-Z.-]+):(\d+)?/?$\<close>, where
  there is one: no class contains the character that follows it, so the match is unique.
\<close>

definition not_sep :: "char \<Rightarrow> bool" where "not_sep c \<longleftrightarrow> c \<noteq> CHR '':'' \<and> c \<noteq> CHR ''@''"
definition is_host :: "char \<Rightarrow> bool" where
  "is_host c \<longleftrightarrow> Image_Reference.is_alnum c \<or> c = CHR ''.'' \<or> c = CHR ''-''"

definition proxy_scheme :: "string \<Rightarrow> string option" where
  "proxy_scheme s =
     (if HasPrefix s ''http://'' then Some (drop 7 s)
      else if HasPrefix s ''htt://'' then Some (drop 6 s) else None)"

text \<open>A maximal run of characters of a class and what follows one given character after it.\<close>

definition field :: "(char \<Rightarrow> bool) \<Rightarrow> char \<Rightarrow> string \<Rightarrow> (string \<times> string) option" where
  "field P c s =
     (case dropWhile P s of
        d # rest \<Rightarrow> if d = c then Some (takeWhile P s, rest) else None
      | [] \<Rightarrow> None)"

definition last_field :: "string \<Rightarrow> string option" where
  "last_field s = (if dropWhile is_digit s \<in> {'''', ''/''} then Some (takeWhile is_digit s) else None)"

definition proxy_submatches :: "string \<Rightarrow> (string \<times> string \<times> string \<times> string) option" where
  "proxy_submatches s =
     do { s \<leftarrow> proxy_scheme s;
          (user, s) \<leftarrow> field not_sep (CHR '':'') s;
          (password, s) \<leftarrow> field not_sep (CHR ''@'') s;
          (host, s) \<leftarrow> field is_host (CHR '':'') s;
          port \<leftarrow> last_field s;
          if user \<noteq> '''' \<and> host \<noteq> '''' then Some (user, password, host, port) else None }"

definition globalProxyTemplate :: "string \<Rightarrow> string \<Rightarrow> string \<Rightarrow> string \<Rightarrow> string \<Rightarrow> string" where
  "globalProxyTemplate proxyName proxyPort proxyUser proxyPassword noProxy =
     (let q = [CHR 34] in
      Join newline
        ['''', ''jenkins:'', ''  proxy:'',
         ''    name: '' @ q @ proxyName @ q,
         ''    port: '' @ proxyPort,
         ''    userName: '' @ q @ proxyUser @ q,
         ''    secretPassword: '' @ q @ proxyPassword @ q,
         ''    noProxyHost: '' @ q @ noProxy @ q,
         ''''])"

text \<open>Every error but a missing config map is dropped; a proxy that does not match panics.\<close>

definition proxyConfigMap :: "Jenkins \<Rightarrow> string \<Rightarrow> string \<Rightarrow> ConfigMap" where
  "proxyConfigMap rj namespace output =
     \<lparr>CM_Meta = empty_meta\<lparr>Meta_Name := JenkinsProxyConfigMapName, Meta_Namespace := namespace,
        Meta_Labels := Some [(''type'', JenkinsSCConfigLabelValue (jenkins_name rj))]\<rparr>,
      CM_Data = [(''01-global-proxy.yaml'', output)]\<rparr>"

definition CreateJenkinsProxyConfigMap ::
  "'w ext \<Rightarrow> Jenkins \<Rightarrow> string \<Rightarrow> 'w st \<Rightarrow> (unit \<times> 'w st) option" where
  "CreateJenkinsProxyConfigMap ext rj namespace s =
     do { (r, s) \<leftarrow> Client_Get ext ConfigMap_t (nn namespace JenkinsProxyConfigMapName) s;
          if (case r of Inl err \<Rightarrow> IsNotFound err | Inr _ \<Rightarrow> False)
          then do { let proxy = GlobalProxy (globals s);
                    (user, password, host, port) \<leftarrow> proxy_submatches (Proxy_HTTPProxy proxy);
                    let output = globalProxyTemplate host port user password (Proxy_NoProxy proxy);
                    (_, s) \<leftarrow> Client_Create ext ConfigMap_t (proxyConfigMap rj namespace output) s;
                    Some ((), s) }
          else Some ((), s) }"

section \<open>Configuration as code\<close>

text \<open>Lines 582 to 594: the messages, and the error of the first config map that cannot be read.\<close>

fun check_config_maps ::
  "'w ext \<Rightarrow> Jenkins \<Rightarrow> string \<Rightarrow> nat \<Rightarrow> ConfigMapRef list \<Rightarrow> 'w st \<Rightarrow>
   ((string list \<times> error option) \<times> 'w st) option" where
  "check_config_maps ext rj name index [] s = Some (([], None), s)"
| "check_config_maps ext rj name index (ref # refs) s =
     (let place = name @ ''.configurations['' @ show_nat index @ '']'' in
      if length (ConfigMapRef_Name ref) = 0
      then do { ((msgs, err), s) \<leftarrow> check_config_maps ext rj name (Suc index) refs s;
                Some (((place @ '' name is empty'') # msgs, err), s) }
      else do { (r, s) \<leftarrow> Client_Get ext ConfigMap_t (nn (jenkins_namespace rj) (ConfigMapRef_Name ref)) s;
                case r of
                  Inl err \<Rightarrow> Some (([''ConfigMap '' @ quoted (ConfigMapRef_Name ref) @ '' configured in '' @ place
                      @ '' but not found''], Some (StackError err)), s)
                | Inr _ \<Rightarrow> check_config_maps ext rj name (Suc index) refs s })"

text \<open>Lines 595 to 610: \<open>None\<close> in the middle where the validation goes on to the proxy.\<close>

definition rename_config_map :: "string \<Rightarrow> string \<Rightarrow> ConfigMap \<Rightarrow> ConfigMap" where
  "rename_config_map ns n cm = cm\<lparr>CM_Meta := (CM_Meta cm)\<lparr>Meta_Namespace := ns, Meta_Name := n\<rparr>\<rparr>"

definition set_default :: "ConfigMap \<Rightarrow> 'w st \<Rightarrow> 'w st" where
  "set_default cm = set_globals (\<lambda>g. g\<lparr>defaultConfigMap := cm\<rparr>)"

definition ensure_default_config ::
  "'w ext \<Rightarrow> Jenkins \<Rightarrow> 'w st \<Rightarrow> ((string list \<times> error option) option \<times> 'w st) option" where
  "ensure_default_config ext rj s =
     do { (r, s) \<leftarrow> Client_Get ext ConfigMap_t (nn (jenkins_namespace rj) JenkinsDefaultConfigMapName) s;
          case r of
            Inr _ \<Rightarrow> Some (None, s)
          | Inl err \<Rightarrow>
              if IsNotFound err
              then do { let cm = rename_config_map (jenkins_namespace rj) JenkinsDefaultConfigMapName
                                   (defaultConfigMap (globals s));
                        let s = set_default cm s;
                        (r, s) \<leftarrow> Client_Create ext ConfigMap_t cm s;
                        case r of
                          Inl err \<Rightarrow> Some (Some ([''Not able to create Default ConfigMap '' @
                              JenkinsDefaultConfigMapName], Some (StackError err)), s)
                        | Inr cm' \<Rightarrow> Some (Some ([], None), set_default cm' s) }
              else Some (Some ([], Some (StackError err)), s) }"

definition check_secret ::
  "'w ext \<Rightarrow> Jenkins \<Rightarrow> string \<Rightarrow> Configuration \<Rightarrow> 'w st \<Rightarrow> ((string list \<times> error option) \<times> 'w st) option" where
  "check_secret ext rj name casc s =
     (let secret = SecretRef_Name (CasC_Secret casc);
          messages = (if length secret > 0 \<and> length (CasC_Configurations casc) = 0
            then [name @ ''.secret.name is set but '' @ name @ ''.configurations is empty''] else [])
      in if length secret > 0
         then do { (r, s) \<leftarrow> Client_Get ext Secret_t (nn (jenkins_namespace rj) secret) s;
                   Some (case r of
                           Inl err \<Rightarrow> (messages @ [''Secret '' @ quoted secret @ '' configured in '' @ name @
                               ''.secret.name but not found''], Some (StackError err))
                         | Inr _ \<Rightarrow> (messages, None), s) }
         else Some ((messages, None), s))"

definition proxy_stage :: "'w ext \<Rightarrow> Jenkins \<Rightarrow> 'w st \<Rightarrow> (unit \<times> 'w st) option" where
  "proxy_stage ext rj s =
     (if Spec_ProxyConfigurationEnabled (Jenkins_Spec rj) \<and> Proxy_HTTPProxy (GlobalProxy (globals s)) \<noteq> ''''
      then CreateJenkinsProxyConfigMap ext rj (jenkins_namespace rj) s
      else Some ((), s))"

definition validateConfiguration ::
  "'w ext \<Rightarrow> Jenkins \<Rightarrow> Configuration option \<Rightarrow> string \<Rightarrow> 'w st \<Rightarrow>
   ((string list \<times> error option) \<times> 'w st) option" where
  "validateConfiguration ext rj configuration name s =
     (case configuration of
        None \<Rightarrow> Some (([], None), s)
      | Some casc \<Rightarrow>
          do { ((messages, err), s) \<leftarrow> check_secret ext rj name casc s;
               if err \<noteq> None then Some ((messages, err), s)
               else do { ((msgs, err), s) \<leftarrow> check_config_maps ext rj name 0 (CasC_Configurations casc) s;
                         let messages = messages @ msgs;
                         if err \<noteq> None then Some ((messages, err), s)
                         else do { (stop, s) \<leftarrow> (if CasC_DefaultConfig casc then ensure_default_config ext rj s
                                                   else Some (None, s));
                                   case stop of
                                     Some (msgs, err) \<Rightarrow> Some ((messages @ msgs, err), s)
                                   | None \<Rightarrow> do { (_, s) \<leftarrow> proxy_stage ext rj s;
                                                 Some ((messages, None), s) } } } })"

section \<open>Validate\<close>

definition Validate ::
  "(Plugin list gomap \<Rightarrow> Plugin list gomap) \<Rightarrow> (Plugin list \<Rightarrow> Plugin list) \<Rightarrow> 'w ext \<Rightarrow>
   Jenkins \<Rightarrow> Jenkins \<Rightarrow> 'w st \<Rightarrow> ((error + string list) \<times> 'w st) option" where
  "Validate ord keys ext rj jenkins s =
     do { reserved \<leftarrow> validateReservedVolumes rj;
          (r, s) \<leftarrow> validateVolumes ext rj s;
          case r of
            Inl err \<Rightarrow> Some (Inl err, s)
          | Inr volumes \<Rightarrow>
              do { actualSpec \<leftarrow> status_spec jenkins;
                   m \<leftarrow> Spec_Master actualSpec;
                   containers \<leftarrow> container_messages rj (Master_Containers m);
                   let plugins = validatePlugins ord keys BasePlugins (Master_BasePlugins m);
                   envs \<leftarrow> validateJenkinsMasterPodEnvs rj;
                   ((casc, err), s) \<leftarrow> validateConfiguration ext rj (Spec_ConfigurationAsCode actualSpec)
                     (jenkins_name jenkins) s;
                   case err of
                     Some e \<Rightarrow> Some (Inl e, s)
                   | None \<Rightarrow> Some (Inr (reserved @ volumes @ containers @ plugins @ envs @ casc), s) } }"

section \<open>The proxy pattern\<close>

text \<open>The pattern as a regular expression of \<open>Image_Reference\<close>.\<close>

definition proxyRegexp :: rex where
  "proxyRegexp = expression [literal ''htt'', optional [literal ''p''], literal ''://'',
     plus_rex (Cls not_sep), literal '':'', optional [plus_rex (Cls not_sep)], literal ''@'',
     plus_rex (Cls is_host), literal '':'', optional [plus_rex (Cls is_digit)], optional [literal ''/'']]"

lemma seps [simp]: "\<not> not_sep (CHR '':'')" "\<not> not_sep (CHR ''@'')" "\<not> is_host (CHR '':'')" "\<not> is_digit (CHR ''/'')"
  by (simp_all add: not_sep_def is_host_def Image_Reference.is_alnum_def is_lower_def is_upper_def is_digit_def
      in_range_def)

lemma field_Some: "\<not> P c \<Longrightarrow> field P c s = Some (w, r) \<longleftrightarrow> s = w @ c # r \<and> list_all P w"
proof
  assume "\<not> P c" and "field P c s = Some (w, r)"
  then have "dropWhile P s = c # r" "w = takeWhile P s"
    by (auto simp: field_def split: list.splits if_splits)
  then show "s = w @ c # r \<and> list_all P w"
    by (metis list_all_iff set_takeWhileD takeWhile_dropWhile_id)
next
  assume "\<not> P c" and "s = w @ c # r \<and> list_all P w"
  then show "field P c s = Some (w, r)" by (simp add: field_def list_all_iff)
qed

definition proxy_text :: "string \<Rightarrow> string \<times> string \<times> string \<times> string \<Rightarrow> bool" where
  "proxy_text s g = (case g of (user, password, host, port) \<Rightarrow>
     (\<exists>scheme \<in> {''http://'', ''htt://''}. \<exists>slash \<in> {'''', ''/''}.
        s = scheme @ user @ '':'' @ password @ ''@'' @ host @ '':'' @ port @ slash) \<and>
     user \<noteq> '''' \<and> list_all not_sep user \<and> list_all not_sep password \<and>
     host \<noteq> '''' \<and> list_all is_host host \<and> list_all is_digit port)"

lemmas proxy_lang = lang.simps lang_plus_Cls lang_optional_plus lang_optional expression.simps lang_literal

lemma lang_proxy: "s \<in> lang proxyRegexp \<longleftrightarrow> (\<exists>g. proxy_text s g)"
proof
  assume "s \<in> lang proxyRegexp"
  then obtain ws where ws: "s = concat ws" "list_all2 (\<lambda>x r. x \<in> lang r) ws [literal ''htt'', optional [literal ''p''],
      literal ''://'', plus_rex (Cls not_sep), literal '':'', optional [plus_rex (Cls not_sep)], literal ''@'',
      plus_rex (Cls is_host), literal '':'', optional [plus_rex (Cls is_digit)], optional [literal ''/'']]"
    unfolding proxyRegexp_def by (subst (asm) lang_expression) auto
  then obtain l1 p l2 user l3 password l4 host l5 port slash where
    "ws = [l1, p, l2, user, l3, password, l4, host, l5, port, slash]"
    "l1 \<in> lang (literal ''htt'')" "p \<in> lang (optional [literal ''p''])" "l2 \<in> lang (literal ''://'')"
    "user \<in> lang (plus_rex (Cls not_sep))" "l3 \<in> lang (literal '':'')"
    "password \<in> lang (optional [plus_rex (Cls not_sep)])" "l4 \<in> lang (literal ''@'')"
    "host \<in> lang (plus_rex (Cls is_host))" "l5 \<in> lang (literal '':'')"
    "port \<in> lang (optional [plus_rex (Cls is_digit)])" "slash \<in> lang (optional [literal ''/''])"
    unfolding list_all2_Cons2 list_all2_Nil2 by (elim exE conjE) simp
  with ws(1) have s: "s = ''htt'' @ p @ ''://'' @ user @ '':'' @ password @ ''@'' @ host @ '':'' @ port @ slash" and
    p: "p \<in> {'''', ''p''}" and ok: "user \<noteq> ''''" "list_all not_sep user" "list_all not_sep password"
    "host \<noteq> ''''" "list_all is_host host" "list_all is_digit port" "slash \<in> {'''', ''/''}"
    unfolding lang_literal lang_optional_plus lang_plus_Cls mem_Collect_eq singleton_iff
    by (auto simp: lang_optional)
  from p have "''htt'' @ p @ ''://'' \<in> {''http://'', ''htt://''}" by auto
  then have "proxy_text s (user, password, host, port)"
    unfolding proxy_text_def prod.case using ok s
    by (intro conjI bexI [of _ "''htt'' @ p @ ''://''"] bexI [of _ slash]) simp_all
  then show "\<exists>g. proxy_text s g" ..
next
  assume "\<exists>g. proxy_text s g"
  then obtain u p h d where "proxy_text s (u, p, h, d)" by (metis prod_cases4)
  then obtain scheme slash where g: "s = scheme @ u @ '':'' @ p @ ''@'' @ h @ '':'' @ d @ slash"
    "scheme \<in> {''http://'', ''htt://''}" "slash \<in> {'''', ''/''}" "u \<noteq> ''''" "list_all not_sep u"
    "list_all not_sep p" "h \<noteq> ''''" "list_all is_host h" "list_all is_digit d"
    unfolding proxy_text_def prod.case by blast
  from g(2) obtain q where q: "scheme = ''htt'' @ q @ ''://''" "q \<in> {'''', ''p''}" by auto
  have "''htt'' @ q @ ''://'' @ u @ '':'' @ p @ ''@'' @ h @ '':'' @ d @ slash \<in> lang proxyRegexp"
    unfolding proxyRegexp_def proxy_lang lang.simps by (intro concI) (use g q in simp_all)
  then show "s \<in> lang proxyRegexp" by (simp add: g(1) q(1))
qed

lemma proxy_scheme_Some: "proxy_scheme s = Some r \<longleftrightarrow> s = ''http://'' @ r \<or> s = ''htt://'' @ r"
  by (auto simp: proxy_scheme_def HasPrefix_iff prefix_def)

lemma last_field_Some: "last_field s = Some d \<longleftrightarrow> list_all is_digit d \<and> (s = d \<or> s = d @ ''/'')"
proof
  assume "last_field s = Some d"
  then have "d = takeWhile is_digit s" "dropWhile is_digit s = '''' \<or> dropWhile is_digit s = ''/''"
    by (auto simp: last_field_def split: if_splits)
  then show "list_all is_digit d \<and> (s = d \<or> s = d @ ''/'')"
    by (metis append.right_neutral list_all_iff set_takeWhileD takeWhile_dropWhile_id)
next
  assume "list_all is_digit d \<and> (s = d \<or> s = d @ ''/'')"
  then show "last_field s = Some d" by (auto simp: last_field_def list_all_iff)
qed

lemma proxy_submatches_Some: "proxy_submatches s = Some g \<longleftrightarrow> proxy_text s g"
proof
  assume "proxy_submatches s = Some g"
  then obtain r u r1 p r2 h r3 d where g: "g = (u, p, h, d)" and
    "s = ''http://'' @ r \<or> s = ''htt://'' @ r" "r = u @ CHR '':'' # r1" "r1 = p @ CHR ''@'' # r2"
    "r2 = h @ CHR '':'' # r3" "r3 = d \<or> r3 = d @ ''/''"
    "list_all not_sep u" "list_all not_sep p" "list_all is_host h" "list_all is_digit d" "u \<noteq> []" "h \<noteq> []"
    unfolding proxy_submatches_def
    by (auto simp: Option.bind_eq_Some_conv field_Some proxy_scheme_Some last_field_Some split: if_splits)
  then show "proxy_text s g" by (simp add: proxy_text_def g) auto
next
  assume "proxy_text s g"
  obtain u p h d where g: "g = (u, p, h, d)" by (cases g)
  from \<open>proxy_text s g\<close> obtain scheme slash where
    s: "s = scheme @ u @ '':'' @ p @ ''@'' @ h @ '':'' @ d @ slash" and
    "scheme \<in> {''http://'', ''htt://''}" "slash \<in> {'''', ''/''}" and
    ok: "u \<noteq> []" "list_all not_sep u" "list_all not_sep p" "h \<noteq> []" "list_all is_host h" "list_all is_digit d"
    unfolding proxy_text_def g prod.case by blast
  then have "proxy_scheme s = Some (u @ CHR '':'' # p @ CHR ''@'' # h @ CHR '':'' # d @ slash)"
    "last_field (d @ slash) = Some d"
    by (auto simp: proxy_scheme_Some last_field_Some)
  moreover have "field not_sep (CHR '':'') (u @ CHR '':'' # x) = Some (u, x)"
    "field not_sep (CHR ''@'') (p @ CHR ''@'' # x) = Some (p, x)"
    "field is_host (CHR '':'') (h @ CHR '':'' # x) = Some (h, x)" for x
    using ok by (simp_all add: field_Some)
  ultimately show "proxy_submatches s = Some g" using ok by (simp add: proxy_submatches_def g)
qed

section \<open>What validation sends\<close>

text \<open>Lookups in the namespace of the Jenkins, and the creation of its two config maps.\<close>

definition validation_request :: "Jenkins \<Rightarrow> request \<Rightarrow> bool" where
  "validation_request j q =
     (case q of
        GetReq k n \<Rightarrow> k \<in> {K_Secret, K_ConfigMap, K_PVC} \<and> NN_Namespace n = jenkins_namespace j
      | CreateReq (O_ConfigMap cm) \<Rightarrow> Meta_Namespace (CM_Meta cm) = jenkins_namespace j \<and>
          Meta_Name (CM_Meta cm) \<in> {JenkinsDefaultConfigMapName, JenkinsProxyConfigMapName}
      | _ \<Rightarrow> False)"

lemma Get_extends:
  assumes "Client_Get ext T (nn (jenkins_namespace j) n) s = Some (r, s')"
    and "gokind T \<in> {K_Secret, K_ConfigMap, K_PVC}"
  shows "extends (validation_request j) s s'" "globals s' = globals s" "events s' = events s"
  using assms by (auto simp: Client_Get_def call_eq extends_def validation_request_def nn_def)

lemma Create_extends:
  assumes "Client_Create ext ConfigMap_t cm s = Some (r, s')" and "validation_request j (CreateReq (O_ConfigMap cm))"
  shows "extends (validation_request j) s s'" "globals s' = globals s"
  using assms by (auto simp: Client_Create_def call_eq extends_def ConfigMap_t_def)

lemma kinds [simp]: "gokind Secret_t = K_Secret" "gokind ConfigMap_t = K_ConfigMap" "gokind PVC_t = K_PVC"
  by (simp_all add: Secret_t_def ConfigMap_t_def PVC_t_def)

lemma for_messages_extends:
  assumes "for_messages check xs ms s = Some (r, s')"
    and "\<And>x s r s'. check x s = Some (r, s') \<Longrightarrow> extends P s s'"
  shows "extends P s s'"
  using assms
proof (induction xs arbitrary: ms s)
  case (Cons x xs)
  from Cons.prems(1) obtain r1 s1 where 1: "check x s = Some (r1, s1)"
    and 2: "case r1 of Inl err \<Rightarrow> r = Inl err \<and> s' = s1 | Inr msg \<Rightarrow> for_messages check xs (ms @ msg) s1 = Some (r, s')"
    by (auto elim!: bind_pairE split: sum.splits)
  have "extends P s1 s'" using 2 Cons.IH Cons.prems(2) by (auto split: sum.splits)
  with Cons.prems(2) [OF 1] show ?case by (rule extends_trans)
qed simp

lemma validate_volume_extends:
  "validate_volume ext j v s = Some (r, s') \<Longrightarrow> extends (validation_request j) s s'"
  by (auto simp: validate_volume_def validateConfigMapVolume_def validateSecretVolume_def
      validatePersistentVolumeClaim_def Let_def Option.bind_eq_Some_conv intro: Get_extends split: if_splits)

lemma check_config_maps_extends:
  "check_config_maps ext j name i refs s = Some (r, s') \<Longrightarrow> extends (validation_request j) s s'"
proof (induction refs arbitrary: i s r)
  case (Cons ref refs)
  show ?case
  proof (cases "ConfigMapRef_Name ref = []")
    case True
    with Cons show ?thesis by (auto simp: Let_def elim!: bind_pairE)
  next
    case False
    with Cons.prems obtain x s1 where 1: "Client_Get ext ConfigMap_t (nn (jenkins_namespace j) (ConfigMapRef_Name ref)) s
        = Some (x, s1)"
      and 2: "s' = s1 \<or> check_config_maps ext j name (Suc i) refs s1 = Some (r, s')"
      by (auto simp: Let_def elim!: bind_pairE split: sum.splits)
    have "extends (validation_request j) s s1" by (rule Get_extends [OF 1]) simp
    also have "extends (validation_request j) s1 s'" using 2 Cons.IH [of "Suc i" s1 r] by auto
    finally show ?thesis .
  qed
qed simp

lemma extends_set_default: "extends P s s' \<Longrightarrow> extends P s (set_default cm s')" "extends P (set_default cm s) s' \<Longrightarrow> extends P s s'"
  by (simp_all add: extends_def set_default_def)

lemma ensure_default_config_extends:
  assumes "ensure_default_config ext j s = Some (r, s')"
  shows "extends (validation_request j) s s'"
proof -
  let ?cm = "rename_config_map (jenkins_namespace j) JenkinsDefaultConfigMapName (defaultConfigMap (globals s))"
  from assms obtain x s1 where 1: "Client_Get ext ConfigMap_t (nn (jenkins_namespace j) JenkinsDefaultConfigMapName) s
      = Some (x, s1)" and
    2: "s' = s1 \<or> (\<exists>y s2. Client_Create ext ConfigMap_t (rename_config_map (jenkins_namespace j)
          JenkinsDefaultConfigMapName (defaultConfigMap (globals s1))) (set_default (rename_config_map (jenkins_namespace j)
          JenkinsDefaultConfigMapName (defaultConfigMap (globals s1))) s1) = Some (y, s2) \<and>
        (s' = s2 \<or> (\<exists>cm. s' = set_default cm s2)))"
    unfolding ensure_default_config_def Let_def by (auto elim!: bind_pairE split: sum.splits if_splits) metis
  have get: "extends (validation_request j) s s1" by (rule Get_extends [OF 1]) simp
  have "extends (validation_request j) s1 s2" if "Client_Create ext ConfigMap_t (rename_config_map (jenkins_namespace j)
      JenkinsDefaultConfigMapName cm) (set_default d s1) = Some (y, s2)" for cm d y s2
    using Create_extends(1) [OF that, of j]
    by (rule extends_set_default(2)) (simp add: validation_request_def rename_config_map_def)
  note create = this
  show ?thesis
    using 2 get extends_trans [OF get create] extends_set_default(1) [OF extends_trans [OF get create]] by metis
qed

lemma check_secret_extends:
  "check_secret ext j name casc s = Some (r, s') \<Longrightarrow> extends (validation_request j) s s'"
  by (auto simp: check_secret_def Let_def elim!: bind_pairE intro: Get_extends split: if_splits)

lemma proxy_stage_extends:
  assumes "proxy_stage ext j s = Some (u, s')"
  shows "extends (validation_request j) s s'"
proof (cases "CreateJenkinsProxyConfigMap ext j (jenkins_namespace j) s = Some (u, s')")
  case True
  then obtain x s1 where 1: "Client_Get ext ConfigMap_t (nn (jenkins_namespace j) JenkinsProxyConfigMapName) s = Some (x, s1)"
    and 2: "s' = s1 \<or> (\<exists>out y. Client_Create ext ConfigMap_t (proxyConfigMap j (jenkins_namespace j) out) s1
        = Some (y, s'))"
    unfolding CreateJenkinsProxyConfigMap_def Let_def
    by (auto elim!: bind_pairE simp: Option.bind_eq_Some_conv split: if_splits sum.splits)
  have "extends (validation_request j) s s1" by (rule Get_extends [OF 1]) simp
  moreover have "extends (validation_request j) s1 s'"
    if "Client_Create ext ConfigMap_t (proxyConfigMap j (jenkins_namespace j) out) s1 = Some (y, s')" for out y
    by (rule Create_extends(1) [OF that]) (simp add: validation_request_def proxyConfigMap_def)
  ultimately show ?thesis using 2 extends_trans by blast
next
  case False
  with assms show ?thesis by (auto simp: proxy_stage_def split: if_splits)
qed

lemma validateConfiguration_extends:
  assumes "validateConfiguration ext j casc name s = Some (r, s')"
  shows "extends (validation_request j) s s'"
proof (cases casc)
  case None
  with assms show ?thesis by (simp add: validateConfiguration_def)
next
  case (Some c)
  from assms obtain r1 s1 where 1: "check_secret ext j name c s = Some (r1, s1)"
    and rest: "s' = s1 \<or> (\<exists>r2 s2. check_config_maps ext j name 0 (CasC_Configurations c) s1 = Some (r2, s2) \<and>
      (s' = s2 \<or> (\<exists>stop s3. (if CasC_DefaultConfig c then ensure_default_config ext j s2 else Some (None, s2))
         = Some (stop, s3) \<and> (s' = s3 \<or> (\<exists>u. proxy_stage ext j s3 = Some (u, s'))))))"
    unfolding validateConfiguration_def Some option.case Let_def
    by (elim bind_pairE) (auto elim!: bind_pairE split: if_split_asm option.splits split del: if_split)
  have default: "extends (validation_request j) s2 s3"
    if "(if CasC_DefaultConfig c then ensure_default_config ext j s2 else Some (None, s2)) = Some (stop, s3)" for s2 stop s3
    using that by (cases "CasC_DefaultConfig c") (auto intro: ensure_default_config_extends)
  show ?thesis
    using rest check_secret_extends [OF 1] check_config_maps_extends default proxy_stage_extends
    by (meson extends_trans)
qed

section \<open>What passes\<close>

lemma check_config_maps_Nil:
  "check_config_maps ext j name i refs s = Some (([], None), s') \<Longrightarrow> \<forall>ref \<in> set refs. ConfigMapRef_Name ref \<noteq> ''''"
  by (induction refs arbitrary: i s) (auto simp: Let_def elim!: bind_pairE split: if_splits sum.splits)

definition casc_ok :: "Configuration option \<Rightarrow> bool" where
  "casc_ok c = (case c of None \<Rightarrow> True | Some casc \<Rightarrow>
     (SecretRef_Name (CasC_Secret casc) \<noteq> '''' \<longrightarrow> CasC_Configurations casc \<noteq> []) \<and>
     list_all (\<lambda>ref. ConfigMapRef_Name ref \<noteq> '''') (CasC_Configurations casc))"

lemma validateConfiguration_Nil:
  assumes "validateConfiguration ext j casc name s = Some (([], None), s')"
  shows "casc_ok casc"
proof (cases casc)
  case (Some c)
  from assms obtain s1 s2 where 1: "check_secret ext j name c s = Some (([], None), s1)"
    and 2: "check_config_maps ext j name 0 (CasC_Configurations c) s1 = Some (([], None), s2)"
    unfolding validateConfiguration_def Some option.case Let_def
    by (elim bind_pairE) (auto elim!: bind_pairE split: if_split_asm option.splits split del: if_split)
  from 1 have "SecretRef_Name (CasC_Secret c) \<noteq> '''' \<longrightarrow> CasC_Configurations c \<noteq> []"
    by (auto simp: check_secret_def Let_def elim!: bind_pairE split: if_splits sum.splits)
  with check_config_maps_Nil [OF 2] show ?thesis by (simp add: casc_ok_def Some list_all_iff)
qed (simp add: casc_ok_def)

lemma Validate_Inr:
  assumes "Validate ord keys ext rj j s = Some (Inr ms, s')"
  obtains reserved volumes s1 spec m containers envs casc where "validateReservedVolumes rj = Some reserved"
    "validateVolumes ext rj s = Some (Inr volumes, s1)" "status_spec j = Some spec" "Spec_Master spec = Some m"
    "container_messages rj (Master_Containers m) = Some containers" "validateJenkinsMasterPodEnvs rj = Some envs"
    "validateConfiguration ext rj (Spec_ConfigurationAsCode spec) (jenkins_name j) s1 = Some ((casc, None), s')"
    "ms = reserved @ volumes @ containers @ validatePlugins ord keys BasePlugins (Master_BasePlugins m) @ envs @ casc"
  using assms unfolding Validate_def Let_def
  by (elim bind_SomeE) (auto elim!: bind_SomeE split: sum.split_asm prod.split_asm option.split_asm)

text \<open>A specification that passes, in the terms a user would use.\<close>

definition spec_valid :: "Jenkins \<Rightarrow> JenkinsSpec \<Rightarrow> bool" where
  "spec_valid j spec \<longleftrightarrow>
     (\<exists>m c cs. Spec_Master spec = Some m \<and> Master_Containers m = c # cs \<and>
        list_all (container_ok (GetJenkinsMasterPodBaseVolumes j @ Master_Volumes m)) (c # cs) \<and>
        volume_names (GetJenkinsMasterPodBaseVolumes j) \<inter> volume_names (Master_Volumes m) = {} \<and>
        list_all plugin_ok (Master_BasePlugins m) \<and> consistent (Master_BasePlugins m) \<and>
        PName ` set BasePlugins \<subseteq> Plugin_Name ` set (Master_BasePlugins m) \<and>
        fst ` set requiredFlags \<subseteq> set (Split (CHR '' '') (java_opts c))) \<and>
     casc_ok (Spec_ConfigurationAsCode spec)"

text \<open>
  C5. What the validation guarantees: when \<open>Validate\<close> reports no message and no error, in any order
  of its maps and whatever the server answers, the specification of the status has a container; every
  container has a valid image, a pull policy, and mounts with a path and a volume; no volume of the
  user has the name of one of the operator; the plugins parse, have one version each and include the
  required ones; the last JAVA_OPTS has the required flags; and configuration as code has no empty
  reference, and config maps if it has a secret.
\<close>

theorem Validate_sound:
  assumes "Validate ord keys ext j j s = Some (Inr [], s')"
    and "\<And>m. mset (ord m) = mset m" and "\<And>ps. mset (keys ps) = mset ps"
  shows "\<exists>spec. status_spec j = Some spec \<and> spec_valid j spec"
  using assms(1)
proof (rule Validate_Inr)
  fix reserved volumes s1 spec m containers envs casc
  assume parts: "validateReservedVolumes j = Some reserved" "status_spec j = Some spec" "Spec_Master spec = Some m"
    "container_messages j (Master_Containers m) = Some containers" "validateJenkinsMasterPodEnvs j = Some envs"
    "validateConfiguration ext j (Spec_ConfigurationAsCode spec) (jenkins_name j) s1 = Some ((casc, None), s')"
    "[] = reserved @ volumes @ containers @ validatePlugins ord keys BasePlugins (Master_BasePlugins m) @ envs @ casc"
  have orders: "\<And>m. set (ord m) = set m" "\<And>ps. set (keys ps) = set ps"
    by (metis assms(2) set_mset_mset, metis assms(3) set_mset_mset)
  from parts(5,2) obtain c where c: "first_container spec = Some c"
    by (auto simp: validateJenkinsMasterPodEnvs_def Option.bind_eq_Some_conv)
  then obtain cs where cs: "Master_Containers m = c # cs" using parts(3) by (auto simp: first_container_cases)
  from parts(7) have Nil: "reserved = []" "containers = []" "envs = []" "casc = []"
    "validatePlugins ord keys BasePlugins (Master_BasePlugins m) = []" by auto
  have "list_all (container_ok (GetJenkinsMasterPodBaseVolumes j @ Master_Volumes m)) (c # cs)"
    using parts(4) validateContainer_Nil [OF parts(2,3)] unfolding Nil container_messages_Nil cs list_all_iff by auto
  moreover have "fst ` set requiredFlags \<subseteq> set (Split (CHR '' '') (java_opts c))"
    using parts(5) validateJenkinsMasterPodEnvs_Nil [OF parts(2) c] by (simp add: Nil)
  moreover have "casc_ok (Spec_ConfigurationAsCode spec)"
    using validateConfiguration_Nil parts(6) by (simp add: Nil)
  ultimately have "spec_valid j spec"
    using parts(1,3) cs Nil validateReservedVolumes_Nil [OF parts(2,3)]
      validatePlugins_Nil [OF orders, of BasePlugins "Master_BasePlugins m"]
    unfolding spec_valid_def by simp
  with parts(2) show ?thesis by blast
qed

text \<open>
  C37. Validation changes nothing but its own config maps: whatever the server answers, all requests
  are lookups of secrets, config maps and claims in the namespace of the Jenkins, or create the
  default or the proxy config map there.
\<close>

theorem Validate_requests:
  assumes "Validate ord keys ext j j s = Some (r, s')"
  shows "extends (validation_request j) s s'"
proof -
  from assms obtain v s1 where 1: "validateVolumes ext j s = Some (v, s1)"
    and 2: "s' = s1 \<or> (\<exists>casc name r. validateConfiguration ext j casc name s1 = Some (r, s'))"
    unfolding Validate_def Let_def
    by (elim bind_SomeE) (auto elim!: bind_SomeE split: sum.split_asm prod.split_asm option.split_asm, blast+)
  from 1 obtain vs where "for_messages (validate_volume ext j) vs [] s = Some (v, s1)"
    by (auto simp: validateVolumes_def Option.bind_eq_Some_conv)
  then have "extends (validation_request j) s s1" by (rule for_messages_extends) (rule validate_volume_extends)
  with 2 show ?thesis using validateConfiguration_extends extends_trans by blast
qed




section \<open>The defaults pass\<close>

lemma default_flags: "fst ` set requiredFlags \<subseteq> set (Split (CHR '' '') JavaOptsDefaultValue)"
  by code_simp

lemma default_plugins_ok: "list_all plugin_ok basePlugins" "consistent basePlugins"
    "PName ` set BasePlugins \<subseteq> Plugin_Name ` set basePlugins"
proof -
  show "list_all plugin_ok basePlugins"
    using base_plugin_parts_match by (auto simp: basePlugins_def BasePlugins_eq plugin_ok_def list_all_iff)
  show "consistent basePlugins"
    by (simp add: consistent_def basePlugins_def BasePlugins_eq base_plugin_parts_def)
  show "PName ` set BasePlugins \<subseteq> Plugin_Name ` set basePlugins"
    by (simp add: basePlugins_def image_image)
qed

lemma getDefaultJenkinsImage_valid:
  "Getenv ext DefaultJenkinsImageEnvVar = '''' \<Longrightarrow> valid_image (getDefaultJenkinsImage ext g)"
  using default_images_valid by (simp add: getDefaultJenkinsImage_def DefaultOpenShiftJenkinsMasterImage_def
      DefaultJenkinsMasterImage_def Let_def)

lemma default_jenkins_container_fresh:
  assumes "Container_Env c = []" and "Container_VolumeMounts c = []"
  shows "java_opts (default_jenkins_container i c) = JavaOptsDefaultValue"
    "Container_VolumeMounts (default_jenkins_container i c) = []"
    "Container_ImagePullPolicy (default_jenkins_container i c) = PullAlways"
  using assms
  by (auto simp: default_jenkins_container_def setEnvVarIfNotSet_def isEnvVarNotSet_def java_opts_def last_match_def
      EnvValue_def Let_def)

lemma calculated_default_valid:
  assumes "getCalculatedSpec api ext j s = Some ((Inr spec, j'), s')"
    and "Spec_Master (Jenkins_Spec j) = None" and "Spec_JenkinsImageRef (Jenkins_Spec j) = ''''"
    and "Getenv ext DefaultJenkinsImageEnvVar = ''''" and "casc_ok (Spec_ConfigurationAsCode (Jenkins_Spec j))"
  shows "status_spec j' = Some spec \<and> spec_valid j' spec"
  using assms(1)
proof (cases rule: getCalculatedSpec_cases)
  case (calculated c imageName s1 m roles)
  let ?c = "default_jenkins_container imageName c"
  have c: "c = zero_Container\<lparr>Container_Name := JenkinsMasterContainerName,
      Container_Image := getDefaultJenkinsImage ext (globals s)\<rparr>"
    using calculated(1) assms(2) by (simp add: getJenkinsMasterContainer_def first_container_def)
  then have fresh: "Container_Env c = []" "Container_VolumeMounts c = []" by (simp_all add: zero_Container_def)
  have image: "imageName = getDefaultJenkinsImage ext (globals s)"
    using calculated(2) assms(3) by (auto simp: master_image_def c Let_def)
  have m: "m = zero_JenkinsMaster\<lparr>Master_Containers := [c]\<rparr>"
    using calculated(3) assms(2) by (simp add: getCalculatedJenkinsMaster_def put_first_def zero_JenkinsMaster_def)
  have "container_ok vs ?c" for vs
    using getDefaultJenkinsImage_valid [OF assms(4)] default_jenkins_container_fresh [OF fresh]
    by (simp add: container_ok_def image)
  moreover have "Spec_Master spec = Some (m\<lparr>Master_BasePlugins := basePlugins, Master_Containers := [?c]\<rparr>)"
    using calculated(5) by (auto simp: fill_spec_def m zero_JenkinsMaster_def Let_def split: option.splits)
  moreover have "casc_ok (Spec_ConfigurationAsCode spec)"
    using calculated(5) assms(5) by (auto simp: fill_spec_def casc_ok_def default_casc_def Let_def split: option.splits)
  moreover have "Master_Volumes m = []" by (simp add: m zero_JenkinsMaster_def)
  ultimately have "spec_valid j' spec"
    using default_plugins_ok default_flags default_jenkins_container_fresh(1) [OF fresh]
    by (simp add: spec_valid_def volume_names_def)
  with getCalculatedSpec_status [OF assms(1)] show ?thesis by blast
qed simp_all



section \<open>Creating the config maps\<close>

text \<open>
  The proxy config map cannot be built for every proxy: \<open>CreateJenkinsProxyConfigMap\<close> panics exactly
  when the config map is missing and the proxy is not of the form that the pattern accepts, plain
  http with a user; and the parts that are cut out of a text are those of its only decomposition.
\<close>

theorem proxy_config_map_panics:
  "(CreateJenkinsProxyConfigMap ext rj ns s = None \<longleftrightarrow>
      (\<exists>m. fst (do_call ext (GetReq K_ConfigMap (nn ns JenkinsProxyConfigMapName)) (world s)) = Failed (ApiError NotFound m)) \<and>
      \<not> MatchString proxyRegexp (Proxy_HTTPProxy (GlobalProxy (globals s)))) \<and>
   (proxy_submatches p = Some g \<longleftrightarrow> proxy_text p g)"
proof -
  have not_found: "IsNotFound e \<longleftrightarrow> (\<exists>m. e = ApiError NotFound m)" for e by (cases e) auto
  have match: "proxy_submatches p = None \<longleftrightarrow> \<not> MatchString proxyRegexp p" for p
    unfolding MatchString_lang lang_proxy by (metis not_None_eq proxy_submatches_Some)
  let ?r = "fst (do_call ext (GetReq K_ConfigMap (nn ns JenkinsProxyConfigMapName)) (world s))"
  have failed: "decode (project ConfigMap_t) ?r = Inl (ApiError NotFound m) \<longleftrightarrow> ?r = Failed (ApiError NotFound m)" for m
    by (cases ?r) (auto simp: wrong_kind_def split: option.splits)
  have "CreateJenkinsProxyConfigMap ext rj ns s = None \<longleftrightarrow>
      (\<exists>m. ?r = Failed (ApiError NotFound m)) \<and> proxy_submatches (Proxy_HTTPProxy (GlobalProxy (globals s))) = None"
    unfolding failed [symmetric]
    by (auto simp: CreateJenkinsProxyConfigMap_def Client_Get_def Client_Create_def call_eq not_found Let_def
        Option.bind_eq_None_conv split: sum.splits prod.splits)
  with this [unfolded match] proxy_submatches_Some [of p g] show ?thesis by blast
qed


text \<open>
  The default config map is not fresh the second time: after one instance has had it created,
  any config map that is created for the next one carries the data, the UID and the server metadata
  of the answer to the first creation, as the package variable was overwritten with that answer.
\<close>

theorem default_config_map_reused:
  assumes "ensure_default_config ext j s = Some (Some ([], None), s1)"
    and "ensure_default_config ext j2 s1 = Some (r, s2)"
    and "CreateReq (O_ConfigMap cm) \<in> set (new_calls s1 s2)"
  shows "\<exists>w d. fst (do_call ext (last (calls s1)) w) = Returned (O_ConfigMap d) \<and>
    CM_Data cm = CM_Data d \<and> Meta_UID (CM_Meta cm) = Meta_UID (CM_Meta d) \<and>
    Meta_Server (CM_Meta cm) = Meta_Server (CM_Meta d) \<and> Meta_Namespace (CM_Meta cm) = jenkins_namespace j2"
proof -
  from assms(1) obtain d w where d: "fst (do_call ext (last (calls s1)) w) = Returned (O_ConfigMap d)"
    "defaultConfigMap (globals s1) = d"
    unfolding ensure_default_config_def Let_def
    by (auto simp: Client_Get_def Client_Create_def call_eq set_default_def set_globals_def
        ConfigMap_t_def ty_ConfigMap.decode_Inr_iff [unfolded ConfigMap_t_def, simplified] split: sum.splits if_splits)
  from assms(2,3) have "cm = rename_config_map (jenkins_namespace j2) JenkinsDefaultConfigMapName d"
    unfolding ensure_default_config_def Let_def d(2) [symmetric]
    by (auto simp: Client_Get_def Client_Create_def call_eq set_default_def set_globals_def new_calls_def
        ConfigMap_t_def split: sum.splits if_splits)
  with d show ?thesis by (auto simp: rename_config_map_def)
qed

section \<open>Concrete instances\<close>

definition valid_jenkins :: Jenkins where
  "valid_jenkins = sample_jenkins\<lparr>Jenkins_Spec := zero_JenkinsSpec\<lparr>Spec_Roles := Some []\<rparr>,
     Jenkins_Status := Some (zero_JenkinsStatus\<lparr>Status_Conditions := Some []\<rparr>)\<rparr>"

theorem default_config_map_reused_witness:
  "\<exists>s1 r s2. ensure_default_config script_ext sample_jenkins (initial [Failed (ApiError NotFound ''''),
        Returned (O_ConfigMap \<lparr>CM_Meta = empty_meta\<lparr>Meta_UID := ''u1'', Meta_Server := ''resourceVersion 1''\<rparr>, CM_Data = []\<rparr>),
        Failed (ApiError NotFound ''''), Failed (ApiError OtherReason ''resourceVersion should not be set'')])
      = Some (Some ([], None), s1) \<and>
    ensure_default_config script_ext (sample_jenkins\<lparr>Jenkins_Meta := empty_meta\<lparr>Meta_Namespace := ''ns2''\<rparr>\<rparr>) s1
      = Some (r, s2) \<and>
    (\<exists>cm w d. CreateReq (O_ConfigMap cm) \<in> set (new_calls s1 s2) \<and>
       fst (do_call script_ext (last (calls s1)) w) = Returned (O_ConfigMap d) \<and>
       Meta_Server (CM_Meta cm) = Meta_Server (CM_Meta d))"
  (is "\<exists>s1 r s2. ?first s1 \<and> ?second s1 r s2 \<and> ?reused s1 s2")
proof -
  obtain s1 where 1: "?first s1" and world: "world s1 = [Failed (ApiError NotFound ''''),
      Failed (ApiError OtherReason ''resourceVersion should not be set'')]"
    by (simp add: ensure_default_config_def Client_Get_def Client_Create_def call_eq set_default_def ConfigMap_t_def
        Let_def)
  obtain r s2 where 2: "?second s1 r s2" and cm: "\<exists>cm. CreateReq (O_ConfigMap cm) \<in> set (new_calls s1 s2)"
    by (simp add: ensure_default_config_def Client_Get_def Client_Create_def call_eq set_default_def ConfigMap_t_def
        Let_def world new_calls_def)
  from cm obtain cm where cm: "CreateReq (O_ConfigMap cm) \<in> set (new_calls s1 s2)" by blast
  from default_config_map_reused [OF 1 2 cm] 1 2 cm show ?thesis by blast
qed


text \<open>The pure checks accept every valid specification.\<close>

lemma spec_valid_checks:
  assumes "status_spec j = Some spec" and "spec_valid j spec"
  obtains m where "Spec_Master spec = Some m" "validateReservedVolumes j = Some []"
    "container_messages j (Master_Containers m) = Some []" "validateJenkinsMasterPodEnvs j = Some []"
    "validatePlugins (\<lambda>m. m) (\<lambda>m. m) BasePlugins (Master_BasePlugins m) = []" "casc_ok (Spec_ConfigurationAsCode spec)"
proof -
  from assms(2) obtain m c cs where m: "Spec_Master spec = Some m" "Master_Containers m = c # cs"
    "list_all (container_ok (GetJenkinsMasterPodBaseVolumes j @ Master_Volumes m)) (c # cs)"
    "volume_names (GetJenkinsMasterPodBaseVolumes j) \<inter> volume_names (Master_Volumes m) = {}"
    "list_all plugin_ok (Master_BasePlugins m)" "consistent (Master_BasePlugins m)"
    "PName ` set BasePlugins \<subseteq> Plugin_Name ` set (Master_BasePlugins m)"
    "fst ` set requiredFlags \<subseteq> set (Split (CHR '' '') (java_opts c))" "casc_ok (Spec_ConfigurationAsCode spec)"
    unfolding spec_valid_def by (elim exE conjE) (rule that)
  have c: "first_container spec = Some c" using m(1,2) by (simp add: first_container_cases)
  show thesis
  proof (rule that [OF m(1)])
    show "validateReservedVolumes j = Some []" using validateReservedVolumes_Nil [OF assms(1) m(1)] m(4) by blast
    show "container_messages j (Master_Containers m) = Some []"
      using m(3) validateContainer_Nil [OF assms(1) m(1)] unfolding container_messages_Nil m(2) list_all_iff by blast
    show "validateJenkinsMasterPodEnvs j = Some []" using validateJenkinsMasterPodEnvs_Nil [OF assms(1) c] m(8) by blast
    show "validatePlugins (\<lambda>m. m) (\<lambda>m. m) BasePlugins (Master_BasePlugins m) = []"
      using m(5-7) by (simp add: validatePlugins_Nil)
    show "casc_ok (Spec_ConfigurationAsCode spec)" by (rule m(9))
  qed
qed

text \<open>A Jenkins without wishes, in a world that has this Jenkins and the config maps.\<close>

definition config_world :: "unit ext" where
  "config_world = table_ext (\<lambda>q. case q of
       GetReq K_ConfigMap n \<Rightarrow> Returned (O_ConfigMap sample_cm)
     | GetReq K_Jenkins n \<Rightarrow> Returned (O_Jenkins valid_jenkins)
     | ListReq k opts \<Rightarrow> Listed [] | StatusUpdateReq obj \<Rightarrow> Returned obj | _ \<Rightarrow> Done)"

lemma fill_spec_fields:
  "Spec_ConfigurationAsCode (fill_spec api c m spec) =
     Some (case Spec_ConfigurationAsCode spec of None \<Rightarrow> default_casc | Some k \<Rightarrow> k)"
  "Spec_BackupVolumes (fill_spec api c m spec) = Spec_BackupVolumes spec"
  "Spec_PersistentSpec (fill_spec api c m spec) = Spec_PersistentSpec spec"
  "map_option Master_Volumes (Spec_Master (fill_spec api c m spec)) = Some (Master_Volumes m)"
  by (auto simp: fill_spec_def Let_def split: option.split)

lemma valid_jenkins_simps [simp]:
  "Spec_Master (Jenkins_Spec valid_jenkins) = None" "Spec_JenkinsImageRef (Jenkins_Spec valid_jenkins) = ''''"
  "Spec_ConfigurationAsCode (Jenkins_Spec valid_jenkins) = None" "Spec_Roles (Jenkins_Spec valid_jenkins) = Some []"
  "\<not> Spec_ProxyConfigurationEnabled (Jenkins_Spec valid_jenkins)" "Jenkins_Status valid_jenkins = Some (zero_JenkinsStatus\<lparr>Status_Conditions := Some []\<rparr>)"
  by (simp_all add: valid_jenkins_def zero_JenkinsSpec_def)

lemma default_jenkins:
  "\<exists>spec j'. getCalculatedSpec sample_api config_world valid_jenkins s = Some ((Inr spec, j'), s) \<and>
     Spec_ConfigurationAsCode spec = Some default_casc \<and> map_option Master_Volumes (Spec_Master spec) = Some [] \<and>
     Spec_BackupVolumes spec = Spec_BackupVolumes (Jenkins_Spec j') \<and> Jenkins_Spec j' = Jenkins_Spec valid_jenkins \<and>
     status_spec j' = Some spec \<and> Spec_PersistentSpec spec = Spec_PersistentSpec (Jenkins_Spec valid_jenkins)"
proof -
  have "Master_Volumes (put_first c (getCalculatedJenkinsMaster (Jenkins_Spec valid_jenkins) c)) = []" for c
    by (simp add: getCalculatedJenkinsMaster_def put_first_def zero_JenkinsMaster_def)
  then show ?thesis
    by (simp add: getCalculatedSpec_def getJenkinsMasterContainer_def first_container_def master_image_def
        default_roles_def Let_def fill_spec_fields del: map_option_eq_Some)
qed

lemma config_world_env: "Getenv config_world DefaultJenkinsImageEnvVar = ''''"
  by (simp add: config_world_def table_ext_def Getenv_def)

lemma no_casc_ok: "casc_ok (Spec_ConfigurationAsCode (Jenkins_Spec valid_jenkins))"
  by (simp add: casc_ok_def)



text \<open>The validation of that Jenkins, which finds the default config map in place.\<close>

lemma default_validates:
  assumes "status_spec j = Some spec" and "spec_valid j spec" and "Spec_ConfigurationAsCode spec = Some default_casc"
    and "map_option Master_Volumes (Spec_Master spec) = Some []"
    and "\<not> Spec_ProxyConfigurationEnabled (Jenkins_Spec j)"
  shows "\<exists>s'. Validate (\<lambda>m. m) (\<lambda>m. m) config_world j j s = Some (Inr [], s')"
proof (rule spec_valid_checks [OF assms(1,2)])
  fix m
  assume m: "Spec_Master spec = Some m" "validateReservedVolumes j = Some []"
    "container_messages j (Master_Containers m) = Some []" "validateJenkinsMasterPodEnvs j = Some []"
    "validatePlugins (\<lambda>m. m) (\<lambda>m. m) BasePlugins (Master_BasePlugins m) = []"
  have "validateVolumes config_world j s = Some (Inr [], s)"
    using assms(1,4) m(1) by (simp add: validateVolumes_def)
  moreover have "\<exists>s'. validateConfiguration config_world j (Some default_casc) (jenkins_name j) s
      = Some (([], None), s')"
    using assms(5)
    by (simp add: validateConfiguration_def check_secret_def default_casc_def ensure_default_config_def
        Client_Get_def call_eq config_world_def proxy_stage_def ConfigMap_t_def Let_def)
  ultimately show ?thesis using m assms(1,3) by (auto simp: Validate_def Let_def)
qed

theorem Validate_sound_witness:
  "\<exists>j spec s'. Validate (\<lambda>m. m) (\<lambda>m. m) config_world j j (initial ()) = Some (Inr [], s') \<and>
     status_spec j = Some spec \<and> spec_valid j spec"
proof -
  obtain spec j where j: "getCalculatedSpec sample_api config_world valid_jenkins (initial ()) = Some ((Inr spec, j), initial ())"
    "Spec_ConfigurationAsCode spec = Some default_casc" "map_option Master_Volumes (Spec_Master spec) = Some []"
    "Jenkins_Spec j = Jenkins_Spec valid_jenkins" "status_spec j = Some spec"
    using default_jenkins by blast
  have "spec_valid j spec"
    using calculated_default_valid [OF j(1) valid_jenkins_simps(1,2) config_world_env no_casc_ok] by blast
  then obtain s' where run: "Validate (\<lambda>m. m) (\<lambda>m. m) config_world j j (initial ()) = Some (Inr [], s')"
    using default_validates [OF j(5) _ j(2,3)] j(4) by auto
  from Validate_sound [OF run] run show ?thesis by blast
qed

theorem Validate_requests_witness:
  "\<exists>j s'. Validate (\<lambda>m. m) (\<lambda>m. m) config_world j j (initial ()) = Some (Inr [], s') \<and>
     extends (validation_request j) (initial ()) s' \<and> jenkins_namespace j = ''ns''"
proof -
  obtain spec j where j: "getCalculatedSpec sample_api config_world valid_jenkins (initial ()) = Some ((Inr spec, j), initial ())"
    "Spec_ConfigurationAsCode spec = Some default_casc" "map_option Master_Volumes (Spec_Master spec) = Some []"
    "Jenkins_Spec j = Jenkins_Spec valid_jenkins" "status_spec j = Some spec"
    using default_jenkins by blast
  have "spec_valid j spec"
    using calculated_default_valid [OF j(1) valid_jenkins_simps(1,2) config_world_env no_casc_ok] by blast
  then obtain s' where run: "Validate (\<lambda>m. m) (\<lambda>m. m) config_world j j (initial ()) = Some (Inr [], s')"
    using default_validates [OF j(5) _ j(2,3)] j(4) by auto
  have "Jenkins_Meta j = Jenkins_Meta valid_jenkins"
    using j(1) by (cases rule: getCalculatedSpec_cases) simp_all
  then have "jenkins_namespace j = ''ns''" by (simp add: jenkins_namespace_def valid_jenkins_def sample_jenkins_def)
  with Validate_requests [OF run] run show ?thesis by blast
qed


end
