(* ===== verification/Claims.thy ===== *)
theory Claims
  imports Status_Update
begin

text \<open>
  The persistent volume claims that the Jenkins and the BackupVolume controller create: the default storage
  class of the cluster and the claim for a class and a size.
\<close>

definition DefaultStorageClassLabel :: string where
  "DefaultStorageClassLabel = ''storageclass.kubernetes.io/is-default-class''"
definition trueStr :: string where "trueStr = ''true''"

text \<open>The storage class marked as the default one; the last wins.\<close>

definition is_default_class :: "StorageClass \<Rightarrow> bool" where
  "is_default_class sc \<longleftrightarrow> lookup_label (Meta_Annotations (SC_Meta sc)) DefaultStorageClassLabel = Some trueStr"

definition default_class_name :: "StorageClass list \<Rightarrow> string" where
  "default_class_name scs = (case last_match is_default_class scs of None \<Rightarrow> '''' | Some sc \<Rightarrow> Meta_Name (SC_Meta sc))"

text \<open>The claim to create; a size that is not a quantity panics.\<close>

definition new_claim ::
  "'w ext \<Rightarrow> NamespacedName \<Rightarrow> string \<Rightarrow> string \<Rightarrow> PersistentVolumeClaim option" where
  "new_claim ext n storageClassName volumeSize =
     do { q \<leftarrow> parseQuantity ext volumeSize;
          Some \<lparr>PVC_Meta = empty_meta\<lparr>Meta_Name := NN_Name n, Meta_Namespace := NN_Namespace n\<rparr>,
                PVC_StorageClassName = Some storageClassName, PVC_AccessModes = [''ReadWriteOnce''],
                PVC_Resources = \<lparr>Limits = None, Requests = Some [(''storage'', q)]\<rparr>\<rparr> }"

lemma new_claim_simps:
  assumes "new_claim ext n c v = Some claim"
  shows "Meta_Name (PVC_Meta claim) = NN_Name n" "Meta_Namespace (PVC_Meta claim) = NN_Namespace n"
    "PVC_StorageClassName claim = Some c"
    "\<exists>q. parseQuantity ext v = Some q \<and> Requests (PVC_Resources claim) = Some [(''storage'', q)]"
  using assms by (auto simp: new_claim_def elim!: bind_SomeE)

lemma default_class_name_cases:
  "default_class_name scs = '''' \<or> (\<exists>sc \<in> set scs. is_default_class sc \<and> default_class_name scs = Meta_Name (SC_Meta sc))"
  by (auto simp: default_class_name_def split: option.split dest: last_match_Some)

end
