(* ===== verification/Jenkins_Controller.thy ===== *)
theory Jenkins_Controller
  imports Base_Reconcile Config_Validation Claims
begin

text \<open>
  \<open>controllers/jenkins_controller.go\<close>: the reconciliation of a Jenkins CR, its status conditions and its
  notifications.  The delay of a result is in seconds.
\<close>

section \<open>Constants\<close>

definition reconcileInit :: string where "reconcileInit = ''Init''"
definition reconcileInitMessage :: string where "reconcileInitMessage = ''Initializing Jenkins operator''"
definition reconcileFailed :: string where "reconcileFailed = ''ReconciliationFailed''"
definition reconcileCompleted :: string where "reconcileCompleted = ''ReconciliationCompleted''"
definition reconcileCompletedMessage :: string where
  "reconcileCompletedMessage = ''Reconciliation completed successfully''"
definition ConditionReconcileComplete :: string where "ConditionReconcileComplete = ''ReconciliationComplete''"
definition ConditionAvailable :: string where "ConditionAvailable = ''Available''"
definition ConditionProgressing :: string where "ConditionProgressing = ''Progressing''"
definition ConditionDegraded :: string where "ConditionDegraded = ''Degraded''"
definition ConditionUpgradeable :: string where "ConditionUpgradeable = ''Upgradeable''"
definition reconcileFailLimit :: "64 word" where "reconcileFailLimit = 10"

lemmas condition_types = ConditionReconcileComplete_def ConditionAvailable_def ConditionProgressing_def
  ConditionDegraded_def ConditionUpgradeable_def

section \<open>Conditions\<close>

definition condition :: "string \<Rightarrow> string \<Rightarrow> string \<Rightarrow> string \<Rightarrow> OSCondition" where
  "condition t st rsn message =
     \<lparr>OS_Type = t, OS_Status = st, OS_Reason = rsn, OS_Message = message, OS_LastHeartbeatTime = 0,
      OS_LastTransitionTime = 0\<rparr>"

definition conditions_of :: "Jenkins \<Rightarrow> OSCondition list" where
  "conditions_of j = (case Option.bind (Jenkins_Status j) Status_Conditions of None \<Rightarrow> [] | Some cs \<Rightarrow> cs)"

text \<open>
  \<open>SetStatusCondition\<close> on the conditions of the status, a panic without a status.  The clock is read for
  the transition time when the condition is new or has another status, and for the heartbeat.
\<close>

definition set_status_condition ::
  "'w ext \<Rightarrow> OSCondition \<Rightarrow> Jenkins \<Rightarrow> 'w st \<Rightarrow> (Jenkins \<times> 'w st) option" where
  "set_status_condition ext c j s =
     do { st \<leftarrow> Jenkins_Status j;
          let cs = conditions_of j;
          (t1, s) \<leftarrow> (case FindStatusCondition cs (OS_Type c) of
              None \<Rightarrow> Now ext s
            | Some old \<Rightarrow> if OS_Status old \<noteq> OS_Status c then Now ext s else Some (0, s));
          (t2, s) \<leftarrow> Now ext s;
          Some (j\<lparr>Jenkins_Status := Some (st\<lparr>Status_Conditions := Some (SetStatusCondition t1 t2 cs c)\<rparr>)\<rparr>, s) }"

fun set_status_conditions ::
  "'w ext \<Rightarrow> OSCondition list \<Rightarrow> Jenkins \<Rightarrow> 'w st \<Rightarrow> (Jenkins \<times> 'w st) option" where
  "set_status_conditions ext [] j s = Some (j, s)"
| "set_status_conditions ext (c # cs) j s =
     do { (j, s) \<leftarrow> set_status_condition ext c j s; set_status_conditions ext cs j s }"

definition initial_conditions :: "OSCondition list" where
  "initial_conditions = map (\<lambda>(t, st). condition t st reconcileInit reconcileInitMessage)
     [(ConditionReconcileComplete, ConditionUnknown), (ConditionAvailable, ConditionFalse),
      (ConditionProgressing, ConditionTrue), (ConditionDegraded, ConditionFalse),
      (ConditionUpgradeable, ConditionUnknown)]"

definition complete_conditions :: "OSCondition list" where
  "complete_conditions = map (\<lambda>(t, st). condition t st reconcileCompleted reconcileCompletedMessage)
     [(ConditionReconcileComplete, ConditionTrue), (ConditionAvailable, ConditionTrue),
      (ConditionProgressing, ConditionFalse), (ConditionDegraded, ConditionFalse),
      (ConditionUpgradeable, ConditionTrue)]"

definition setInitialConditions :: "'w ext \<Rightarrow> Jenkins \<Rightarrow> 'w st \<Rightarrow> (Jenkins \<times> 'w st) option" where
  "setInitialConditions ext = set_status_conditions ext initial_conditions"

definition setStatusConditions :: "'w ext \<Rightarrow> Jenkins \<Rightarrow> 'w st \<Rightarrow> (Jenkins \<times> 'w st) option" where
  "setStatusConditions ext = set_status_conditions ext complete_conditions"

definition setReconcileFailedStatus ::
  "'w ext \<Rightarrow> Jenkins \<Rightarrow> error \<Rightarrow> 'w st \<Rightarrow> (Jenkins \<times> 'w st) option" where
  "setReconcileFailedStatus ext j err =
     set_status_condition ext
       (condition ConditionDegraded ConditionTrue reconcileFailed (''Failed reconciliation '' @ error_string err)) j"

definition with_status :: "Jenkins \<Rightarrow> Jenkins" where
  "with_status j = (case Jenkins_Status j of None \<Rightarrow> j\<lparr>Jenkins_Status := Some zero_JenkinsStatus\<rparr> | Some _ \<Rightarrow> j)"

definition put_status :: "'w ext \<Rightarrow> Jenkins \<Rightarrow> 'w st \<Rightarrow> ((error option \<times> Jenkins) \<times> 'w st) option" where
  "put_status ext j s = update_status ext Jenkins_t j s"

definition updateJenkinsStatus ::
  "'w ext \<Rightarrow> Jenkins \<Rightarrow> NamespacedName \<Rightarrow> 'w st \<Rightarrow> ((error option \<times> Jenkins) \<times> 'w st) option" where
  "updateJenkinsStatus ext j n s =
     do { ((err, j), s) \<leftarrow> put_status ext j s;
          case err of
            None \<Rightarrow> Some ((None, j), s)
          | Some _ \<Rightarrow>
              do { (r, s) \<leftarrow> Client_Get ext Jenkins_t n s;
                   case r of
                     Inl err \<Rightarrow> Some ((Some err, j), s)
                   | Inr j \<Rightarrow>
                       do { (j, s) \<leftarrow> setStatusConditions ext (with_status j) s;
                            put_status ext j s } } }"

section \<open>Notifications\<close>

definition jenkins_event :: "Jenkins \<Rightarrow> string \<Rightarrow> Reason \<Rightarrow> Event" where
  "jenkins_event j level rsn =
     \<lparr>Event_Jenkins = j, Event_Controller = JenkinsController, Event_Level = level, Event_Reason = rsn\<rparr>"

definition sendNewConfigurationFailedNotification :: "Jenkins \<Rightarrow> string \<Rightarrow> string list \<Rightarrow> 'w st \<Rightarrow> 'w st" where
  "sendNewConfigurationFailedNotification j message baseMessages =
     send (jenkins_event j NotificationLevelWarning (NewBaseConfigurationFailed HumanSource [message] (message # baseMessages)))"

definition sendReconcileLoopFailedNotification :: "Jenkins \<Rightarrow> error \<Rightarrow> 'w st \<Rightarrow> 'w st" where
  "sendReconcileLoopFailedNotification j err =
     send (jenkins_event j NotificationLevelWarning (NewReconcileLoopFailed OperatorSource
       [''Reconcile loop failed '' @ show_nat (unat reconcileFailLimit) @ '' times with the same error, giving up: '' @
        error_string err] []))"

definition sendNewJenkinsUpdateNotification :: "Jenkins \<Rightarrow> error option \<Rightarrow> 'w st \<Rightarrow> 'w st" where
  "sendNewJenkinsUpdateNotification j err =
     send (jenkins_event j NotificationLevelInfo (NewJenkinsInstanceCreated OperatorSource
       [''Jenkins instance updated : '' @ jenkins_name j @ '' in namespace '' @ jenkins_namespace j @ '' with err '' @
        show_err err] []))"

section \<open>The persistent volume claim\<close>

text \<open>An error of the lookup that is not an absence is ignored.\<close>

definition ensure_claim ::
  "'w ext \<Rightarrow> JenkinsPersistentSpec \<Rightarrow> string \<Rightarrow> NamespacedName \<Rightarrow> 'w st \<Rightarrow> (error option \<times> 'w st) option" where
  "ensure_claim ext persistentSpec defaultStorageClassName n s =
     (if \<not> Persistent_Enabled persistentSpec then Some (None, s)
      else do { let storageClassName = (if length (Persistent_StorageClassName persistentSpec) > 0
                      then Persistent_StorageClassName persistentSpec else defaultStorageClassName);
                let volumeSize = (if length (Persistent_VolumeSize persistentSpec) > 0
                      then Persistent_VolumeSize persistentSpec else ''1Gi'');
                (r, s) \<leftarrow> Client_Get ext PVC_t n s;
                case r of
                  Inr _ \<Rightarrow> Some (None, s)
                | Inl err \<Rightarrow>
                    if IsNotFound err
                    then do { claim \<leftarrow> new_claim ext n storageClassName volumeSize;
                              (r, s) \<leftarrow> Client_Create ext PVC_t claim s;
                              Some (case r of Inl err \<Rightarrow> Some err | Inr _ \<Rightarrow> None, s) }
                    else Some (None, s) })"

section \<open>Reconcile\<close>

definition isJenkinsPodTerminating :: "error \<Rightarrow> bool" where
  "isJenkinsPodTerminating err = Contains (error_string err) ''Terminating state with DeletionTimestamp''"

definition requeue_after :: "nat \<Rightarrow> Result" where
  "requeue_after n = \<lparr>Requeue = False, RequeueAfter = n\<rparr>"

text \<open>From the base configuration on: lines 359 to 389.\<close>

definition reconcile_base ::
  "'w ext \<Rightarrow> Request \<Rightarrow> Jenkins \<Rightarrow> 'w st \<Rightarrow> (((Result \<times> error option) \<times> Jenkins) \<times> 'w st) option" where
  "reconcile_base ext request j s =
     do { (((_, err), j), s) \<leftarrow> base_Reconcile ext j s;
          case err of
            Some e \<Rightarrow> Some (((requeue_after (if isJenkinsPodTerminating e then 30 else 5), None), j), s)
          | None \<Rightarrow>
              do { (r, s) \<leftarrow> Client_Get ext Jenkins_t (Req_NamespacedName request) s;
                   Some (case r of
                           Inr again \<Rightarrow> (((no_requeue, None), j), sendNewJenkinsUpdateNotification again None s)
                         | Inl err \<Rightarrow>
                             (((no_requeue, if IsNotFound err then None else Some (StackError err)), j),
                              sendNewJenkinsUpdateNotification zero_Jenkins (Some err) s)) } }"

definition validation_failed :: string where
  "validation_failed = ''Validation of base configuration failed, please correct Jenkins CR.''"

definition reconcile_validated ::
  "(Plugin list gomap \<Rightarrow> Plugin list gomap) \<Rightarrow> (Plugin list \<Rightarrow> Plugin list) \<Rightarrow> 'w ext \<Rightarrow>
   Request \<Rightarrow> Jenkins \<Rightarrow> 'w st \<Rightarrow> (((Result \<times> error option) \<times> Jenkins) \<times> 'w st) option" where
  "reconcile_validated ord keys ext request j s =
     do { (r, s) \<leftarrow> Validate ord keys ext j j s;
          case r of
            Inl err \<Rightarrow> Some (((no_requeue, Some err), j), s)
          | Inr messages \<Rightarrow>
              if length messages > 0
              then Some (((no_requeue, None), j), sendNewConfigurationFailedNotification j validation_failed messages s)
              else reconcile_base ext request j s }"

definition reconcile ::
  "JenkinsAPIConnectionSettings \<Rightarrow> (Plugin list gomap \<Rightarrow> Plugin list gomap) \<Rightarrow> (Plugin list \<Rightarrow> Plugin list) \<Rightarrow>
   'w ext \<Rightarrow> Request \<Rightarrow> Jenkins \<Rightarrow> 'w st \<Rightarrow> (((Result \<times> error option) \<times> Jenkins) \<times> 'w st) option" where
  "reconcile api ord keys ext request j s =
     do { (((_, err), j), s) \<leftarrow> setDefaults api ext j s;
          case err of
            Some e \<Rightarrow> Some (((no_requeue, Some e), j), s)
          | None \<Rightarrow>
              do { (r, s) \<leftarrow> Client_List ext StorageClass_t all_objects s;
                   case r of
                     Inl err \<Rightarrow> Some (((no_requeue, Some err), j), s)
                   | Inr storageClasses \<Rightarrow>
                       do { spec \<leftarrow> status_spec j;
                            (err, s) \<leftarrow> ensure_claim ext (Spec_PersistentSpec spec)
                              (default_class_name storageClasses) (Req_NamespacedName request) s;
                            case err of
                              Some e \<Rightarrow> Some (((no_requeue, Some e), j), s)
                            | None \<Rightarrow> reconcile_validated ord keys ext request j s } } }"

text \<open>
  What is to happen when the variable \<open>err\<close> holds an error: lines 162 to 197, with the bookkeeping of
  \<open>reconcileErrors\<close>.
\<close>

definition count_failure :: "string \<Rightarrow> error \<Rightarrow> reconcileError gomap \<Rightarrow> reconcileError" where
  "count_failure n err errs =
     (case map_of errs n of
        Some lastErrors \<Rightarrow>
          if error_string err = error_string (RErr_err lastErrors)
          then lastErrors\<lparr>RErr_counter := RErr_counter lastErrors + 1\<rparr>
          else \<lparr>RErr_err = err, RErr_counter = 1\<rparr>
      | None \<Rightarrow> \<lparr>RErr_err = err, RErr_counter = 1\<rparr>)"

definition loop_failed :: "Request \<Rightarrow> Jenkins \<Rightarrow> error \<Rightarrow> 'w st \<Rightarrow> Result \<times> 'w st" where
  "loop_failed request j err s =
     (if IsConflict err then (requeue, s)
      else let n = NN_Name (Req_NamespacedName request);
               lastErrors = count_failure n err (reconcileErrors (globals s));
               s = set_globals (\<lambda>g. g\<lparr>reconcileErrors := AList.update n lastErrors (reconcileErrors g)\<rparr>) s
           in if RErr_counter lastErrors \<ge> reconcileFailLimit
              then (no_requeue, sendReconcileLoopFailedNotification j err s)
              else (no_requeue, s))"

text \<open>
  The end of \<open>Reconcile\<close>.  The error of \<open>reconcile\<close> is a variable of the inner scope, which the status
  update overwrites; \<open>outer\<close> is the variable of the function.
\<close>

definition finish_reconcile ::
  "'w ext \<Rightarrow> Request \<Rightarrow> Result \<times> error option \<Rightarrow> error option \<Rightarrow> Jenkins \<Rightarrow> 'w st \<Rightarrow>
   ((Result \<times> error option) \<times> 'w st) option" where
  "finish_reconcile ext request answer outer j s =
     (case answer of
        (result, Some e) \<Rightarrow>
          do { (j, s) \<leftarrow> setReconcileFailedStatus ext j e s;
               ((err, _), s) \<leftarrow> put_status ext j s;
               Some ((result, err), s) }
      | (_, None) \<Rightarrow>
          (case outer of
             Some e \<Rightarrow> let (result, s) = loop_failed request j e s in Some ((result, None), s)
           | None \<Rightarrow>
               do { (j, s) \<leftarrow> setStatusConditions ext j s;
                    ((err, _), s) \<leftarrow> updateJenkinsStatus ext j (Req_NamespacedName request) s;
                    Some (case err of Some e \<Rightarrow> (requeue, Some e) | None \<Rightarrow> (no_requeue, None), s) }))"

definition Jenkins_Reconcile ::
  "JenkinsAPIConnectionSettings \<Rightarrow> (Plugin list gomap \<Rightarrow> Plugin list gomap) \<Rightarrow> (Plugin list \<Rightarrow> Plugin list) \<Rightarrow>
   'w ext \<Rightarrow> Request \<Rightarrow> 'w st \<Rightarrow> ((Result \<times> error option) \<times> 'w st) option" where
  "Jenkins_Reconcile api ord keys ext request s =
     do { (r, s) \<leftarrow> Client_Get ext Jenkins_t (Req_NamespacedName request) s;
          case r of
            Inl err \<Rightarrow> Some (ignore_not_found err, s)
          | Inr j \<Rightarrow>
              do { let j = with_status j;
                   ((err, j), s) \<leftarrow>
                     (if Option.bind (Jenkins_Status j) Status_Conditions = None
                      then do { (j, s) \<leftarrow> setInitialConditions ext j s;
                                updateJenkinsStatus ext j (Req_NamespacedName request) s }
                      else Some ((None, j), s));
                   case err of
                     Some e \<Rightarrow> Some ((requeue, Some e), s)
                   | None \<Rightarrow>
                       do { ((answer, j), s) \<leftarrow> reconcile api ord keys ext request j s;
                            finish_reconcile ext request answer None j s } } }"

section \<open>What the status updates store\<close>

lemma Jenkins_t_simps [simp]:
  "gokind Jenkins_t = K_Jenkins" "inject Jenkins_t j = O_Jenkins j" "get_meta Jenkins_t j = Jenkins_Meta j"
  by (simp_all add: Jenkins_t_def)

definition cond_status :: "Jenkins \<Rightarrow> string \<Rightarrow> string option" where
  "cond_status j t = os.status_of (conditions_of j) t"

lemma set_status_condition_ok:
  assumes "set_status_condition ext c j s = Some (j', s')"
  shows "calls s' = calls s" "events s' = events s" "globals s' = globals s" "Jenkins_Status j' \<noteq> None"
    "cond_status j' t = (if t = OS_Type c then Some (OS_Status c) else cond_status j t)"
  using assms
  by (auto simp: set_status_condition_def Now_eq conditions_of_def cond_status_def os.status_of_put
      elim!: bind_SomeE split: option.split_asm if_split_asm)

lemma set_status_conditions_ok:
  assumes "set_status_conditions ext cs j s = Some (j', s')"
  shows "calls s' = calls s \<and> events s' = events s \<and> globals s' = globals s \<and>
    (Jenkins_Status j \<noteq> None \<longrightarrow> Jenkins_Status j' \<noteq> None) \<and>
    cond_status j' t = (case last_match (\<lambda>c. OS_Type c = t) cs of
      None \<Rightarrow> cond_status j t | Some c \<Rightarrow> Some (OS_Status c))"
  using assms
proof (induction cs arbitrary: j s)
  case (Cons c cs)
  from Cons.prems obtain j1 s1 where 1: "set_status_condition ext c j s = Some (j1, s1)"
    and 2: "set_status_conditions ext cs j1 s1 = Some (j', s')"
    by (auto elim: bind_pairE)
  have "last_match (\<lambda>c. OS_Type c = t) (c # cs) =
      (case last_match (\<lambda>c. OS_Type c = t) cs of None \<Rightarrow> if OS_Type c = t then Some c else None | Some x \<Rightarrow> Some x)"
    by (simp add: last_match_def find_append split: option.split)
  with Cons.IH [OF 2] set_status_condition_ok [OF 1] show ?case by (auto split: option.split)
qed simp

lemma set_status_condition_total:
  "Jenkins_Status j \<noteq> None \<Longrightarrow> \<exists>j' s'. set_status_condition ext c j s = Some (j', s')"
  by (auto simp: set_status_condition_def Now_eq Let_def split: option.split)

lemma set_status_conditions_total:
  "Jenkins_Status j \<noteq> None \<Longrightarrow> \<exists>j' s'. set_status_conditions ext cs j s = Some (j', s')"
proof (induction cs arbitrary: j s)
  case (Cons c cs)
  obtain j1 s1 where 1: "set_status_condition ext c j s = Some (j1, s1)"
    using set_status_condition_total [OF Cons.prems] by blast
  with Cons.IH [OF set_status_condition_ok(4) [OF 1]] show ?case by auto
qed simp

definition reports_complete :: "Jenkins \<Rightarrow> bool" where
  "reports_complete j \<longleftrightarrow> cond_status j ConditionReconcileComplete = Some ConditionTrue \<and>
     cond_status j ConditionAvailable = Some ConditionTrue \<and> cond_status j ConditionProgressing = Some ConditionFalse \<and>
     cond_status j ConditionDegraded = Some ConditionFalse"

lemma setStatusConditions_ok:
  assumes "setStatusConditions ext j s = Some (j', s')"
  shows "calls s' = calls s" "events s' = events s" "globals s' = globals s" "reports_complete j'"
  using set_status_conditions_ok [OF assms [unfolded setStatusConditions_def]]
  by (auto simp: reports_complete_def complete_conditions_def condition_def condition_types last_match_def)

lemma put_status_ok:
  assumes "put_status ext j s = Some ((err, j'), s')"
  shows "calls s' = calls s @ [StatusUpdateReq (O_Jenkins j)]" "globals s' = globals s"
    "err = None \<longleftrightarrow> (\<exists>x. fst (do_call ext (StatusUpdateReq (O_Jenkins j)) (world s)) = Returned (O_Jenkins x))"
proof -
  let ?r = "fst (do_call ext (StatusUpdateReq (O_Jenkins j)) (world s))"
  have "err = (case decode (project Jenkins_t) ?r of Inl e \<Rightarrow> Some e | Inr _ \<Rightarrow> None)"
    and s': "s' = s\<lparr>world := snd (do_call ext (StatusUpdateReq (O_Jenkins j)) (world s)),
        calls := calls s @ [StatusUpdateReq (O_Jenkins j)]\<rparr>"
    using assms by (auto simp: put_status_def update_status_def Client_StatusUpdate_def call_eq split: sum.splits)
  then show "err = None \<longleftrightarrow> (\<exists>x. ?r = Returned (O_Jenkins x))"
    using ty_Jenkins.decode_Inr_iff [of ?r] by (cases "decode (project Jenkins_t) ?r") auto
  show "calls s' = calls s @ [StatusUpdateReq (O_Jenkins j)]" "globals s' = globals s" by (simp_all add: s')
qed

lemma updateJenkinsStatus_first:
  assumes "updateJenkinsStatus ext j n s = Some ((err, j'), s')"
  shows "\<exists>rest. calls s' = calls s @ StatusUpdateReq (O_Jenkins j) # rest"
  using assms
  by (auto simp: updateJenkinsStatus_def Client_Get_def call_eq elim!: bind_pairE split: option.split_asm sum.split_asm
      dest!: put_status_ok(1) setStatusConditions_ok(1))

section \<open>What \<open>reconcile\<close> answers\<close>

lemma reconcile_error_at_once:
  "reconcile api ord keys ext request j s = Some (((res, Some e), j'), s') \<Longrightarrow> res = no_requeue"
  by (auto simp: reconcile_def reconcile_validated_def reconcile_base_def elim!: bind_SomeE
      split: prod.split_asm option.split_asm sum.split_asm if_split_asm)

lemma base_failure_hidden:
  "base_Reconcile ext j s = Some (((r, Some e), j'), s') \<Longrightarrow>
   reconcile_base ext request j s = Some (((requeue_after (if isJenkinsPodTerminating e then 30 else 5), None), j'), s')"
  by (simp add: reconcile_base_def)

lemma Jenkins_Reconcile_fetched:
  assumes "Client_Get ext Jenkins_t (Req_NamespacedName request) s = Some (Inr j, s1)"
    and "Option.bind (Jenkins_Status j) Status_Conditions \<noteq> None"
  shows "Jenkins_Reconcile api ord keys ext request s =
    do { ((answer, j), s) \<leftarrow> reconcile api ord keys ext request j s1; finish_reconcile ext request answer None j s }"
proof -
  have "with_status j = j" using assms(2) by (auto simp: with_status_def split: option.split)
  moreover obtain cs where "Option.bind (Jenkins_Status j) Status_Conditions = Some cs" using assms(2) by blast
  ultimately show ?thesis using assms(1) by (simp add: Jenkins_Reconcile_def)
qed

section \<open>Properties\<close>

text \<open>
  C13. A failed reconciliation is not tried again: when \<open>reconcile\<close> returns an error for a Jenkins that has
  conditions, \<open>Reconcile\<close> stores a status with the condition Degraded and then returns, as its own error,
  that of the status update, so that an error which was stored successfully is returned as success.
\<close>

theorem failed_reconcile_not_retried:
  assumes "Client_Get ext Jenkins_t (Req_NamespacedName request) s = Some (Inr j, s1)"
    and "Option.bind (Jenkins_Status j) Status_Conditions \<noteq> None"
    and "reconcile api ord keys ext request j s1 = Some (((res, Some e), j'), s2)"
    and "Jenkins_Reconcile api ord keys ext request s = Some ((result, err), s')"
  shows "result = no_requeue \<and> (\<exists>failed w. new_calls s2 s' = [StatusUpdateReq (O_Jenkins failed)] \<and>
    cond_status failed ConditionDegraded = Some ConditionTrue \<and>
    (err = None \<longleftrightarrow> (\<exists>x. fst (do_call ext (StatusUpdateReq (O_Jenkins failed)) w) = Returned (O_Jenkins x))))"
proof -
  from assms(3,4) obtain failed s3 j4 where 1: "setReconcileFailedStatus ext j' e s2 = Some (failed, s3)"
    and 2: "put_status ext failed s3 = Some ((err, j4), s')" and res: "result = res"
    unfolding Jenkins_Reconcile_fetched [OF assms(1,2)]
    by (auto simp: finish_reconcile_def elim!: bind_pairE)
  have "cond_status failed ConditionDegraded = Some ConditionTrue" "calls s3 = calls s2"
    using set_status_condition_ok [OF 1 [unfolded setReconcileFailedStatus_def]] by (simp_all add: condition_def)
  with put_status_ok [OF 2] reconcile_error_at_once [OF assms(3)] res show ?thesis
    by (auto simp: new_calls_def)
qed

text \<open>
  C14. A base configuration that fails is reported as complete: when the run comes to the base
  configuration and this fails, the next thing \<open>Reconcile\<close> asks of the server is to store the conditions
  that reconciliation is complete, Jenkins available and not degraded; and the delay with which
  \<open>reconcile\<close> wants to be called again is lost.
\<close>

theorem failed_base_reported_complete:
  assumes "Client_Get ext Jenkins_t (Req_NamespacedName request) s = Some (Inr j, s1)"
    and "Option.bind (Jenkins_Status j) Status_Conditions \<noteq> None"
    and "reconcile api ord keys ext request j s1 = reconcile_base ext request j2 s2"
    and "base_Reconcile ext j2 s2 = Some (((r, Some e), j3), s3)"
    and "Jenkins_Reconcile api ord keys ext request s = Some ((result, err), s')"
  shows "RequeueAfter result = 0 \<and> (\<exists>done rest. new_calls s3 s' = StatusUpdateReq (O_Jenkins done) # rest \<and>
    reports_complete done)"
proof -
  have answer: "reconcile api ord keys ext request j s1 =
      Some (((requeue_after (if isJenkinsPodTerminating e then 30 else 5), None), j3), s3)"
    using base_failure_hidden [OF assms(4)] by (simp add: assms(3))
  from assms(5) obtain d s4 j5 err' where 1: "setStatusConditions ext j3 s3 = Some (d, s4)"
    and 2: "updateJenkinsStatus ext d (Req_NamespacedName request) s4 = Some ((err', j5), s')"
    and res: "result = no_requeue \<or> result = requeue"
    unfolding Jenkins_Reconcile_fetched [OF assms(1,2)] answer
    by (auto simp: finish_reconcile_def elim!: bind_pairE split: option.split_asm)
  from updateJenkinsStatus_first [OF 2] obtain rest where "calls s' = calls s4 @ StatusUpdateReq (O_Jenkins d) # rest"
    by blast
  with setStatusConditions_ok [OF 1] res show ?thesis
    by (auto simp: new_calls_def no_requeue_def requeue_def)
qed


section \<open>Concrete instances\<close>

definition sample_request :: Request where
  "sample_request = \<lparr>Req_NamespacedName = nn ''ns'' ''a''\<rparr>"

text \<open>A Jenkins whose first container has the wrong name, on a server that stores every status.\<close>

definition bad_jenkins :: Jenkins where
  "bad_jenkins = sample_jenkins\<lparr>Jenkins_Spec := zero_JenkinsSpec\<lparr>Spec_Master :=
       Some (zero_JenkinsMaster\<lparr>Master_Containers := [zero_Container\<lparr>Container_Name := ''x''\<rparr>]\<rparr>)\<rparr>,
     Jenkins_Status := Some (zero_JenkinsStatus\<lparr>Status_Conditions := Some []\<rparr>)\<rparr>"

definition bad_world :: "unit ext" where
  "bad_world = table_ext (\<lambda>q. case q of GetReq _ _ \<Rightarrow> Returned (O_Jenkins bad_jenkins)
     | StatusUpdateReq obj \<Rightarrow> Returned obj | _ \<Rightarrow> Done)"

lemma get_jenkins_table:
  "f (GetReq K_Jenkins n) = Returned (O_Jenkins j) \<Longrightarrow>
   Client_Get (table_ext f) Jenkins_t n s = Some (Inr j, s\<lparr>calls := calls s @ [GetReq K_Jenkins n]\<rparr>)"
  by (simp add: Client_Get_def call_eq Jenkins_t_def)

lemma put_status_table:
  "f (StatusUpdateReq (O_Jenkins j)) = Returned (O_Jenkins j) \<Longrightarrow>
   put_status (table_ext f) j s = Some ((None, j), s\<lparr>calls := calls s @ [StatusUpdateReq (O_Jenkins j)]\<rparr>)"
  by (simp add: put_status_def update_status_def Client_StatusUpdate_def call_eq Jenkins_t_def)

lemma worlds_store:
  "put_status bad_world j s = Some ((None, j), s\<lparr>calls := calls s @ [StatusUpdateReq (O_Jenkins j)]\<rparr>)"
  "put_status config_world j s = Some ((None, j), s\<lparr>calls := calls s @ [StatusUpdateReq (O_Jenkins j)]\<rparr>)"
  by (simp_all add: bad_world_def config_world_def put_status_table)

lemma bad_reconcile:
  "\<exists>e j'. reconcile api ord keys bad_world request bad_jenkins s = Some (((no_requeue, Some e), j'), s) \<and>
     Jenkins_Status j' \<noteq> None"
  by (simp add: reconcile_def setDefaults_def getCalculatedSpec_def getJenkinsMasterContainer_def bad_jenkins_def
      first_container_def zero_Container_def JenkinsMasterContainerName_def set_status_spec_def Let_def)

theorem failed_reconcile_not_retried_witness:
  "\<exists>j1 s1 e j2 s2 s' failed. reconcile sample_api id id bad_world sample_request j1 s1 = Some (((no_requeue, Some e), j2), s2) \<and>
     Jenkins_Reconcile sample_api id id bad_world sample_request (initial ()) = Some ((no_requeue, None), s') \<and>
     new_calls s2 s' = [StatusUpdateReq (O_Jenkins failed)] \<and> cond_status failed ConditionDegraded = Some ConditionTrue"
proof -
  let ?s1 = "(initial ())\<lparr>calls := [GetReq K_Jenkins (Req_NamespacedName sample_request)]\<rparr>"
  have get: "Client_Get bad_world Jenkins_t (Req_NamespacedName sample_request) (initial ()) = Some (Inr bad_jenkins, ?s1)"
    using get_jenkins_table by (simp add: bad_world_def)
  have conds: "Option.bind (Jenkins_Status bad_jenkins) Status_Conditions \<noteq> None" by (simp add: bad_jenkins_def)
  obtain e j' where run: "reconcile sample_api id id bad_world sample_request bad_jenkins ?s1 =
      Some (((no_requeue, Some e), j'), ?s1)" "Jenkins_Status j' \<noteq> None"
    using bad_reconcile by blast
  obtain failed s3 where failed: "setReconcileFailedStatus bad_world j' e ?s1 = Some (failed, s3)"
    using set_status_condition_total [OF run(2)] unfolding setReconcileFailedStatus_def by blast
  obtain s' where whole: "Jenkins_Reconcile sample_api id id bad_world sample_request (initial ()) = Some ((no_requeue, None), s')"
    unfolding Jenkins_Reconcile_fetched [OF get conds]
    by (simp add: run(1) finish_reconcile_def failed worlds_store)
  from failed_reconcile_not_retried [OF get conds run(1) whole] whole run(1) show ?thesis by blast
qed

text \<open>The Jenkins of the validation, on a server that does not serve secrets.\<close>

lemma config_world_base:
  "\<exists>e s'. base_Reconcile config_world j s = Some (((no_requeue, Some e), j), s')"
  by (simp add: base_Reconcile_def ensureResourcesRequiredForJenkinsDeploymentArePresent_def resource_steps_def
      checked_def keeping_def createOperatorCredentialsSecret_def Client_Get_def call_eq config_world_def Secret_t_def)

lemma config_world_reaches_base:
  "\<exists>j s2. reconcile sample_api (\<lambda>m. m) (\<lambda>m. m) config_world sample_request valid_jenkins s =
      reconcile_base config_world sample_request j s2 \<and> Jenkins_Status j \<noteq> None"
proof -
  obtain spec j where j: "getCalculatedSpec sample_api config_world valid_jenkins s = Some ((Inr spec, j), s)"
    "Spec_ConfigurationAsCode spec = Some default_casc" "map_option Master_Volumes (Spec_Master spec) = Some []"
    "Jenkins_Spec j = Jenkins_Spec valid_jenkins" "status_spec j = Some spec"
    "Spec_PersistentSpec spec = Spec_PersistentSpec (Jenkins_Spec valid_jenkins)"
    using default_jenkins by blast
  have valid: "spec_valid j spec"
    using calculated_default_valid [OF j(1) valid_jenkins_simps(1,2) config_world_env no_casc_ok] by blast
  have defaults: "setDefaults sample_api config_world valid_jenkins s = Some (((False, None), j), s)"
    by (simp add: setDefaults_def j(1,5))
  let ?s1 = "s\<lparr>calls := calls s @ [ListReq K_StorageClass all_objects]\<rparr>"
  have classes: "Client_List config_world StorageClass_t all_objects s = Some (Inr [], ?s1)"
    by (simp add: Client_List_def call_eq config_world_def StorageClass_t_def)
  have claim: "ensure_claim config_world (Spec_PersistentSpec spec) c n ?s1 = Some (None, ?s1)" for c n
    by (simp add: ensure_claim_def j(6) valid_jenkins_def zero_JenkinsSpec_def)
  obtain s2 where "Validate (\<lambda>m. m) (\<lambda>m. m) config_world j j ?s1 = Some (Inr [], s2)"
    using default_validates [OF j(5) valid j(2,3)] j(4) by auto
  then have "reconcile sample_api (\<lambda>m. m) (\<lambda>m. m) config_world sample_request valid_jenkins s =
      reconcile_base config_world sample_request j s2"
    by (simp add: reconcile_def defaults classes j(5) claim reconcile_validated_def)
  moreover have "Jenkins_Status j \<noteq> None" using j(5) by (cases "Jenkins_Status j") (simp_all add: status_spec_def)
  ultimately show ?thesis by blast
qed

theorem failed_base_reported_complete_witness:
  "\<exists>j2 s2 e j3 s3 s' done rest. base_Reconcile config_world j2 s2 = Some (((no_requeue, Some e), j3), s3) \<and>
     Jenkins_Reconcile sample_api (\<lambda>m. m) (\<lambda>m. m) config_world sample_request (initial ()) = Some ((no_requeue, None), s') \<and>
     new_calls s3 s' = StatusUpdateReq (O_Jenkins done) # rest \<and> reports_complete done"
proof -
  let ?s1 = "(initial ())\<lparr>calls := [GetReq K_Jenkins (Req_NamespacedName sample_request)]\<rparr>"
  have get: "Client_Get config_world Jenkins_t (Req_NamespacedName sample_request) (initial ()) = Some (Inr valid_jenkins, ?s1)"
    using get_jenkins_table by (simp add: config_world_def)
  have conds: "Option.bind (Jenkins_Status valid_jenkins) Status_Conditions \<noteq> None" by simp
  obtain j2 s2 where reach: "reconcile sample_api (\<lambda>m. m) (\<lambda>m. m) config_world sample_request valid_jenkins ?s1 =
      reconcile_base config_world sample_request j2 s2" "Jenkins_Status j2 \<noteq> None"
    using config_world_reaches_base by blast
  obtain e s3 where base: "base_Reconcile config_world j2 s2 = Some (((no_requeue, Some e), j2), s3)"
    using config_world_base by blast
  obtain d s4 where d: "setStatusConditions config_world j2 s3 = Some (d, s4)"
    using set_status_conditions_total [OF reach(2)] unfolding setStatusConditions_def by blast
  obtain s' where whole: "Jenkins_Reconcile sample_api (\<lambda>m. m) (\<lambda>m. m) config_world sample_request (initial ()) =
      Some ((no_requeue, None), s')"
    unfolding Jenkins_Reconcile_fetched [OF get conds]
    by (simp add: reach(1) base_failure_hidden [OF base] finish_reconcile_def d updateJenkinsStatus_def worlds_store)
  from failed_base_reported_complete [OF get conds reach(1) base whole] base whole show ?thesis by blast
qed

end
