(* ===== verification/Restore_Controller.thy ===== *)
theory Restore_Controller
  imports Backup_Controller
begin

text \<open>
  \<open>controllers/restore_controller.go\<close>: one Reconcile of a Restore.  As for a Backup, the instance is
  threaded through the steps; the restart steps set their success condition in memory only, and the
  last status update of Reconcile stores it.
\<close>

section \<open>Names\<close>

definition RestoreInitialized :: string where "RestoreInitialized = ''RestoreInitialized''"
definition RestoreCompleted :: string where "RestoreCompleted = ''RestoreCompleted''"
definition RestartStarted :: string where "RestartStarted = ''RestartStarted''"
definition SafeRestartStarted :: string where "SafeRestartStarted = ''SafeRestartStarted''"
definition DefaultBackupStrategyName :: string where "DefaultBackupStrategyName = ''default''"

section \<open>Steps\<close>

definition record_restore ::
  "'w ext \<Rightarrow> Restore \<Rightarrow> string \<Rightarrow> string \<Rightarrow> string \<Rightarrow> 'w st \<Rightarrow> ((error option \<times> Restore) \<times> 'w st) option" where
  "record_restore ext = record_condition ext Restore_t Restore_Conditions put_Restore_Conditions"

definition note_restore ::
  "'w ext \<Rightarrow> Restore \<Rightarrow> string \<Rightarrow> 'w st \<Rightarrow> ((error option \<times> Restore) \<times> 'w st) option" where
  "note_restore ext x t s =
     do { (x, s) \<leftarrow> set_condition ext Restore_Conditions put_Restore_Conditions x t ConditionTrue '''' s;
          Some ((None, x), s) }"

definition performJenkinsRestart ::
  "'w ext \<Rightarrow> kubeExecClient \<Rightarrow> Pod \<Rightarrow> Restore \<Rightarrow> 'w st \<Rightarrow> ((error option \<times> Restore) \<times> 'w st) option" where
  "performJenkinsRestart ext e pod x s =
     do { let execRestart = Join '' '' [''sh'', RestartScriptPath];
          (err, s) \<leftarrow> MakeRequest ext e pod execRestart s;
          case err of
            Some err \<Rightarrow> record_restore ext x RestartStarted ConditionFalse
                (''Failed to restart Jenkins '' @ error_string err) s
          | None \<Rightarrow> note_restore ext x RestartStarted s }"

definition performJenkinsSafeRestart ::
  "'w ext \<Rightarrow> kubeExecClient \<Rightarrow> Pod \<Rightarrow> Restore \<Rightarrow> 'w st \<Rightarrow> ((error option \<times> Restore) \<times> 'w st) option" where
  "performJenkinsSafeRestart ext e pod x s =
     do { let execSafeRestart = Join '' '' [''sh'', SafeRestartScriptPath];
          (err, s) \<leftarrow> MakeRequest ext e pod execSafeRestart s;
          case err of
            Some err \<Rightarrow> record_restore ext x SafeRestartStarted ConditionFalse
                (''Failed to safe restart Jenkins '' @ error_string err) s
          | None \<Rightarrow> note_restore ext x SafeRestartStarted s }"

definition restoreFromLocation :: "Backup \<Rightarrow> string" where
  "restoreFromLocation b = JenkinsBackupVolumePath @ ''/'' @ Backup_BackupVolumeRef (Backup_Spec b)
     @ ''/'' @ backup_name b"

definition restore_from :: "Backup \<Rightarrow> string \<Rightarrow> string" where
  "restore_from b sl =
     (if sl = ''*.xml'' then Join ''/'' [restoreFromLocation b, sl]
      else Join ''/'' [restoreFromLocation b, sl @ ''/*''])"

definition restore_to :: "string \<Rightarrow> string" where
  "restore_to sl =
     (if sl = ''*.xml'' then Join ''/'' [defaultJenkinsHome, '''']
      else Join ''/'' [defaultJenkinsHome, sl])"

definition restore_script :: "Backup \<Rightarrow> string \<Rightarrow> string" where
  "restore_script b sl = Join '' '' [''cp'', ''-r'', restore_from b sl, restore_to sl]"

text \<open>The loop ends normally, \<open>None\<close>, or returns from the function with an error value, \<open>Some err\<close>.\<close>

fun restore_loop ::
  "'w ext \<Rightarrow> kubeExecClient \<Rightarrow> Pod \<Rightarrow> Backup \<Rightarrow> string list \<Rightarrow> Restore \<Rightarrow> 'w st \<Rightarrow>
   ((error option option \<times> Restore) \<times> 'w st) option" where
  "restore_loop ext e pod b [] x s = Some ((None, x), s)"
| "restore_loop ext e pod b (sl # sls) x s =
     do { (err, s) \<leftarrow> MakeRequest ext e pod (restore_script b sl) s;
          case err of
            None \<Rightarrow> restore_loop ext e pod b sls x s
          | Some err \<Rightarrow>
              do { ((err, x), s) \<leftarrow> record_restore ext x RestoreCompleted ConditionFalse
                     (''Failed to restore from '' @ restore_from b sl @ '' '' @ error_string err) s;
                   Some ((Some err, x), s) } }"

definition performJenkinsRestore ::
  "'w ext \<Rightarrow> kubeExecClient \<Rightarrow> Pod \<Rightarrow> Backup \<Rightarrow> BackupStrategy \<Rightarrow> Restore \<Rightarrow> 'w st \<Rightarrow>
   ((error option \<times> Restore) \<times> 'w st) option" where
  "performJenkinsRestore ext e pod b strategy x s =
     (let restoreToSubLocations = sub_locations (Strategy_Options strategy) in
      if length restoreToSubLocations > 0
      then do { ((returned, x), s) \<leftarrow> restore_loop ext e pod b restoreToSubLocations x s;
                case returned of
                  Some err \<Rightarrow> Some ((err, x), s)
                | None \<Rightarrow> record_restore ext x RestoreCompleted ConditionTrue '''' s }
      else Some ((None, x), s))"

section \<open>Notifications\<close>

definition sendNewRestoreCompletedNotification ::
  "Jenkins \<Rightarrow> Restore \<Rightarrow> error option \<Rightarrow> 'w st \<Rightarrow> 'w st" where
  "sendNewRestoreCompletedNotification j x err =
     send \<lparr>Event_Jenkins = j, Event_Controller = BackupController, Event_Level = NotificationLevelInfo,
       Event_Reason = NewRestoreCompleted OperatorSource
         [''Restore of backup '' @ jenkins_name j @ '' completed for Jenkins '' @ [CHR 39] @ Restore_BackupRef x
          @ [CHR 39] @ '' in namespace '' @ [CHR 39] @ jenkins_namespace j @ [CHR 39] @ '' with err '' @ show_err err] []\<rparr>"

definition sendNewRestoreInProgressNotification ::
  "Jenkins \<Rightarrow> Restore \<Rightarrow> string \<Rightarrow> error option \<Rightarrow> 'w st \<Rightarrow> 'w st" where
  "sendNewRestoreInProgressNotification j x message err =
     send \<lparr>Event_Jenkins = j, Event_Controller = BackupController, Event_Level = NotificationLevelInfo,
       Event_Reason = NewRestoreInProgress OperatorSource
         [''Restore of backup '' @ jenkins_name j @ '' in progress for Jenkins '' @ [CHR 39] @ Restore_BackupRef x
          @ [CHR 39] @ '' in namespace '' @ [CHR 39] @ jenkins_namespace j @ [CHR 39] @ '' with message '' @ [CHR 39]
          @ message @ [CHR 39] @ '' err '' @ show_err err] []\<rparr>"

section \<open>The pod\<close>

definition Restore_GetJenkinsDeployment ::
  "'w ext \<Rightarrow> Jenkins \<Rightarrow> 'w st \<Rightarrow> ((error + Deployment) \<times> 'w st) option" where
  "Restore_GetJenkinsDeployment ext j s =
     Client_Get ext Deployment_t (nn (jenkins_namespace j) (GetJenkinsDeploymentName j)) s"

definition Restore_GetReplicaSetByDeployment ::
  "'w ext \<Rightarrow> Jenkins \<Rightarrow> 'w st \<Rightarrow> ((error + ReplicaSet) \<times> 'w st) option" where
  "Restore_GetReplicaSetByDeployment ext j s =
     do { (r, s) \<leftarrow> Restore_GetJenkinsDeployment ext j s;
          deployment \<leftarrow> (case r of Inl _ \<Rightarrow> None | Inr d \<Rightarrow> Some d);
          let sel = (case asSelector ext (Depl_Selector deployment) of Inl _ \<Rightarrow> None | Inr x \<Rightarrow> Some x);
          (r, s) \<leftarrow> Client_List ext ReplicaSet_t (select sel) s;
          Some (case r of
                  Inl err \<Rightarrow> Inl (no_replicaSet (Some err))
                | Inr [] \<Rightarrow> Inl (no_replicaSet None)
                | Inr (rs # _) \<Rightarrow> Inr rs, s) }"

definition Restore_GetPodByDeployment ::
  "'w ext \<Rightarrow> Jenkins \<Rightarrow> 'w st \<Rightarrow> ((error + Pod) \<times> 'w st) option" where
  "Restore_GetPodByDeployment ext j s =
     do { (r, s) \<leftarrow> Restore_GetReplicaSetByDeployment ext j s;
          case r of
            Inl err \<Rightarrow> Some (Inl err, s)
          | Inr replicaSet \<Rightarrow>
              (case asSelector ext (RS_Selector replicaSet) of
                 Inl err \<Rightarrow> Some (Inl err, s)
               | Inr sel \<Rightarrow>
                   do { (r, s) \<leftarrow> Client_List ext Pod_t (select (Some sel)) s;
                        Some (case r of
                                Inl err \<Rightarrow> Inl (no_pod (Some err))
                              | Inr [] \<Rightarrow> Inl (no_pod None)
                              | Inr (pod # _) \<Rightarrow> Inr pod, s) }) }"

lemma Restore_GetPodByDeployment_eq: "Restore_GetPodByDeployment = GetPodByDeployment"
  by (intro ext) (simp add: Restore_GetPodByDeployment_def GetPodByDeployment_def
      Restore_GetReplicaSetByDeployment_def GetReplicaSetByDeployment_def
      Restore_GetJenkinsDeployment_def GetJenkinsDeployment_def)

section \<open>Reconcile\<close>

definition restart_stage ::
  "'w ext \<Rightarrow> kubeExecClient \<Rightarrow> Pod \<Rightarrow> Jenkins \<Rightarrow> BackupStrategy \<Rightarrow> Restore \<Rightarrow> 'w st \<Rightarrow>
   ((error option \<times> Restore) \<times> 'w st) option" where
  "restart_stage ext e pod j strategy x s =
     (let restart = Strategy_RestartAfterRestore strategy in
      if Restart_Enabled restart \<and> Restart_Safe restart
      then do { ((err, x), s) \<leftarrow> performJenkinsSafeRestart ext e pod x s;
                Some ((err, x), sendNewRestoreInProgressNotification j x ''safeRestartAfterRestore'' err s) }
      else if Restart_Enabled restart
      then do { ((err, x), s) \<leftarrow> performJenkinsRestart ext e pod x s;
                Some ((err, x), sendNewRestoreInProgressNotification j x ''restartAfterRestore'' err s) }
      else Some ((None, x), s))"

text \<open>The part of Reconcile after the exec client is ready, lines 171 to 207.\<close>

definition run_restore ::
  "'w ext \<Rightarrow> kubeExecClient \<Rightarrow> Pod \<Rightarrow> Jenkins \<Rightarrow> Backup \<Rightarrow> BackupStrategy \<Rightarrow> Restore \<Rightarrow> 'w st \<Rightarrow>
   ((Result \<times> error option) \<times> 'w st) option" where
  "run_restore ext e pod j b strategy x s =
     do { ((err, x), s) \<leftarrow> record_restore ext x RestoreInitialized ConditionTrue '''' s;
          if err \<noteq> None then Some ((no_requeue, err), s) else
          do { ((err, x), s) \<leftarrow> performJenkinsRestore ext e pod b strategy x s;
               let s = sendNewRestoreInProgressNotification j x ''restore'' err s;
               if err \<noteq> None then Some ((no_requeue, err), s) else
          do { ((err, x), s) \<leftarrow> restart_stage ext e pod j strategy x s;
               if err \<noteq> None then Some ((no_requeue, err), s) else
          do { let s = sendNewRestoreCompletedNotification j x None s;
               ((err, x), s) \<leftarrow> update_status ext Restore_t x s;
               Some ((no_requeue, err), s) }}}}"

definition strategy_of :: "Backup \<Rightarrow> string" where
  "strategy_of b = (if Backup_StrategyRef (Backup_Spec b) \<noteq> '''' then Backup_StrategyRef (Backup_Spec b)
     else DefaultBackupStrategyName)"

definition Restore_Reconcile ::
  "'w ext \<Rightarrow> Request \<Rightarrow> 'w st \<Rightarrow> ((Result \<times> error option) \<times> 'w st) option" where
  "Restore_Reconcile ext req s =
     do { let execClient = NewKubeExecClient;
          let ns = NN_Namespace (Req_NamespacedName req);
          (r, s) \<leftarrow> Client_Get ext Restore_t (Req_NamespacedName req) s;
          case r of
            Inl err \<Rightarrow> Some (ignore_not_found err, s)
          | Inr x \<Rightarrow>
              if length (Restore_Conditions x) > 0 then Some ((no_requeue, None), s) else
              do { (r, s) \<leftarrow> Client_Get ext Backup_t (nn ns (Restore_BackupRef x)) s;
                   case r of
                     Inl err \<Rightarrow> Some (ignore_not_found err, s)
                   | Inr b \<Rightarrow>
              do { (r, s) \<leftarrow> Client_Get ext BackupStrategy_t (nn ns (strategy_of b)) s;
                   case r of
                     Inl err \<Rightarrow> Some (ignore_not_found err, s)
                   | Inr strategy \<Rightarrow>
              do { (r, s) \<leftarrow> Client_Get ext Jenkins_t (nn ns (Backup_JenkinsRef (Backup_Spec b))) s;
                   case r of
                     Inl err \<Rightarrow> Some (ignore_not_found err, s)
                   | Inr j \<Rightarrow>
              do { (r, s) \<leftarrow> Restore_GetPodByDeployment ext j s;
                   case r of
                     Inl err \<Rightarrow> Some ((no_requeue, Some err), s)
                   | Inr pod \<Rightarrow>
              do { ((err, execClient), s) \<leftarrow> InitKubeGoClient ext execClient s;
                   case err of
                     Some err \<Rightarrow>
                       do { ((err, x), s) \<leftarrow> record_restore ext x RestoreInitialized ConditionFalse
                              (error_string err) s;
                            Some ((no_requeue, err), s) }
                   | None \<Rightarrow> run_restore ext execClient pod j b strategy x s }}}}}}"

section \<open>What the steps run\<close>

text \<open>The specification: run the scripts one after the other until one fails.\<close>

fun run_scripts ::
  "'w ext \<Rightarrow> kubeExecClient \<Rightarrow> Pod \<Rightarrow> string list \<Rightarrow> 'w st \<Rightarrow> ((error \<times> nat) option \<times> 'w st) option" where
  "run_scripts ext e pod [] s = Some (None, s)"
| "run_scripts ext e pod (q # qs) s =
     do { (err, s) \<leftarrow> MakeRequest ext e pod q s;
          case err of
            Some er \<Rightarrow> Some (Some (er, 0), s)
          | None \<Rightarrow> do { (r, s) \<leftarrow> run_scripts ext e pod qs s;
                         Some (map_option (\<lambda>(er, k). (er, Suc k)) r, s) } }"

lemma run_scripts_ran:
  assumes "exec_available ext" and "run_scripts ext e pod qs s = Some (r, s')"
  shows "case r of
      None \<Rightarrow> runs (map (script_stream pod) qs) s s'
    | Some (er, k) \<Rightarrow> k < length qs \<and> runs (map (script_stream pod) (take (Suc k) qs)) s s' \<and>
        (\<exists>w. err_of (fst (do_call ext (script_stream pod (qs ! k)) w)) \<noteq> None)"
  using assms(2)
proof (induction qs arbitrary: r s)
  case (Cons q qs)
  then obtain err s1 where req: "MakeRequest ext e pod q s = Some (err, s1)"
    by (auto elim: bind_pairE)
  note ran = MakeRequest_runs [OF assms(1) req]
  show ?case
  proof (cases err)
    case (Some er)
    with Cons.prems req have "r = Some (er, 0)" "s' = s1" by auto
    with ran MakeRequest_failed [OF assms(1) req [unfolded Some]] show ?thesis by simp
  next
    case None
    with Cons.prems req obtain r' where r': "run_scripts ext e pod qs s1 = Some (r', s')"
      "r = map_option (\<lambda>(er, k). (er, Suc k)) r'"
      by (auto elim: bind_pairE)
    with Cons.IH [OF r'(1)] ran show ?thesis
      by (auto split: option.splits intro: runs_Cons)
  qed
qed simp

lemma restore_loop_run_scripts:
  "restore_loop ext e pod b sls x s =
     do { (r, s) \<leftarrow> run_scripts ext e pod (map (restore_script b) sls) s;
          case r of
            None \<Rightarrow> Some ((None, x), s)
          | Some (er, k) \<Rightarrow>
              do { ((err, x), s) \<leftarrow> record_restore ext x RestoreCompleted ConditionFalse
                     (''Failed to restore from '' @ restore_from b (sls ! k) @ '' '' @ error_string er) s;
                   Some ((Some err, x), s) } }"
proof (induction sls arbitrary: s)
  case (Cons sl sls)
  show ?case
    by (cases "MakeRequest ext e pod (restore_script b sl) s")
       (auto simp: Cons.IH split: option.splits prod.splits bind_splits)
qed simp

lemmas record_restore_ran = rst.record_condition_runs [folded record_restore_def]

lemma note_restore_ran: "note_restore ext x t s = Some ((err, x'), s') \<Longrightarrow> runs [] s s' \<and> err = None"
  by (auto simp: note_restore_def runs_def dest: rst.set_condition_ok(1) elim!: bind_pairE)

definition restart_plan :: "BackupStrategy \<Rightarrow> string list" where
  "restart_plan strategy =
     (let r = Strategy_RestartAfterRestore strategy in
      if \<not> Restart_Enabled r then []
      else if Restart_Safe r then [''sh /jenkins-operator-scripts/saferestart.sh'']
      else [''sh /jenkins-operator-scripts/restart.sh''])"

lemma restart_joins:
  "Join '' '' [''sh'', RestartScriptPath] = ''sh /jenkins-operator-scripts/restart.sh''"
  "Join '' '' [''sh'', SafeRestartScriptPath] = ''sh /jenkins-operator-scripts/saferestart.sh''"
  by (simp_all add: RestartScriptPath_def SafeRestartScriptPath_def ScriptsVolumePath_def)

lemma runs_restore_notifications [simp]:
  "runs qs s (sendNewRestoreInProgressNotification j x m err t) = runs qs s t"
  "runs qs (sendNewRestoreInProgressNotification j x m err s) t = runs qs s t"
  "runs qs (sendNewRestoreCompletedNotification j x err s) t = runs qs s t"
  by (simp_all add: sendNewRestoreInProgressNotification_def sendNewRestoreCompletedNotification_def)

lemma performJenkinsRestart_ran:
  assumes "exec_available ext" and "performJenkinsRestart ext e pod x s = Some ((err, x'), s')"
  shows "runs [script_stream pod ''sh /jenkins-operator-scripts/restart.sh''] s s'"
  using assms(2) unfolding performJenkinsRestart_def restart_joins Let_def
  by (auto split: option.splits elim!: bind_pairE
      dest!: note_restore_ran record_restore_ran MakeRequest_runs [OF assms(1)] intro: runs_Cons)

lemma performJenkinsSafeRestart_ran:
  assumes "exec_available ext" and "performJenkinsSafeRestart ext e pod x s = Some ((err, x'), s')"
  shows "runs [script_stream pod ''sh /jenkins-operator-scripts/saferestart.sh''] s s'"
  using assms(2) unfolding performJenkinsSafeRestart_def restart_joins Let_def
  by (auto split: option.splits elim!: bind_pairE
      dest!: note_restore_ran record_restore_ran MakeRequest_runs [OF assms(1)] intro: runs_Cons)

lemma restart_stage_ran:
  assumes "exec_available ext" and "restart_stage ext e pod j strategy x s = Some ((err, x'), s')"
  shows "runs (map (script_stream pod) (restart_plan strategy)) s s'"
  using assms(2)
  by (auto simp: restart_stage_def restart_plan_def Let_def split: if_splits elim!: bind_pairE
      dest!: performJenkinsRestart_ran [OF assms(1)] performJenkinsSafeRestart_ran [OF assms(1)])

lemma run_restore_cases:
  assumes "run_restore ext e pod j b strategy x s = Some ((res, None), s')"
  obtains x1 s1 x2 s2 x3 s3 x4 where
    "record_restore ext x RestoreInitialized ConditionTrue '''' s = Some ((None, x1), s1)"
    "performJenkinsRestore ext e pod b strategy x1 s1 = Some ((None, x2), s2)"
    "restart_stage ext e pod j strategy x2 (sendNewRestoreInProgressNotification j x2 ''restore'' None s2)
       = Some ((None, x3), s3)"
    "update_status ext Restore_t x3 (sendNewRestoreCompletedNotification j x3 None s3) = Some ((None, x4), s')"
  using assms unfolding run_restore_def Let_def
  by (elim bind_pairE) (auto split: if_splits elim!: bind_pairE intro: that)

section \<open>Properties\<close>


lemma performJenkinsRestore_ran:
  assumes "exec_available ext" and "performJenkinsRestore ext e pod b strategy x s = Some ((err, x'), s')"
  shows "\<exists>k. runs (map (script_stream pod) (take k (map (restore_script b)
      (sub_locations (Strategy_Options strategy))))) s s' \<and>
    (k < length (sub_locations (Strategy_Options strategy)) \<longrightarrow> k \<noteq> 0 \<and>
      (\<exists>w. err_of (fst (do_call ext (script_stream pod (restore_script b
         (sub_locations (Strategy_Options strategy) ! (k - 1)))) w)) \<noteq> None))"
proof -
  let ?sls = "sub_locations (Strategy_Options strategy)"
  from assms(2) consider (idle) "?sls = []" "s' = s"
    | (all) s1 where "run_scripts ext e pod (map (restore_script b) ?sls) s = Some (None, s1)" "runs [] s1 s'"
    | (failed) er k s1 where "run_scripts ext e pod (map (restore_script b) ?sls) s = Some (Some (er, k), s1)"
        "runs [] s1 s'"
    unfolding performJenkinsRestore_def restore_loop_run_scripts Let_def
    by (cases "run_scripts ext e pod (map (restore_script b) ?sls) s")
       (auto split: if_splits option.splits elim!: bind_pairE dest!: record_restore_ran)
  then show ?thesis
  proof cases
    case idle
    then show ?thesis by simp
  next
    case all
    with run_scripts_ran [OF assms(1) all(1)] show ?thesis
      by (intro exI [of _ "length ?sls"]) (auto dest: runs_trans)
  next
    case failed
    from run_scripts_ran [OF assms(1) failed(1)] have k: "k < length ?sls"
      "runs (map (script_stream pod) (take (Suc k) (map (restore_script b) ?sls))) s s1"
      "\<exists>w. err_of (fst (do_call ext (script_stream pod (restore_script b (?sls ! k))) w)) \<noteq> None"
      by (simp_all cong: conj_cong)
    from runs_trans [OF k(2) failed(2)] k(3) show ?thesis
      by (intro exI [of _ "Suc k"]) simp
  qed
qed


text \<open>
  A restore copies back what its backup copied away: for every location a strategy selects, the
  backup copies \<open>HOME/location\<close> into a directory, and the restore copies from \<open>location\<close> in that
  same directory, the files matching the pattern into \<open>HOME\<close> and the contents of a directory into
  \<open>HOME/location\<close>.
\<close>

theorem restore_inverts_backup:
  "map (\<lambda>sl. (cp_script (backupToLocation b) sl, restore_script b sl)) (sub_locations opts) =
   map (\<lambda>sl. (''cp -r '' @ defaultJenkinsHome @ ''/'' @ sl @ '' '' @ backupToLocation b,
      ''cp -r '' @ backupToLocation b @ (if sl = ''*.xml'' then sl else sl @ ''/*'') @ '' '' @
        defaultJenkinsHome @ ''/'' @ (if sl = ''*.xml'' then '''' else sl))) (sub_locations opts)"
  by (simp add: cp_script_def restore_script_def restore_from_def restore_to_def restoreFromLocation_def
      backupToLocation_def defaultJenkinsHome_def)

text \<open>
  A restore runs once: for a Restore that already has a condition, Reconcile reads it and sends
  nothing else.
\<close>

theorem Restore_Reconcile_once:
  assumes "do_call ext (GetReq K_Restore (Req_NamespacedName req)) (world s) = (Returned (O_Restore x), w)"
    and "Restore_Conditions x \<noteq> []"
  shows "Restore_Reconcile ext req s =
    Some ((no_requeue, None), s\<lparr>world := w, calls := calls s @ [GetReq K_Restore (Req_NamespacedName req)]\<rparr>)"
  using assms
  by (simp add: Restore_Reconcile_def Client_Get_def call_eq Restore_t_def Let_def)

section \<open>Concrete runs\<close>

lemma update_restore_failing:
  "\<exists>s'. update_status (table_ext (failing_answers bad)) Restore_t x s = Some ((None, x), s')"
  by (simp add: update_status_def Client_StatusUpdate_def call_eq Restore_t_def)

lemma record_restore_failing:
  "\<exists>c s'. record_restore (table_ext (failing_answers bad)) x t st rsn s = Some ((None, c), s')"
  by (simp add: record_restore_def record_condition_def set_condition_def Now_eq update_status_def
      Client_StatusUpdate_def call_eq Let_def) (simp add: Restore_t_def)

lemma run_scripts_failing:
  assumes "EC_client e = Some c"
  shows "\<exists>r s'. run_scripts (table_ext (failing_answers bad)) e pod qs s = Some (r, s')"
proof (induction qs arbitrary: s)
  case (Cons q qs)
  obtain s1 where "MakeRequest (table_ext (failing_answers bad)) e pod q s
      = Some (if bad q then Some (PlainError ''exit code 1'') else None, s1)"
    using MakeRequest_failing [OF assms] by blast
  moreover obtain r s2 where "run_scripts (table_ext (failing_answers bad)) e pod qs s1 = Some (r, s2)"
    using Cons.IH by blast
  ultimately show ?case by simp
qed simp

lemma restart_stage_failing:
  assumes "EC_client e = Some c"
  shows "\<exists>x' s'. restart_stage (table_ext (failing_answers bad)) e pod j strategy x s = Some ((None, x'), s')"
proof -
  let ?x = "table_ext (failing_answers bad)"
  have req: "\<exists>r s'. MakeRequest ?x e pod script s = Some (r, s')" for script and s :: "unit st"
    using MakeRequest_failing [OF assms] by blast
  have noted: "\<exists>c s'. note_restore ?x x t s = Some ((None, c), s')" for x t and s :: "unit st"
    by (simp add: note_restore_def set_condition_def Now_eq Let_def)
  have plain: "\<exists>x' s'. performJenkinsRestart ?x e pod x s = Some ((None, x'), s')" for x s
    using req [of "Join '' '' [''sh'', RestartScriptPath]" s] noted record_restore_failing
    unfolding performJenkinsRestart_def Let_def by (auto split: option.splits simp del: Join.simps; blast)
  have safe: "\<exists>x' s'. performJenkinsSafeRestart ?x e pod x s = Some ((None, x'), s')" for x s
    using req [of "Join '' '' [''sh'', SafeRestartScriptPath]" s] noted record_restore_failing
    unfolding performJenkinsSafeRestart_def Let_def by (auto split: option.splits simp del: Join.simps; blast)
  show ?thesis
    using plain [of x s] safe [of x s] by (auto simp: restart_stage_def Let_def)
qed

lemma run_restore_failing:
  assumes "EC_client e = Some c"
  shows "\<exists>s'. run_restore (table_ext (failing_answers bad)) e pod j b strategy x s = Some ((no_requeue, None), s')"
proof -
  let ?x = "table_ext (failing_answers bad)"
  obtain x1 s1 where 1: "record_restore ?x x RestoreInitialized ConditionTrue '''' s = Some ((None, x1), s1)"
    using record_restore_failing by blast
  have "\<exists>x2 s2. performJenkinsRestore ?x e pod b strategy x1 s1 = Some ((None, x2), s2)"
  proof -
    obtain r s' where run: "run_scripts ?x e pod (map (restore_script b) (sub_locations (Strategy_Options strategy))) s1
        = Some (r, s')"
      using run_scripts_failing [OF assms] by blast
    have rec: "\<exists>c u'. record_restore ?x x1 t st rsn u = Some ((None, c), u')" for t st rsn and u :: "unit st"
      using record_restore_failing by blast
    show ?thesis
    proof (cases r)
      case None
      then show ?thesis using rec [of RestoreCompleted ConditionTrue "[]" s']
        by (auto simp: performJenkinsRestore_def restore_loop_run_scripts Let_def run)
    next
      case (Some a)
      obtain er k where a: "a = (er, k)" by (cases a)
      show ?thesis
        using rec [of RestoreCompleted ConditionFalse "''Failed to restore from '' @ restore_from b
            (sub_locations (Strategy_Options strategy) ! k) @ '' '' @ error_string er" s']
        by (auto simp: performJenkinsRestore_def restore_loop_run_scripts Let_def run Some a)
    qed
  qed
  then obtain x2 s2 where 2: "performJenkinsRestore ?x e pod b strategy x1 s1 = Some ((None, x2), s2)" by blast
  obtain x3 s3 where 3: "restart_stage ?x e pod j strategy x2
      (sendNewRestoreInProgressNotification j x2 ''restore'' None s2) = Some ((None, x3), s3)"
    using restart_stage_failing [OF assms] by blast
  obtain s4 where 4: "update_status ?x Restore_t x3 (sendNewRestoreCompletedNotification j x3 None s3)
      = Some ((None, x3), s4)"
    using update_restore_failing by blast
  show ?thesis by (simp add: run_restore_def 1 2 3 4 Let_def)
qed


definition sample_restore :: "Condition list \<Rightarrow> Restore" where
  "sample_restore cs = \<lparr>Restore_Meta = empty_meta\<lparr>Meta_Name := ''r'', Meta_Namespace := ''ns''\<rparr>,
     Restore_BackupRef = ''b'', Restore_Conditions = cs\<rparr>"

lemma sample_restore_scripts:
  "map (restore_script (sample_backup [])) (sub_locations (Strategy_Options (sample_strategy True))) =
     [''cp -r /jenkins-backups/v/b/*.xml /var/lib/jenkins/'',
      ''cp -r /jenkins-backups/v/b/jobs/* /var/lib/jenkins/jobs'']"
  "restart_plan (sample_strategy True) = [''sh /jenkins-operator-scripts/saferestart.sh'']"
  by (simp_all add: restore_script_def restore_from_def restore_to_def restoreFromLocation_def
      sub_locations_def sample_strategy_def sample_backup_def backup_name_def JenkinsBackupVolumePath_def
      defaultJenkinsHome_def restart_plan_def)


theorem Restore_Reconcile_once_witness:
  "\<exists>c s'. Restore_Reconcile (table_ext (\<lambda>_. Returned (O_Restore (sample_restore [c]))))
      \<lparr>Req_NamespacedName = nn ''ns'' ''r''\<rparr> (initial ()) = Some ((no_requeue, None), s')
    \<and> calls s' = [GetReq K_Restore (nn ''ns'' ''r'')]"
proof -
  fix c
  note run = Restore_Reconcile_once [of "table_ext (\<lambda>_. Returned (O_Restore (sample_restore [c])))"
      "\<lparr>Req_NamespacedName = nn ''ns'' ''r''\<rparr>" "initial ()" "sample_restore [c]" "()"]
  show ?thesis
    by (rule exI [of _ c], rule exI, rule conjI, rule run) (simp_all add: sample_restore_def)
qed

end
