(* ===== verification/Volume_Controller.thy ===== *)
theory Volume_Controller
  imports Claims Pod_Spec Sample_World
begin

text \<open>
  \<open>controllers/backupvolume_controller.go\<close>: the claim of a BackupVolume, and its agreement with the claim
  that the pod of a Jenkins mounts for the volume.
\<close>

section \<open>Operations\<close>

definition BackupVolumePresent :: string where "BackupVolumePresent = ''BackupVolumePresent''"

definition record_volume ::
  "'w ext \<Rightarrow> BackupVolume \<Rightarrow> string \<Rightarrow> string \<Rightarrow> 'w st \<Rightarrow> ((error option \<times> BackupVolume) \<times> 'w st) option" where
  "record_volume ext bv st rsn =
     record_condition ext BackupVolume_t BackupVolume_Conditions put_BackupVolume_Conditions bv BackupVolumePresent st rsn"

definition claim_of :: "NamespacedName \<Rightarrow> BackupVolumeSpec \<Rightarrow> NamespacedName" where
  "claim_of n spec =
     \<lparr>NN_Namespace = NN_Namespace n,
      NN_Name = (if length (BVSpec_PersistentVolumeClaimName spec) > 0 then BVSpec_PersistentVolumeClaimName spec
                 else NN_Name n @ ''-jenkins-backup'')\<rparr>"

text \<open>An absent claim is created; what is returned when that fails is the outcome of the status update.\<close>

definition create_claim ::
  "'w ext \<Rightarrow> BackupVolume \<Rightarrow> NamespacedName \<Rightarrow> string \<Rightarrow> string \<Rightarrow> 'w st \<Rightarrow> ((Result \<times> error option) \<times> 'w st) option" where
  "create_claim ext bv n storageClassName volumeSize s =
     do { claim \<leftarrow> new_claim ext n storageClassName volumeSize;
          (r, s) \<leftarrow> Client_Create ext PVC_t claim s;
          case r of
            Inr _ \<Rightarrow> Some ((no_requeue, None), s)
          | Inl err \<Rightarrow>
              do { ((err, _), s) \<leftarrow> record_volume ext bv ConditionFalse (error_string err) s;
                   Some ((no_requeue, err), s) } }"

definition BackupVolume_Reconcile ::
  "'w ext \<Rightarrow> Request \<Rightarrow> 'w st \<Rightarrow> ((Result \<times> error option) \<times> 'w st) option" where
  "BackupVolume_Reconcile ext req s =
     do { (r, s) \<leftarrow> Client_Get ext BackupVolume_t (Req_NamespacedName req) s;
          case r of
            Inl err \<Rightarrow> Some (ignore_not_found err, s)
          | Inr bv \<Rightarrow>
              do { (r, s) \<leftarrow> Client_List ext StorageClass_t all_objects s;
                   case r of
                     Inl err \<Rightarrow> Some ((no_requeue, Some err), s)
                   | Inr classes \<Rightarrow>
                       do { let spec = BackupVolume_Spec bv;
                            let storageClassName = (if length (BVSpec_StorageClassName spec) > 0
                              then BVSpec_StorageClassName spec else default_class_name classes);
                            let volumeSize = (if length (BVSpec_Size spec) > 0 then BVSpec_Size spec else ''1Gi'');
                            let n = claim_of (Req_NamespacedName req) spec;
                            (r, s) \<leftarrow> Client_Get ext PVC_t n s;
                            case r of
                              Inr _ \<Rightarrow>
                                do { ((err, _), s) \<leftarrow> record_volume ext bv ConditionTrue '''' s;
                                     Some ((no_requeue, err), s) }
                            | Inl err \<Rightarrow>
                                if IsNotFound err then create_claim ext bv n storageClassName volumeSize s
                                else Some ((no_requeue, Some err), s) } } }"

section \<open>Lemmas\<close>

lemma record_volume_ok:
  assumes "record_volume ext bv st rsn s = Some ((err, bv'), s')"
  obtains b w where "calls s' = calls s @ [StatusUpdateReq (O_BackupVolume b)]"
    "ol.status_of (BackupVolume_Conditions b) BackupVolumePresent = Some st"
    "err = None \<longleftrightarrow> (\<exists>b'. fst (do_call ext (StatusUpdateReq (O_BackupVolume b)) w) = Returned (O_BackupVolume b'))"
proof -
  from assms obtain b s1 where 1: "set_condition ext BackupVolume_Conditions put_BackupVolume_Conditions bv
      BackupVolumePresent st rsn s = Some (b, s1)" and 2: "update_status ext BackupVolume_t b s1 = Some ((err, bv'), s')"
    by (auto simp: record_volume_def record_condition_def elim: bind_pairE)
  have calls: "calls s' = calls s @ [StatusUpdateReq (O_BackupVolume b)]"
    using vst.update_status_ok(1) [OF 2] vst.set_condition_ok(1) [OF 1] by simp
  have status: "ol.status_of (BackupVolume_Conditions b) BackupVolumePresent = Some st"
    using vst.set_condition_ok(5) [OF 1] by simp
  have answer: "err = None \<longleftrightarrow>
      (\<exists>b'. fst (do_call ext (StatusUpdateReq (O_BackupVolume b)) (world s1)) = Returned (O_BackupVolume b'))"
    using 2 ty_BackupVolume.decode_Inr_iff [of "fst (do_call ext (StatusUpdateReq (O_BackupVolume b)) (world s1))"]
    by (auto simp: update_status_def Client_StatusUpdate_def call_eq split: sum.split_asm)
  show ?thesis by (rule that [OF calls status answer])
qed

lemma create_claim_cases:
  assumes "create_claim ext bv n c v s = Some ((result, err), s')"
  obtains (created) claim claim' where "new_claim ext n c v = Some claim" "result = no_requeue" "err = None"
      "calls s' = calls s @ [CreateReq (O_PVC claim)]"
      "fst (do_call ext (CreateReq (O_PVC claim)) (world s)) = Returned (O_PVC claim')"
    | (failed) claim b w where "new_claim ext n c v = Some claim" "result = no_requeue"
      "calls s' = calls s @ [CreateReq (O_PVC claim), StatusUpdateReq (O_BackupVolume b)]"
      "ol.status_of (BackupVolume_Conditions b) BackupVolumePresent = Some ConditionFalse"
      "err = None \<longleftrightarrow> (\<exists>b'. fst (do_call ext (StatusUpdateReq (O_BackupVolume b)) w) = Returned (O_BackupVolume b'))"
proof -
  from assms obtain claim r s1 where claim: "new_claim ext n c v = Some claim"
    and create: "Client_Create ext PVC_t claim s = Some (r, s1)"
    and rest: "(case r of Inr _ \<Rightarrow> Some ((no_requeue, None), s1)
      | Inl e \<Rightarrow> do { ((err, _), s) \<leftarrow> record_volume ext bv ConditionFalse (error_string e) s1; Some ((no_requeue, err), s) })
      = Some ((result, err), s')"
    by (auto simp: create_claim_def elim!: bind_SomeE bind_pairE split: prod.split_asm)
  have calls: "calls s1 = calls s @ [CreateReq (O_PVC claim)]"
    and r: "r = decode (project PVC_t) (fst (do_call ext (CreateReq (O_PVC claim)) (world s)))"
    using create by (auto simp: Client_Create_def call_eq PVC_t_def)
  show ?thesis
  proof (cases r)
    case (Inr claim')
    then have "fst (do_call ext (CreateReq (O_PVC claim)) (world s)) = Returned (O_PVC claim')"
      using r ty_PVC.decode_InrD by (fastforce simp: PVC_t_def)
    with Inr rest claim calls created show ?thesis by auto
  next
    case (Inl e)
    with rest obtain bv' where rec: "record_volume ext bv ConditionFalse (error_string e) s1 = Some ((err, bv'), s')"
      and "result = no_requeue"
      by (auto elim!: bind_SomeE split: prod.split_asm)
    from record_volume_ok [OF rec] failed [OF claim this(2)] calls show ?thesis by (metis append.assoc append_Cons append_Nil)
  qed
qed

lemma BackupVolume_Reconcile_creates:
  assumes "BackupVolume_Reconcile ext req s = Some ((result, err), s')" and "CreateReq obj \<in> set (new_calls s s')"
  obtains bv s1 c v s2 where "Client_Get ext BackupVolume_t (Req_NamespacedName req) s = Some (Inr bv, s1)"
    "extends (\<lambda>q. \<not> is_create q) s s2"
    "create_claim ext bv (claim_of (Req_NamespacedName req) (BackupVolume_Spec bv)) c v s2 = Some ((result, err), s')"
proof -
  have none: False if "extends (\<lambda>q. \<not> is_create q) s s'"
    using extends_new_calls [OF that] assms(2) by (auto simp: list_all_iff)
  have log: "Client_Get ext T n t = Some (r, t') \<Longrightarrow> extends (\<lambda>q. \<not> is_create q) t t'"
    "Client_List ext U l t = Some (r', t') \<Longrightarrow> extends (\<lambda>q. \<not> is_create q) t t'"
    "record_volume ext bv st rsn t = Some ((e, bv'), t') \<Longrightarrow> extends (\<lambda>q. \<not> is_create q) t t'"
    for T :: "'b gotype" and U :: "'c gotype" and n l t t' r r' bv st rsn e bv'
    by (auto simp: Client_Get_def Client_List_def call_eq extends_def elim!: record_volume_ok)
  from assms(1) obtain r s1 where 1: "Client_Get ext BackupVolume_t (Req_NamespacedName req) s = Some (r, s1)"
    by (auto simp: BackupVolume_Reconcile_def elim: bind_pairE)
  note rest = assms(1) [unfolded BackupVolume_Reconcile_def 1 bind.bind_lunit Option.bind.simps prod.case]
  show ?thesis
  proof (cases r)
    case (Inl e)
    with rest none log(1) [OF 1] show ?thesis by simp
  next
    case (Inr bv)
    with rest obtain r2 s2 where 2: "Client_List ext StorageClass_t all_objects s1 = Some (r2, s2)"
      by (auto elim: bind_pairE)
    note 12 = extends_trans [OF log(1) [OF 1] log(2) [OF 2]]
    show ?thesis
    proof (cases r2)
      case (Inl e)
      with rest \<open>r = Inr bv\<close> 2 none 12 show ?thesis by simp
    next
      case (Inr classes)
      let ?n = "claim_of (Req_NamespacedName req) (BackupVolume_Spec bv)"
      from rest \<open>r = Inr bv\<close> 2 Inr obtain r3 s3 where 3: "Client_Get ext PVC_t ?n s2 = Some (r3, s3)"
        by (auto simp: Let_def elim: bind_pairE)
      note 123 = extends_trans [OF 12 log(1) [OF 3]]
      show ?thesis
        using rest \<open>r = Inr bv\<close> 1 2 Inr 3 none 123 that [OF _ 123, of bv]
        by (auto simp: Let_def elim!: bind_pairE split: sum.split_asm if_split_asm
            dest: none [OF extends_trans [OF 123 log(3)]])
    qed
  qed
qed


section \<open>Properties\<close>

text \<open>
  C27. The claim that is created for a BackupVolume without a claim name of its own is the one a Jenkins mounts:
  the claim lies in the namespace of the BackupVolume, and whenever a Jenkins lists that BackupVolume, its pod has
  a volume on a claim of that name.
\<close>

theorem created_claim_is_mounted:
  assumes "BackupVolume_Reconcile ext req s = Some ((result, err), s')"
    and "CreateReq obj \<in> set (new_calls s s')"
    and "\<And>bv s1. Client_Get ext BackupVolume_t (Req_NamespacedName req) s = Some (Inr bv, s1) \<Longrightarrow>
      BVSpec_PersistentVolumeClaimName (BackupVolume_Spec bv) = ''''"
    and "getJenkinsVolumes j spec = Some volumes"
    and "NN_Name (Req_NamespacedName req) \<in> set (Spec_BackupVolumes (Jenkins_Spec j))"
  shows "\<exists>claim. obj = O_PVC claim \<and> Meta_Namespace (PVC_Meta claim) = NN_Namespace (Req_NamespacedName req) \<and>
    (\<exists>v \<in> set volumes. map_option PVCVol_ClaimName (Vol_PVC v) = Some (Meta_Name (PVC_Meta claim)))"
proof -
  let ?n = "NN_Name (Req_NamespacedName req)"
  obtain bv s1 c v s2
    where bv: "Client_Get ext BackupVolume_t (Req_NamespacedName req) s = Some (Inr bv, s1)"
      and before: "extends (\<lambda>q. \<not> is_create q) s s2"
      and run: "create_claim ext bv (claim_of (Req_NamespacedName req) (BackupVolume_Spec bv)) c v s2 = Some ((result, err), s')"
    by (rule BackupVolume_Reconcile_creates [OF assms(1,2)])
  from before have new: "set (new_calls s s') = set (new_calls s s2) \<union> set (new_calls s2 s')"
      if "calls s' = calls s2 @ rest" for rest
    using that by (auto simp: extends_def new_calls_def)
  have not_before: "CreateReq obj \<notin> set (new_calls s s2)"
    using extends_new_calls [OF before] by (auto simp: list_all_iff)
  from run obtain claim where claim: "new_claim ext (claim_of (Req_NamespacedName req) (BackupVolume_Spec bv)) c v = Some claim"
    and "obj = O_PVC claim"
    by (rule create_claim_cases) (use assms(2) new not_before in \<open>auto simp: new_calls_def\<close>)
  moreover have "Meta_Name (PVC_Meta claim) = GetJenkinsBackupPVCName ?n"
    "Meta_Namespace (PVC_Meta claim) = NN_Namespace (Req_NamespacedName req)"
    using new_claim_simps(1,2) [OF claim] assms(3) [OF bv]
    by (simp_all add: claim_of_def GetJenkinsBackupPVCName_def backupVolumeSuffix_def)
  moreover have "getPVCVolume (GetJenkinsBackupPoolName ?n) (GetJenkinsBackupPVCName ?n) \<in> set volumes"
    using assms(4,5) by (auto simp: getJenkinsVolumes_def Let_def elim!: bind_SomeE)
  ultimately show ?thesis by (force simp: getPVCVolume_def)
qed

text \<open>With a claim name of its own, the claim that is managed is not the one that is mounted.\<close>

lemma named_claim_not_mounted:
  assumes "BVSpec_PersistentVolumeClaimName spec \<notin> {'''', GetJenkinsBackupPVCName (NN_Name n)}"
  shows "NN_Name (claim_of n spec) \<noteq> GetJenkinsBackupPVCName (NN_Name n)"
  using assms by (simp add: claim_of_def)

text \<open>
  A claim that cannot be created is not tried again: when the creation fails, the run stores the condition
  BackupVolumePresent=False and then returns the outcome of that status update, so that it succeeds
  whenever the status was stored.
\<close>

theorem failed_creation_not_retried:
  assumes "BackupVolume_Reconcile ext req s = Some ((result, err), s')"
    and "CreateReq obj \<in> set (new_calls s s')"
    and "\<And>w. fst (do_call ext (CreateReq obj) w) = Failed e"
  shows "result = no_requeue \<and> (\<exists>b w. last (calls s') = StatusUpdateReq (O_BackupVolume b) \<and>
    IsFalseFor (BackupVolume_Conditions b) BackupVolumePresent \<and>
    (err = None \<longleftrightarrow> (\<exists>b'. fst (do_call ext (StatusUpdateReq (O_BackupVolume b)) w) = Returned (O_BackupVolume b'))))"
proof -
  obtain bv s1 c v s2
    where "Client_Get ext BackupVolume_t (Req_NamespacedName req) s = Some (Inr bv, s1)"
      and before: "extends (\<lambda>q. \<not> is_create q) s s2"
      and run: "create_claim ext bv (claim_of (Req_NamespacedName req) (BackupVolume_Spec bv)) c v s2 = Some ((result, err), s')"
    by (rule BackupVolume_Reconcile_creates [OF assms(1,2)])
  obtain new where new: "calls s2 = calls s @ new" "CreateReq obj \<notin> set new"
    using before unfolding extends_def list_all_iff by force
  from run show ?thesis
  proof (rule create_claim_cases)
    fix claim claim'
    assume "calls s' = calls s2 @ [CreateReq (O_PVC claim)]"
      "fst (do_call ext (CreateReq (O_PVC claim)) (world s2)) = Returned (O_PVC claim')"
    with new assms(2,3) show ?thesis by (auto simp: new_calls_def)
  next
    fix claim b w
    assume "result = no_requeue"
      "calls s' = calls s2 @ [CreateReq (O_PVC claim), StatusUpdateReq (O_BackupVolume b)]"
      "ol.status_of (BackupVolume_Conditions b) BackupVolumePresent = Some ConditionFalse"
      "err = None \<longleftrightarrow> (\<exists>b'. fst (do_call ext (StatusUpdateReq (O_BackupVolume b)) w) = Returned (O_BackupVolume b'))"
    then show ?thesis by (auto simp: IsFalseFor_iff)
  qed
qed

section \<open>Concrete instances\<close>

definition sample_volume :: BackupVolume where
  "sample_volume = \<lparr>BackupVolume_Meta = empty_meta\<lparr>Meta_Name := ''v'', Meta_Namespace := ''ns''\<rparr>,
     BackupVolume_Spec = \<lparr>BVSpec_PersistentVolumeClaimName = '''', BVSpec_StorageClassName = '''', BVSpec_Size = ''''\<rparr>,
     BackupVolume_Conditions = []\<rparr>"

definition sample_class :: StorageClass where
  "sample_class = \<lparr>SC_Meta = empty_meta\<lparr>Meta_Name := ''standard'',
     Meta_Annotations := Some [(DefaultStorageClassLabel, trueStr)]\<rparr>\<rparr>"

text \<open>A server with one default class and no claims, on which the creation is answered by the argument.\<close>

definition volume_world :: "response \<Rightarrow> unit ext" where
  "volume_world r = table_ext (\<lambda>q. case q of
       GetReq k _ \<Rightarrow> if k = K_BackupVolume then Returned (O_BackupVolume sample_volume) else Failed (ApiError NotFound '''')
     | ListReq _ _ \<Rightarrow> Listed [O_StorageClass sample_class]
     | CreateReq obj \<Rightarrow> r
     | StatusUpdateReq obj \<Rightarrow> Returned obj
     | _ \<Rightarrow> Done)"

definition volume_request :: Request where
  "volume_request = \<lparr>Req_NamespacedName = nn ''ns'' ''v''\<rparr>"

definition sample_claim :: PersistentVolumeClaim where
  "sample_claim = \<lparr>PVC_Meta = empty_meta\<lparr>Meta_Name := ''v-jenkins-backup'', Meta_Namespace := ''ns''\<rparr>,
     PVC_StorageClassName = Some ''standard'', PVC_AccessModes = [''ReadWriteOnce''],
     PVC_Resources = \<lparr>Limits = None, Requests = Some [(''storage'', Quantity ''1Gi'')]\<rparr>\<rparr>"

lemma volume_world_simps [simp]:
  "do_call (volume_world r) q w = ((case q of
       GetReq k _ \<Rightarrow> if k = K_BackupVolume then Returned (O_BackupVolume sample_volume) else Failed (ApiError NotFound '''')
     | ListReq _ _ \<Rightarrow> Listed [O_StorageClass sample_class]
     | CreateReq obj \<Rightarrow> r
     | StatusUpdateReq obj \<Rightarrow> Returned obj
     | _ \<Rightarrow> Done), w)"
  "clock (volume_world r) w = (0, w)" "parseQuantity (volume_world r) v = Some (Quantity v)"
  by (simp_all add: volume_world_def table_ext_def)

lemma volume_claim:
  "new_claim (volume_world r) (claim_of (nn ''ns'' ''v'') (BackupVolume_Spec sample_volume)) ''standard'' ''1Gi'' = Some sample_claim"
  by (simp add: new_claim_def claim_of_def sample_volume_def nn_def sample_claim_def)

lemma volume_class: "default_class_name [sample_class] = ''standard''"
  by (simp add: default_class_name_def is_default_class_def sample_class_def last_match_def lookup_label_def range_of_def)

lemma volume_creates:
  assumes "r = Returned (O_PVC sample_claim) \<or> r = Failed e"
  shows "\<exists>s'. create_claim (volume_world r) sample_volume (claim_of (nn ''ns'' ''v'') (BackupVolume_Spec sample_volume))
    ''standard'' ''1Gi'' s = Some ((no_requeue, None), s') \<and> CreateReq (O_PVC sample_claim) \<in> set (calls s')"
  using assms
  by (auto simp: create_claim_def volume_claim Client_Create_def call_eq PVC_t_def record_volume_def
      record_condition_def set_condition_def Now_eq update_status_def Client_StatusUpdate_def BackupVolume_t_def)

lemma volume_run:
  assumes "r = Returned (O_PVC sample_claim) \<or> r = Failed e"
  shows "\<exists>s'. BackupVolume_Reconcile (volume_world r) volume_request (initial ()) = Some ((no_requeue, None), s') \<and>
    CreateReq (O_PVC sample_claim) \<in> set (calls s')"
proof -
  let ?s1 = "(initial ())\<lparr>world := (), calls := [GetReq K_BackupVolume (nn ''ns'' ''v''), ListReq K_StorageClass all_objects,
      GetReq K_PVC (claim_of (nn ''ns'' ''v'') (BackupVolume_Spec sample_volume))]\<rparr>"
  have "BVSpec_StorageClassName (BackupVolume_Spec sample_volume) = ''''" "BVSpec_Size (BackupVolume_Spec sample_volume) = ''''"
    by (simp_all add: sample_volume_def)
  then have "BackupVolume_Reconcile (volume_world r) volume_request (initial ()) =
      create_claim (volume_world r) sample_volume (claim_of (nn ''ns'' ''v'') (BackupVolume_Spec sample_volume))
        ''standard'' ''1Gi'' ?s1"
    by (simp add: BackupVolume_Reconcile_def volume_request_def Client_Get_def Client_List_def call_eq BackupVolume_t_def
        StorageClass_t_def PVC_t_def Let_def volume_class)
  with volume_creates [OF assms, of ?s1] show ?thesis by simp
qed

theorem created_claim_is_mounted_witness:
  "\<exists>s' j spec volumes claim. getJenkinsVolumes (j :: Jenkins) (spec :: JenkinsSpec) = Some volumes \<and>
     BackupVolume_Reconcile (volume_world (Returned (O_PVC sample_claim))) volume_request (initial ())
      = Some ((no_requeue, None), s') \<and> CreateReq (O_PVC claim) \<in> set (calls s') \<and> Meta_Namespace (PVC_Meta claim) = ''ns'' \<and>
     (\<exists>v \<in> set volumes. map_option PVCVol_ClaimName (Vol_PVC v) = Some (Meta_Name (PVC_Meta claim)))"
proof -
  let ?j = "sample_jenkins\<lparr>Jenkins_Spec := zero_JenkinsSpec\<lparr>Spec_BackupVolumes := [''v'']\<rparr>\<rparr>"
  let ?spec = "zero_JenkinsSpec\<lparr>Spec_Master := Some zero_JenkinsMaster\<rparr>"
  obtain s' where run: "BackupVolume_Reconcile (volume_world (Returned (O_PVC sample_claim))) volume_request (initial ())
      = Some ((no_requeue, None), s')" "CreateReq (O_PVC sample_claim) \<in> set (calls s')"
    using volume_run by blast
  obtain volumes where volumes: "getJenkinsVolumes ?j ?spec = Some volumes"
    by (simp add: getJenkinsVolumes_def Let_def)
  have no_name: "BVSpec_PersistentVolumeClaimName (BackupVolume_Spec bv) = ''''"
    if "Client_Get (volume_world (Returned (O_PVC sample_claim))) BackupVolume_t (Req_NamespacedName volume_request)
      (initial ()) = Some (Inr bv, s1)" for bv s1
    using that by (auto simp: Client_Get_def call_eq BackupVolume_t_def sample_volume_def)
  have member: "CreateReq (O_PVC sample_claim) \<in> set (new_calls (initial ()) s')" by (simp add: new_calls_def run(2))
  have named: "NN_Name (Req_NamespacedName volume_request) \<in> set (Spec_BackupVolumes (Jenkins_Spec ?j))"
    by (simp add: volume_request_def nn_def)
  have "\<exists>claim. O_PVC sample_claim = O_PVC claim \<and> Meta_Namespace (PVC_Meta claim) = ''ns'' \<and>
      (\<exists>v \<in> set volumes. map_option PVCVol_ClaimName (Vol_PVC v) = Some (Meta_Name (PVC_Meta claim)))"
    using created_claim_is_mounted [OF run(1) member no_name volumes named] by (simp add: volume_request_def nn_def)
  with run volumes show ?thesis by blast
qed

theorem failed_creation_not_retried_witness:
  "\<exists>s' b. BackupVolume_Reconcile (volume_world (Failed (PlainError ''quota''))) volume_request (initial ())
      = Some ((no_requeue, None), s') \<and> last (calls s') = StatusUpdateReq (O_BackupVolume b) \<and>
     IsFalseFor (BackupVolume_Conditions b) BackupVolumePresent"
proof -
  obtain s' where run: "BackupVolume_Reconcile (volume_world (Failed (PlainError ''quota''))) volume_request (initial ())
      = Some ((no_requeue, None), s')" "CreateReq (O_PVC sample_claim) \<in> set (calls s')"
    using volume_run by blast
  have member: "CreateReq (O_PVC sample_claim) \<in> set (new_calls (initial ()) s')" by (simp add: new_calls_def run(2))
  have "fst (do_call (volume_world (Failed (PlainError ''quota''))) (CreateReq (O_PVC sample_claim)) w) =
      Failed (PlainError ''quota'')" for w
    by simp
  from failed_creation_not_retried [OF run(1) member this] run show ?thesis by blast
qed

end
