(* ===== verification/Image_Builder.thy ===== *)
theory Image_Builder
  imports Cluster_APIs
begin

text \<open>
  \<open>resources/builder.go\<close>: the pod that builds the image of a JenkinsImage and the config map with its
  Dockerfile; and from \<open>resources/pod.go\<close> the waits for a pod, over the vendored \<open>wait.WaitFor\<close>.
\<close>

section \<open>Constants and names\<close>

definition BuilderDockerfileArg :: string where "BuilderDockerfileArg = ''--dockerfile=/dockerfile/Dockerfile''"
definition BuilderContextDirArg :: string where "BuilderContextDirArg = ''--context=dir://workspace/''"
definition BuilderNoPushArg :: string where "BuilderNoPushArg = ''--no-push''"
definition BuilderDestinationArg :: string where "BuilderDestinationArg = ''--destination''"
definition BuilderDigestFileArg :: string where "BuilderDigestFileArg = ''--digest-file=/dev/termination-log''"
definition BuilderReproducibleArg :: string where "BuilderReproducibleArg = ''--reproducible''"
definition BuilderSuffix :: string where "BuilderSuffix = ''builder''"
definition DockerfileStorageSuffix :: string where "DockerfileStorageSuffix = ''dockerfile-storage''"
definition DockerSecretSuffix :: string where "DockerSecretSuffix = ''docker-secret''"
definition DockerfileNameSuffix :: string where "DockerfileNameSuffix = ''dockerfile''"
definition JenkinsImageBuilderImage :: string where
  "JenkinsImageBuilderImage = ''quay.io/redhat-developer/openshift-jenkins-image-builder:v1.3.0''"
definition JenkinsImageBuilderName :: string where "JenkinsImageBuilderName = ''jenkins-image-builder''"
definition JenkinsImageDefaultBaseImage :: string where "JenkinsImageDefaultBaseImage = ''jenkins/jenkins:lts''"
definition DefaultImageRegistry :: string where
  "DefaultImageRegistry = ''image-registry.openshift-image-registry.svc:5000''"
definition DefaultImageTag :: string where "DefaultImageTag = ''latest''"
definition DockerfileName :: string where "DockerfileName = ''Dockerfile''"
definition JenkinsImageBuilderEnv :: string where "JenkinsImageBuilderEnv = ''JENKINS_BUILDER_IMAGE''"

definition image_name :: "JenkinsImage \<Rightarrow> string" where
  "image_name cr = Meta_Name (JImage_Meta cr)"
definition image_namespace :: "JenkinsImage \<Rightarrow> string" where
  "image_namespace cr = Meta_Namespace (JImage_Meta cr)"

definition NameWithSuffixFormat :: "string \<Rightarrow> string \<Rightarrow> string" where
  "NameWithSuffixFormat n sfx = n @ ''-'' @ sfx"

definition PluginDefinitionFormat :: "string \<Rightarrow> string \<Rightarrow> string" where
  "PluginDefinitionFormat n v = n @ '':'' @ v"

definition DockerfileTemplate :: "string \<Rightarrow> string \<Rightarrow> string" where
  "DockerfileTemplate base plugins =
     ''FROM '' @ base @ newline
     @ ''RUN curl -o /tmp/install-plugins.sh https://raw.githubusercontent.com/jenkinsci/docker/master/install-plugins.sh'' @ newline
     @ ''RUN chmod +x /tmp/install-plugins.sh'' @ newline
     @ ''RUN install-plugins.sh '' @ plugins @ '' ''"

definition GetDockerfileConfigMapName :: "JenkinsImage \<Rightarrow> string" where
  "GetDockerfileConfigMapName cr = NameWithSuffixFormat (image_name cr) DockerfileNameSuffix"

section \<open>The Dockerfile\<close>

fun getJenkinsPluginsList :: "JenkinsPlugin list \<Rightarrow> string" where
  "getJenkinsPluginsList [] = ''''"
| "getJenkinsPluginsList (v # vs) =
     PluginDefinitionFormat (JenkinsPlugin_Name v) (JenkinsPlugin_Version v) @ '' '' @ getJenkinsPluginsList vs"

definition getDefaultedBaseImage :: "JenkinsImage \<Rightarrow> string" where
  "getDefaultedBaseImage cr =
     (if length (Image_Name (ImageSpec_From (JImage_Spec cr))) \<noteq> 0 then Image_Name (ImageSpec_From (JImage_Spec cr))
      else JenkinsImageDefaultBaseImage)"

definition NewDockerfileConfigMap :: "JenkinsImage \<Rightarrow> ConfigMap" where
  "NewDockerfileConfigMap cr =
     \<lparr>CM_Meta = empty_meta\<lparr>Meta_Name := NameWithSuffixFormat (image_name cr) DockerfileNameSuffix,
                Meta_Namespace := image_namespace cr\<rparr>,
      CM_Data = [(DockerfileName, DockerfileTemplate (getDefaultedBaseImage cr)
                                    (getJenkinsPluginsList (ImageSpec_Plugins (JImage_Spec cr))))]\<rparr>"

section \<open>The builder pod\<close>

definition getJenkinsImageBuilderImage :: "'w ext \<Rightarrow> string" where
  "getJenkinsImageBuilderImage ext =
     (let image = (case getenv ext JenkinsImageBuilderEnv of None \<Rightarrow> '''' | Some v \<Rightarrow> v)
      in if length image \<noteq> 0 then image else JenkinsImageBuilderImage)"

definition GetDestinationRepository :: "Globals \<Rightarrow> JenkinsImage \<Rightarrow> string" where
  "GetDestinationRepository g cr =
     (let destination = ImageSpec_To (JImage_Spec cr) in
      if length (Image_Registry destination) = 0
      then (if IsImageRegistryAvailableCached g
            then BuilderDestinationArg @ ''='' @ DefaultImageRegistry @ ''/'' @ image_namespace cr @ ''/'' @ image_name cr
                 @ '':'' @ DefaultImageTag
            else BuilderNoPushArg)
      else BuilderDestinationArg @ ''='' @ Image_Registry destination @ ''/'' @ Image_Name destination @ '':''
           @ Image_Tag destination)"

definition getPushSecretName :: "'w ext \<Rightarrow> JenkinsImage \<Rightarrow> 'w st \<Rightarrow> ((error + string) \<times> 'w st) option" where
  "getPushSecretName ext cr s =
     (let secret = Image_Secret (ImageSpec_To (JImage_Spec cr)) in
      if length secret \<noteq> 0 then Some (Inr secret, s)
      else GetDockerBuilderSecretName ext (image_namespace cr) s)"

text \<open>The secret to mount: none when the name is empty or could not be found out.\<close>

definition push_secret :: "error + string \<Rightarrow> string option" where
  "push_secret r = (case r of Inl _ \<Rightarrow> None | Inr n \<Rightarrow> if length n = 0 then None else Some n)"

definition base_builder_volumes :: "JenkinsImage \<Rightarrow> Volume list" where
  "base_builder_volumes cr =
     [(empty_volume (NameWithSuffixFormat (image_name cr) DockerfileStorageSuffix))\<lparr>Vol_EmptyDir := True\<rparr>,
      (empty_volume (GetDockerfileConfigMapName cr))\<lparr>Vol_ConfigMap :=
         Some \<lparr>CMVol_Name = GetDockerfileConfigMapName cr, CMVol_DefaultMode = None, CMVol_Optional = None,
               CMVol_Items = ''''\<rparr>\<rparr>]"

definition secret_volume :: "JenkinsImage \<Rightarrow> string \<Rightarrow> Volume" where
  "secret_volume cr secretName =
     (empty_volume (NameWithSuffixFormat (image_name cr) DockerSecretSuffix))\<lparr>Vol_Secret :=
        Some \<lparr>SecVol_SecretName = secretName, SecVol_DefaultMode = None, SecVol_Optional = None, SecVol_Items = ''''\<rparr>\<rparr>"

definition getVolumes :: "'w ext \<Rightarrow> JenkinsImage \<Rightarrow> 'w st \<Rightarrow> (Volume list \<times> 'w st) option" where
  "getVolumes ext cr s =
     do { (r, s) \<leftarrow> getPushSecretName ext cr s;
          Some (base_builder_volumes cr @
                (case push_secret r of None \<Rightarrow> [] | Some secretName \<Rightarrow> [secret_volume cr secretName]), s) }"

definition builder_mount :: "string \<Rightarrow> string \<Rightarrow> VolumeMount" where
  "builder_mount n mountPath =
     \<lparr>Mount_Name = n, Mount_ReadOnly = False, Mount_MountPath = mountPath, Mount_SubPath = '''', Mount_Other = ''''\<rparr>"

definition getVolumesMounts :: "'w ext \<Rightarrow> JenkinsImage \<Rightarrow> 'w st \<Rightarrow> (VolumeMount list \<times> 'w st) option" where
  "getVolumesMounts ext cr s =
     do { (r, s) \<leftarrow> getPushSecretName ext cr s;
          Some ([builder_mount (NameWithSuffixFormat (image_name cr) DockerfileStorageSuffix) ''/workspace'',
                 builder_mount (NameWithSuffixFormat (image_name cr) DockerfileNameSuffix) ''/dockerfile''] @
                (case push_secret r of
                   None \<Rightarrow> []
                 | Some _ \<Rightarrow> [builder_mount (NameWithSuffixFormat (image_name cr) DockerSecretSuffix) ''/kaniko/.docker/'']), s) }"

definition getBuilderPod ::
  "'w ext \<Rightarrow> string \<Rightarrow> JenkinsImage \<Rightarrow> string list \<Rightarrow> VolumeMount list \<Rightarrow> Volume list \<Rightarrow> Pod" where
  "getBuilderPod ext n cr builderPodArgs volumeMounts volumes =
     \<lparr>Pod_Meta = empty_meta\<lparr>Meta_Name := n, Meta_Namespace := image_namespace cr\<rparr>,
      Pod_Spec = \<lparr>Pod_ServiceAccountName = '''', Pod_NodeSelector = None, Pod_InitContainers = [],
        Pod_Containers = [empty_container\<lparr>KC_Name := JenkinsImageBuilderName,
          KC_Image := getJenkinsImageBuilderImage ext, KC_Args := Some builderPodArgs, KC_VolumeMounts := volumeMounts\<rparr>],
        Pod_Volumes = volumes, Pod_SecurityContext = '''', Pod_ImagePullSecrets = [], Pod_Tolerations = '''',
        Pod_PriorityClassName = '''', Pod_RestartPolicy = ''Never''\<rparr>,
      Pod_Phase = '''', Pod_ContainerStatuses = []\<rparr>"

definition NewBuilderPod :: "'w ext \<Rightarrow> JenkinsImage \<Rightarrow> 'w st \<Rightarrow> (Pod \<times> 'w st) option" where
  "NewBuilderPod ext cr s =
     do { let n = NameWithSuffixFormat (image_name cr) BuilderSuffix;
          let builderPodArgs = [BuilderReproducibleArg, BuilderDockerfileArg, BuilderContextDirArg, BuilderDigestFileArg];
          let builderPodArgs = builderPodArgs @ [GetDestinationRepository (globals s) cr];
          (volumes, s) \<leftarrow> getVolumes ext cr s;
          (volumeMounts, s) \<leftarrow> getVolumesMounts ext cr s;
          Some (getBuilderPod ext n cr builderPodArgs volumeMounts volumes, s) }"

section \<open>Waiting for a pod\<close>

definition PodRunning :: string where "PodRunning = ''Running''"
definition PodSucceeded :: string where "PodSucceeded = ''Succeeded''"
definition PodFailed :: string where "PodFailed = ''Failed''"
definition PodPending :: string where "PodPending = ''Pending''"
definition PodUnknown :: string where "PodUnknown = ''Unknown''"
definition ErrPodCompleted :: error where "ErrPodCompleted = PlainError ''pod ran to completion''"
definition ErrWaitTimeout :: error where "ErrWaitTimeout = PlainError ''timed out waiting for the condition''"

type_synonym 'w ConditionFunc = "'w st \<Rightarrow> ((bool \<times> error option) \<times> 'w st) option"

definition isPodRunning :: "'w ext \<Rightarrow> string \<Rightarrow> string \<Rightarrow> 'w ConditionFunc" where
  "isPodRunning ext podName namespace s =
     do { (r, s) \<leftarrow> Client_Get ext Pod_t \<lparr>NN_Namespace = namespace, NN_Name = podName\<rparr> s;
          Some (case r of
                  Inl err \<Rightarrow> (False, Some err)
                | Inr pod \<Rightarrow>
                    if Pod_Phase pod = PodRunning then (True, None)
                    else if Pod_Phase pod \<in> {PodFailed, PodSucceeded, PodPending, PodUnknown} then (False, Some ErrPodCompleted)
                    else (False, None), s) }"

definition isPodCompleted :: "'w ext \<Rightarrow> string \<Rightarrow> string \<Rightarrow> 'w ConditionFunc" where
  "isPodCompleted ext podName namespace s =
     do { (r, s) \<leftarrow> Client_Get ext Pod_t \<lparr>NN_Namespace = namespace, NN_Name = podName\<rparr> s;
          Some (case r of
                  Inl err \<Rightarrow> (False, Some err)
                | Inr pod \<Rightarrow>
                    if Pod_Phase pod = PodSucceeded then (True, None)
                    else if Pod_Phase pod \<in> {PodFailed, PodRunning, PodPending, PodUnknown} then (False, None)
                    else (False, None), s) }"

text \<open>
  The loop of \<open>wait.WaitFor\<close> over the next \<open>n\<close> ticks of the poller: \<open>Inr err\<close> when it has returned \<open>err\<close>,
  \<open>Inl ()\<close> when it is still waiting.
\<close>

fun wait_ticks :: "nat \<Rightarrow> 'w ConditionFunc \<Rightarrow> 'w st \<Rightarrow> ((unit + error option) \<times> 'w st) option" where
  "wait_ticks 0 fn s = Some (Inl (), s)"
| "wait_ticks (Suc n) fn s =
     do { ((ok, err), s) \<leftarrow> fn s;
          if err \<noteq> None then Some (Inr err, s)
          else if ok then Some (Inr None, s)
          else wait_ticks n fn s }"

text \<open>
  \<open>wait.PollImmediate\<close>: the condition once at once, then at each of the \<open>n\<close> ticks that come before the timeout,
  then once more when the poller closes its channel.
\<close>

definition PollImmediate :: "nat \<Rightarrow> 'w ConditionFunc \<Rightarrow> 'w st \<Rightarrow> (error option \<times> 'w st) option" where
  "PollImmediate n fn s =
     do { ((finished, err), s) \<leftarrow> fn s;
          if err \<noteq> None then Some (err, s)
          else if finished then Some (None, s)
          else do { (r, s) \<leftarrow> wait_ticks n fn s;
                    case r of
                      Inr err \<Rightarrow> Some (err, s)
                    | Inl _ \<Rightarrow>
                        do { ((ok, err), s) \<leftarrow> fn s;
                             if err \<noteq> None then Some (err, s)
                             else if ok then Some (None, s)
                             else Some (Some ErrWaitTimeout, s) } } }"

definition WaitForPodRunning :: "'w ext \<Rightarrow> nat \<Rightarrow> string \<Rightarrow> string \<Rightarrow> 'w st \<Rightarrow> (error option \<times> 'w st) option" where
  "WaitForPodRunning ext n podName namespace = PollImmediate n (isPodRunning ext podName namespace)"

text \<open>\<open>wait.PollUntil\<close> with a \<open>nil\<close> stop channel, after \<open>n\<close> ticks: no other way out than the condition.\<close>

definition WaitForPodIsCompleted ::
  "'w ext \<Rightarrow> nat \<Rightarrow> string \<Rightarrow> string \<Rightarrow> 'w st \<Rightarrow> ((unit + error option) \<times> 'w st) option" where
  "WaitForPodIsCompleted ext n podName namespace = wait_ticks n (isPodCompleted ext podName namespace)"

section \<open>Lemmas on waiting\<close>

text \<open>The answers to a request that is sent again and again, with nothing else in between.\<close>

fun world_after :: "'w ext \<Rightarrow> request \<Rightarrow> nat \<Rightarrow> 'w \<Rightarrow> 'w" where
  "world_after ext q 0 w = w"
| "world_after ext q (Suc k) w = world_after ext q k (snd (do_call ext q w))"

definition nth_answer :: "'w ext \<Rightarrow> request \<Rightarrow> nat \<Rightarrow> 'w \<Rightarrow> response" where
  "nth_answer ext q k w = fst (do_call ext q (world_after ext q k w))"

lemma nth_answer_simps [simp]:
  "nth_answer ext q 0 w = fst (do_call ext q w)"
  "nth_answer ext q (Suc k) w = nth_answer ext q k (snd (do_call ext q w))"
  by (simp_all add: nth_answer_def)

definition pod_request :: "string \<Rightarrow> string \<Rightarrow> request" where
  "pod_request namespace podName = GetReq K_Pod \<lparr>NN_Namespace = namespace, NN_Name = podName\<rparr>"

text \<open>A condition that is one lookup of a pod: what it concludes from the answer.\<close>

definition polls :: "'w ext \<Rightarrow> request \<Rightarrow> (response \<Rightarrow> bool \<times> error option) \<Rightarrow> 'w ConditionFunc \<Rightarrow> bool" where
  "polls ext q v fn \<longleftrightarrow> (\<forall>s. fn s = Some (v (fst (do_call ext q (world s))),
     s\<lparr>world := snd (do_call ext q (world s)), calls := calls s @ [q]\<rparr>))"

definition settles :: "bool \<times> error option \<Rightarrow> bool" where
  "settles v \<longleftrightarrow> fst v \<or> snd v \<noteq> None"

definition poll_states :: "'w ext \<Rightarrow> request \<Rightarrow> nat \<Rightarrow> 'w st \<Rightarrow> 'w st" where
  "poll_states ext q k s = s\<lparr>world := world_after ext q k (world s), calls := calls s @ replicate k q\<rparr>"

lemma poll_states_simps [simp]:
  "poll_states ext q 0 s = s" "calls (poll_states ext q k s) = calls s @ replicate k q"
  "events (poll_states ext q k s) = events s" "globals (poll_states ext q k s) = globals s"
  "world (poll_states ext q k s) = world_after ext q k (world s)"
  "poll_states ext q k (s\<lparr>world := snd (do_call ext q (world s)), calls := calls s @ [q]\<rparr>) = poll_states ext q (Suc k) s"
  by (simp_all add: poll_states_def)

lemma find_upt_Suc: "find P [0..<Suc n] = (if P 0 then Some 0 else map_option Suc (find (\<lambda>k. P (Suc k)) [0..<n]))"
proof -
  have "find P (map Suc xs) = map_option Suc (find (\<lambda>k. P (Suc k)) xs)" for xs
    by (induction xs) auto
  then show ?thesis unfolding upt_conv_Cons [OF zero_less_Suc] map_Suc_upt [symmetric] by simp
qed

lemma wait_ticks_polls:
  assumes "polls ext q v fn"
  shows "wait_ticks n fn s =
    (case find (\<lambda>k. settles (v (nth_answer ext q k (world s)))) [0..<n] of
       None \<Rightarrow> Some (Inl (), poll_states ext q n s)
     | Some k \<Rightarrow> Some (Inr (snd (v (nth_answer ext q k (world s)))), poll_states ext q (Suc k) s))"
proof (induction n arbitrary: s)
  case (Suc n)
  let ?v = "v (fst (do_call ext q (world s)))"
  let ?s = "s\<lparr>world := snd (do_call ext q (world s)), calls := calls s @ [q]\<rparr>"
  have step: "fn s = Some (?v, ?s)" using assms by (simp add: polls_def)
  have first: "poll_states ext q (Suc 0) s = ?s" by (simp add: poll_states_def)
  show ?case
  proof (cases "settles ?v")
    case True
    then show ?thesis
      unfolding find_upt_Suc by (auto simp: step first settles_def split: prod.split)
  next
    case False
    then have "wait_ticks (Suc n) fn s = wait_ticks n fn ?s"
      by (auto simp: step settles_def split: prod.split)
    with False Suc.IH [of ?s] show ?thesis
      unfolding find_upt_Suc by (simp split: option.split)
  qed
qed simp

lemma wait_ticks_snoc:
  "wait_ticks (Suc n) fn s =
     do { (r, s) \<leftarrow> wait_ticks n fn s; case r of Inl _ \<Rightarrow> wait_ticks 1 fn s | Inr err \<Rightarrow> Some (Inr err, s) }"
proof (induction n arbitrary: s)
  case (Suc n)
  show ?case
  proof (cases "fn s")
    case (Some p)
    then obtain ok err s1 where "fn s = Some ((ok, err), s1)" by (cases p) auto
    with Suc.IH [of s1] show ?thesis by simp
  qed simp
qed simp

lemma PollImmediate_ticks:
  "PollImmediate n fn s =
     do { (r, s) \<leftarrow> wait_ticks (Suc (Suc n)) fn s; Some (case r of Inl _ \<Rightarrow> Some ErrWaitTimeout | Inr err \<Rightarrow> err, s) }"
  unfolding PollImmediate_def wait_ticks.simps(2) [of "Suc n"] wait_ticks_snoc [of n]
  by (auto split: prod.split Option.bind_split sum.split)

lemma PollImmediate_polls:
  assumes "polls ext q v fn"
  shows "PollImmediate n fn s =
    (case find (\<lambda>k. settles (v (nth_answer ext q k (world s)))) [0..<Suc (Suc n)] of
       None \<Rightarrow> Some (Some ErrWaitTimeout, poll_states ext q (Suc (Suc n)) s)
     | Some k \<Rightarrow> Some (snd (v (nth_answer ext q k (world s))), poll_states ext q (Suc k) s))"
  unfolding PollImmediate_ticks wait_ticks_polls [OF assms]
  by (simp split: option.split)

definition completed_answer :: "response \<Rightarrow> bool \<times> error option" where
  "completed_answer r =
     (case decode (project Pod_t) r of Inl err \<Rightarrow> (False, Some err) | Inr pod \<Rightarrow> (Pod_Phase pod = PodSucceeded, None))"

definition running_answer :: "response \<Rightarrow> bool \<times> error option" where
  "running_answer r =
     (case decode (project Pod_t) r of
        Inl err \<Rightarrow> (False, Some err)
      | Inr pod \<Rightarrow>
          if Pod_Phase pod = PodRunning then (True, None)
          else if Pod_Phase pod \<in> {PodFailed, PodSucceeded, PodPending, PodUnknown} then (False, Some ErrPodCompleted)
          else (False, None))"

lemma isPodCompleted_polls: "polls ext (pod_request ns n) completed_answer (isPodCompleted ext n ns)"
  by (auto simp: polls_def isPodCompleted_def Client_Get_def call_eq completed_answer_def pod_request_def Pod_t_def
      split: sum.split)

lemma isPodRunning_polls: "polls ext (pod_request ns n) running_answer (isPodRunning ext n ns)"
  by (auto simp: polls_def isPodRunning_def Client_Get_def call_eq running_answer_def pod_request_def Pod_t_def
      split: sum.split)

lemmas WaitForPodIsCompleted_polls =
  wait_ticks_polls [OF isPodCompleted_polls, folded WaitForPodIsCompleted_def]
lemmas WaitForPodRunning_polls =
  PollImmediate_polls [OF isPodRunning_polls, folded WaitForPodRunning_def]

text \<open>What ends the wait for completion: an error, or a pod that has succeeded.\<close>

definition ends_wait :: "response \<Rightarrow> bool" where
  "ends_wait r \<longleftrightarrow> (case r of Returned (O_Pod pod) \<Rightarrow> Pod_Phase pod = PodSucceeded | _ \<Rightarrow> True)"

lemma settles_completed: "settles (completed_answer r) = ends_wait r"
  by (auto simp: settles_def completed_answer_def ends_wait_def Pod_t_def split: response.split object.split)

lemma WaitForPodIsCompleted_eq:
  "WaitForPodIsCompleted ext n podName ns s =
     (case find (\<lambda>k. ends_wait (nth_answer ext (pod_request ns podName) k (world s))) [0..<n] of
        None \<Rightarrow> Some (Inl (), poll_states ext (pod_request ns podName) n s)
      | Some k \<Rightarrow> Some (Inr (snd (completed_answer (nth_answer ext (pod_request ns podName) k (world s)))),
                      poll_states ext (pod_request ns podName) (Suc k) s))"
  by (simp add: WaitForPodIsCompleted_polls settles_completed)

lemma failed_pod_keeps_waiting: "Pod_Phase pod = PodFailed \<Longrightarrow> \<not> ends_wait (Returned (O_Pod pod))"
  by (simp add: ends_wait_def PodFailed_def PodSucceeded_def)

section \<open>Lemmas on the builder pod\<close>

text \<open>A request whose answer does not change when it is sent twice in a row.\<close>

definition stable_answer :: "'w ext \<Rightarrow> request \<Rightarrow> bool" where
  "stable_answer ext q \<longleftrightarrow> (\<forall>w. fst (do_call ext q (snd (do_call ext q w))) = fst (do_call ext q w))"

lemma getPushSecretName_again:
  assumes "stable_answer ext (ListReq K_Secret (InNamespace (image_namespace cr)))"
    and "getPushSecretName ext cr s = Some (r, s1)" and "getPushSecretName ext cr s1 = Some (r', s2)"
  shows "r' = r"
  using assms
  by (auto simp: getPushSecretName_def GetDockerBuilderSecretName_def Client_List_def call_eq Let_def stable_answer_def
      Secret_t_def split: if_splits)

lemma NewBuilderPod_parts:
  assumes "NewBuilderPod ext cr s = Some (pod, s')"
  obtains r s1 r' k args where "getPushSecretName ext cr s = Some (r, s1)" "getPushSecretName ext cr s1 = Some (r', s')"
    "Pod_Volumes (Pod_Spec pod) =
       base_builder_volumes cr @ (case push_secret r of None \<Rightarrow> [] | Some n \<Rightarrow> [secret_volume cr n])"
    "Pod_Containers (Pod_Spec pod) = [k]" "map Mount_Name (KC_VolumeMounts k) =
       map Vol_Name (base_builder_volumes cr @ (case push_secret r' of None \<Rightarrow> [] | Some n \<Rightarrow> [secret_volume cr n]))"
    "KC_Args k = Some args" "GetDestinationRepository (globals s) cr \<in> set args"
    "Pod_Meta pod = empty_meta\<lparr>Meta_Name := NameWithSuffixFormat (image_name cr) BuilderSuffix,
       Meta_Namespace := image_namespace cr\<rparr>"
proof -
  from assms obtain r s1 r' where r: "getPushSecretName ext cr s = Some (r, s1)" "getPushSecretName ext cr s1 = Some (r', s')"
    unfolding NewBuilderPod_def getVolumes_def getVolumesMounts_def Let_def
    by (auto elim!: bind_SomeE)
  with assms show ?thesis
    by (intro that [OF r])
      (auto simp: NewBuilderPod_def getVolumes_def getVolumesMounts_def getBuilderPod_def Let_def
        base_builder_volumes_def empty_volume_def builder_mount_def secret_volume_def GetDockerfileConfigMapName_def
        split: option.split)
qed

section \<open>Properties\<close>

text \<open>
  C24. The wait for the completion of the builder pod ends when, and only when, some answer of the server is an
  error or a pod that has succeeded: as there is no stop channel, a pod that has failed is polled for ever.
  Until the wait ends it sends one lookup of the pod per tick and does nothing else.
\<close>

theorem completion_wait_ends_iff:
  "((\<exists>n err s'. WaitForPodIsCompleted ext n podName ns s = Some (Inr err, s')) \<longleftrightarrow>
      (\<exists>k. ends_wait (nth_answer ext (pod_request ns podName) k (world s)))) \<and>
   (\<exists>r s' k. WaitForPodIsCompleted ext m podName ns s = Some (r, s') \<and> k \<le> m \<and> events s' = events s \<and>
      new_calls s s' = replicate k (pod_request ns podName))"
proof (rule conjI)
  show "(\<exists>n err s'. WaitForPodIsCompleted ext n podName ns s = Some (Inr err, s')) \<longleftrightarrow>
      (\<exists>k. ends_wait (nth_answer ext (pod_request ns podName) k (world s)))"
    unfolding WaitForPodIsCompleted_eq
    by (auto split: option.split simp: find_None_iff find_Some_iff intro: exI [of _ "Suc _"] dest: find_SomeD)
  show "\<exists>r s' k. WaitForPodIsCompleted ext m podName ns s = Some (r, s') \<and> k \<le> m \<and> events s' = events s \<and>
      new_calls s s' = replicate k (pod_request ns podName)"
  proof (cases "find (\<lambda>k. ends_wait (nth_answer ext (pod_request ns podName) k (world s))) [0..<m]")
    case None
    then show ?thesis unfolding WaitForPodIsCompleted_eq by (auto simp: new_calls_def)
  next
    case (Some k)
    then have "k < m" by (auto dest: find_SomeD)
    with Some show ?thesis
      unfolding WaitForPodIsCompleted_eq by (auto simp: new_calls_def intro!: exI [of _ "Suc k"])
  qed
qed

text \<open>
  The wait for a running pod always returns, after at least one and at most \<open>n + 2\<close> lookups of the pod when
  \<open>n\<close> ticks come before the timeout.
\<close>

theorem running_wait_bounded:
  "\<exists>err s' k. WaitForPodRunning ext n podName ns s = Some (err, s') \<and> 1 \<le> k \<and> k \<le> n + 2 \<and>
     new_calls s s' = replicate k (pod_request ns podName)"
proof (cases "find (\<lambda>k. settles (running_answer (nth_answer ext (pod_request ns podName) k (world s)))) [0..<Suc (Suc n)]")
  case None
  then show ?thesis
    unfolding WaitForPodRunning_polls
    by (auto simp: new_calls_def simp del: upt_Suc intro!: exI [of _ "Suc (Suc n)"])
next
  case (Some k)
  then have "k < Suc (Suc n)" by (auto dest!: find_SomeD simp del: upt_Suc)
  with Some show ?thesis
    unfolding WaitForPodRunning_polls by (auto simp: new_calls_def intro!: exI [of _ "Suc k"])
qed


section \<open>Concrete instances\<close>

definition sample_image :: JenkinsImage where
  "sample_image = \<lparr>JImage_Meta = empty_meta\<lparr>Meta_Name := ''img'', Meta_Namespace := ''ns''\<rparr>,
     JImage_Spec = \<lparr>ImageSpec_From = \<lparr>Image_Name = '''', Image_Tag = '''', Image_Registry = '''', Image_Secret = ''''\<rparr>,
       ImageSpec_To = \<lparr>Image_Name = '''', Image_Tag = '''', Image_Registry = '''', Image_Secret = ''''\<rparr>,
       ImageSpec_Plugins = [\<lparr>JenkinsPlugin_Name = ''git'', JenkinsPlugin_Version = ''4.0'', JenkinsPlugin_UpdateCenter = ''''\<rparr>],
       ImageSpec_DefaultUpdateCenter = ''''\<rparr>,
     JImage_Phase = '''', JImage_Builds = []\<rparr>"

definition builder_secret :: Secret where
  "builder_secret = \<lparr>Secret_Meta = empty_meta\<lparr>Meta_Name := ''builder-dockercfg'',
     Meta_Annotations := Some [(ServiceAccountNameAnnotation, ''builder'')]\<rparr>, Secret_Data = []\<rparr>"

lemma NewBuilderPod_total: "\<exists>pod s'. NewBuilderPod ext cr s = Some (pod, s')"
  by (simp add: NewBuilderPod_def getVolumes_def getVolumesMounts_def getPushSecretName_def
      GetDockerBuilderSecretName_def Client_List_def call_eq Let_def)


text \<open>
  A secret that appears between the two lookups is mounted without a volume.
\<close>

lemma builder_secret_race:
  "\<exists>pod s' k. NewBuilderPod script_ext sample_image (initial [Listed [], Listed [O_Secret builder_secret]]) = Some (pod, s') \<and>
     Pod_Containers (Pod_Spec pod) = [k] \<and>
     \<not> set (map Mount_Name (KC_VolumeMounts k)) \<subseteq> set (map Vol_Name (Pod_Volumes (Pod_Spec pod)))"
  by (simp add: NewBuilderPod_def getVolumes_def getVolumesMounts_def getPushSecretName_def sample_image_def
      GetDockerBuilderSecretName_def Client_List_def call_eq Let_def builder_secret_def Secret_t_def push_secret_def
      lookup_label_def range_of_def getBuilderPod_def base_builder_volumes_def builder_mount_def
      empty_volume_def NameWithSuffixFormat_def GetDockerfileConfigMapName_def image_name_def
      DockerfileStorageSuffix_def DockerfileNameSuffix_def DockerSecretSuffix_def)

end
