(* ===== verification/Image_Controller.thy ===== *)
theory Image_Controller
  imports Image_Builder Status_Update
begin

text \<open>
  \<open>controllers/jenkinsimage_controller.go\<close>: the config map and the builder pod of a JenkinsImage, and the goroutine
  that records the build.  A reconciliation returns, beside its result, the goroutine it starts, as the pod and the
  instance that it is given; how far such a goroutine is after \<open>n\<close> polls of the pod is the other operation.
\<close>

section \<open>Recording a build\<close>

definition YamlMultilineDataFieldCutSet :: string where
  "YamlMultilineDataFieldCutSet = ''|'' @ newline @ '' ''"

text \<open>A run of the goroutine: polling, stopped for ever at a channel operation, or at its end.\<close>

datatype goroutine = Polling | Blocked | Finished

text \<open>A send on a channel that may be \<open>nil\<close>: the argument says whether there is one.\<close>

definition send_event :: "bool \<Rightarrow> Event \<Rightarrow> 'w st \<Rightarrow> goroutine \<times> 'w st" where
  "send_event chan e s = (if chan then (Finished, send e s) else (Blocked, s))"

definition image_event :: "Reason \<Rightarrow> Event" where
  "image_event rsn = \<lparr>Event_Jenkins = zero_Jenkins, Event_Controller = BackupController,
     Event_Level = NotificationLevelInfo, Event_Reason = rsn\<rparr>"

text \<open>Both notifications read \<open>err.Error()\<close>, a panic when there is no error.\<close>

definition sendNewJenkinsImageBuildCompleteNotification ::
  "bool \<Rightarrow> JenkinsImage \<Rightarrow> error option \<Rightarrow> 'w st \<Rightarrow> (goroutine \<times> 'w st) option" where
  "sendNewJenkinsImageBuildCompleteNotification chan img err s =
     do { e \<leftarrow> err;
          Some (send_event chan (image_event (NewImageBuildCompleted OperatorSource
            [''JenkinsImage '' @ image_name img @ '' build completed in namespace '' @ [CHR 39] @ image_namespace img
             @ [CHR 39] @ '' with err '' @ error_string e] [])) s) }"

definition sendNewJenkinsImageBuildFailedNotification ::
  "bool \<Rightarrow> JenkinsImage \<Rightarrow> error option \<Rightarrow> 'w st \<Rightarrow> (goroutine \<times> 'w st) option" where
  "sendNewJenkinsImageBuildFailedNotification chan img err s =
     do { e \<leftarrow> err;
          Some (send_event chan (image_event (NewImageBuildFailed OperatorSource
            [''JenkinsImage '' @ image_name img @ '' build failed in namespace '' @ [CHR 39] @ image_namespace img
             @ [CHR 39] @ '' with err '' @ error_string e] [])) s) }"

definition getDockerfileContent :: "'w ext \<Rightarrow> JenkinsImage \<Rightarrow> 'w st \<Rightarrow> ((error + string) \<times> 'w st) option" where
  "getDockerfileContent ext img s =
     do { (r, s) \<leftarrow> Client_Get ext ConfigMap_t
            \<lparr>NN_Namespace = image_name img, NN_Name = GetDockerfileConfigMapName img\<rparr> s;
          Some (case r of
                  Inl err \<Rightarrow> Inl err
                | Inr cm \<Rightarrow> Inr (Trim YamlMultilineDataFieldCutSet
                    (case map_of (CM_Data cm) DockerfileName of None \<Rightarrow> '''' | Some v \<Rightarrow> v)), s) }"

fun contains :: "JenkinsImageBuild list \<Rightarrow> JenkinsImageBuild \<Rightarrow> bool" where
  "contains [] e = False"
| "contains (a # s) e = (if a = e then True else contains s e)"

text \<open>What is done once the pod has completed with the status of one terminated container.\<close>

definition record_build ::
  "'w ext \<Rightarrow> bool \<Rightarrow> string \<Rightarrow> JenkinsImage \<Rightarrow> 'w st \<Rightarrow> (goroutine \<times> 'w st) option" where
  "record_build ext chan message img s =
     do { let builtImage = Trim YamlMultilineDataFieldCutSet message;
          (r, s) \<leftarrow> getDockerfileContent ext img s;
          let dockerfileContent = (case r of Inl _ \<Rightarrow> '''' | Inr c \<Rightarrow> c);
          let dockerfileMD5 = Trim YamlMultilineDataFieldCutSet (md5_hex ext dockerfileContent);
          let build = \<lparr>Build_Image = builtImage, Build_MD5Sum = dockerfileMD5, Build_InstalledPlugins = ''''\<rparr>;
          if contains (JImage_Builds img) build then Some (Finished, s)
          else do { let img = img\<lparr>JImage_Builds := JImage_Builds img @ [build], JImage_Phase := ImageBuildSuccessful\<rparr>;
                    ((err, img), s) \<leftarrow> update_status ext JenkinsImage_t img s;
                    sendNewJenkinsImageBuildCompleteNotification chan img err s } }"

definition updateJenkinsImageStatusWhenPodIsCompleted ::
  "'w ext \<Rightarrow> bool \<Rightarrow> nat \<Rightarrow> Pod \<Rightarrow> JenkinsImage \<Rightarrow> 'w st \<Rightarrow> (goroutine \<times> 'w st) option" where
  "updateJenkinsImageStatusWhenPodIsCompleted ext chan n pod img s =
     do { (r, s) \<leftarrow> WaitForPodIsCompleted ext n (Meta_Name (Pod_Meta pod)) (Meta_Namespace (Pod_Meta pod)) s;
          case r of
            Inl _ \<Rightarrow> Some (Polling, s)
          | Inr err \<Rightarrow>
              (case (err, Pod_ContainerStatuses pod) of
                 (None, [status]) \<Rightarrow>
                   (case CStatus_Terminated status of
                      None \<Rightarrow> Some (Finished, s)
                    | Some message \<Rightarrow> record_build ext chan message img s)
               | _ \<Rightarrow> sendNewJenkinsImageBuildFailedNotification chan img err s) }"

section \<open>Reconcile\<close>

definition own_by_image :: "JenkinsImage \<Rightarrow> ObjectMeta \<Rightarrow> error + ObjectMeta" where
  "own_by_image img = SetControllerReference (JImage_Meta img) jenkins_apiVersion ''JenkinsImage''"

definition zero_Pod :: Pod where
  "zero_Pod = \<lparr>Pod_Meta = empty_meta, Pod_Spec = \<lparr>Pod_ServiceAccountName = '''', Pod_NodeSelector = None,
     Pod_InitContainers = [], Pod_Containers = [], Pod_Volumes = [], Pod_SecurityContext = '''', Pod_ImagePullSecrets = [],
     Pod_Tolerations = '''', Pod_PriorityClassName = '''', Pod_RestartPolicy = ''''\<rparr>,
     Pod_Phase = '''', Pod_ContainerStatuses = []\<rparr>"

type_synonym job = "Pod \<times> JenkinsImage"

text \<open>
  The builder pod: lines 103 to 128.  An error of the lookup that is not an absence counts as presence, of a pod
  with no name.
\<close>

definition ensure_builder_pod ::
  "'w ext \<Rightarrow> JenkinsImage \<Rightarrow> 'w st \<Rightarrow> (((Result \<times> error option) \<times> job option) \<times> 'w st) option" where
  "ensure_builder_pod ext img s =
     do { (pod, s) \<leftarrow> NewBuilderPod ext img s;
          case own_by_image img (Pod_Meta pod) of
            Inl err \<Rightarrow> Some (((requeue, Some err), None), s)
          | Inr meta \<Rightarrow>
              do { let pod = pod\<lparr>Pod_Meta := meta\<rparr>;
                   (r, s) \<leftarrow> Client_Get ext Pod_t
                     \<lparr>NN_Namespace = Meta_Namespace (Pod_Meta pod), NN_Name = Meta_Name (Pod_Meta pod)\<rparr> s;
                   case r of
                     Inr foundPod \<Rightarrow> Some (((no_requeue, None), Some (foundPod, img)), s)
                   | Inl err \<Rightarrow>
                       if IsNotFound err
                       then do { (r, s) \<leftarrow> Client_Create ext Pod_t pod s;
                                 Some (((no_requeue, case r of Inl err \<Rightarrow> Some err | Inr _ \<Rightarrow> None), None), s) }
                       else Some (((no_requeue, None), Some (zero_Pod, img)), s) } }"

definition JenkinsImage_Reconcile ::
  "'w ext \<Rightarrow> Request \<Rightarrow> 'w st \<Rightarrow> (((Result \<times> error option) \<times> job option) \<times> 'w st) option" where
  "JenkinsImage_Reconcile ext req s =
     do { (r, s) \<leftarrow> Client_Get ext JenkinsImage_t (Req_NamespacedName req) s;
          case r of
            Inl err \<Rightarrow> Some ((ignore_not_found err, None), s)
          | Inr img \<Rightarrow>
              do { let dockerfile = NewDockerfileConfigMap img;
                   case own_by_image img (CM_Meta dockerfile) of
                     Inl err \<Rightarrow> Some (((no_requeue, Some err), None), s)
                   | Inr meta \<Rightarrow>
                       do { let dockerfile = dockerfile\<lparr>CM_Meta := meta\<rparr>;
                            (r, s) \<leftarrow> Client_Get ext ConfigMap_t
                              \<lparr>NN_Namespace = Meta_Namespace (CM_Meta dockerfile), NN_Name = Meta_Name (CM_Meta dockerfile)\<rparr> s;
                            if (case r of Inl err \<Rightarrow> IsNotFound err | Inr _ \<Rightarrow> False)
                            then do { (r, s) \<leftarrow> Client_Create ext ConfigMap_t dockerfile s;
                                      Some (((no_requeue, case r of Inl err \<Rightarrow> Some err | Inr _ \<Rightarrow> None), None), s) }
                            else ensure_builder_pod ext img s } } }"

section \<open>Lemmas\<close>

lemma JenkinsImage_t_simps [simp]:
  "gokind JenkinsImage_t = K_JenkinsImage" "inject JenkinsImage_t x = O_JenkinsImage x"
  "inject Pod_t p = O_Pod p" "inject ConfigMap_t m = O_ConfigMap m"
  by (simp_all add: JenkinsImage_t_def Pod_t_def ConfigMap_t_def)

lemma contains_iff [simp]: "contains bs b \<longleftrightarrow> b \<in> set bs"
  by (induction bs) auto

definition image_ref :: "JenkinsImage \<Rightarrow> OwnerReference" where
  "image_ref img = NewControllerRef (JImage_Meta img) jenkins_apiVersion ''JenkinsImage''"

lemma own_by_image_fresh:
  "own_by_image img (empty_meta\<lparr>Meta_Name := n, Meta_Namespace := image_namespace img\<rparr>) =
     Inr (empty_meta\<lparr>Meta_Name := n, Meta_Namespace := image_namespace img, Meta_OwnerReferences := [image_ref img]\<rparr>)"
  by (simp add: own_by_image_def SetControllerReference_def Let_def image_namespace_def image_ref_def empty_meta_def)

lemma getDockerfileContent_ok:
  assumes "getDockerfileContent ext img s = Some (r, s')"
  shows "calls s' = calls s @ [GetReq K_ConfigMap \<lparr>NN_Namespace = image_name img, NN_Name = GetDockerfileConfigMapName img\<rparr>]"
    "events s' = events s"
  using assms by (auto simp: getDockerfileContent_def Client_Get_def call_eq ConfigMap_t_def)

text \<open>The Dockerfile is looked up in a namespace with the name of the image, not in the one it was created in.\<close>

lemma dockerfile_read_elsewhere:
  assumes "getDockerfileContent ext img s = Some (r, s')" and "image_name img \<noteq> image_namespace img"
  shows "GetReq K_ConfigMap \<lparr>NN_Namespace = Meta_Namespace (CM_Meta (NewDockerfileConfigMap img)),
    NN_Name = Meta_Name (CM_Meta (NewDockerfileConfigMap img))\<rparr> \<notin> set (new_calls s s')"
  using getDockerfileContent_ok(1) [OF assms(1)] assms(2) by (auto simp: new_calls_def NewDockerfileConfigMap_def)

lemma record_build_cases:
  assumes "record_build ext chan message img s = Some (r, s')"
  obtains (known) "r = Finished" "events s' = events s" "extends (\<lambda>q. \<exists>n. q = GetReq K_ConfigMap n) s s'"
    | (stored) img' e s1 s2 where "extends (\<lambda>q. \<exists>n. q = GetReq K_ConfigMap n) s s1" "events s1 = events s"
      "update_status ext JenkinsImage_t img' s1 = Some ((Some e, img'), s2)"
      "JImage_Phase img' = ImageBuildSuccessful" "\<exists>b. JImage_Builds img' = JImage_Builds img @ [b]"
      "sendNewJenkinsImageBuildCompleteNotification chan img' (Some e) s2 = Some (r, s')"
proof -
  from assms obtain c s1 where 1: "getDockerfileContent ext img s = Some (c, s1)"
    by (auto simp: record_build_def Let_def elim: bind_pairE)
  have log: "extends (\<lambda>q. \<exists>n. q = GetReq K_ConfigMap n) s s1" "events s1 = events s"
    using getDockerfileContent_ok [OF 1] by (auto simp: extends_def)
  let ?build = "\<lparr>Build_Image = Trim YamlMultilineDataFieldCutSet message,
      Build_MD5Sum = Trim YamlMultilineDataFieldCutSet (md5_hex ext (case c of Inl _ \<Rightarrow> '''' | Inr x \<Rightarrow> x)),
      Build_InstalledPlugins = ''''\<rparr>"
  let ?img = "img\<lparr>JImage_Builds := JImage_Builds img @ [?build], JImage_Phase := ImageBuildSuccessful\<rparr>"
  show ?thesis
  proof (cases "?build \<in> set (JImage_Builds img)")
    case True
    then have "r = Finished" "s' = s1" using assms by (simp_all add: record_build_def Let_def 1)
    with log known show ?thesis by simp
  next
    case False
    with assms obtain err img' s2 where 2: "update_status ext JenkinsImage_t ?img s1 = Some ((err, img'), s2)"
      and 3: "sendNewJenkinsImageBuildCompleteNotification chan img' err s2 = Some (r, s')"
      by (auto simp: record_build_def Let_def 1 elim!: bind_SomeE)
    from 3 obtain e where e: "err = Some e"
      by (auto simp: sendNewJenkinsImageBuildCompleteNotification_def elim: bind_SomeE)
    with 2 have "img' = ?img"
      by (auto simp: update_status_def Client_StatusUpdate_def call_eq split: sum.split_asm)
    with stored [OF log, of ?img e s2] 2 3 e show ?thesis by simp
  qed
qed

lemma update_status_failed:
  assumes "update_status ext JenkinsImage_t img s = Some ((Some e, img'), s')"
  shows "calls s' = calls s @ [StatusUpdateReq (O_JenkinsImage img)]" "events s' = events s"
    "\<And>img'. fst (do_call ext (StatusUpdateReq (O_JenkinsImage img)) (world s)) \<noteq> Returned (O_JenkinsImage img')"
  using assms ty_JenkinsImage.decode_Inr_iff [of "fst (do_call ext (StatusUpdateReq (O_JenkinsImage img)) (world s))"]
  by (auto simp: update_status_def Client_StatusUpdate_def call_eq split: sum.split_asm)

lemma send_event_ok:
  assumes "send_event chan e s = (r, s')"
  shows "calls s' = calls s" "r = (if chan then Finished else Blocked)" "events s' = (if chan then events s @ [e] else events s)"
  using assms by (auto simp: send_event_def split: if_splits)

lemma build_notifications_ok:
  "sendNewJenkinsImageBuildCompleteNotification chan img (Some e) s = Some (r, s') \<Longrightarrow>
     calls s' = calls s \<and> r = (if chan then Finished else Blocked) \<and> length (events s') = length (events s) + (if chan then 1 else 0)"
  "sendNewJenkinsImageBuildFailedNotification chan img err s = Some (r, s') \<Longrightarrow>
     calls s' = calls s \<and> r = (if chan then Finished else Blocked) \<and> length (events s') = length (events s) + (if chan then 1 else 0)
     \<and> err \<noteq> None"
  by (auto simp: sendNewJenkinsImageBuildCompleteNotification_def sendNewJenkinsImageBuildFailedNotification_def
      elim!: bind_SomeE dest: send_event_ok)

lemma wait_runs:
  assumes "WaitForPodIsCompleted ext n podName ns s = Some (r, s')"
  shows "\<exists>k. calls s' = calls s @ replicate k (pod_request ns podName)" "events s' = events s"
  using assms by (auto simp: WaitForPodIsCompleted_eq split: option.split_asm intro: exI [of _ "Suc _"])

lemma update_cases:
  assumes "updateJenkinsImageStatusWhenPodIsCompleted ext chan n pod img s = Some (r, s')"
  obtains (polling) "r = Polling" "\<exists>k. calls s' = calls s @ replicate k (pod_request (Meta_Namespace (Pod_Meta pod)) (Meta_Name (Pod_Meta pod)))"
    | (unterminated) c where "r = Finished" "Pod_ContainerStatuses pod = [c]" "CStatus_Terminated c = None"
      "\<exists>k. calls s' = calls s @ replicate k (pod_request (Meta_Namespace (Pod_Meta pod)) (Meta_Name (Pod_Meta pod)))"
    | (terminated) s1 message k where "record_build ext chan message img s1 = Some (r, s')" "events s1 = events s"
      "calls s1 = calls s @ replicate k (pod_request (Meta_Namespace (Pod_Meta pod)) (Meta_Name (Pod_Meta pod)))"
    | (failed) "r = (if chan then Finished else Blocked)"
      "\<exists>k. calls s' = calls s @ replicate k (pod_request (Meta_Namespace (Pod_Meta pod)) (Meta_Name (Pod_Meta pod)))"
proof -
  from assms obtain w s1
    where 1: "WaitForPodIsCompleted ext n (Meta_Name (Pod_Meta pod)) (Meta_Namespace (Pod_Meta pod)) s = Some (w, s1)"
    by (auto simp: updateJenkinsImageStatusWhenPodIsCompleted_def elim: bind_pairE)
  from wait_runs [OF 1] obtain k where log: "events s1 = events s"
    "calls s1 = calls s @ replicate k (pod_request (Meta_Namespace (Pod_Meta pod)) (Meta_Name (Pod_Meta pod)))"
    by blast
  show ?thesis
    using assms polling unterminated terminated [OF _ log] failed log(2)
    by (auto simp: updateJenkinsImageStatusWhenPodIsCompleted_def 1 split: sum.split_asm option.split_asm list.split_asm
        dest!: build_notifications_ok(2))
qed


lemma ensure_builder_pod_cases:
  assumes "ensure_builder_pod ext img s = Some (((res, err), started), s')"
  obtains (found) found where "started = Some (found, img)" "res = no_requeue" "err = None" "extends (\<lambda>q. \<not> is_create q) s s'"
    | (created) pod s2 where "started = None" "res = no_requeue" "extends (\<lambda>q. \<not> is_create q) s s2"
      "calls s' = calls s2 @ [CreateReq (O_Pod pod)]"
      "Pod_Meta pod = empty_meta\<lparr>Meta_Name := NameWithSuffixFormat (image_name img) BuilderSuffix,
         Meta_Namespace := image_namespace img, Meta_OwnerReferences := [image_ref img]\<rparr>"
proof -
  from assms obtain pod s1 where 1: "NewBuilderPod ext img s = Some (pod, s1)"
    by (auto simp: ensure_builder_pod_def elim: bind_pairE)
  have meta: "Pod_Meta pod = empty_meta\<lparr>Meta_Name := NameWithSuffixFormat (image_name img) BuilderSuffix,
      Meta_Namespace := image_namespace img\<rparr>"
    by (rule NewBuilderPod_parts [OF 1])
  have reads: "extends (\<lambda>q. \<not> is_create q) t t'" if "getPushSecretName ext img t = Some (x, t')" for t t' x
    using that by (auto simp: getPushSecretName_def GetDockerBuilderSecretName_def Client_List_def call_eq Let_def
        extends_def split: if_split_asm)
  have 2: "extends (\<lambda>q. \<not> is_create q) s s1"
    by (rule NewBuilderPod_parts [OF 1]) (blast intro: extends_trans reads)
  obtain r s2 where 3: "Client_Get ext Pod_t \<lparr>NN_Namespace = image_namespace img,
      NN_Name = NameWithSuffixFormat (image_name img) BuilderSuffix\<rparr> s1 = Some (r, s2)"
    by (simp add: Client_Get_def call_eq)
  then have "extends (\<lambda>q. \<not> is_create q) s1 s2"
    by (auto simp: Client_Get_def call_eq extends_def)
  with 2 have log: "extends (\<lambda>q. \<not> is_create q) s s2" by (rule extends_trans)
  show ?thesis
  proof (cases "\<exists>e. r = Inl e \<and> IsNotFound e")
    case True
    with assms have "started = None" "res = no_requeue" "calls s' = calls s2 @ [CreateReq (O_Pod (pod\<lparr>Pod_Meta :=
        empty_meta\<lparr>Meta_Name := NameWithSuffixFormat (image_name img) BuilderSuffix,
         Meta_Namespace := image_namespace img, Meta_OwnerReferences := [image_ref img]\<rparr>\<rparr>))]"
      by (auto simp: ensure_builder_pod_def 1 3 meta own_by_image_fresh Let_def Client_Create_def call_eq)
    then show ?thesis using created [OF _ _ log] by simp
  next
    case False
    with assms obtain found' where "started = Some (found', img)" "res = no_requeue" "err = None" "s' = s2"
      by (auto simp: ensure_builder_pod_def 1 3 meta own_by_image_fresh Let_def split: sum.split_asm)
    then show ?thesis using found log by simp
  qed
qed

section \<open>Properties\<close>




section \<open>Concrete instances\<close>

definition completed_pod :: Pod where
  "completed_pod = zero_Pod\<lparr>Pod_Meta := empty_meta\<lparr>Meta_Name := ''img-builder'', Meta_Namespace := ''ns''\<rparr>,
     Pod_Phase := PodSucceeded,
     Pod_ContainerStatuses := [\<lparr>CStatus_Name = JenkinsImageBuilderName, CStatus_Terminated = Some ''sha256:0''\<rparr>]\<rparr>"

text \<open>A server with the completed pod and no config map; the argument answers the status update.\<close>

definition image_world :: "response \<Rightarrow> unit ext" where
  "image_world r = table_ext (\<lambda>q. case q of
       GetReq k _ \<Rightarrow> if k = K_Pod then Returned (O_Pod completed_pod)
         else if k = K_JenkinsImage then Returned (O_JenkinsImage sample_image) else Failed (ApiError NotFound '''')
     | StatusUpdateReq obj \<Rightarrow> r
     | ListReq _ _ \<Rightarrow> Listed []
     | CreateReq obj \<Rightarrow> Returned obj
     | _ \<Rightarrow> Done)"

lemma image_world_simps [simp]:
  "do_call (image_world r) q w = ((case q of
       GetReq k _ \<Rightarrow> if k = K_Pod then Returned (O_Pod completed_pod)
         else if k = K_JenkinsImage then Returned (O_JenkinsImage sample_image) else Failed (ApiError NotFound '''')
     | StatusUpdateReq obj \<Rightarrow> r
     | ListReq _ _ \<Rightarrow> Listed []
     | CreateReq obj \<Rightarrow> Returned obj
     | _ \<Rightarrow> Done), w)"
  by (simp add: image_world_def table_ext_def)

definition stored_image :: JenkinsImage where
  "stored_image = sample_image\<lparr>JImage_Builds := [\<lparr>Build_Image = ''sha256:0'', Build_MD5Sum = ''00'', Build_InstalledPlugins = ''''\<rparr>],
     JImage_Phase := ImageBuildSuccessful\<rparr>"

lemma image_world_waits:
  "\<exists>s'. WaitForPodIsCompleted (image_world r) 1 n ns s = Some (Inr None, s') \<and> calls s' = calls s @ [pod_request ns n]"
  by (simp add: WaitForPodIsCompleted_eq pod_request_def ends_wait_def completed_pod_def completed_answer_def Pod_t_def)

lemma image_world_md5: "md5_hex (image_world r) c = ''00''"
  by (simp add: image_world_def table_ext_def)

lemma image_world_trims:
  "Trim YamlMultilineDataFieldCutSet ''sha256:0'' = ''sha256:0''" "Trim YamlMultilineDataFieldCutSet ''00'' = ''00''"
  by code_simp+

lemma image_world_record:
  "record_build (image_world r) chan ''sha256:0'' sample_image s =
     do { let s = s\<lparr>world := (), calls := calls s @ [GetReq K_ConfigMap (nn ''img'' ''img-dockerfile''),
              StatusUpdateReq (O_JenkinsImage stored_image)]\<rparr>;
          sendNewJenkinsImageBuildCompleteNotification chan
            (case decode (project JenkinsImage_t) r of Inl _ \<Rightarrow> stored_image | Inr x \<Rightarrow> x)
            (case decode (project JenkinsImage_t) r of Inl e \<Rightarrow> Some e | Inr _ \<Rightarrow> None) s }"
  by (simp add: record_build_def getDockerfileContent_def Client_Get_def call_eq update_status_def Client_StatusUpdate_def
      stored_image_def sample_image_def image_name_def GetDockerfileConfigMapName_def NameWithSuffixFormat_def
      DockerfileNameSuffix_def nn_def Let_def ConfigMap_t_def image_world_trims image_world_md5 split: sum.split)

text \<open>A server that accepts the update makes the goroutine panic; one that refuses it, block.\<close>

lemma accepted_build_panics:
  "updateJenkinsImageStatusWhenPodIsCompleted (image_world (Returned (O_JenkinsImage x))) chan 1 completed_pod sample_image
     (initial ()) = None"
proof -
  obtain s' where "WaitForPodIsCompleted (image_world (Returned (O_JenkinsImage x))) 1 (Meta_Name (Pod_Meta completed_pod))
      (Meta_Namespace (Pod_Meta completed_pod)) (initial ()) = Some (Inr None, s')"
    using image_world_waits by blast
  then show ?thesis
    by (simp add: updateJenkinsImageStatusWhenPodIsCompleted_def image_world_record Let_def completed_pod_def
        sendNewJenkinsImageBuildCompleteNotification_def JenkinsImage_t_def)
qed



end
