(* ===== verification/Process_Frame.thy ===== *)
theory Process_Frame
  imports Jenkins_Controller Restore_Controller Volume_Controller Image_Controller
begin

text \<open>
  What every handler of the operator leaves alone.  The locale \<open>process_frame\<close> states a contract for a predicate on
  the state of the process: it survives the primitives of the model, that is a request other than a discovery or the
  deletion of anything but a role binding for an extra role, the clock, a notification, and a change of the package variables that are
  not about the cluster.  Every handler then keeps such a predicate, by rules that follow the shape of its
  definition.
\<close>

section \<open>Programs that end in a state with a property\<close>

definition yields :: "('w st \<Rightarrow> bool) \<Rightarrow> ('a \<times> 'w st) option \<Rightarrow> bool" where
  "yields I m \<longleftrightarrow> (\<forall>x s'. m = Some (x, s') \<longrightarrow> I s')"

lemma yieldsD: "yields I m \<Longrightarrow> m = Some (x, s') \<Longrightarrow> I s'"
  by (auto simp: yields_def)

lemma yields_None: "yields I None"
  by (simp add: yields_def)

lemma yields_Some: "I s \<Longrightarrow> yields I (Some (x, s))"
  by (simp add: yields_def)

lemma yields_bind: "yields I m \<Longrightarrow> (\<And>x s. I s \<Longrightarrow> yields I (f x s)) \<Longrightarrow> yields I (Option.bind m (case_prod f))"
  by (auto simp: yields_def Option.bind_eq_Some_conv)

lemma yields_bind_pure: "(\<And>x. m = Some x \<Longrightarrow> yields I (f x)) \<Longrightarrow> yields I (Option.bind m f)"
  by (auto simp: yields_def Option.bind_eq_Some_conv)

lemma yields_prod:
  "(\<And>u v. yields I (f u v)) \<Longrightarrow> yields I (case_prod f x)"
  "(\<And>u v. yields I (g u v a)) \<Longrightarrow> yields I (case_prod g x a)"
  "(\<And>u v. yields I (h u v a b)) \<Longrightarrow> yields I (case_prod h x a b)"
  by (simp_all split: prod.split)

lemma yields_if: "(P \<Longrightarrow> yields I m) \<Longrightarrow> (\<not> P \<Longrightarrow> yields I n) \<Longrightarrow> yields I (if P then m else n)"
  by simp

lemma yields_option: "(x = None \<Longrightarrow> yields I m) \<Longrightarrow> (\<And>y. x = Some y \<Longrightarrow> yields I (f y)) \<Longrightarrow> yields I (case_option m f x)"
  by (simp split: option.split)

lemma yields_sum: "(\<And>y. x = Inl y \<Longrightarrow> yields I (f y)) \<Longrightarrow> (\<And>y. x = Inr y \<Longrightarrow> yields I (g y)) \<Longrightarrow> yields I (case_sum f g x)"
  by (simp split: sum.split)

lemma yields_list: "(x = [] \<Longrightarrow> yields I m) \<Longrightarrow> (\<And>y ys. x = y # ys \<Longrightarrow> yields I (f y ys)) \<Longrightarrow> yields I (case_list m f x)"
  by (simp split: list.split)

lemma yields_Some_cases:
  "(\<And>y. x = Inl y \<Longrightarrow> yields I (Some (p y))) \<Longrightarrow> (\<And>y. x = Inr y \<Longrightarrow> yields I (Some (q y))) \<Longrightarrow> yields I (Some (case_sum p q x))"
  "(z = None \<Longrightarrow> yields I (Some r)) \<Longrightarrow> (\<And>y. z = Some y \<Longrightarrow> yields I (Some (t y))) \<Longrightarrow> yields I (Some (case_option r t z))"
  "(P \<Longrightarrow> yields I (Some c)) \<Longrightarrow> (\<not> P \<Longrightarrow> yields I (Some d)) \<Longrightarrow> yields I (Some (if P then c else d))"
  by (simp_all split: sum.split option.split)

lemmas yields_rules = yields_Some_cases yields_None yields_Some yields_bind yields_prod yields_if yields_option
  yields_sum yields_list

lemma yields_checked: "yields I m \<Longrightarrow> (\<And>c s. I s \<Longrightarrow> yields I (k c s)) \<Longrightarrow> yields I (checked m k)"
  unfolding checked_def by (intro yields_rules)

lemma yields_keeping: "yields I m \<Longrightarrow> yields I (keeping c m)"
  unfolding keeping_def by (intro yields_rules)

lemma yields_stacked: "yields I m \<Longrightarrow> yields I (stacked m)"
  unfolding stacked_def by (intro yields_rules)

lemma yields_retry: "(\<And>c s. I s \<Longrightarrow> yields I (fn c s)) \<Longrightarrow> I s \<Longrightarrow> yields I (RetryOnConflict n fn c s)"
  by (induction n arbitrary: c s) (auto intro!: yields_rules)

lemma yields_for_messages:
  "(\<And>x s. I s \<Longrightarrow> yields I (check x s)) \<Longrightarrow> I s \<Longrightarrow> yields I (for_messages check xs messages s)"
  by (induction xs arbitrary: messages s) (auto intro!: yields_rules)

section \<open>The contract\<close>

text \<open>What the program knows about the cluster.\<close>

definition cluster_facts :: "Globals \<Rightarrow> (bool \<times> bool) \<times> (bool \<times> bool) \<times> (bool \<times> bool) \<times> Proxy \<times> bool \<times> bool" where
  "cluster_facts g = ((RouteAPIChecked g, RouteAPIAvailable g), (PrometheusAPIChecked g, PrometheusAPIAvailable g),
     (ProxyAPIChecked g, ProxyAPIAvailable g), GlobalProxy g, imageRegistryAlreadyChecked g, isImageRegistryAvailable g)"

text \<open>A role binding with the name of one for an extra role of some Jenkins.\<close>

definition extra_binding :: "object \<Rightarrow> bool" where
  "extra_binding obj \<longleftrightarrow> (\<exists>rb j. obj = O_RoleBinding rb \<and> has_extra_prefix j rb)"

definition harmless :: "request \<Rightarrow> bool" where
  "harmless q = (case q of ServerSupportsVersionReq _ _ \<Rightarrow> False | DeleteReq obj \<Rightarrow> extra_binding obj | _ \<Rightarrow> True)"

lemma harmless_simps [simp]:
  "harmless (GetReq k n)" "harmless (ListReq k opts)" "harmless (CreateReq obj)" "harmless (UpdateReq obj)"
  "harmless (StatusUpdateReq obj)" "harmless (DeleteReq obj) = extra_binding obj" "harmless (BuildConfigReq c)"
  "harmless (NewForConfigReq o1)" "harmless (NewSPDYExecutorReq a b c cmd)" "harmless (StreamReq a b c cmd)"
  "\<not> harmless (ServerSupportsVersionReq a b)"
  by (simp_all add: harmless_def)

locale process_frame =
  fixes ext :: "'w ext" and I :: "'w st \<Rightarrow> bool"
  assumes after_call: "I s \<Longrightarrow> harmless q \<Longrightarrow> I (s\<lparr>world := w, calls := calls s @ [q]\<rparr>)"
    and after_world: "I s \<Longrightarrow> I (s\<lparr>world := w\<rparr>)"
    and after_send: "I s \<Longrightarrow> I (send e s)"
    and after_globals: "I s \<Longrightarrow> cluster_facts g = cluster_facts (globals s) \<Longrightarrow> I (s\<lparr>globals := g\<rparr>)"
begin

lemma frame_call: "I s \<Longrightarrow> harmless q \<Longrightarrow> yields I (call ext q s)"
  by (simp add: call_eq yields_Some after_call)

lemma frame_client:
  assumes "I s"
  shows "yields I (Client_Get ext T n s)" "yields I (Client_List ext T opts s)" "yields I (Client_Create ext T x s)"
    "yields I (Client_Update ext T x s)" "yields I (Client_StatusUpdate ext T x s)"
    "extra_binding obj \<Longrightarrow> yields I (Client_Delete ext obj s)" "yields I (Now ext s)"
  using assms
  by (simp_all add: Client_Get_def Client_List_def Client_Create_def Client_Update_def Client_StatusUpdate_def
      Client_Delete_def Now_eq call_eq yields_Some after_call after_world)

lemma frame_configuration:
  assumes "I s"
  shows "yields I (CreateResource ext U j y s)" "yields I (UpdateResource ext U j y s)"
    "yields I (CreateOrUpdateResource ext U j y s)" "yields I (GetJenkinsDeployment ext j s)"
    "yields I (GetPodByDeployment ext j s)"
  unfolding CreateResource_def UpdateResource_def CreateOrUpdateResource_def GetJenkinsDeployment_def
    GetPodByDeployment_def GetReplicaSetByDeployment_def Let_def
  by ((intro yields_rules frame_client | rule yields_bind_pure | rule assms | assumption)+)

lemma frame_status:
  assumes "I s"
  shows "yields I (set_condition ext conds put x t st rsn s)" "yields I (update_status ext T x s)"
    "yields I (record_condition ext T conds put x t st rsn s)"
  unfolding set_condition_def update_status_def record_condition_def Let_def
  by ((intro yields_rules frame_client | rule assms | assumption)+)

lemma frame_exec:
  assumes "I s"
  shows "yields I (InitKubeGoClient ext e s)" "yields I (MakeRequest ext e pod script s)"
  unfolding InitKubeGoClient_def BuildConfigFromFlags_def MakeRequest_def newScriptRequest_def runPodExec_def
    stream_in_backup_def Let_def
  by ((intro yields_rules frame_call harmless_simps | rule yields_bind_pure | rule assms | assumption)+)

lemmas frame_steps = frame_client frame_configuration frame_status frame_exec after_send

end

section \<open>Backups, restores and backup volumes\<close>

context process_frame
begin

lemma frame_backup_loop: "I s \<Longrightarrow> yields I (backup_loop ext e pod loc sls b s)"
  by (induction sls arbitrary: b s)
    (simp_all only: backup_loop.simps Let_def record_backup_def, (intro yields_rules frame_steps | assumption)+)

lemma frame_backup_parts:
  assumes "I s"
  shows "yields I (performJenkinsQuietDown ext e pod b s)" "yields I (performJenkinsCancelQuietDown ext e pod b s)"
    "yields I (performJenkinsBackup ext e pod b strategy s)"
  unfolding performJenkinsQuietDown_def performJenkinsCancelQuietDown_def performJenkinsBackup_def record_backup_def Let_def
  by ((intro yields_rules frame_steps frame_backup_loop | rule assms | assumption)+)

lemma frame_backup_stages:
  assumes "I s"
  shows "yields I (quietDown_stage ext e pod j strategy b s)" "yields I (cancelQuietDown_stage ext e pod j strategy b s)"
  unfolding quietDown_stage_def cancelQuietDown_stage_def sendNewBackupInProgressNotification_def
  by ((intro yields_rules frame_steps frame_backup_parts | rule assms | assumption)+)

lemma frame_run_backup: "I s \<Longrightarrow> yields I (run_backup ext e pod j strategy b s)"
  unfolding run_backup_def record_backup_def sendNewBackupInProgressNotification_def
    sendNewBackupCompletedNotification_def Let_def
  by ((intro yields_rules frame_steps frame_backup_parts frame_backup_stages | assumption)+)

lemma frame_Backup_Reconcile: "I s \<Longrightarrow> yields I (Backup_Reconcile ext req s)"
  unfolding Backup_Reconcile_def Backup_GetPodByDeployment_eq record_backup_def Let_def
  by ((intro yields_rules frame_steps frame_run_backup | assumption)+)

lemma frame_restore_loop: "I s \<Longrightarrow> yields I (restore_loop ext e pod b sls x s)"
  by (induction sls arbitrary: x s)
    (simp_all only: restore_loop.simps Let_def record_restore_def, (intro yields_rules frame_steps | assumption)+)

lemma frame_restore_parts:
  assumes "I s"
  shows "yields I (performJenkinsRestart ext e pod x s)" "yields I (performJenkinsSafeRestart ext e pod x s)"
    "yields I (performJenkinsRestore ext e pod b strategy x s)"
  unfolding performJenkinsRestart_def performJenkinsSafeRestart_def performJenkinsRestore_def record_restore_def
    note_restore_def Let_def
  by ((intro yields_rules frame_steps frame_restore_loop | rule assms | assumption)+)

lemma frame_run_restore: "I s \<Longrightarrow> yields I (run_restore ext e pod j b strategy x s)"
  unfolding run_restore_def restart_stage_def record_restore_def sendNewRestoreInProgressNotification_def
    sendNewRestoreCompletedNotification_def Let_def
  by ((intro yields_rules frame_steps frame_restore_parts | assumption)+)

lemma frame_Restore_Reconcile: "I s \<Longrightarrow> yields I (Restore_Reconcile ext req s)"
  unfolding Restore_Reconcile_def Restore_GetPodByDeployment_eq record_restore_def Let_def
  by ((intro yields_rules frame_steps frame_run_restore | assumption)+)

lemma frame_BackupVolume_Reconcile: "I s \<Longrightarrow> yields I (BackupVolume_Reconcile ext req s)"
  unfolding BackupVolume_Reconcile_def create_claim_def record_volume_def Let_def
  by ((intro yields_rules frame_steps | rule yields_bind_pure | assumption)+)

end

section \<open>Images\<close>

context process_frame
begin

lemma frame_push_secret: "I s \<Longrightarrow> yields I (getPushSecretName ext img s)"
  unfolding getPushSecretName_def GetDockerBuilderSecretName_def Let_def
  by ((intro yields_rules frame_steps | assumption)+)

lemma frame_NewBuilderPod: "I s \<Longrightarrow> yields I (NewBuilderPod ext img s)"
  unfolding NewBuilderPod_def getVolumes_def getVolumesMounts_def Let_def
  by ((intro yields_rules frame_push_secret | assumption)+)

lemma frame_JenkinsImage_Reconcile: "I s \<Longrightarrow> yields I (JenkinsImage_Reconcile ext req s)"
  unfolding JenkinsImage_Reconcile_def ensure_builder_pod_def Let_def
  by ((intro yields_rules frame_steps frame_NewBuilderPod | assumption)+)

lemma frame_wait: "(\<And>s. I s \<Longrightarrow> yields I (fn s)) \<Longrightarrow> I s \<Longrightarrow> yields I (wait_ticks n fn s)"
  by (induction n arbitrary: s) (simp_all only: wait_ticks.simps, (intro yields_rules | assumption | blast)+)

lemma frame_job: "I s \<Longrightarrow> yields I (updateJenkinsImageStatusWhenPodIsCompleted ext chan n pod img s)"
  unfolding updateJenkinsImageStatusWhenPodIsCompleted_def WaitForPodIsCompleted_def isPodCompleted_def record_build_def
    getDockerfileContent_def sendNewJenkinsImageBuildCompleteNotification_def
    sendNewJenkinsImageBuildFailedNotification_def send_event_def Let_def
  by ((intro yields_rules frame_steps frame_wait | rule yields_bind_pure | assumption)+)

end

section \<open>The Jenkins controller\<close>

text \<open>Building the deployment changes no more than the cached proxy variables.\<close>

lemma cluster_facts_simps [simp]:
  "cluster_facts (g\<lparr>reconcileErrors := r\<rparr>) = cluster_facts g"
  "cluster_facts (g\<lparr>defaultConfigMap := cm\<rparr>) = cluster_facts g"
  "cluster_facts (g\<lparr>ProxyEnvVars := es\<rparr>) = cluster_facts g"
  by (simp_all add: cluster_facts_def)

lemma NewJenkinsMasterContainer_facts:
  "NewJenkinsMasterContainer j g = Some (k, g') \<Longrightarrow> cluster_facts g' = cluster_facts g"
  unfolding NewJenkinsMasterContainer_def Let_def by (elim bind_SomeE) (clarsimp split: if_split)

lemma NewJenkinsDeployment_facts:
  assumes "NewJenkinsDeployment ext meta j spec g = Some (d, g')"
  shows "cluster_facts g' = cluster_facts g"
proof -
  from assms obtain cs where "newContainers ext j spec g = Some (cs, g')"
    by (auto simp: NewJenkinsDeployment_def Let_def elim!: bind_SomeE)
  then show ?thesis
    by (auto simp: newContainers_def elim!: bind_SomeE dest: NewJenkinsMasterContainer_facts)
qed

context process_frame
begin

lemma frame_set_globals: "I s \<Longrightarrow> cluster_facts (f (globals s)) = cluster_facts (globals s) \<Longrightarrow> I (set_globals f s)"
  by (simp add: set_globals_def after_globals)

lemma frame_setDefaults: "I s \<Longrightarrow> yields I (setDefaults api ext j s)"
  unfolding setDefaults_def getCalculatedSpec_def master_image_def default_roles_def GetDefaultRoleBinding_def Let_def
  by ((intro yields_rules frame_steps | rule yields_bind_pure | assumption)+)

lemma frame_ensure_claim: "I s \<Longrightarrow> yields I (ensure_claim ext pspec c n s)"
  unfolding ensure_claim_def Let_def
  by ((intro yields_rules frame_steps | rule yields_bind_pure | assumption)+)

lemma frame_validate_volume: "I s \<Longrightarrow> yields I (validate_volume ext j v s)"
  unfolding validate_volume_def validateConfigMapVolume_def validateSecretVolume_def validatePersistentVolumeClaim_def Let_def
  by ((intro yields_rules frame_steps | rule yields_bind_pure | assumption)+)

lemma frame_check_config_maps: "I s \<Longrightarrow> yields I (check_config_maps ext j n i refs s)"
  by (induction refs arbitrary: i s)
    (simp_all only: check_config_maps.simps Let_def, (intro yields_rules frame_steps | assumption)+)

lemma frame_set_default: "I s \<Longrightarrow> I (set_default cm s)"
  by (simp add: set_default_def frame_set_globals)

lemma frame_validateConfiguration: "I s \<Longrightarrow> yields I (validateConfiguration ext j casc n s)"
  unfolding validateConfiguration_def check_secret_def ensure_default_config_def proxy_stage_def
    CreateJenkinsProxyConfigMap_def Let_def
  by ((intro yields_rules frame_steps frame_check_config_maps frame_set_default | rule yields_bind_pure | assumption)+)

lemma frame_Validate: "I s \<Longrightarrow> yields I (Validate ord keys ext j j' s)"
  unfolding Validate_def validateVolumes_def Let_def
  by ((intro yields_rules yields_for_messages frame_validate_volume frame_validateConfiguration
      | rule yields_bind_pure | assumption)+)

lemma frame_randomString: "I s \<Longrightarrow> yields I (randomString ext n s)"
  by (induction n arbitrary: s)
    (simp_all only: randomString.simps Let_def, (intro yields_rules after_world | assumption | blast intro: after_world)+)

lemma frame_secret: "I s \<Longrightarrow> yields I (NewOperatorCredentialsSecret ext meta j s)"
  unfolding NewOperatorCredentialsSecret_def
  by ((intro yields_rules frame_randomString | assumption)+)

lemma frame_config_maps:
  assumes "I s"
  shows "yields I (createScriptsConfigMap ext meta j s)" "yields I (createInitConfigurationConfigMap ext meta j s)"
    "yields I (createBasePluginsConfigMap ext meta j s)" "yields I (createOperatorCredentialsSecret ext meta j s)"
  unfolding createScriptsConfigMap_def createInitConfigurationConfigMap_def createBasePluginsConfigMap_def
    createOperatorCredentialsSecret_def write_config_map_def
  by ((intro yields_rules frame_steps frame_secret | rule yields_bind_pure | rule assms | assumption)+)

lemma frame_write_bindings: "I s \<Longrightarrow> yields I (write_role_bindings ext j roles s)"
  by (induction roles arbitrary: s)
    (simp_all only: write_role_bindings.simps, (intro yields_rules frame_steps | assumption)+)

lemma frame_delete_bindings: "I s \<Longrightarrow> yields I (delete_role_bindings ext j roles rbs s)"
  by (induction rbs arbitrary: s)
    (simp_all only: delete_role_bindings.simps,
      (intro yields_rules frame_steps | assumption | force simp: extra_binding_def)+)

lemma frame_createRBAC: "I s \<Longrightarrow> yields I (createRBAC_step ext meta j s)"
  unfolding createRBAC_step_def createRBAC_def createServiceAccount_def Let_def
  by ((intro yields_checked yields_keeping yields_stacked yields_rules frame_steps | assumption)+)

lemma frame_ensureExtraRBAC: "I s \<Longrightarrow> yields I (ensureExtraRBACArePresent ext j s)"
  unfolding ensureExtraRBACArePresent_def Let_def
  by ((intro yields_rules frame_steps frame_write_bindings frame_delete_bindings | rule yields_bind_pure | assumption)+)

lemma frame_services:
  assumes "I s"
  shows "yields I (createService_step ext meta j n config s)" "yields I (ensure_monitor ext j s)"
    "yields I (ensure_route ext meta n j s)"
  unfolding createService_step_def createService_def refresh_service_def ensure_monitor_def createServiceMonitor_def
    update_monitor_def ensure_route_def createRoute_def Let_def
  by ((intro yields_rules yields_retry frame_steps | rule yields_bind_pure | rule assms | assumption)+)

lemma frame_resources: "I s \<Longrightarrow> yields I (ensureResourcesRequiredForJenkinsDeploymentArePresent ext j s)"
  unfolding ensureResourcesRequiredForJenkinsDeploymentArePresent_def resource_steps_def Let_def
  by ((intro yields_rules yields_checked yields_keeping frame_config_maps frame_createRBAC frame_ensureExtraRBAC
      frame_services | assumption)+)

lemma frame_put_globals:
  "I s \<Longrightarrow> NewJenkinsDeployment ext meta j spec (globals s) = Some (d, g) \<Longrightarrow> I (put_globals g s)"
  by (simp add: put_globals_def after_globals NewJenkinsDeployment_facts)

lemma frame_create_deployment: 
  assumes "I s" 
  shows "yields I (create_deployment ext meta j s)"
proof (cases "Option.bind (status_spec j) (\<lambda>spec. NewJenkinsDeployment ext meta j spec (globals s))")
  case (Some dg)
  then obtain spec d g where spec: "status_spec j = Some spec"
    and d: "NewJenkinsDeployment ext meta j spec (globals s) = Some (d, g)"
    by (cases dg) (auto elim!: bind_SomeE)
  have "I (put_globals g s)" by (rule frame_put_globals [OF assms d])
  then show ?thesis
    unfolding create_deployment_def spec bind.bind_lunit Option.bind.simps d prod.case Let_def
      sendDeploymentCreationNotification_def sendSuccessfulDeploymentCreationNotification_def
    by ((intro yields_rules frame_steps | assumption)+)
qed (auto simp: create_deployment_def yields_None split: Option.bind_splits)

lemma frame_base_Reconcile: "I s \<Longrightarrow> yields I (base_Reconcile ext j s)"
  unfolding base_Reconcile_def ensureJenkinsDeploymentIsPresent_def ensureJenkinsDeploymentIsReady_def Let_def
  by ((intro yields_rules frame_steps frame_resources frame_create_deployment | rule yields_bind_pure | assumption)+)

end

context process_frame
begin

lemma frame_set_status_condition: "I s \<Longrightarrow> yields I (set_status_condition ext c j s)"
  unfolding set_status_condition_def Let_def
  by ((intro yields_rules frame_steps | rule yields_bind_pure | assumption)+)

lemma frame_set_status_conditions: "I s \<Longrightarrow> yields I (set_status_conditions ext cs j s)"
  by (induction cs arbitrary: j s)
    (simp_all only: set_status_conditions.simps,
      (intro yields_rules frame_set_status_condition | assumption | blast)+)

lemma frame_updateJenkinsStatus: "I s \<Longrightarrow> yields I (updateJenkinsStatus ext j n s)"
  unfolding updateJenkinsStatus_def put_status_def setStatusConditions_def
  by ((intro yields_rules frame_steps frame_set_status_conditions | assumption)+)

lemma frame_loop_failed: "I s \<Longrightarrow> I (snd (loop_failed request j e s))"
  by (auto simp: loop_failed_def Let_def sendReconcileLoopFailedNotification_def intro!: after_send frame_set_globals)

lemma frame_finish: "I s \<Longrightarrow> yields I (finish_reconcile ext request answer outer j s)"
  unfolding finish_reconcile_def setReconcileFailedStatus_def put_status_def setStatusConditions_def
  by (intro yields_rules frame_steps frame_set_status_condition frame_set_status_conditions frame_updateJenkinsStatus
      | assumption)+
    (auto simp: yields_def Let_def split_beta intro: frame_loop_failed)

lemma frame_reconcile: "I s \<Longrightarrow> yields I (reconcile api ord keys ext request j s)"
  unfolding reconcile_def reconcile_validated_def reconcile_base_def sendNewConfigurationFailedNotification_def
    sendNewJenkinsUpdateNotification_def Let_def
  by ((intro yields_rules frame_steps frame_setDefaults frame_ensure_claim frame_Validate frame_base_Reconcile
      | rule yields_bind_pure | assumption)+)

lemma frame_Jenkins_Reconcile: "I s \<Longrightarrow> yields I (Jenkins_Reconcile api ord keys ext request s)"
  unfolding Jenkins_Reconcile_def setInitialConditions_def Let_def
  by ((intro yields_rules frame_steps frame_set_status_conditions frame_updateJenkinsStatus frame_reconcile frame_finish
      | assumption)+)

lemmas frame_handlers = frame_Jenkins_Reconcile frame_Backup_Reconcile frame_Restore_Reconcile
  frame_BackupVolume_Reconcile frame_JenkinsImage_Reconcile frame_job

end

section \<open>The instance\<close>

text \<open>A run since \<open>s0\<close> that has sent harmless requests only and still knows what it knew about the cluster.\<close>

definition undisturbed :: "'w st \<Rightarrow> 'w st \<Rightarrow> bool" where
  "undisturbed s0 s \<longleftrightarrow> extends harmless s0 s \<and> cluster_facts (globals s) = cluster_facts (globals s0)"

lemma undisturbed_refl [simp, intro]: "undisturbed s s"
  by (simp add: undisturbed_def)

lemma undisturbed_trans: "undisturbed s t \<Longrightarrow> undisturbed t u \<Longrightarrow> undisturbed s u"
  by (auto simp: undisturbed_def intro: extends_trans)

interpretation run_frame: process_frame ext "undisturbed s0" for ext :: "'w ext" and s0 :: "'w st"
  by unfold_locales (auto simp: undisturbed_def extends_def send_def)

end
