(* ===== verification/Operator.thy ===== *)
theory Operator
  imports Process_Frame
begin

text \<open>
  \<open>main.go\<close>: what the process does before its controllers start, and the process as a whole.  A step of the
  process is one run of a handler, or of a goroutine of the image controller for some number of polls; a run is not
  divided further, so what is shown here is about sequences of runs, in any order and for any requests.
\<close>

section \<open>Startup\<close>

definition watchNamespaceEnvVar :: string where "watchNamespaceEnvVar = ''WATCH_NAMESPACE''"

definition getWatchNamespace :: "'w ext \<Rightarrow> string" where
  "getWatchNamespace ext = (case getenv ext watchNamespaceEnvVar of None \<Rightarrow> '''' | Some ns \<Rightarrow> ns)"

record Options =
  Opt_MetricsBindAddress :: string
  Opt_Port :: int
  Opt_LeaderElection :: bool
  Opt_LeaderElectionID :: string
  Opt_Namespace :: string

text \<open>The flags of the command line, where they are given.\<close>

record Flags =
  Flag_metrics_addr :: "string option"
  Flag_enable_leader_election :: "bool option"

text \<open>The variables of \<open>parseFlags\<close> when it returns: its parameters are copies of those of \<open>main\<close>.\<close>

definition parseFlags :: "Flags \<Rightarrow> string \<Rightarrow> bool \<Rightarrow> string \<times> bool" where
  "parseFlags flags metricsAddr enableLeaderElection =
     (case Flag_metrics_addr flags of None \<Rightarrow> '':8080'' | Some a \<Rightarrow> a,
      case Flag_enable_leader_election flags of None \<Rightarrow> False | Some b \<Rightarrow> b)"

definition startManager :: "'w ext \<Rightarrow> string \<Rightarrow> bool \<Rightarrow> Options" where
  "startManager ext metricsAddr enableLeaderElection =
     \<lparr>Opt_MetricsBindAddress = metricsAddr, Opt_Port = 9443, Opt_LeaderElection = enableLeaderElection,
      Opt_LeaderElectionID = ''9cf053ac.jenkins.io'', Opt_Namespace = getWatchNamespace ext\<rparr>"

definition checkAvailableFeatures :: "'w ext \<Rightarrow> 'w st \<Rightarrow> (unit \<times> 'w st) option" where
  "checkAvailableFeatures ext s = do { (_, s) \<leftarrow> IsImageRegistryAvailable ext s; Some ((), s) }"

definition checkRouteAPIAvailable :: "'w ext \<Rightarrow> 'w st \<Rightarrow> (unit \<times> 'w st) option" where
  "checkRouteAPIAvailable ext s = do { (_, s) \<leftarrow> IsRouteAPIAvailable ext s; Some ((), s) }"

definition checkPrometheusAPIAvailable :: "'w ext \<Rightarrow> 'w st \<Rightarrow> (unit \<times> 'w st) option" where
  "checkPrometheusAPIAvailable ext s = do { (_, s) \<leftarrow> IsPrometheusAPIAvailable ext s; Some ((), s) }"

definition checkProxyAPIAvailable :: "'w ext \<Rightarrow> 'w st \<Rightarrow> (unit \<times> 'w st) option" where
  "checkProxyAPIAvailable ext s =
     do { (available, s) \<leftarrow> IsOpenshiftProxyAPIAvailable ext s;
          if available then do { (_, s) \<leftarrow> QueryProxyConfig ext s; Some ((), s) } else Some ((), s) }"

datatype controller = C_Jenkins | C_JenkinsImage | C_Backup | C_Restore | C_BackupVolume

text \<open>A reconciler: whether its field \<open>NotificationEvents\<close> holds a channel.\<close>

record Reconciler =
  Rec_controller :: controller
  Rec_NotificationEvents :: bool

definition newJenkinsReconciler :: "bool \<Rightarrow> Reconciler" where
  "newJenkinsReconciler channel = \<lparr>Rec_controller = C_Jenkins, Rec_NotificationEvents = channel\<rparr>"
definition newJenkinsImageRenconciler :: Reconciler where
  "newJenkinsImageRenconciler = \<lparr>Rec_controller = C_JenkinsImage, Rec_NotificationEvents = False\<rparr>"
definition newJenkinsBackupRenconciler :: "bool \<Rightarrow> Reconciler" where
  "newJenkinsBackupRenconciler eventChan = \<lparr>Rec_controller = C_Backup, Rec_NotificationEvents = eventChan\<rparr>"
definition newJenkinsRestoreRenconciler :: "bool \<Rightarrow> Reconciler" where
  "newJenkinsRestoreRenconciler eventChan = \<lparr>Rec_controller = C_Restore, Rec_NotificationEvents = eventChan\<rparr>"
definition newBackupVolumeRenconciler :: "bool \<Rightarrow> Reconciler" where
  "newBackupVolumeRenconciler eventChan = \<lparr>Rec_controller = C_BackupVolume, Rec_NotificationEvents = eventChan\<rparr>"

text \<open>
  \<open>main\<close> up to the start of the manager: the options of the manager, and the controllers that are set up.  The
  connections to the cluster, whose failure ends the process, are taken as made.
\<close>

definition startup :: "'w ext \<Rightarrow> Flags \<Rightarrow> 'w st \<Rightarrow> ((Options \<times> Reconciler list) \<times> 'w st) option" where
  "startup ext flags s =
     do { let metricsAddr = '''';
          let enableLeaderElection = False;
          let _ = parseFlags flags metricsAddr enableLeaderElection;
          let options = startManager ext metricsAddr enableLeaderElection;
          (_, s) \<leftarrow> checkAvailableFeatures ext s;
          (_, s) \<leftarrow> checkRouteAPIAvailable ext s;
          (_, s) \<leftarrow> checkPrometheusAPIAvailable ext s;
          (_, s) \<leftarrow> checkProxyAPIAvailable ext s;
          Some ((options, [newJenkinsReconciler True, newJenkinsImageRenconciler, newJenkinsBackupRenconciler True,
                           newJenkinsRestoreRenconciler True, newBackupVolumeRenconciler True]), s) }"

section \<open>The process\<close>

text \<open>The state of the process and the goroutines of the image controller that have not ended.\<close>

record 'w process =
  Proc_state :: "'w st"
  Proc_jobs :: "job list"

text \<open>A reconciliation of a request, or the next \<open>n\<close> polls of the goroutine at a position.\<close>

datatype trigger = Reconcile controller Request | Resume nat nat

definition put_state :: "'w st \<Rightarrow> 'w process \<Rightarrow> 'w process" where
  "put_state s x = x\<lparr>Proc_state := s\<rparr>"

text \<open>What a trigger makes of the process; \<open>None\<close> is a panic, which ends the process.\<close>

definition reconcile_trigger ::
  "JenkinsAPIConnectionSettings \<Rightarrow> (Plugin list gomap \<Rightarrow> Plugin list gomap) \<Rightarrow> (Plugin list \<Rightarrow> Plugin list) \<Rightarrow>
   'w ext \<Rightarrow> controller \<Rightarrow> Request \<Rightarrow> 'w process \<Rightarrow> 'w process option" where
  "reconcile_trigger api ord keys ext c req x =
     (let s = Proc_state x in
      case c of
        C_Jenkins \<Rightarrow> map_option (\<lambda>(_, s). put_state s x) (Jenkins_Reconcile api ord keys ext req s)
      | C_Backup \<Rightarrow> map_option (\<lambda>(_, s). put_state s x) (Backup_Reconcile ext req s)
      | C_Restore \<Rightarrow> map_option (\<lambda>(_, s). put_state s x) (Restore_Reconcile ext req s)
      | C_BackupVolume \<Rightarrow> map_option (\<lambda>(_, s). put_state s x) (BackupVolume_Reconcile ext req s)
      | C_JenkinsImage \<Rightarrow>
          map_option (\<lambda>((_, started), s). (put_state s x)\<lparr>Proc_jobs := Proc_jobs x @
              (case started of None \<Rightarrow> [] | Some work \<Rightarrow> [work])\<rparr>)
            (JenkinsImage_Reconcile ext req s))"

definition resume_trigger :: "'w ext \<Rightarrow> nat \<Rightarrow> nat \<Rightarrow> 'w process \<Rightarrow> 'w process option" where
  "resume_trigger ext k n x =
     (if k < length (Proc_jobs x)
      then map_option (\<lambda>(g, s). (put_state s x)\<lparr>Proc_jobs :=
               if g = Polling then Proc_jobs x else take k (Proc_jobs x) @ drop (Suc k) (Proc_jobs x)\<rparr>)
             (updateJenkinsImageStatusWhenPodIsCompleted ext (Rec_NotificationEvents newJenkinsImageRenconciler) n
                (fst (Proc_jobs x ! k)) (snd (Proc_jobs x ! k)) (Proc_state x))
      else Some x)"

fun handle_trigger ::
  "JenkinsAPIConnectionSettings \<Rightarrow> (Plugin list gomap \<Rightarrow> Plugin list gomap) \<Rightarrow> (Plugin list \<Rightarrow> Plugin list) \<Rightarrow>
   'w ext \<Rightarrow> trigger \<Rightarrow> 'w process \<Rightarrow> 'w process option" where
  "handle_trigger api ord keys ext (Reconcile c req) x = reconcile_trigger api ord keys ext c req x"
| "handle_trigger api ord keys ext (Resume k n) x = resume_trigger ext k n x"

text \<open>The states a started process comes to.\<close>

inductive reaches ::
  "JenkinsAPIConnectionSettings \<Rightarrow> (Plugin list gomap \<Rightarrow> Plugin list gomap) \<Rightarrow> (Plugin list \<Rightarrow> Plugin list) \<Rightarrow>
   'w ext \<Rightarrow> 'w process \<Rightarrow> 'w process \<Rightarrow> bool" for api ord keys ext x where
  started: "reaches api ord keys ext x x"
| handled: "reaches api ord keys ext x y \<Longrightarrow> handle_trigger api ord keys ext t y = Some z \<Longrightarrow> reaches api ord keys ext x z"

inductive_cases reachesE: "reaches api ord keys ext x y"

definition started_process :: "'w st \<Rightarrow> 'w process" where
  "started_process s = \<lparr>Proc_state = s, Proc_jobs = []\<rparr>"

section \<open>Lemmas\<close>

lemma put_state_simps [simp]: "Proc_state (put_state s x) = s" "Proc_jobs (put_state s x) = Proc_jobs x"
  by (simp_all add: put_state_def)

lemmas handlers_undisturbed = run_frame.frame_Jenkins_Reconcile [OF undisturbed_refl, THEN yieldsD]
  run_frame.frame_Backup_Reconcile [OF undisturbed_refl, THEN yieldsD]
  run_frame.frame_Restore_Reconcile [OF undisturbed_refl, THEN yieldsD]
  run_frame.frame_BackupVolume_Reconcile [OF undisturbed_refl, THEN yieldsD]
  run_frame.frame_JenkinsImage_Reconcile [OF undisturbed_refl, THEN yieldsD]
  run_frame.frame_job [OF undisturbed_refl, THEN yieldsD]

lemma handle_trigger_undisturbed:
  assumes "handle_trigger api ord keys ext t x = Some y"
  shows "undisturbed (Proc_state x) (Proc_state y)"
proof (cases t)
  case (Reconcile c req)
  with assms show ?thesis
    by (cases c) (auto simp: reconcile_trigger_def Let_def dest: handlers_undisturbed)
next
  case (Resume k n)
  with assms show ?thesis
    by (auto simp: resume_trigger_def split: if_split_asm dest: handlers_undisturbed)
qed

lemma reaches_undisturbed: "reaches api ord keys ext x y \<Longrightarrow> undisturbed (Proc_state x) (Proc_state y)"
  by (induction rule: reaches.induct) (auto dest: handle_trigger_undisturbed intro: undisturbed_trans)

text \<open>What the startup leaves in the package variables, and the controllers and options it ends with.\<close>

lemma QueryProxyConfig_checks:
  "QueryProxyConfig ext s = Some (e, s') \<Longrightarrow>
     (RouteAPIChecked (globals s'), PrometheusAPIChecked (globals s'), ProxyAPIChecked (globals s'))
       = (RouteAPIChecked (globals s), PrometheusAPIChecked (globals s), ProxyAPIChecked (globals s))"
  by (auto simp: QueryProxyConfig_def Client_Get_def call_eq split: sum.splits)

lemma api_check_runs:
  "\<exists>a s'. IsRouteAPIAvailable ext s = Some (a, s') \<and> RouteAPIChecked (globals s')"
  "\<exists>a s'. IsPrometheusAPIAvailable ext s = Some (a, s') \<and> PrometheusAPIChecked (globals s') \<and>
     RouteAPIChecked (globals s') = RouteAPIChecked (globals s)"
  "\<exists>a s'. IsOpenshiftProxyAPIAvailable ext s = Some (a, s') \<and> ProxyAPIChecked (globals s') \<and>
     RouteAPIChecked (globals s') = RouteAPIChecked (globals s) \<and>
     PrometheusAPIChecked (globals s') = PrometheusAPIChecked (globals s)"
  by (auto simp: IsRouteAPIAvailable_def IsPrometheusAPIAvailable_def IsOpenshiftProxyAPIAvailable_def
      ServerSupportsVersion_def call_eq Let_def)

lemma IsImageRegistryAvailable_total: "\<exists>a s'. IsImageRegistryAvailable ext s = Some (a, s')"
  by (auto simp: IsImageRegistryAvailable_def Client_Get_def call_eq Let_def split: sum.split)

lemma QueryProxyConfig_total: "\<exists>e s'. QueryProxyConfig ext s = Some (e, s')"
  by (auto simp: QueryProxyConfig_def Client_Get_def call_eq split: sum.split)

definition all_checked :: "Globals \<Rightarrow> bool" where
  "all_checked g \<longleftrightarrow> RouteAPIChecked g \<and> PrometheusAPIChecked g \<and> ProxyAPIChecked g"

definition all_reconcilers :: "Reconciler list" where
  "all_reconcilers = [newJenkinsReconciler True, newJenkinsImageRenconciler, newJenkinsBackupRenconciler True,
     newJenkinsRestoreRenconciler True, newBackupVolumeRenconciler True]"

lemma startup_runs:
  "\<exists>s'. startup ext flags s = Some ((startManager ext '''' False, all_reconcilers), s') \<and> all_checked (globals s')"
proof -
  obtain a s1 where 1: "IsImageRegistryAvailable ext s = Some (a, s1)"
    using IsImageRegistryAvailable_total by blast
  obtain b s2 where 2: "IsRouteAPIAvailable ext s1 = Some (b, s2)" "RouteAPIChecked (globals s2)"
    using api_check_runs(1) by blast
  obtain c s3 where 3: "IsPrometheusAPIAvailable ext s2 = Some (c, s3)" "PrometheusAPIChecked (globals s3)"
    "RouteAPIChecked (globals s3)"
    using api_check_runs(2) [of ext s2] 2(2) by blast
  obtain d s4 where 4: "IsOpenshiftProxyAPIAvailable ext s3 = Some (d, s4)" "all_checked (globals s4)"
    using api_check_runs(3) [of ext s3] 3(2,3) unfolding all_checked_def by blast
  obtain e s5 where 5: "QueryProxyConfig ext s4 = Some (e, s5)" using QueryProxyConfig_total by blast
  show ?thesis
    using QueryProxyConfig_checks [OF 5] 4(2)
    by (cases d) (simp_all add: startup_def checkAvailableFeatures_def checkRouteAPIAvailable_def
        checkPrometheusAPIAvailable_def checkProxyAPIAvailable_def Let_def 1 2 3 4 5 all_checked_def all_reconcilers_def)
qed

text \<open>
  The two flags of the command line have no effect: \<open>parseFlags\<close> sets its own copies, so the manager always starts
  without leader election and with the default address of the metrics.
\<close>

lemma flags_have_no_effect:
  "startup ext flags s = Some ((options, reconcilers), s') \<Longrightarrow>
     \<not> Opt_LeaderElection options \<and> Opt_MetricsBindAddress options = ''''"
  using startup_runs [of ext flags s] by (auto simp: startManager_def)

lemma parseFlags_reads_flags:
  "parseFlags \<lparr>Flag_metrics_addr = Some a, Flag_enable_leader_election = Some b\<rparr> x y = (a, b)"
  by (simp add: parseFlags_def)

lemma undisturbed_answers:
  assumes "all_checked (globals s0)" and "undisturbed s0 s"
  shows "IsRouteAPIAvailable ext s = Some (RouteAPIAvailable (globals s0), s)"
    and "IsPrometheusAPIAvailable ext s = Some (PrometheusAPIAvailable (globals s0), s)"
    and "IsOpenshiftProxyAPIAvailable ext s = Some (ProxyAPIAvailable (globals s0), s)"
  using assms
  by (simp_all add: all_checked_def undisturbed_def cluster_facts_def IsRouteAPIAvailable_def
      IsPrometheusAPIAvailable_def IsOpenshiftProxyAPIAvailable_def)

section \<open>Properties\<close>

text \<open>
  C9. What the operator may do to a cluster over its life: in every state the process comes to after its startup, for any controllers, requests, polls of the image goroutines and answers of the server, the
  three API checks answer what the startup found, without a request; no discovery request has been sent since, and
  nothing has been deleted but role bindings with the name of an extra role binding.
\<close>

theorem process_keeps_cluster_facts:
  assumes "startup ext flags s = Some (setup, s1)"
    and "reaches api ord keys ext (started_process s1) x"
  shows "IsRouteAPIAvailable ext (Proc_state x) = Some (RouteAPIAvailable (globals s1), Proc_state x) \<and>
    IsPrometheusAPIAvailable ext (Proc_state x) = Some (PrometheusAPIAvailable (globals s1), Proc_state x) \<and>
    IsOpenshiftProxyAPIAvailable ext (Proc_state x) = Some (ProxyAPIAvailable (globals s1), Proc_state x) \<and>
    (\<exists>new. calls (Proc_state x) = calls s1 @ new \<and>
       (\<forall>q \<in> set new. (\<forall>g v. q \<noteq> ServerSupportsVersionReq g v) \<and> (\<forall>obj. q = DeleteReq obj \<longrightarrow> extra_binding obj)))"
proof -
  have checked: "all_checked (globals s1)"
    using startup_runs [of ext flags s] assms(1) by auto
  have und: "undisturbed s1 (Proc_state x)"
    using reaches_undisturbed [OF assms(2)] by (simp add: started_process_def)
  then obtain new where new: "calls (Proc_state x) = calls s1 @ new" "list_all harmless new"
    by (auto simp: undisturbed_def extends_def)
  have "\<forall>q \<in> set new. (\<forall>g v. q \<noteq> ServerSupportsVersionReq g v) \<and> (\<forall>obj. q = DeleteReq obj \<longrightarrow> extra_binding obj)"
    using new(2) by (auto simp: list_all_iff)
  with new(1) undisturbed_answers [OF checked und] show ?thesis by blast
qed

text \<open>A cluster without any object: a request for a backup that is gone, after the startup.\<close>

definition empty_cluster :: "unit ext" where
  "empty_cluster = table_ext (\<lambda>_. Failed (ApiError NotFound ''''))"

lemma empty_cluster_gets: "Client_Get empty_cluster T n s =
    Some (Inl (ApiError NotFound ''''), s\<lparr>calls := calls s @ [GetReq (gokind T) n]\<rparr>)"
  by (cases s) (simp add: Client_Get_def call_eq empty_cluster_def)

lemma empty_cluster_backup:
  "\<exists>s'. Backup_Reconcile empty_cluster req s = Some ((no_requeue, None), s') \<and>
     calls s' = calls s @ [GetReq K_Backup (Req_NamespacedName req)]"
  by (simp add: Backup_Reconcile_def empty_cluster_gets ignore_not_found_def Let_def)

theorem process_keeps_cluster_facts_witness:
  "\<exists>setup s1 (x :: unit process) api. startup empty_cluster
       \<lparr>Flag_metrics_addr = None, Flag_enable_leader_election = Some True\<rparr> (initial ()) = Some (setup, s1) \<and>
     reaches api id id empty_cluster (started_process s1) x \<and>
     calls (Proc_state x) = calls s1 @ [GetReq K_Backup (nn ''ns'' ''b'')] \<and>
     IsRouteAPIAvailable empty_cluster (Proc_state x) = Some (RouteAPIAvailable (globals s1), Proc_state x)"
proof -
  let ?flags = "\<lparr>Flag_metrics_addr = None, Flag_enable_leader_election = Some True\<rparr>"
  let ?req = "\<lparr>Req_NamespacedName = nn ''ns'' ''b''\<rparr>"
  fix api
  obtain s1 where 1: "startup empty_cluster ?flags (initial ()) = Some ((startManager empty_cluster '''' False, all_reconcilers), s1)"
    using startup_runs by blast
  obtain s2 where 2: "Backup_Reconcile empty_cluster ?req s1 = Some ((no_requeue, None), s2)"
    "calls s2 = calls s1 @ [GetReq K_Backup (nn ''ns'' ''b'')]"
    using empty_cluster_backup [of ?req s1] by auto
  have "handle_trigger api id id empty_cluster (Reconcile C_Backup ?req) (started_process s1)
      = Some (put_state s2 (started_process s1))"
    by (simp add: reconcile_trigger_def started_process_def Let_def 2(1))
  then have r: "reaches api id id empty_cluster (started_process s1) (put_state s2 (started_process s1))"
    by (blast intro: reaches.intros)
  from process_keeps_cluster_facts [OF 1 r] 1 r 2(2) show ?thesis by auto
qed

end
