(* ===== verification/Watches.thy ===== *)
theory Watches
  imports Operator
begin

text \<open>
  Which requests a change in the cluster makes: the methods \<open>SetupWithManager\<close> of the controllers, and what
  controller-runtime makes of them (\<open>builder/controller.go\<close>, \<open>handler/enqueue.go\<close>, \<open>handler/enqueue_owner.go\<close>,
  \<open>predicate/predicate.go\<close>).  A controller watches the kind it is for and the kinds it owns; an event of an object of
  the first kind asks for this object, one of the other kinds for the owner that controls the object.  All custom
  resources of the operator lie in namespaces, and the mapping of their kinds is taken as found.
\<close>

section \<open>Events of the cluster\<close>

datatype watch_event = Created object | Updated object object | Deleted object

section \<open>What the controllers watch\<close>

record watch =
  Watch_For :: kind
  Watch_KindName :: string
  Watch_Owns :: "kind list"
  Watch_GenerationChanged :: bool

definition Jenkins_watch :: watch where
  "Jenkins_watch = \<lparr>Watch_For = K_Jenkins, Watch_KindName = ''Jenkins'',
     Watch_Owns = [K_Service, K_ConfigMap, K_Deployment, K_RoleBinding], Watch_GenerationChanged = True\<rparr>"
definition JenkinsImage_watch :: watch where
  "JenkinsImage_watch = \<lparr>Watch_For = K_JenkinsImage, Watch_KindName = ''JenkinsImage'',
     Watch_Owns = [K_Pod, K_ConfigMap, K_Secret], Watch_GenerationChanged = False\<rparr>"
definition Backup_watch :: watch where
  "Backup_watch = \<lparr>Watch_For = K_Backup, Watch_KindName = ''Backup'', Watch_Owns = [], Watch_GenerationChanged = False\<rparr>"
definition Restore_watch :: watch where
  "Restore_watch = \<lparr>Watch_For = K_Restore, Watch_KindName = ''Restore'', Watch_Owns = [], Watch_GenerationChanged = False\<rparr>"
definition BackupVolume_watch :: watch where
  "BackupVolume_watch = \<lparr>Watch_For = K_BackupVolume, Watch_KindName = ''BackupVolume'', Watch_Owns = [K_PVC],
     Watch_GenerationChanged = False\<rparr>"

lemmas watch_defs = Jenkins_watch_def JenkinsImage_watch_def Backup_watch_def Restore_watch_def BackupVolume_watch_def

fun SetupWithManager :: "controller \<Rightarrow> watch" where
  "SetupWithManager C_Jenkins = Jenkins_watch"
| "SetupWithManager C_JenkinsImage = JenkinsImage_watch"
| "SetupWithManager C_Backup = Backup_watch"
| "SetupWithManager C_Restore = Restore_watch"
| "SetupWithManager C_BackupVolume = BackupVolume_watch"

text \<open>\<open>GenerationChangedPredicate\<close>; \<open>gen\<close> reads the generation, which the server keeps in the metadata.\<close>

fun predicate_passes :: "(ObjectMeta \<Rightarrow> int) \<Rightarrow> watch_event \<Rightarrow> bool" where
  "predicate_passes gen (Updated old new) = (gen (object_meta new) \<noteq> gen (object_meta old))"
| "predicate_passes gen _ = True"

definition EnqueueRequestForObject :: "object \<Rightarrow> Request list" where
  "EnqueueRequestForObject obj =
     [\<lparr>Req_NamespacedName = nn (Meta_Namespace (object_meta obj)) (Meta_Name (object_meta obj))\<rparr>]"

definition GetControllerOf :: "ObjectMeta \<Rightarrow> OwnerReference option" where
  "GetControllerOf m = find (\<lambda>r. Ref_Controller r = Some True) (Meta_OwnerReferences m)"

definition EnqueueRequestForOwner :: "string \<Rightarrow> object \<Rightarrow> Request list" where
  "EnqueueRequestForOwner kindName obj =
     (case GetControllerOf (object_meta obj) of
        None \<Rightarrow> []
      | Some ref \<Rightarrow>
          (case ParseGroupVersion (Ref_APIVersion ref) of
             None \<Rightarrow> []
           | Some (grp, version) \<Rightarrow>
               if Ref_Kind ref = kindName \<and> grp = ''jenkins.io''
               then [\<lparr>Req_NamespacedName = nn (Meta_Namespace (object_meta obj)) (Ref_Name ref)\<rparr>] else []))"

definition handle_object :: "watch \<Rightarrow> object \<Rightarrow> Request list" where
  "handle_object w obj =
     (if kind_of obj = Watch_For w then EnqueueRequestForObject obj else []) @
     (if kind_of obj \<in> set (Watch_Owns w) then EnqueueRequestForOwner (Watch_KindName w) obj else [])"

fun event_objects :: "watch_event \<Rightarrow> object list" where
  "event_objects (Created obj) = [obj]"
| "event_objects (Updated old new) = [old, new]"
| "event_objects (Deleted obj) = [obj]"

definition requests_of :: "(ObjectMeta \<Rightarrow> int) \<Rightarrow> controller \<Rightarrow> watch_event \<Rightarrow> Request list" where
  "requests_of gen c ev =
     (if Watch_GenerationChanged (SetupWithManager c) \<and> \<not> predicate_passes gen ev then []
      else concat (map (handle_object (SetupWithManager c)) (event_objects ev)))"

text \<open>The triggers of the process that an event makes.\<close>

definition triggers_of :: "(ObjectMeta \<Rightarrow> int) \<Rightarrow> watch_event \<Rightarrow> trigger list" where
  "triggers_of gen ev =
     concat (map (\<lambda>c. map (Reconcile c) (requests_of gen c ev)) [C_Jenkins, C_JenkinsImage, C_Backup, C_Restore, C_BackupVolume])"

section \<open>Lemmas\<close>

lemma jenkins_ref_simps [simp]:
  "Ref_Kind (jenkins_ref j) = ''Jenkins''" "Ref_Name (jenkins_ref j) = jenkins_name j"
  "Ref_APIVersion (jenkins_ref j) = jenkins_apiVersion" "Ref_Controller (jenkins_ref j) = Some True"
  by (simp_all add: jenkins_ref_def NewControllerRef_def jenkins_name_def)

text \<open>The controller of an object that the CR owns is a reference to the CR.\<close>

lemma owned_controller:
  assumes "owned_meta j m"
  obtains r where "GetControllerOf m = Some r" "referSameObject (jenkins_ref j) r"
proof -
  from assms have "jenkins_ref j \<in> set (Meta_OwnerReferences m)" by (simp add: owned_meta_def)
  then have "GetControllerOf m \<noteq> None" by (auto simp: GetControllerOf_def find_None_iff)
  then obtain r where r: "GetControllerOf m = Some r" by blast
  then have "r \<in> set (Meta_OwnerReferences m)" "Ref_Controller r = Some True"
    by (auto simp: GetControllerOf_def find_Some_iff)
  with assms r that show ?thesis by (auto simp: owned_meta_def)
qed

lemma same_object_request:
  "referSameObject (jenkins_ref j) r \<Longrightarrow> ParseGroupVersion (Ref_APIVersion r) = Some (''jenkins.io'', ''v1alpha2'') \<and>
     Ref_Kind r = ''Jenkins'' \<and> Ref_Name r = jenkins_name j"
  by (auto simp: referSameObject_def ParseGroupVersion_jenkins split: option.splits)

lemma owned_requests:
  assumes "owned_by j obj" and "jenkins_namespace j \<noteq> ''''"
  shows "EnqueueRequestForOwner kindName obj =
    (if kindName = ''Jenkins'' then [\<lparr>Req_NamespacedName = nn (jenkins_namespace j) (jenkins_name j)\<rparr>] else [])"
proof -
  have m: "owned_meta j (object_meta obj)" using assms(1) by (simp add: owned_by_def)
  from owned_controller [OF m] obtain r where "GetControllerOf (object_meta obj) = Some r"
    "referSameObject (jenkins_ref j) r" by blast
  with same_object_request [OF this(2)] m assms(2) show ?thesis
    by (auto simp: EnqueueRequestForOwner_def owned_meta_def)
qed

text \<open>Edits that leave the generation as it is are not seen: config maps, services and role bindings have none.\<close>

lemma unchanged_generation_ignored:
  "gen (object_meta new) = gen (object_meta old) \<Longrightarrow> requests_of gen C_Jenkins (Updated old new) = []"
  by (simp add: requests_of_def watch_defs)

section \<open>Properties\<close>

text \<open>
  C32. What the deletion of an object that belongs to a Jenkins sets off: of the objects that a reconciliation of the
  base configuration creates, the services, config maps, deployments and role bindings are missed when they are
  deleted, and exactly the Jenkins they belong to is reconciled; the deletion of any other of its objects, as a secret
  or a service account, sets off nothing.
\<close>

theorem deleted_object_wakes_jenkins:
  assumes "base_Reconcile ext j s = Some (((result, err), j'), s')"
    and "CreateReq obj \<in> set (new_calls s s')" and "jenkins_namespace j \<noteq> ''''"
  shows "triggers_of gen (Deleted obj) =
    (if kind_of obj \<in> {K_Service, K_ConfigMap, K_Deployment, K_RoleBinding}
     then [Reconcile C_Jenkins \<lparr>Req_NamespacedName = nn (jenkins_namespace j) (jenkins_name j)\<rparr>] else [])"
proof -
  have "list_all (creates_owned j) (new_calls s s')"
    using base_Reconcile_owned [OF assms(1)] by (auto dest: extends_new_calls)
  with assms(2) have own: "owned_by j obj" by (auto simp: list_all_iff)
  then have "kind_of obj \<in> created_kinds" by (simp add: owned_by_def)
  then show ?thesis
    by (auto simp: triggers_of_def requests_of_def handle_object_def watch_defs owned_requests [OF own assms(3)] created_kinds_def)
qed

theorem deleted_object_wakes_jenkins_witness:
  "\<exists>cm err j' s'. base_Reconcile (table_ext secrets_only) backed_jenkins (initial ()) = Some (((no_requeue, Some err), j'), s') \<and>
     CreateReq (O_ConfigMap cm) \<in> set (calls s') \<and>
     triggers_of (\<lambda>_. 0) (Deleted (O_ConfigMap cm)) =
       [Reconcile C_Jenkins \<lparr>Req_NamespacedName = nn (jenkins_namespace backed_jenkins) (jenkins_name backed_jenkins)\<rparr>]"
proof -
  obtain cm err j' s' where run: "base_Reconcile (table_ext secrets_only) backed_jenkins (initial ()) =
      Some (((no_requeue, Some err), j'), s')" "CreateReq (O_ConfigMap cm) \<in> set (calls s')"
    using secrets_only_run by blast
  have new: "CreateReq (O_ConfigMap cm) \<in> set (new_calls (initial ()) s')"
    using run(2) by (simp add: new_calls_def)
  have ns: "jenkins_namespace backed_jenkins \<noteq> ''''"
    by code_simp
  from deleted_object_wakes_jenkins [OF run(1) new ns, of "\<lambda>_. 0"] run show ?thesis by auto
qed

end
