(* ===== verification/Main_Program.thy ===== *)
theory Main_Program
  imports Watches
begin

text \<open>
  The function \<open>main\<close>: what comes before the controllers run, each step of which may end the process, and the
  registration of the types of the API that it begins with (\<open>main.go\<close>, \<open>api/v1alpha2\<close>, \<open>pkg/event\<close>, \<open>pkg/log\<close>).
  The outcomes of the calls into the libraries are the record \<open>Boot\<close>.  On the way without failures it is \<open>startup\<close>
  of theory \<open>Operator\<close>.
\<close>

section \<open>Registration of the types\<close>

record GroupVersionKind =
  GVK_Group :: string
  GVK_Version :: string
  GVK_Kind :: string

definition Kind :: string where "Kind = ''Jenkins''"

definition SchemeGroupVersion :: "string \<times> string" where "SchemeGroupVersion = (''jenkins.io'', ''v1alpha2'')"

definition GroupVersion :: "string \<times> string" where "GroupVersion = (''jenkins.io'', ''v1alpha2'')"

text \<open>\<open>String\<close> of a group and version.\<close>

fun GroupVersion_String :: "string \<times> string \<Rightarrow> string" where
  "GroupVersion_String (grp, version) = (if grp = '''' then version else grp @ ''/'' @ version)"

text \<open>What the kind of a \<open>Jenkins\<close> says and how it is set: the methods do not look at the object.\<close>

definition Jenkins_GroupVersionKind :: "Jenkins \<Rightarrow> GroupVersionKind" where
  "Jenkins_GroupVersionKind j =
     \<lparr>GVK_Group = fst SchemeGroupVersion, GVK_Version = snd SchemeGroupVersion, GVK_Kind = Kind\<rparr>"

definition SetGroupVersionKind :: "GroupVersionKind \<Rightarrow> Jenkins \<Rightarrow> Jenkins" where
  "SetGroupVersionKind kind j = j"

definition GetObjectKind :: "Jenkins \<Rightarrow> Jenkins" where
  "GetObjectKind j = j"

definition JenkinsTypeMeta :: "string \<times> string" where
  "JenkinsTypeMeta = (Kind, GroupVersion_String SchemeGroupVersion)"

text \<open>
  \<open>SchemeBuilder.Register\<close> collects functions that add types; the files of the package are initialised in the order of
  their names.
\<close>

definition init_backup_types :: "string list" where "init_backup_types = [''Backup'', ''BackupList'']"
definition init_backupstrategy_types :: "string list" where "init_backupstrategy_types = [''BackupStrategy'', ''BackupStrategyList'']"
definition init_backupvolume_types :: "string list" where "init_backupvolume_types = [''BackupVolume'', ''BackupVolumeList'']"
definition init_jenkins_types :: "string list" where "init_jenkins_types = [''Jenkins'', ''JenkinsList'']"
definition init_jenkinsimage_types :: "string list" where "init_jenkinsimage_types = [''JenkinsImage'', ''JenkinsImageList'']"
definition init_register :: "string list" where
  "init_register = [''Jenkins'', ''JenkinsList''] @ [''JenkinsImage'', ''JenkinsImageList'']"
definition init_restore_types :: "string list" where "init_restore_types = [''Restore'', ''RestoreList'']"

definition SchemeBuilder :: "GroupVersionKind list" where
  "SchemeBuilder = map (\<lambda>T. \<lparr>GVK_Group = fst GroupVersion, GVK_Version = snd GroupVersion, GVK_Kind = T\<rparr>)
     (init_backup_types @ init_backupstrategy_types @ init_backupvolume_types @ init_jenkins_types @
      init_jenkinsimage_types @ init_register @ init_restore_types)"

section \<open>The outcomes of the libraries\<close>

datatype outcome = Exits int | Panics

datatype log_entry = Log_Info string | Log_Error "error option" string "(string \<times> string) list"

text \<open>A file that was opened: its content, and the error that ends reading it.\<close>

type_synonym opened_file = "string \<times> error option"

record Boot =
  Boot_AddToScheme :: "string \<Rightarrow> error option"
  Boot_GetConfigOrDie :: "error option"
  Boot_NewManager :: "Options \<Rightarrow> error option"
  Boot_GetConfig :: "nat \<Rightarrow> error option"
  Boot_NewForConfig :: "nat \<Rightarrow> error option"
  Boot_Complete :: "controller \<Rightarrow> error option"
  Boot_Start :: "error option"
  Boot_Executable :: string
  Boot_Open :: "string \<Rightarrow> error + opened_file"
  Boot_GoVersion :: string
  Boot_OSArch :: string
  Boot_show_stack :: "error \<Rightarrow> string"

text \<open>What the process has done: its log, and what it has made.\<close>

record 'w machine =
  M_log :: "log_entry list"
  M_manager :: "Options option"
  M_recorder :: "string option"
  M_listening :: bool
  M_controllers :: "Reconciler list"
  M_started :: bool
  M_debug :: bool
  M_state :: "'w st"

type_synonym 'w phase = "'w machine \<Rightarrow> outcome option \<times> 'w machine"

fun in_order :: "'w phase list \<Rightarrow> 'w phase" where
  "in_order [] m = (None, m)"
| "in_order (p # ps) m = (case p m of (Some e, m) \<Rightarrow> (Some e, m) | (None, m) \<Rightarrow> in_order ps m)"

definition log :: "log_entry \<Rightarrow> 'w phase" where
  "log l m = (None, m\<lparr>M_log := M_log m @ [l]\<rparr>)"

definition ends :: "outcome \<Rightarrow> 'w phase" where
  "ends e m = (Some e, m)"

section \<open>The steps of main\<close>

definition fatal :: "Boot \<Rightarrow> error \<Rightarrow> bool \<Rightarrow> 'w phase" where
  "fatal boot err debug =
     in_order [log (Log_Error None (if debug then Boot_show_stack boot err else error_string err) []), ends (Exits (-1))]"

definition md5sum :: "Boot \<Rightarrow> 'w ext \<Rightarrow> string \<Rightarrow> string" where
  "md5sum boot ext filePath =
     (case Boot_Open boot filePath of
        Inl err \<Rightarrow> ''''
      | Inr (content, failed) \<Rightarrow> if failed \<noteq> None then '''' else md5_hex ext content)"

definition printInfo :: "Boot \<Rightarrow> 'w ext \<Rightarrow> 'w phase" where
  "printInfo boot ext =
     in_order [log (Log_Info (''Version: '' @ operatorVersion)),
               log (Log_Info (''MD5 checkcsum: '' @ md5sum boot ext (Boot_Executable boot))),
               log (Log_Info (''Go Version: '' @ Boot_GoVersion boot)),
               log (Log_Info (''Go OS/Arch: '' @ Boot_OSArch boot))]"

text \<open>\<open>startManager\<close> ends the process itself when it fails, so \<open>initManager\<close> never sees an error.\<close>

definition make_manager :: "Boot \<Rightarrow> 'w ext \<Rightarrow> string \<Rightarrow> bool \<Rightarrow> 'w phase" where
  "make_manager boot ext metricsAddr enableLeaderElection m =
     (let options = startManager ext metricsAddr enableLeaderElection in
      case Boot_GetConfigOrDie boot of
        Some err \<Rightarrow> in_order [log (Log_Error (Some err) ''unable to get kubeconfig'' []), ends (Exits 1)] m
      | None \<Rightarrow>
          (case Boot_NewManager boot options of
             Some err \<Rightarrow> in_order [log (Log_Error (Some err) ''unable to start manager'' []), ends (Exits 1)] m
           | None \<Rightarrow> (None, m\<lparr>M_manager := Some options\<rparr>)))"

definition initManager :: "Boot \<Rightarrow> 'w ext \<Rightarrow> string \<Rightarrow> bool \<Rightarrow> 'w phase" where
  "initManager boot ext metricsAddr enableLeaderElection =
     in_order [printInfo boot ext, make_manager boot ext metricsAddr enableLeaderElection]"

definition GetRestClient :: "Boot \<Rightarrow> bool \<Rightarrow> 'w phase" where
  "GetRestClient boot debug m =
     (case Boot_GetConfig boot 0 of
        Some err \<Rightarrow> fatal boot (WrapError ''failed to get config'' err) debug m
      | None \<Rightarrow> (None, m))"

text \<open>A recorder of events is known by the component it records for.\<close>

definition initializeEventRecorder :: "Boot \<Rightarrow> string \<Rightarrow> error + string" where
  "initializeEventRecorder boot component =
     (case Boot_NewForConfig boot 0 of Some err \<Rightarrow> Inl (StackError err) | None \<Rightarrow> Inr component)"

definition event_New :: "Boot \<Rightarrow> string \<Rightarrow> error + string" where
  "event_New boot component =
     (case initializeEventRecorder boot component of Inl err \<Rightarrow> Inl err | Inr recorder \<Rightarrow> Inr recorder)"

definition OperatorName :: string where "OperatorName = ''jenkins-operator''"

definition getEventsRecorder :: "Boot \<Rightarrow> bool \<Rightarrow> 'w phase" where
  "getEventsRecorder boot debug m =
     (case event_New boot OperatorName of
        Inl err \<Rightarrow> fatal boot (WrapError ''failed to create manager'' err) debug m
      | Inr recorder \<Rightarrow> (None, m\<lparr>M_recorder := Some recorder\<rparr>))"

definition get_config :: "Boot \<Rightarrow> bool \<Rightarrow> 'w phase" where
  "get_config boot debug m =
     (case Boot_GetConfig boot 1 of
        Some err \<Rightarrow> fatal boot (WrapError ''failed to get config'' err) debug m
      | None \<Rightarrow> (None, m))"

definition new_client_set :: "Boot \<Rightarrow> bool \<Rightarrow> 'w phase" where
  "new_client_set boot debug m =
     (case Boot_NewForConfig boot 1 of
        Some err \<Rightarrow> fatal boot (WrapError ''failed to create Kubernetes client set'' err) debug m
      | None \<Rightarrow> (None, m))"

text \<open>A check of the cluster; what it logs is left out.\<close>

definition feature_check :: "('w st \<Rightarrow> (unit \<times> 'w st) option) \<Rightarrow> 'w phase" where
  "feature_check f m = (case f (M_state m) of None \<Rightarrow> (Some Panics, m) | Some (_, s) \<Rightarrow> (None, m\<lparr>M_state := s\<rparr>))"

definition listen :: "'w phase" where
  "listen m = (None, m\<lparr>M_listening := True\<rparr>)"

definition set_up :: "Boot \<Rightarrow> Reconciler \<Rightarrow> string \<Rightarrow> 'w phase" where
  "set_up boot r name m =
     (case Boot_Complete boot (Rec_controller r) of
        Some err \<Rightarrow> in_order [log (Log_Error (Some err) ''unable to create controller'' [(''controller'', name)]), ends (Exits 1)] m
      | None \<Rightarrow> (None, m\<lparr>M_controllers := M_controllers m @ [r]\<rparr>))"

definition setupJenkinsRenconciler :: "Boot \<Rightarrow> bool \<Rightarrow> 'w phase" where
  "setupJenkinsRenconciler boot eventChan = set_up boot (newJenkinsReconciler eventChan) ''Jenkins''"
definition setupJenkinsImageRenconciler :: "Boot \<Rightarrow> 'w phase" where
  "setupJenkinsImageRenconciler boot = set_up boot newJenkinsImageRenconciler ''Jenkins''"
definition setupJenkinsBackupRenconciler :: "Boot \<Rightarrow> bool \<Rightarrow> 'w phase" where
  "setupJenkinsBackupRenconciler boot eventChan = set_up boot (newJenkinsBackupRenconciler eventChan) ''Backup''"
definition setupJenkinsRestoreRenconciler :: "Boot \<Rightarrow> bool \<Rightarrow> 'w phase" where
  "setupJenkinsRestoreRenconciler boot eventChan = set_up boot (newJenkinsRestoreRenconciler eventChan) ''Restore''"
definition setupBackupVolumeRenconciler :: "Boot \<Rightarrow> bool \<Rightarrow> 'w phase" where
  "setupBackupVolumeRenconciler boot eventChan = set_up boot (newBackupVolumeRenconciler eventChan) ''BackupVolume''"

text \<open>\<open>Start\<close> runs the controllers until the process is told to stop.\<close>

definition runMananger :: "Boot \<Rightarrow> 'w phase" where
  "runMananger boot m =
     (let m = m\<lparr>M_log := M_log m @ [Log_Info ''starting manager''], M_started := True\<rparr> in
      case Boot_Start boot of
        Some err \<Rightarrow> in_order [log (Log_Error (Some err) ''problem running manager'' []), ends (Exits 1)] m
      | None \<Rightarrow> log (Log_Info ''manager started'') m)"

text \<open>The groups of types that the process adds to its scheme, before \<open>main\<close>; an error panics.\<close>

definition schemes :: "string list" where
  "schemes = [''clientgoscheme'', ''jenkinsv1alpha2'', ''routev1'', ''corev1'', ''monitoringv1'', ''apiextensionsv1'', ''apiconfigv1'']"

definition init_schemes :: "Boot \<Rightarrow> 'w phase" where
  "init_schemes boot = in_order (map (\<lambda>g m. (if Boot_AddToScheme boot g \<noteq> None then Some Panics else None, m)) schemes)"

text \<open>The flag \<open>debug\<close> is defined for a parser that nobody runs, so it keeps its default.\<close>

definition before_start :: "Boot \<Rightarrow> 'w ext \<Rightarrow> Flags \<Rightarrow> 'w phase list" where
  "before_start boot ext flags =
     (let metricsAddr = '''';
          enableLeaderElection = False;
          _ = parseFlags flags metricsAddr enableLeaderElection;
          debug = False
      in [log (Log_Info ''Registering Components.''),
          initManager boot ext metricsAddr enableLeaderElection,
          GetRestClient boot debug,
          getEventsRecorder boot debug,
          feature_check (checkAvailableFeatures ext),
          get_config boot debug,
          new_client_set boot debug,
          feature_check (checkRouteAPIAvailable ext),
          feature_check (checkPrometheusAPIAvailable ext),
          feature_check (checkProxyAPIAvailable ext),
          listen,
          setupJenkinsRenconciler boot True,
          setupJenkinsImageRenconciler boot,
          setupJenkinsBackupRenconciler boot True,
          setupJenkinsRestoreRenconciler boot True,
          setupBackupVolumeRenconciler boot True,
          log (Log_Info ''Starting the Cmd.'')])"

definition main :: "Boot \<Rightarrow> 'w ext \<Rightarrow> Flags \<Rightarrow> 'w phase" where
  "main boot ext flags = in_order (before_start boot ext flags @ [runMananger boot])"

definition unstarted :: "'w st \<Rightarrow> 'w machine" where
  "unstarted s = \<lparr>M_log = [], M_manager = None, M_recorder = None, M_listening = False, M_controllers = [],
     M_started = False, M_debug = False, M_state = s\<rparr>"

section \<open>Logging, events and templates\<close>

datatype log_level = DebugLevel | InfoLevel

text \<open>\<open>build\<close> makes a logger of a level, or fails; \<open>log.Fatalf\<close> ends the process.\<close>

definition fatalIfErr :: "error option \<Rightarrow> 'w phase" where
  "fatalIfErr err =
     (case err of
        None \<Rightarrow> in_order []
      | Some e \<Rightarrow> in_order [log (Log_Error None (''unable to construct the logger: '' @ error_string e) []), ends (Exits 1)])"

definition zapLogger :: "(log_level \<Rightarrow> error option) \<Rightarrow> bool \<Rightarrow> 'w phase" where
  "zapLogger build debug = fatalIfErr (build (if debug then DebugLevel else InfoLevel))"

definition SetupLogger :: "(log_level \<Rightarrow> error option) \<Rightarrow> bool \<Rightarrow> 'w phase" where
  "SetupLogger build debug = in_order [\<lambda>m. (None, m\<lparr>M_debug := debug\<rparr>), zapLogger build debug]"

text \<open>What the recorder is asked to emit; \<open>Emitf\<close> prints its arguments into the message.\<close>

definition Emit :: "Jenkins \<Rightarrow> string \<Rightarrow> string \<Rightarrow> string \<Rightarrow> K8sEvent" where
  "Emit obj eventType reason message =
     \<lparr>Emit_object = obj, Emit_eventType = eventType, Emit_reason = reason, Emit_message = message\<rparr>"

definition Emitf :: "Jenkins \<Rightarrow> string \<Rightarrow> string \<Rightarrow> string \<Rightarrow> string list \<Rightarrow> K8sEvent" where
  "Emitf obj eventType reason fmt args = Emit obj eventType reason (Sprintf fmt args)"

text \<open>\<open>execute\<close> is the template at its data.\<close>

definition Render :: "('a \<Rightarrow> error + string) \<Rightarrow> 'a \<Rightarrow> error + string" where
  "Render execute data = (case execute data of Inl err \<Rightarrow> Inl (StackError err) | Inr buffer \<Rightarrow> Inr buffer)"

section \<open>Lemmas\<close>

lemma init_schemes_panics:
  "fst (init_schemes boot m) = (if \<exists>g \<in> set schemes. Boot_AddToScheme boot g \<noteq> None then Some Panics else None)"
proof -
  have "fst (in_order (map (\<lambda>g m. (if Boot_AddToScheme boot g \<noteq> None then Some Panics else None, m)) gs) m) =
      (if \<exists>g \<in> set gs. Boot_AddToScheme boot g \<noteq> None then Some Panics else None)" for gs
    by (induction gs arbitrary: m) auto
  then show ?thesis by (simp only: init_schemes_def)
qed

lemma Emitf_plain: "CHR ''%'' \<notin> set message \<Longrightarrow> Emitf obj eventType reason message [] = Emit obj eventType reason message"
  by (cases message rule: rev_cases) (auto simp: Emitf_def Sprintf_plain)

lemma Render_error: "Render execute data = Inl err \<Longrightarrow> \<not> IsNotFound err"
  by (auto simp: Render_def split: sum.splits)

lemma debug_logger: "SetupLogger build True m = (None, m') \<Longrightarrow> M_debug m' \<and> build DebugLevel = None"
  by (cases "build DebugLevel") (auto simp: SetupLogger_def zapLogger_def fatalIfErr_def log_def ends_def)

lemma in_order_append:
  "in_order (ps @ qs) m = (case in_order ps m of (Some e, m) \<Rightarrow> (Some e, m) | (None, m) \<Rightarrow> in_order qs m)"
  by (induction ps arbitrary: m) (auto split: prod.splits option.splits)

text \<open>A step that starts nothing, sets no flag, and ends the process with a status of failure only.\<close>

definition unstarting :: "'w phase \<Rightarrow> bool" where
  "unstarting p \<longleftrightarrow> (\<forall>m r m'. p m = (r, m') \<longrightarrow>
     M_started m' = M_started m \<and> M_debug m' = M_debug m \<and> (\<forall>e. r = Some e \<longrightarrow> (\<exists>k. e = Exits k \<and> k \<noteq> 0)))"

lemma unstarting_in_order: "(\<And>p. p \<in> set ps \<Longrightarrow> unstarting p) \<Longrightarrow> unstarting (in_order ps)"
proof (induction ps)
  case (Cons p ps)
  then have *: "unstarting p" "unstarting (in_order ps)" by simp_all
  show ?case
    unfolding unstarting_def
  proof (intro allI impI)
    fix m r m'
    assume run: "in_order (p # ps) m = (r, m')"
    show "M_started m' = M_started m \<and> M_debug m' = M_debug m \<and> (\<forall>e. r = Some e \<longrightarrow> (\<exists>k. e = Exits k \<and> k \<noteq> 0))"
    proof (cases "fst (p m)")
      case None
      with run have "in_order ps (snd (p m)) = (r, m')" by (cases "p m") simp
      with *(2) have "M_started m' = M_started (snd (p m)) \<and> M_debug m' = M_debug (snd (p m)) \<and> (\<forall>e. r = Some e \<longrightarrow> (\<exists>k. e = Exits k \<and> k \<noteq> 0))"
        unfolding unstarting_def by blast
      moreover have "M_started (snd (p m)) = M_started m \<and> M_debug (snd (p m)) = M_debug m"
        using *(1) unfolding unstarting_def by (metis surjective_pairing)
      ultimately show ?thesis by simp
    next
      case (Some e)
      with run have "p m = (r, m')" by (cases "p m") auto
      with *(1) show ?thesis unfolding unstarting_def by blast
    qed
  qed
qed (simp add: unstarting_def)

lemma unstarting_log: "unstarting (log l)"
  by (simp add: unstarting_def log_def)

lemmas step_simps = unstarting_def fatal_def log_def ends_def Let_def

lemma feature_check_unstarting: "(\<And>s. f s \<noteq> None) \<Longrightarrow> unstarting (feature_check f)"
  by (auto simp: unstarting_def feature_check_def split: option.splits)

lemma check_runs:
  "checkAvailableFeatures ext s \<noteq> None" "checkRouteAPIAvailable ext s \<noteq> None"
  "checkPrometheusAPIAvailable ext s \<noteq> None" "checkProxyAPIAvailable ext s \<noteq> None"
proof -
  obtain a s' where "IsImageRegistryAvailable ext s = Some (a, s')" using IsImageRegistryAvailable_total by blast
  then show "checkAvailableFeatures ext s \<noteq> None" by (simp add: checkAvailableFeatures_def)
  show "checkRouteAPIAvailable ext s \<noteq> None" "checkPrometheusAPIAvailable ext s \<noteq> None"
    using api_check_runs(1) [of ext s] api_check_runs(2) [of ext s]
    by (auto simp: checkRouteAPIAvailable_def checkPrometheusAPIAvailable_def)
  obtain b s2 where b: "IsOpenshiftProxyAPIAvailable ext s = Some (b, s2)" using api_check_runs(3) by blast
  obtain e s3 where "QueryProxyConfig ext s2 = Some (e, s3)" using QueryProxyConfig_total by blast
  with b show "checkProxyAPIAvailable ext s \<noteq> None" by (cases b) (simp_all add: checkProxyAPIAvailable_def)
qed

lemmas setup_defs = setupJenkinsRenconciler_def setupJenkinsImageRenconciler_def setupJenkinsBackupRenconciler_def
  setupJenkinsRestoreRenconciler_def setupBackupVolumeRenconciler_def

lemma unstarting_steps:
  "unstarting (set_up boot r name)" "unstarting (printInfo boot ext)" "unstarting (make_manager boot ext a b)"
  "unstarting (GetRestClient boot debug)" "unstarting (getEventsRecorder boot debug)"
  "unstarting (get_config boot debug)" "unstarting (new_client_set boot debug)" "unstarting listen"
  by (simp_all add: step_simps set_up_def printInfo_def make_manager_def GetRestClient_def getEventsRecorder_def
      get_config_def new_client_set_def listen_def split: option.split sum.split)

lemma unstarting_init: "unstarting (initManager boot ext a b)"
  unfolding initManager_def by (rule unstarting_in_order) (auto intro: unstarting_steps)

lemma before_start_unstarting: "unstarting (in_order (before_start boot ext flags))"
  unfolding before_start_def Let_def setup_defs
  by (rule unstarting_in_order)
    (auto intro: unstarting_log unstarting_init unstarting_steps 
      check_runs [THEN feature_check_unstarting])

text \<open>What each step leaves when it does not end the process.\<close>

lemma in_order_None:
  "in_order [] m = (None, m') \<longleftrightarrow> m' = m"
  "in_order (p # ps) m = (None, m') \<longleftrightarrow> (\<exists>m1. p m = (None, m1) \<and> in_order ps m1 = (None, m'))"
  by (auto split: prod.splits option.splits)

lemma fatal_ends: "fatal boot err debug m \<noteq> (None, m')"
  by (simp add: fatal_def log_def ends_def)

lemma log_None: "log l m = (None, m') \<longleftrightarrow> m' = m\<lparr>M_log := M_log m @ [l]\<rparr>"
  by (auto simp: log_def)

lemma ends_None: "ends e m \<noteq> (None, m')"
  by (simp add: ends_def)

lemma printInfo_None: "printInfo boot ext m = (None, m') \<Longrightarrow> \<exists>ls. m' = m\<lparr>M_log := ls\<rparr>"
  by (auto simp: printInfo_def in_order_None log_None simp del: in_order.simps)

lemma initManager_None:
  "initManager boot ext a b m = (None, m') \<Longrightarrow> \<exists>ls. m' = m\<lparr>M_log := ls, M_manager := Some (startManager ext a b)\<rparr>"
  by (auto simp: initManager_def in_order_None make_manager_def Let_def ends_None simp del: in_order.simps
      split: option.splits dest!: printInfo_None)

lemma getEventsRecorder_None:
  "getEventsRecorder boot debug m = (None, m') \<Longrightarrow> m' = m\<lparr>M_recorder := Some OperatorName\<rparr>"
  by (auto simp: getEventsRecorder_def event_New_def initializeEventRecorder_def fatal_ends split: option.splits sum.splits)

lemma connections_None:
  "GetRestClient boot debug m = (None, m') \<Longrightarrow> m' = m" "get_config boot debug m = (None, m') \<Longrightarrow> m' = m"
  "new_client_set boot debug m = (None, m') \<Longrightarrow> m' = m"
  by (auto simp: GetRestClient_def get_config_def new_client_set_def fatal_ends split: option.splits)

lemma set_up_None: "set_up boot r name m = (None, m') \<Longrightarrow> m' = m\<lparr>M_controllers := M_controllers m @ [r]\<rparr>"
  by (auto simp: set_up_def in_order_None ends_None simp del: in_order.simps split: option.splits)

lemma feature_check_None:
  "feature_check f m = (None, m') \<Longrightarrow> \<exists>s. f (M_state m) = Some ((), s) \<and> m' = m\<lparr>M_state := s\<rparr>"
  by (auto simp: feature_check_def split: option.splits)

lemma listen_None: "listen m = (None, m') \<Longrightarrow> m' = m\<lparr>M_listening := True\<rparr>"
  by (simp add: listen_def)

lemma before_start_done:
  assumes "in_order (before_start boot ext flags) (unstarted s) = (None, m)"
  shows "M_manager m = Some (startManager ext '''' False) \<and> M_controllers m = all_reconcilers \<and> M_listening m \<and>
    startup ext flags s = Some ((startManager ext '''' False, all_reconcilers), M_state m)"
  using assms unfolding before_start_def Let_def setup_defs in_order_None log_None
  by (auto simp: unstarted_def all_reconcilers_def startup_def Let_def
      dest!: initManager_None getEventsRecorder_None connections_None set_up_None feature_check_None listen_None)

text \<open>Without failures \<open>main\<close> does what \<open>startup\<close> says, and starts the manager.\<close>

definition boots :: "Boot \<Rightarrow> bool" where
  "boots boot \<longleftrightarrow> Boot_GetConfigOrDie boot = None \<and> (\<forall>opts. Boot_NewManager boot opts = None) \<and>
     (\<forall>n. Boot_GetConfig boot n = None) \<and> (\<forall>n. Boot_NewForConfig boot n = None) \<and> (\<forall>c. Boot_Complete boot c = None)"

lemma passing_in_order: "(\<And>p m. p \<in> set ps \<Longrightarrow> fst (p m) = None) \<Longrightarrow> fst (in_order ps m) = None"
proof (induction ps arbitrary: m)
  case (Cons p ps)
  then have "fst (p m) = None" by simp
  with Cons show ?case by (cases "p m") auto
qed simp

lemma feature_check_passes: "f (M_state m) \<noteq> None \<Longrightarrow> fst (feature_check f m) = None"
  by (auto simp: feature_check_def split: option.split)

lemma boots_passes:
  assumes "boots boot"
  shows "fst (in_order (before_start boot ext flags) m) = None"
proof (rule passing_in_order)
  fix p m
  assume "p \<in> set (before_start boot ext flags)"
  moreover have "fst (initManager boot ext a b m) = None" for a b m
    using assms by (simp add: boots_def initManager_def printInfo_def make_manager_def log_def Let_def)
  ultimately show "fst (p m) = None"
    using assms unfolding before_start_def Let_def setup_defs
    by (auto simp: check_runs [THEN feature_check_passes] boots_def log_def GetRestClient_def getEventsRecorder_def event_New_def initializeEventRecorder_def
        get_config_def new_client_set_def listen_def set_up_def)
qed

lemma main_refines_startup:
  assumes "boots boot"
  shows "\<exists>m. main boot ext flags (unstarted s) = (if Boot_Start boot = None then None else Some (Exits 1), m) \<and> M_started m \<and>
    startup ext flags s = Some ((the (M_manager m), M_controllers m), M_state m)"
proof -
  obtain m where m: "in_order (before_start boot ext flags) (unstarted s) = (None, m)"
    using boots_passes [OF assms, of ext flags "unstarted s"] by (metis prod.collapse)
  from before_start_done [OF m] m show ?thesis
    by (auto simp: main_def in_order_append runMananger_def Let_def log_def ends_def split: option.split)
qed

text \<open>Every kind that a controller is for is registered in the group that owner references name.\<close>

lemma watched_kinds_registered:
  "\<lparr>GVK_Group = ''jenkins.io'', GVK_Version = ''v1alpha2'', GVK_Kind = Watch_KindName (SetupWithManager c)\<rparr> \<in> set SchemeBuilder"
  by (cases c) (simp_all add: SchemeBuilder_def GroupVersion_def watch_defs init_backup_types_def init_backupstrategy_types_def
      init_backupvolume_types_def init_jenkins_types_def init_jenkinsimage_types_def init_register_def init_restore_types_def)

lemma owner_references_name_the_kind: "JenkinsTypeMeta = (''Jenkins'', jenkins_apiVersion)"
  by (simp add: JenkinsTypeMeta_def Kind_def SchemeGroupVersion_def jenkins_apiVersion_def)

lemma kind_of_every_jenkins: "Jenkins_GroupVersionKind (SetGroupVersionKind kind j) = Jenkins_GroupVersionKind j"
  by (simp add: SetGroupVersionKind_def)

section \<open>Properties\<close>

text \<open>
  C33. The process starts its manager only when everything is in place: with the options that \<open>startManager\<close> gives
  without any flag, the five controllers set up, the notifications listened to and the three checks of the cluster
  made.  In every other case, whatever failed, it exits with a status that is not zero and nothing was started; it
  never panics after the types were registered.  On no way is the debug mode of the logger turned on.
\<close>

theorem main_starts_complete:
  "case main boot ext flags (unstarted s) of (r, m) \<Rightarrow> \<not> M_debug m \<and>
     (if M_started m
      then M_manager m = Some (startManager ext '''' False) \<and> M_controllers m = all_reconcilers \<and> M_listening m \<and>
        all_checked (globals (M_state m)) \<and> r = (if Boot_Start boot = None then None else Some (Exits 1))
      else (\<exists>k. r = Some (Exits k) \<and> k \<noteq> 0))"
proof (cases "in_order (before_start boot ext flags) (unstarted s)")
  case (Pair r m)
  have begun: "M_started m = False" "\<not> M_debug m" and failed: "\<And>e. r = Some e \<Longrightarrow> \<exists>k. e = Exits k \<and> k \<noteq> 0"
    using before_start_unstarting [of boot ext flags] Pair unfolding unstarting_def by (force simp: unstarted_def)+
  show ?thesis
  proof (cases r)
    case None
    with Pair have m: "in_order (before_start boot ext flags) (unstarted s) = (None, m)" by simp
    from before_start_done [OF m] startup_runs [of ext flags s] have "all_checked (globals (M_state m))" by auto
    with before_start_done [OF m] m begun(2) show ?thesis
      by (auto simp: main_def in_order_append runMananger_def Let_def log_def ends_def split: option.split)
  next
    case (Some e)
    with Pair begun failed show ?thesis by (simp add: main_def in_order_append)
  qed
qed

end
