(* ===== verification/Gojenkins.thy ===== *)
theory Gojenkins
  imports Prelude
begin

text \<open>
  What the client of the Jenkins API uses of its library (\<open>vendor/github.com/bndr/gojenkins\<close>): the requester that
  sends one HTTP request per call, and the operations on a Jenkins, its jobs, builds and plugins that are built on it.
  The HTTP connection is a parameter, as are the decoders of JSON, which keep what they were given when a text cannot
  be decoded, and the parser of URLs.  The state holds the requests that were sent.
\<close>

section \<open>HTTP\<close>

datatype authorization = Unauthorized | Basic string string | Bearer string

record HTTPRequest =
  HReq_Method :: string
  HReq_URL :: string
  HReq_Query :: "string gomap option"
  HReq_Headers :: "string gomap"
  HReq_Body :: "string option"
  HReq_Auth :: authorization

record HTTPResponse =
  HResp_StatusCode :: int
  HResp_Headers :: "string gomap"
  HResp_Body :: string
  HResp_ReadError :: "error option"

record JobResponse =
  JobR_Name :: string
  JobR_URL :: string
  JobR_Other :: string

record userTokenResponseData =
  Token_Name :: string
  Token_UUID :: string
  Token_Value :: string

record userTokenResponse =
  Token_Status :: string
  Token_Data :: userTokenResponseData

record 'w web =
  http_do :: "HTTPRequest \<Rightarrow> 'w \<Rightarrow> (error + HTTPResponse) \<times> 'w"
  unix_time :: "'w \<Rightarrow> int \<times> 'w"
  url_error :: "string \<Rightarrow> error option"
  request_uri :: "string \<Rightarrow> string"
  json_strings :: "string \<Rightarrow> string gomap"
  json_job :: "string \<Rightarrow> JobResponse \<Rightarrow> JobResponse"
  json_token :: "string \<Rightarrow> userTokenResponse \<Rightarrow> userTokenResponse"

record 'w hst =
  hworld :: 'w
  sent :: "HTTPRequest list"

definition header :: "HTTPResponse \<Rightarrow> string \<Rightarrow> string" where
  "header r k = (case map_of (HResp_Headers r) k of None \<Rightarrow> '''' | Some v \<Rightarrow> v)"

definition StatusOK :: int where "StatusOK = 200"

text \<open>\<open>strconv.Itoa\<close> of a status code, as an error.\<close>

definition status_error :: "int \<Rightarrow> error" where
  "status_error code = PlainError (show_int code)"

section \<open>The requester\<close>

text \<open>
  \<open>Req_bearer\<close> is the token of the transport that the client of the operator sets; such a transport replaces the
  authorization of every request.
\<close>

record Requester =
  Req_Base :: string
  Req_BasicAuth :: "(string \<times> string) option"
  Req_bearer :: "string option"

record APIRequest =
  AR_Method :: string
  AR_Endpoint :: string
  AR_Payload :: "string option"
  AR_Headers :: "string gomap"
  AR_Suffix :: string

definition NewAPIRequest :: "string \<Rightarrow> string \<Rightarrow> string option \<Rightarrow> APIRequest" where
  "NewAPIRequest method endpoint payload =
     \<lparr>AR_Method = method, AR_Endpoint = endpoint, AR_Payload = payload, AR_Headers = [], AR_Suffix = ''''\<rparr>"

definition SetHeader :: "string \<Rightarrow> string \<Rightarrow> APIRequest \<Rightarrow> APIRequest" where
  "SetHeader key v ar = ar\<lparr>AR_Headers := AList.update key v (AR_Headers ar)\<rparr>"

definition authorization_of :: "Requester \<Rightarrow> authorization" where
  "authorization_of r =
     (case Req_bearer r of
        Some token \<Rightarrow> Bearer token
      | None \<Rightarrow> (case Req_BasicAuth r of Some (u, p) \<Rightarrow> Basic u p | None \<Rightarrow> Unauthorized))"

definition http_request :: "Requester \<Rightarrow> APIRequest \<Rightarrow> string gomap option \<Rightarrow> HTTPRequest" where
  "http_request r ar query =
     (let endpoint = (if \<not> HasSuffix (AR_Endpoint ar) ''/'' \<and> AR_Method ar \<noteq> ''POST''
                      then AR_Endpoint ar @ ''/'' else AR_Endpoint ar)
      in \<lparr>HReq_Method = AR_Method ar, HReq_URL = Req_Base r @ endpoint @ AR_Suffix ar, HReq_Query = query,
          HReq_Headers = AR_Headers ar, HReq_Body = AR_Payload ar, HReq_Auth = authorization_of r\<rparr>)"

text \<open>
  The answer is read here only when it is wanted as raw text, so that a failure of the reading counts; JSON is decoded
  by the caller.
\<close>

definition Do ::
  "'w web \<Rightarrow> Requester \<Rightarrow> bool \<Rightarrow> APIRequest \<Rightarrow> string gomap option \<Rightarrow> 'w hst \<Rightarrow> ((error + HTTPResponse) \<times> 'w hst) option" where
  "Do web r raw ar query h =
     (let q = http_request r ar query in
      case url_error web (HReq_URL q) of
        Some err \<Rightarrow> Some (Inl err, h)
      | None \<Rightarrow>
          (let (answer, w) = http_do web q (hworld h);
               h = h\<lparr>hworld := w, sent := sent h @ [q]\<rparr>
           in case answer of
                Inl err \<Rightarrow> Some (Inl err, h)
              | Inr resp \<Rightarrow>
                  if header resp ''X-Error'' \<noteq> '''' then Some (Inl (PlainError (header resp ''X-Error'')), h)
                  else (case (raw, HResp_ReadError resp) of
                          (True, Some err) \<Rightarrow> Some (Inl err, h)
                        | _ \<Rightarrow> Some (Inr resp, h))))"

definition GetJSON ::
  "'w web \<Rightarrow> Requester \<Rightarrow> string \<Rightarrow> string gomap \<Rightarrow> 'w hst \<Rightarrow> ((error + HTTPResponse) \<times> 'w hst) option" where
  "GetJSON web r endpoint query =
     Do web r False ((SetHeader ''Content-Type'' ''application/json'' (NewAPIRequest ''GET'' endpoint None))
        \<lparr>AR_Suffix := ''api/json''\<rparr>) (Some query)"

definition GetXML ::
  "'w web \<Rightarrow> Requester \<Rightarrow> string \<Rightarrow> string gomap \<Rightarrow> 'w hst \<Rightarrow> ((error + HTTPResponse) \<times> 'w hst) option" where
  "GetXML web r endpoint query =
     Do web r True (SetHeader ''Content-Type'' ''application/xml'' (NewAPIRequest ''GET'' endpoint None)) (Some query)"

text \<open>Without an answer there is no response to look at: the nil pointer is a panic.\<close>

definition SetCrumb :: "'w web \<Rightarrow> Requester \<Rightarrow> APIRequest \<Rightarrow> 'w hst \<Rightarrow> (APIRequest \<times> 'w hst) option" where
  "SetCrumb web r ar h =
     do { (answer, h) \<leftarrow> GetJSON web r ''/crumbIssuer/api/json'' [] h;
          case answer of
            Inl err \<Rightarrow> None
          | Inr resp \<Rightarrow>
              let crumbData = json_strings web (HResp_Body resp);
                  field = (case map_of crumbData ''crumbRequestField'' of None \<Rightarrow> '''' | Some v \<Rightarrow> v);
                  crumb = (case map_of crumbData ''crumb'' of None \<Rightarrow> '''' | Some v \<Rightarrow> v)
              in Some (if HResp_StatusCode resp = 200 \<and> field \<noteq> '''' then SetHeader field crumb ar else ar, h) }"

definition Post ::
  "'w web \<Rightarrow> Requester \<Rightarrow> string \<Rightarrow> string option \<Rightarrow> string gomap \<Rightarrow> 'w hst \<Rightarrow> ((error + HTTPResponse) \<times> 'w hst) option" where
  "Post web r endpoint payload query h =
     do { (ar, h) \<leftarrow> SetCrumb web r (NewAPIRequest ''POST'' endpoint payload) h;
          Do web r False (SetHeader ''Content-Type'' ''application/x-www-form-urlencoded'' ar) (Some query) h }"

definition PostXML ::
  "'w web \<Rightarrow> Requester \<Rightarrow> string \<Rightarrow> string \<Rightarrow> string gomap \<Rightarrow> 'w hst \<Rightarrow> ((error + HTTPResponse) \<times> 'w hst) option" where
  "PostXML web r endpoint xml query h =
     do { (ar, h) \<leftarrow> SetCrumb web r (NewAPIRequest ''POST'' endpoint (Some xml)) h;
          Do web r False (SetHeader ''Content-Type'' ''application/xml'' ar) (Some query) h }"

section \<open>Jobs, builds and plugins\<close>

record Job =
  Job_Base :: string
  Job_Raw :: JobResponse

definition zero_JobResponse :: JobResponse where
  "zero_JobResponse = \<lparr>JobR_Name = '''', JobR_URL = '''', JobR_Other = ''''\<rparr>"

definition new_Job :: "string \<Rightarrow> Job" where
  "new_Job base = \<lparr>Job_Base = base, Job_Raw = zero_JobResponse\<rparr>"

definition Job_Poll :: "'w web \<Rightarrow> Requester \<Rightarrow> Job \<Rightarrow> 'w hst \<Rightarrow> ((error + int) \<times> Job \<times> 'w hst) option" where
  "Job_Poll web r job h =
     do { (answer, h) \<leftarrow> GetJSON web r (Job_Base job) [] h;
          case answer of
            Inl err \<Rightarrow> Some (Inl err, job, h)
          | Inr resp \<Rightarrow> Some (Inr (HResp_StatusCode resp),
              job\<lparr>Job_Raw := json_job web (HResp_Body resp) (Job_Raw job)\<rparr>, h) }"

definition GetJob :: "'w web \<Rightarrow> Requester \<Rightarrow> string \<Rightarrow> 'w hst \<Rightarrow> ((error + Job) \<times> 'w hst) option" where
  "GetJob web r name h =
     do { (status, job, h) \<leftarrow> Job_Poll web r (new_Job (''/job/'' @ name)) h;
          case status of
            Inl err \<Rightarrow> Some (Inl err, h)
          | Inr code \<Rightarrow> Some (if code = 200 then Inr job else Inl (status_error code), h) }"

text \<open>\<open>j.Base[:strings.LastIndex(j.Base, "/job/")]\<close>\<close>

definition parentBase :: "string \<Rightarrow> string option" where
  "parentBase base =
     map_option (\<lambda>i. take i base) (find (\<lambda>i. HasPrefix (drop i base) ''/job/'') (rev [0..<Suc (length base)]))"

definition Job_Create ::
  "'w web \<Rightarrow> Requester \<Rightarrow> string \<Rightarrow> string gomap \<Rightarrow> Job \<Rightarrow> 'w hst \<Rightarrow> ((error + Job) \<times> 'w hst) option" where
  "Job_Create web r config query job h =
     do { parent \<leftarrow> parentBase (Job_Base job);
          (answer, h) \<leftarrow> PostXML web r (parent @ ''/createItem'') config query h;
          case answer of
            Inl err \<Rightarrow> Some (Inl err, h)
          | Inr resp \<Rightarrow>
              if HResp_StatusCode resp = 200
              then do { (_, job, h) \<leftarrow> Job_Poll web r
                          (job\<lparr>Job_Raw := json_job web (HResp_Body resp) (Job_Raw job)\<rparr>) h;
                        Some (Inr job, h) }
              else Some (Inl (status_error (HResp_StatusCode resp)), h) }"

definition CreateJob :: "'w web \<Rightarrow> Requester \<Rightarrow> string \<Rightarrow> string \<Rightarrow> 'w hst \<Rightarrow> ((error + Job) \<times> 'w hst) option" where
  "CreateJob web r config name = Job_Create web r config [(''name'', name)] (new_Job (''/job/'' @ name))"

definition UpdateConfig ::
  "'w web \<Rightarrow> Requester \<Rightarrow> string \<Rightarrow> Job \<Rightarrow> 'w hst \<Rightarrow> ((error option \<times> Job) \<times> 'w hst) option" where
  "UpdateConfig web r config job h =
     do { (answer, h) \<leftarrow> PostXML web r (Job_Base job @ ''/config.xml'') config [] h;
          case answer of
            Inl err \<Rightarrow> Some ((Some err, job), h)
          | Inr resp \<Rightarrow>
              if HResp_StatusCode resp = 200
              then do { (_, job, h) \<leftarrow> Job_Poll web r job h; Some ((None, job), h) }
              else Some ((Some (status_error (HResp_StatusCode resp)), job), h) }"

text \<open>\<open>strings.Replace(s, old, "", -1)\<close>\<close>

fun remove_all_fuel :: "nat \<Rightarrow> string \<Rightarrow> string \<Rightarrow> string" where
  "remove_all_fuel 0 old s = s"
| "remove_all_fuel (Suc n) old [] = []"
| "remove_all_fuel (Suc n) old (c # s) =
     (if HasPrefix (c # s) old then remove_all_fuel n old (drop (length old) (c # s)) else c # remove_all_fuel n old s)"

definition remove_all :: "string \<Rightarrow> string \<Rightarrow> string" where
  "remove_all old s = (if old = '''' then s else remove_all_fuel (length s) old s)"

definition Job_GetBuild ::
  "'w web \<Rightarrow> string \<Rightarrow> Requester \<Rightarrow> int \<Rightarrow> Job \<Rightarrow> 'w hst \<Rightarrow> ((error + string) \<times> 'w hst) option" where
  "Job_GetBuild web server r number job h =
     do { let base = remove_all server (JobR_URL (Job_Raw job)) @ ''/'' @ show_int number;
          (answer, h) \<leftarrow> GetJSON web r base [(''depth'', ''1'')] h;
          case answer of
            Inl err \<Rightarrow> Some (Inl err, h)
          | Inr resp \<Rightarrow>
              Some (if HResp_StatusCode resp = 200 then Inr base else Inl (status_error (HResp_StatusCode resp)), h) }"

definition Plugins_Poll ::
  "'w web \<Rightarrow> Requester \<Rightarrow> int \<Rightarrow> 'w hst \<Rightarrow> ((error + int \<times> string) \<times> 'w hst) option" where
  "Plugins_Poll web r depth h =
     do { (answer, h) \<leftarrow> GetJSON web r ''/pluginManager'' [(''depth'', show_int depth)] h;
          Some (case answer of Inl err \<Rightarrow> Inl err | Inr resp \<Rightarrow> Inr (HResp_StatusCode resp, HResp_Body resp), h) }"

section \<open>What is sent\<close>

text \<open>
  \<open>sends r h posts h'\<close>: from \<open>h\<close> to \<open>h'\<close> requests were sent to the server of \<open>r\<close> only, each with its credentials, and those
  with the method POST are \<open>posts\<close>.
\<close>

definition is_post :: "HTTPRequest \<Rightarrow> bool" where "is_post q \<longleftrightarrow> HReq_Method q = ''POST''"

definition sends :: "Requester \<Rightarrow> 'w hst \<Rightarrow> HTTPRequest list \<Rightarrow> 'w hst \<Rightarrow> bool" where
  "sends r h posts h' \<longleftrightarrow> (\<exists>new. sent h' = sent h @ new \<and> filter is_post new = posts \<and>
     (\<forall>q \<in> set new. HReq_Auth q = authorization_of r \<and> HasPrefix (HReq_URL q) (Req_Base r)))"

lemma sends_refl [simp]: "sends r h [] h"
  by (simp add: sends_def)

lemma sends_trans: "sends r h ps h1 \<Longrightarrow> sends r h1 qs h2 \<Longrightarrow> sends r h (ps @ qs) h2"
  unfolding sends_def by (elim exE conjE, rule_tac x = "new @ newa" in exI) auto

lemma sends_none: "sends r h [] h1 \<Longrightarrow> sends r h1 qs h2 \<Longrightarrow> sends r h qs h2"
  using sends_trans [of r h "[]"] by simp

text \<open>The same without a look at the posts.\<close>

definition talks :: "Requester \<Rightarrow> 'w hst \<Rightarrow> 'w hst \<Rightarrow> bool" where
  "talks r h h' \<longleftrightarrow> (\<exists>posts. sends r h posts h')"

lemma talks_sends [intro]: "sends r h posts h' \<Longrightarrow> talks r h h'"
  by (auto simp: talks_def)

lemma talks_refl [simp, intro]: "talks r h h"
  by (blast intro: sends_refl)

lemma talks_trans [trans]: "talks r h h1 \<Longrightarrow> talks r h1 h2 \<Longrightarrow> talks r h h2"
  by (auto simp: talks_def intro: sends_trans)

lemma http_request_simps [simp]:
  "HReq_Method (http_request r ar query) = AR_Method ar" "HReq_Body (http_request r ar query) = AR_Payload ar"
  "HReq_Query (http_request r ar query) = query" "HReq_Auth (http_request r ar query) = authorization_of r"
  "AR_Method ar = ''POST'' \<Longrightarrow> HReq_URL (http_request r ar query) = Req_Base r @ AR_Endpoint ar @ AR_Suffix ar"
  by (simp_all add: http_request_def Let_def)

lemma http_request_at_base: "HasPrefix (HReq_URL (http_request r ar query)) (Req_Base r)"
  by (simp add: http_request_def Let_def HasPrefix_def)

lemma SetHeader_simps [simp]:
  "AR_Method (SetHeader k v ar) = AR_Method ar" "AR_Endpoint (SetHeader k v ar) = AR_Endpoint ar"
  "AR_Payload (SetHeader k v ar) = AR_Payload ar" "AR_Suffix (SetHeader k v ar) = AR_Suffix ar"
  by (simp_all add: SetHeader_def)

lemma NewAPIRequest_simps [simp]:
  "AR_Method (NewAPIRequest m e p) = m" "AR_Endpoint (NewAPIRequest m e p) = e"
  "AR_Payload (NewAPIRequest m e p) = p" "AR_Suffix (NewAPIRequest m e p) = ''''"
  by (simp_all add: NewAPIRequest_def)

lemma Do_runs: "\<exists>res h'. Do web r raw ar query h = Some (res, h')"
  by (auto simp: Do_def Let_def split: option.splits prod.splits sum.splits bool.splits)

lemma Do_sends:
  assumes "Do web r raw ar query h = Some (res, h')"
  shows "\<exists>posts. sends r h posts h' \<and> (posts = [] \<or> posts = [http_request r ar query]) \<and>
    (AR_Method ar \<noteq> ''POST'' \<longrightarrow> posts = []) \<and>
    (AR_Method ar = ''POST'' \<and> (\<exists>resp. res = Inr resp) \<longrightarrow> posts = [http_request r ar query])"
proof (cases "url_error web (HReq_URL (http_request r ar query))")
  case None
  obtain answer w where a: "http_do web (http_request r ar query) (hworld h) = (answer, w)" by fastforce
  have "h' = h\<lparr>hworld := w, sent := sent h @ [http_request r ar query]\<rparr>"
    using assms None a by (auto simp: Do_def Let_def split: option.splits sum.splits bool.splits if_splits)
  then have "sends r h (if AR_Method ar = ''POST'' then [http_request r ar query] else []) h'"
    by (simp add: sends_def is_post_def http_request_at_base)
  then show ?thesis by (rule_tac exI [where x = "if AR_Method ar = ''POST'' then [http_request r ar query] else []"]) simp
qed (use assms in \<open>auto simp: Do_def Let_def intro: exI [where x = "[]"]\<close>)

lemma GetJSON_sends: "GetJSON web r endpoint query h = Some (res, h') \<Longrightarrow> sends r h [] h'"
  unfolding GetJSON_def by (drule Do_sends) auto

lemma GetXML_sends: "GetXML web r endpoint query h = Some (res, h') \<Longrightarrow> sends r h [] h'"
  unfolding GetXML_def by (drule Do_sends) auto

lemma SetCrumb_sends:
  assumes "SetCrumb web r ar h = Some (ar', h')"
  shows "sends r h [] h' \<and> AR_Method ar' = AR_Method ar \<and> AR_Endpoint ar' = AR_Endpoint ar \<and>
    AR_Payload ar' = AR_Payload ar \<and> AR_Suffix ar' = AR_Suffix ar"
  using assms by (auto simp: SetCrumb_def Let_def elim!: bind_SomeE bind_pairE dest: GetJSON_sends split: sum.splits if_splits)

text \<open>The one request of a POST, when it comes to it.\<close>

definition post_of :: "Requester \<Rightarrow> string \<Rightarrow> string option \<Rightarrow> string gomap option \<Rightarrow> HTTPRequest \<Rightarrow> bool" where
  "post_of r endpoint payload query q \<longleftrightarrow> HReq_Method q = ''POST'' \<and> HReq_URL q = Req_Base r @ endpoint \<and>
     HReq_Body q = payload \<and> HReq_Query q = query \<and> HReq_Auth q = authorization_of r"

lemma post_sends:
  assumes "SetCrumb web r (NewAPIRequest ''POST'' endpoint payload) h = Some (ar, h1)"
    and "Do web r raw (SetHeader k v ar) query h1 = Some (res, h')"
  shows "\<exists>posts. sends r h posts h' \<and> length posts \<le> 1 \<and> list_all (post_of r endpoint payload query) posts \<and>
    ((\<exists>resp. res = Inr resp) \<longrightarrow> posts \<noteq> [])"
  using SetCrumb_sends [OF assms(1)] Do_sends [OF assms(2)]
  by (auto simp: post_of_def intro: sends_none)

lemma Post_sends:
  assumes "Post web r endpoint payload query h = Some (res, h')"
  shows "\<exists>posts. sends r h posts h' \<and> length posts \<le> 1 \<and> list_all (post_of r endpoint payload (Some query)) posts \<and>
    ((\<exists>resp. res = Inr resp) \<longrightarrow> posts \<noteq> [])"
proof -
  from assms obtain ar h1 k v where "SetCrumb web r (NewAPIRequest ''POST'' endpoint payload) h = Some (ar, h1)"
    "Do web r False (SetHeader k v ar) (Some query) h1 = Some (res, h')"
    unfolding Post_def by (auto elim!: bind_SomeE)
  then show ?thesis by (rule post_sends)
qed

lemma PostXML_sends:
  assumes "PostXML web r endpoint xml query h = Some (res, h')"
  shows "\<exists>posts. sends r h posts h' \<and> length posts \<le> 1 \<and> list_all (post_of r endpoint (Some xml) (Some query)) posts \<and>
    ((\<exists>resp. res = Inr resp) \<longrightarrow> posts \<noteq> [])"
proof -
  from assms obtain ar h1 k v where "SetCrumb web r (NewAPIRequest ''POST'' endpoint (Some xml)) h = Some (ar, h1)"
    "Do web r False (SetHeader k v ar) (Some query) h1 = Some (res, h')"
    unfolding PostXML_def by (auto elim!: bind_SomeE)
  then show ?thesis by (rule post_sends)
qed


lemma Job_Poll_sends: "Job_Poll web r job h = Some (res, job', h') \<Longrightarrow> sends r h [] h'"
  unfolding Job_Poll_def by (elim bind_SomeE) (auto dest: GetJSON_sends split: sum.splits)

lemma Job_Poll_keeps: "Job_Poll web r job h = Some (res, job', h') \<Longrightarrow> Job_Base job' = Job_Base job"
  unfolding Job_Poll_def by (elim bind_SomeE) (auto split: sum.splits)

lemma GetJob_sends: "GetJob web r name h = Some (res, h') \<Longrightarrow> sends r h [] h'"
  unfolding GetJob_def by (elim bind_SomeE) (auto dest: Job_Poll_sends split: sum.splits)

lemma GetJob_base: "GetJob web r name h = Some (Inr job, h') \<Longrightarrow> Job_Base job = ''/job/'' @ name"
  unfolding GetJob_def
  by (elim bind_SomeE) (auto dest!: Job_Poll_keeps simp: new_Job_def split: sum.splits if_splits)

text \<open>A job that is not inside a folder is created at the root.\<close>

lemma parentBase_root:
  assumes "CHR ''/'' \<notin> set name"
  shows "parentBase (''/job/'' @ name) = Some ''''"
proof -
  have no: "\<not> HasPrefix (drop i (''/job/'' @ name)) ''/job/''" if pos: "0 < i" for i
  proof
    assume "HasPrefix (drop i (''/job/'' @ name)) ''/job/''"
    then obtain t where t: "drop i (''/job/'' @ name) = ''/job/'' @ t" by (auto simp: HasPrefix_iff prefix_def)
    then have len: "i + 5 \<le> 5 + length name" by (auto dest: arg_cong [where f = length])
    have "drop i (''/job/'' @ name) ! 4 = (''/job/'' @ t) ! 4" by (simp only: t)
    moreover have "drop i (''/job/'' @ name) ! 4 = (''/job/'' @ name) ! (i + 4)"
      by (rule nth_drop) (use len in simp)
    moreover obtain k where k: "i = Suc k" using pos by (cases i) auto
    moreover have "(''/job/'' @ name) ! (Suc k + 4) = name ! k" by simp
    ultimately have "name ! k = CHR ''/''" by simp
    moreover have "k < length name" using len k by simp
    ultimately show False using assms nth_mem by metis
  qed
  have "find (\<lambda>i. HasPrefix (drop i (''/job/'' @ name)) ''/job/'') (rev [1..<n]) = None" for n
    unfolding find_None_iff using no by auto
  moreover have "[0..<Suc n] = 0 # [1..<Suc n]" for n by (simp add: upt_conv_Cons del: upt_Suc)
  moreover have "find P (xs @ [x]) = (if P x then Some x else None)" if "find P xs = None" for P :: "nat \<Rightarrow> bool" and xs x
    using that by (induction xs) (auto split: if_splits)
  ultimately show ?thesis by (simp add: parentBase_def del: upt_Suc)
qed

lemma CreateJob_sends:
  assumes "CreateJob web r config name h = Some (res, h')" and "CHR ''/'' \<notin> set name"
  shows "\<exists>posts. sends r h posts h' \<and> length posts \<le> 1 \<and>
    list_all (post_of r ''/createItem'' (Some config) (Some [(''name'', name)])) posts \<and>
    ((\<exists>job. res = Inr job) \<longrightarrow> posts \<noteq> [])"
proof -
  have base: "parentBase (Job_Base (new_Job (''/job/'' @ name))) = Some ''''"
    using parentBase_root [OF assms(2)] by (simp add: new_Job_def)
  from assms(1) base obtain answer h1 where
    post: "PostXML web r ''/createItem'' config [(''name'', name)] h = Some (answer, h1)"
    and rest: "sends r h1 [] h'" and ok: "(\<exists>job. res = Inr job) \<longrightarrow> (\<exists>resp. answer = Inr resp)"
    unfolding CreateJob_def Job_Create_def
    by (elim bind_SomeE) (auto elim!: bind_SomeE dest!: Job_Poll_sends split: sum.splits if_splits)
  from PostXML_sends [OF post] obtain posts where "sends r h posts h1" "length posts \<le> 1"
    "list_all (post_of r ''/createItem'' (Some config) (Some [(''name'', name)])) posts"
    "(\<exists>resp. answer = Inr resp) \<longrightarrow> posts \<noteq> []" by blast
  with sends_trans [OF this(1) rest] ok show ?thesis by (rule_tac exI [where x = posts]) auto
qed

lemma UpdateConfig_sends:
  assumes "UpdateConfig web r config job h = Some ((err, job'), h')"
  shows "\<exists>posts. sends r h posts h' \<and> length posts \<le> 1 \<and>
    list_all (post_of r (Job_Base job @ ''/config.xml'') (Some config) (Some [])) posts \<and> (err = None \<longrightarrow> posts \<noteq> [])"
proof -
  from assms obtain answer h1 where
    post: "PostXML web r (Job_Base job @ ''/config.xml'') config [] h = Some (answer, h1)"
    and rest: "sends r h1 [] h'" and ok: "err = None \<longrightarrow> (\<exists>resp. answer = Inr resp)"
    unfolding UpdateConfig_def
    by (elim bind_SomeE) (auto elim!: bind_SomeE dest!: Job_Poll_sends split: sum.splits if_splits)
  from PostXML_sends [OF post] obtain posts where "sends r h posts h1" "length posts \<le> 1"
    "list_all (post_of r (Job_Base job @ ''/config.xml'') (Some config) (Some [])) posts"
    "(\<exists>resp. answer = Inr resp) \<longrightarrow> posts \<noteq> []" by blast
  with sends_trans [OF this(1) rest] ok show ?thesis by (rule_tac exI [where x = posts]) auto
qed

lemma Job_GetBuild_sends: "Job_GetBuild web server r n job h = Some (res, h') \<Longrightarrow> sends r h [] h'"
  unfolding Job_GetBuild_def Let_def by (elim bind_SomeE) (auto dest: GetJSON_sends split: sum.splits)

lemma Plugins_Poll_sends: "Plugins_Poll web r depth h = Some (res, h') \<Longrightarrow> sends r h [] h'"
  unfolding Plugins_Poll_def by (elim bind_SomeE) (auto dest: GetJSON_sends split: sum.splits)


end
