(* ===== verification/Jenkins_Client.thy ===== *)
theory Jenkins_Client
  imports Gojenkins Config_Client Spec_Defaults
begin

text \<open>
  The client of the Jenkins API: \<open>pkg/client\<close> (the connection settings, the client, jobs, scripts, tokens and the
  secrets of nodes) and the part of \<open>pkg/configuration/configuration.go\<close> that makes a client from the service
  account of the Jenkins pod.
\<close>

section \<open>Connection settings\<close>

definition host_port :: "string \<Rightarrow> int \<Rightarrow> string" where
  "host_port host port = ''http://'' @ host @ '':'' @ show_int port"

definition BuildJenkinsAPIUrl :: "JenkinsAPIConnectionSettings \<Rightarrow> string \<Rightarrow> string \<Rightarrow> int32 \<Rightarrow> int32 \<Rightarrow> string" where
  "BuildJenkinsAPIUrl j serviceName serviceNamespace servicePort serviceNodePort =
     (if API_Hostname j = '''' \<and> API_Port j = 0
      then host_port (serviceName @ ''.'' @ serviceNamespace) (sint servicePort)
      else if API_Hostname j \<noteq> '''' \<and> API_UseNodePort j then host_port (API_Hostname j) (sint serviceNodePort)
      else host_port (API_Hostname j) (API_Port j))"

definition API_Validate :: "JenkinsAPIConnectionSettings \<Rightarrow> error option" where
  "API_Validate j =
     (if API_Port j > 0 \<and> API_UseNodePort j
      then Some (PlainError (''can'' @ [CHR 39] @ ''t use service port and nodePort both. Please use port or nodePort''))
      else if API_Port j < 0 then Some (PlainError ''service port cannot be lower than 0'')
      else if (API_Hostname j = '''' \<and> API_Port j > 0) \<or> (API_Hostname j = '''' \<and> API_UseNodePort j)
      then Some (PlainError ''empty hostname is now allowed. Please provide hostname'')
      else None)"

section \<open>The client\<close>

definition could_not :: "string \<Rightarrow> string" where
  "could_not what = ''couldn'' @ [CHR 39] @ ''t '' @ what"

record Client =
  Cl_Server :: string
  Cl_Version :: string
  Cl_Requester :: Requester

definition errorNotFound :: error where "errorNotFound = PlainError ''404''"

definition isNotFoundError :: "error option \<Rightarrow> bool" where
  "isNotFoundError err = (case err of Some e \<Rightarrow> error_string e = error_string errorNotFound | None \<Rightarrow> False)"

definition new_requester :: "string \<Rightarrow> string \<Rightarrow> string \<Rightarrow> Requester" where
  "new_requester url userName passwordOrToken =
     (if length userName > 0 \<and> length passwordOrToken > 0
      then \<lparr>Req_Base = url, Req_BasicAuth = Some (userName, passwordOrToken), Req_bearer = None\<rparr>
      else \<lparr>Req_Base = url, Req_BasicAuth = None, Req_bearer = Some passwordOrToken\<rparr>)"

definition newClient :: "'w web \<Rightarrow> string \<Rightarrow> string \<Rightarrow> string \<Rightarrow> 'w hst \<Rightarrow> ((error + Client) \<times> 'w hst) option" where
  "newClient web url userName passwordOrToken h =
     do { let url = (if HasSuffix url ''/'' then butlast url else url);
          let r = new_requester url userName passwordOrToken;
          (answer, h) \<leftarrow> GetJSON web r ''/'' [] h;
          case answer of
            Inl err \<Rightarrow> Some (Inl (WrapError (could_not ''init Jenkins API client'') err), h)
          | Inr resp \<Rightarrow>
              do { let version = header resp ''X-Jenkins'';
                   (answer, h) \<leftarrow> GetJSON web r ''/'' [] h;
                   Some (case answer of
                       Inl err \<Rightarrow> Inl (WrapError (could_not ''poll data from Jenkins API'') err)
                     | Inr resp \<Rightarrow>
                         if HResp_StatusCode resp \<noteq> StatusOK
                         then Inl (PlainError (could_not ''poll data from Jenkins API, invalid status code returned: '' @
                                show_int (HResp_StatusCode resp)))
                         else Inr \<lparr>Cl_Server = url, Cl_Version = version, Cl_Requester = r\<rparr>, h) } }"

definition NewUserAndPasswordAuthorization ::
  "'w web \<Rightarrow> string \<Rightarrow> string \<Rightarrow> string \<Rightarrow> 'w hst \<Rightarrow> ((error + Client) \<times> 'w hst) option" where
  "NewUserAndPasswordAuthorization web url userName passwordOrToken = newClient web url userName passwordOrToken"

definition NewBearerTokenAuthorization :: "'w web \<Rightarrow> string \<Rightarrow> string \<Rightarrow> 'w hst \<Rightarrow> ((error + Client) \<times> 'w hst) option" where
  "NewBearerTokenAuthorization web url token = newClient web url '''' token"

section \<open>Jobs and builds\<close>

definition CreateOrUpdateJob ::
  "'w web \<Rightarrow> Client \<Rightarrow> string \<Rightarrow> string \<Rightarrow> 'w hst \<Rightarrow> ((Job option \<times> bool \<times> error option) \<times> 'w hst) option" where
  "CreateOrUpdateJob web cl config jobName h =
     do { (found, h) \<leftarrow> GetJob web (Cl_Requester cl) jobName h;
          case found of
            Inl err \<Rightarrow>
              if isNotFoundError (Some err)
              then do { (made, h) \<leftarrow> CreateJob web (Cl_Requester cl) config jobName h;
                        Some (case made of
                            Inl err \<Rightarrow> (None, True, Some (StackError err))
                          | Inr job \<Rightarrow> (Some job, True, None), h) }
              else Some ((None, False, Some (StackError err)), h)
          | Inr job \<Rightarrow>
              do { ((err, job), h) \<leftarrow> UpdateConfig web (Cl_Requester cl) config job h;
                   Some ((Some job, False, map_option StackError err), h) } }"

definition GetBuild :: "'w web \<Rightarrow> Client \<Rightarrow> string \<Rightarrow> int \<Rightarrow> 'w hst \<Rightarrow> ((error + string) \<times> 'w hst) option" where
  "GetBuild web cl jobName number h =
     do { (found, h) \<leftarrow> GetJob web (Cl_Requester cl) jobName h;
          case found of
            Inl err \<Rightarrow> Some (Inl err, h)
          | Inr job \<Rightarrow>
              (case url_error web (JobR_URL (Job_Raw job)) of
                 Some err \<Rightarrow> Some (Inl err, h)
               | None \<Rightarrow>
                   let job = job\<lparr>Job_Raw := (Job_Raw job)\<lparr>JobR_URL := request_uri web (JobR_URL (Job_Raw job))\<rparr>\<rparr>
                   in Job_GetBuild web (Cl_Server cl) (Cl_Requester cl) number job h) }"

definition GetPlugins :: "'w web \<Rightarrow> Client \<Rightarrow> int \<Rightarrow> 'w hst \<Rightarrow> ((error + string) \<times> 'w hst) option" where
  "GetPlugins web cl depth h =
     do { (polled, h) \<leftarrow> Plugins_Poll web (Cl_Requester cl) depth h;
          Some (case polled of
              Inl err \<Rightarrow> Inl err
            | Inr (statusCode, raw) \<Rightarrow>
                if statusCode \<noteq> StatusOK
                then Inl (PlainError (''invalid status code returned: '' @ show_int statusCode)) else Inr raw, h) }"

section \<open>The secret of a node\<close>

text \<open>
  The regular expression: a text in which a dot stands for any character but a newline, and then the longest run of
  small letters and digits, which is the group \<open>secret\<close>.  The match is the leftmost one.
\<close>

definition jnlp_argument :: string where
  "jnlp_argument = ''<application-desc main-class='' @ [CHR 34] @ ''hudson.remoting.jnlp.Main'' @ [CHR 34] @ ''><argument>''"

fun dotted_prefix :: "string \<Rightarrow> string \<Rightarrow> bool" where
  "dotted_prefix [] s = True"
| "dotted_prefix (p # ps) [] = False"
| "dotted_prefix (p # ps) (c # s) = ((if p = CHR ''.'' then c \<noteq> CHR 10 else p = c) \<and> dotted_prefix ps s)"

definition between :: "char \<Rightarrow> char \<Rightarrow> char \<Rightarrow> bool" where
  "between a z c \<longleftrightarrow> (of_char a :: nat) \<le> of_char c \<and> (of_char c :: nat) \<le> of_char z"

definition secret_char :: "char \<Rightarrow> bool" where
  "secret_char c \<longleftrightarrow> between CHR ''a'' CHR ''z'' c \<or> between CHR ''0'' CHR ''9'' c"

fun secret_submatch :: "string \<Rightarrow> string option" where
  "secret_submatch s =
     (if dotted_prefix jnlp_argument s then Some (takeWhile secret_char (drop (length jnlp_argument) s))
      else case s of [] \<Rightarrow> None | c # s' \<Rightarrow> secret_submatch s')"

definition GetNodeSecret :: "'w web \<Rightarrow> Client \<Rightarrow> string \<Rightarrow> 'w hst \<Rightarrow> ((error + string) \<times> 'w hst) option" where
  "GetNodeSecret web cl name h =
     do { (answer, h) \<leftarrow> GetXML web (Cl_Requester cl) (''/computer/'' @ name @ ''/slave-agent.jnlp'') [] h;
          Some (case answer of
              Inl err \<Rightarrow> Inl (StackError err)
            | Inr resp \<Rightarrow>
                (case secret_submatch (HResp_Body resp) of
                   None \<Rightarrow> Inl (PlainError ''Node secret cannot be parsed'')
                 | Some secret \<Rightarrow> Inr secret), h) }"

section \<open>Scripts\<close>

datatype script_error = ScriptError error | GroovyScriptExecutionFailed

fun script_error_string :: "script_error \<Rightarrow> string" where
  "script_error_string (ScriptError e) = error_string e"
| "script_error_string GroovyScriptExecutionFailed = ''script execution failed''"

text \<open>\<open>url.Values.Encode\<close> for one value.\<close>

definition hex_digit :: "nat \<Rightarrow> char" where
  "hex_digit n = (''0123456789ABCDEF'') ! n"

definition unreserved :: "char \<Rightarrow> bool" where
  "unreserved c \<longleftrightarrow> between CHR ''a'' CHR ''z'' c \<or> between CHR ''A'' CHR ''Z'' c \<or> between CHR ''0'' CHR ''9'' c
     \<or> c \<in> set ''-_.~''"

definition escape_char :: "char \<Rightarrow> string" where
  "escape_char c =
     (if unreserved c then [c] else if c = CHR '' '' then ''+''
      else let n = of_char c in [CHR 37, hex_digit (n div 16), hex_digit (n mod 16)])"

definition QueryEscape :: "string \<Rightarrow> string" where
  "QueryEscape s = concat (map escape_char s)"

definition full_script :: "string \<Rightarrow> string \<Rightarrow> string" where
  "full_script script verifier = script @ newline @ ''print println('' @ [CHR 39] @ verifier @ [CHR 39] @ '')''"

definition executeScript ::
  "'w web \<Rightarrow> Client \<Rightarrow> string \<Rightarrow> string \<Rightarrow> 'w hst \<Rightarrow> ((string \<times> script_error option) \<times> 'w hst) option" where
  "executeScript web cl script verifier h =
     do { let r = Cl_Requester cl;
          (ar, h) \<leftarrow> SetCrumb web r
             (NewAPIRequest ''POST'' ''/scriptText'' (Some (''script='' @ QueryEscape (full_script script verifier)))) h;
          (answer, h) \<leftarrow> Do web r True (SetHeader ''Content-Type'' ''application/x-www-form-urlencoded'' ar) None h;
          Some (case answer of
              Inl err \<Rightarrow> ('''', Some (ScriptError (WrapError (could_not ''execute groovy script, logs '' @ [CHR 39, CHR 39]) err)))
            | Inr resp \<Rightarrow>
                let text = HResp_Body resp in
                if HResp_StatusCode resp \<noteq> StatusOK
                then (text, Some (ScriptError (PlainError (''invalid status code '' @ [CHR 39] @ show_int (HResp_StatusCode resp) @
                       [CHR 39] @ '', logs '' @ [CHR 39] @ text @ [CHR 39]))))
                else if \<not> Contains text verifier then (text, Some GroovyScriptExecutionFailed)
                else (text, None), h) }"

definition ExecuteScript ::
  "'w web \<Rightarrow> Client \<Rightarrow> string \<Rightarrow> 'w hst \<Rightarrow> ((string \<times> script_error option) \<times> 'w hst) option" where
  "ExecuteScript web cl script h =
     (let (now, w) = unix_time web (hworld h)
      in executeScript web cl script (''verifier-'' @ show_int now) (h\<lparr>hworld := w\<rparr>))"

section \<open>Tokens\<close>

record UserToken =
  UT_raw :: userTokenResponse
  UT_base :: string

definition zero_token :: userTokenResponse where
  "zero_token = \<lparr>Token_Status = '''', Token_Data = \<lparr>Token_Name = '''', Token_UUID = '''', Token_Value = ''''\<rparr>\<rparr>"

definition GetToken :: "UserToken \<Rightarrow> string" where
  "GetToken token = Token_Value (Token_Data (UT_raw token))"

definition GenerateToken ::
  "'w web \<Rightarrow> Client \<Rightarrow> string \<Rightarrow> string \<Rightarrow> 'w hst \<Rightarrow> ((error + UserToken) \<times> 'w hst) option" where
  "GenerateToken web cl userName tokenName h =
     do { let endpoint = ''/user/'' @ userName @ ''/descriptorByName/jenkins.security.ApiTokenProperty/generateNewToken'';
          (answer, h) \<leftarrow> Post web (Cl_Requester cl) endpoint None [(''newTokenName'', tokenName)] h;
          Some (case answer of
              Inl err \<Rightarrow> Inl (WrapError (could_not ''generate API token'') err)
            | Inr resp \<Rightarrow>
                let raw = json_token web (HResp_Body resp) zero_token in
                if HResp_StatusCode resp = StatusOK
                then (if Token_Status raw = ''ok'' then Inr \<lparr>UT_raw = raw, UT_base = endpoint\<rparr>
                      else Inl (PlainError (Token_Status raw)))
                else Inl (PlainError (could_not ''generate API token: '' @ show_int (HResp_StatusCode resp))), h) }"

section \<open>A client from the service account\<close>

text \<open>\<open>Configuration\<close>: whether its unexported field \<open>clientSet\<close> is set, the settings and the Jenkins.\<close>

record Configuration_c =
  Conf_clientSet :: bool
  Conf_API :: JenkinsAPIConnectionSettings
  Conf_Jenkins :: Jenkins

definition newReconcilerConfiguration :: "JenkinsAPIConnectionSettings \<Rightarrow> Jenkins \<Rightarrow> Configuration_c" where
  "newReconcilerConfiguration api j = \<lparr>Conf_clientSet = False, Conf_API = api, Conf_Jenkins = j\<rparr>"

text \<open>\<open>printed\<close> is what a command that was run in a pod printed on its two outputs, read from the world after it.\<close>

definition Exec ::
  "'w ext \<Rightarrow> (string list \<Rightarrow> 'w \<Rightarrow> string \<times> string) \<Rightarrow> Configuration_c \<Rightarrow> string \<Rightarrow> string \<Rightarrow> string list \<Rightarrow> 'w st \<Rightarrow>
   ((string \<times> string \<times> error option) \<times> 'w st) option" where
  "Exec ext printed c podName containerName command s =
     (if \<not> Conf_clientSet c then None
      else do { let ns = Meta_Namespace (Jenkins_Meta (Conf_Jenkins c));
                (r, s) \<leftarrow> call ext (NewSPDYExecutorReq ns podName containerName command) s;
                case err_of r of
                  Some err \<Rightarrow> Some (('''', '''', Some (WrapError ''pod exec error while creating Executor'' err)), s)
                | None \<Rightarrow>
                    do { (r, s) \<leftarrow> call ext (StreamReq ns podName containerName command) s;
                         let (stdout, stderr) = printed command (world s);
                         Some ((stdout, stderr, map_option (WrapError (''pod exec error operation on stream: stdout '' @
                             [CHR 39] @ stdout @ [CHR 39] @ '' stderr '' @ [CHR 39] @ stderr @ [CHR 39])) (err_of r)), s) } })"

definition getJenkinsAPIUrl :: "'w ext \<Rightarrow> Configuration_c \<Rightarrow> 'w st \<Rightarrow> ((error + string) \<times> 'w st) option" where
  "getJenkinsAPIUrl ext c s =
     do { let j = Conf_Jenkins c;
          (r, s) \<leftarrow> Client_Get ext Service_t \<lparr>NN_Namespace = Meta_Namespace (Jenkins_Meta j),
             NN_Name = GetJenkinsHTTPServiceName j\<rparr> s;
          case r of
            Inl err \<Rightarrow> Some (Inl err, s)
          | Inr svc \<Rightarrow>
              do { port \<leftarrow> (case Svc_Ports svc of [] \<Rightarrow> None | p # _ \<Rightarrow> Some p);
                   let url = BuildJenkinsAPIUrl (Conf_API c) (Meta_Name (Svc_Meta svc)) (Meta_Namespace (Svc_Meta svc))
                     (SPort_Port port) (SPort_NodePort port);
                   opts \<leftarrow> GetJenkinsOpts j;
                   Some (Inr (url @ (case Option.bind opts (\<lambda>m. map_of m ''prefix'') of None \<Rightarrow> '''' | Some p \<Rightarrow> p)), s) } }"

definition GetJenkinsClientFromServiceAccount ::
  "'w ext \<Rightarrow> (string list \<Rightarrow> 'w \<Rightarrow> string \<times> string) \<Rightarrow> 'v web \<Rightarrow> Configuration_c \<Rightarrow> 'w st \<Rightarrow> 'v hst \<Rightarrow>
   ((error + Client) \<times> 'w st \<times> 'v hst) option" where
  "GetJenkinsClientFromServiceAccount ext printed web c s h =
     do { (url, s) \<leftarrow> getJenkinsAPIUrl ext c s;
          case url of
            Inl err \<Rightarrow> Some (Inl err, s, h)
          | Inr url \<Rightarrow>
              do { (pod, s) \<leftarrow> GetPodByDeployment ext (Conf_Jenkins c) s;
                   podName \<leftarrow> (case pod of Inl _ \<Rightarrow> None | Inr p \<Rightarrow> Some (Meta_Name (Pod_Meta p)));
                   ((token, _, err), s) \<leftarrow> Exec ext printed c podName JenkinsMasterContainerName
                     [''cat'', ''/var/run/secrets/kubernetes.io/serviceaccount/token''] s;
                   case err of
                     Some err \<Rightarrow> Some (Inl err, s, h)
                   | None \<Rightarrow> do { (cl, h) \<leftarrow> NewBearerTokenAuthorization web url token h; Some (cl, s, h) } } }"

section \<open>Runs of a client\<close>

datatype operation =
    CreateOrUpdateJob_op string string
  | GetBuild_op string int
  | GetPlugins_op int
  | GetNodeSecret_op string
  | ExecuteScript_op string
  | GenerateToken_op string string

text \<open>The state after an operation of the client.\<close>

fun run_operation :: "'w web \<Rightarrow> Client \<Rightarrow> operation \<Rightarrow> 'w hst \<Rightarrow> 'w hst option" where
  "run_operation web cl (CreateOrUpdateJob_op config name) h = map_option snd (CreateOrUpdateJob web cl config name h)"
| "run_operation web cl (GetBuild_op name n) h = map_option snd (GetBuild web cl name n h)"
| "run_operation web cl (GetPlugins_op depth) h = map_option snd (GetPlugins web cl depth h)"
| "run_operation web cl (GetNodeSecret_op name) h = map_option snd (GetNodeSecret web cl name h)"
| "run_operation web cl (ExecuteScript_op script) h = map_option snd (ExecuteScript web cl script h)"
| "run_operation web cl (GenerateToken_op user token) h = map_option snd (GenerateToken web cl user token h)"

fun run_operations :: "'w web \<Rightarrow> Client \<Rightarrow> operation list \<Rightarrow> 'w hst \<Rightarrow> 'w hst option" where
  "run_operations web cl [] h = Some h"
| "run_operations web cl (p # ps) h = Option.bind (run_operation web cl p h) (run_operations web cl ps)"


section \<open>Lemmas\<close>

lemma CreateOrUpdateJob_cases:
  assumes "CreateOrUpdateJob web cl config name h = Some ((job, created, err), h')"
  obtains
    (new) e h1 made where "GetJob web (Cl_Requester cl) name h = Some (Inl e, h1)" "isNotFoundError (Some e)"
      "CreateJob web (Cl_Requester cl) config name h1 = Some (made, h')" "created"
      "job = (case made of Inl _ \<Rightarrow> None | Inr x \<Rightarrow> Some x)" "err = None \<longleftrightarrow> (\<exists>x. made = Inr x)"
  | (failed) e where "GetJob web (Cl_Requester cl) name h = Some (Inl e, h')" "\<not> isNotFoundError (Some e)"
      "\<not> created" "job = None" "err = Some (StackError e)"
  | (old) found h1 e updated where "GetJob web (Cl_Requester cl) name h = Some (Inr found, h1)"
      "UpdateConfig web (Cl_Requester cl) config found h1 = Some ((e, updated), h')"
      "\<not> created" "job = Some updated" "err = map_option StackError e"
proof -
  from assms obtain found h1 where f: "GetJob web (Cl_Requester cl) name h = Some (found, h1)"
    by (auto simp: CreateOrUpdateJob_def elim!: bind_SomeE)
  show ?thesis
  proof (cases found)
    case (Inl e)
    with assms f show ?thesis
      by (cases "isNotFoundError (Some e)") (auto simp: CreateOrUpdateJob_def intro: new failed elim!: bind_SomeE split: sum.splits)
  next
    case (Inr x)
    with assms f show ?thesis by (auto simp: CreateOrUpdateJob_def intro: old elim!: bind_SomeE)
  qed
qed

lemma executeScript_sends:
  assumes "executeScript web cl script verifier h = Some ((text, err), h')"
  shows "\<exists>posts. sends (Cl_Requester cl) h posts h' \<and> length posts \<le> 1 \<and>
    list_all (post_of (Cl_Requester cl) ''/scriptText''
       (Some (''script='' @ QueryEscape (full_script script verifier))) None) posts \<and>
    (err = None \<longrightarrow> posts \<noteq> [] \<and> Contains text verifier)"
proof -
  let ?r = "Cl_Requester cl" and ?p = "Some (''script='' @ QueryEscape (full_script script verifier))"
  from assms obtain ar h1 answer where
    1: "SetCrumb web ?r (NewAPIRequest ''POST'' ''/scriptText'' ?p) h = Some (ar, h1)"
      "Do web ?r True (SetHeader ''Content-Type'' ''application/x-www-form-urlencoded'' ar) None h1 = Some (answer, h')"
    and ok: "err = None \<longrightarrow> (\<exists>resp. answer = Inr resp) \<and> Contains text verifier"
    unfolding executeScript_def
    by (auto simp: Let_def elim!: bind_SomeE split: sum.splits if_splits)
  from post_sends [OF 1] ok show ?thesis by blast
qed

lemma ExecuteScript_sends: "ExecuteScript web cl script h = Some (res, h') \<Longrightarrow> talks (Cl_Requester cl) h h'"
  unfolding ExecuteScript_def
  by (cases res) (auto simp: talks_def sends_def split: prod.splits dest!: executeScript_sends)

lemma GenerateToken_sends: "GenerateToken web cl user name h = Some (res, h') \<Longrightarrow> talks (Cl_Requester cl) h h'"
  unfolding GenerateToken_def Let_def by (elim bind_SomeE) (auto dest!: Post_sends)

lemma CreateJob_sends_any:
  "CreateJob web r config name h = Some (res, h') \<Longrightarrow> talks r h h'"
  unfolding CreateJob_def Job_Create_def
  by (elim bind_SomeE)
    (auto elim!: bind_SomeE dest!: Job_Poll_sends PostXML_sends split: sum.splits if_splits; blast intro: talks_trans)

lemma CreateOrUpdateJob_sends:
  assumes "CreateOrUpdateJob web cl config name h = Some ((job, created, err), h')"
  shows "talks (Cl_Requester cl) h h'"
  using assms
  by (cases rule: CreateOrUpdateJob_cases)
    (blast dest: GetJob_sends CreateJob_sends_any UpdateConfig_sends intro: talks_trans)+

lemma run_operation_sends:
  assumes "run_operation web cl p h = Some h'"
  shows "talks (Cl_Requester cl) h h'"
proof (cases p)
  case (CreateOrUpdateJob_op config name)
  with assms obtain res where r: "CreateOrUpdateJob web cl config name h = Some (res, h')" by auto
  then show ?thesis by (cases res) (auto dest: CreateOrUpdateJob_sends)
next
  case (GetBuild_op name n)
  with assms obtain res where r: "GetBuild web cl name n h = Some (res, h')" by auto
  then show ?thesis
    unfolding GetBuild_def Let_def
    by (elim bind_SomeE)
      (auto split: sum.splits option.splits dest!: GetJob_sends Job_GetBuild_sends; blast intro: talks_trans)
next
  case (GetPlugins_op depth)
  with assms obtain res where r: "GetPlugins web cl depth h = Some (res, h')" by auto
  then show ?thesis unfolding GetPlugins_def by (elim bind_SomeE) (auto dest!: Plugins_Poll_sends)
next
  case (GetNodeSecret_op name)
  with assms obtain res where r: "GetNodeSecret web cl name h = Some (res, h')" by auto
  then show ?thesis unfolding GetNodeSecret_def by (elim bind_SomeE) (auto dest!: GetXML_sends)
next
  case (ExecuteScript_op script)
  with assms show ?thesis by (auto dest: ExecuteScript_sends)
next
  case (GenerateToken_op user token)
  with assms show ?thesis by (auto dest: GenerateToken_sends)
qed

lemma run_operations_sends: "run_operations web cl ps h = Some h' \<Longrightarrow> talks (Cl_Requester cl) h h'"
proof (induction ps arbitrary: h)
  case (Cons p ps)
  then obtain h1 where "run_operation web cl p h = Some h1" "run_operations web cl ps h1 = Some h'"
    by (auto elim: bind_SomeE)
  with Cons.IH show ?case by (blast dest: run_operation_sends intro: talks_trans)
qed simp

lemma newClient_requester:
  assumes "newClient web url user password h = Some (Inr cl, h')"
  shows "Cl_Server cl = (if HasSuffix url ''/'' then butlast url else url) \<and>
    Cl_Requester cl = new_requester (Cl_Server cl) user password \<and> sends (Cl_Requester cl) h [] h'"
  using assms unfolding newClient_def Let_def
  by (elim bind_SomeE) (auto elim!: bind_SomeE dest!: GetJSON_sends split: sum.splits if_splits; blast intro: sends_none)

lemma new_requester_simps [simp]:
  "Req_Base (new_requester url user password) = url"
  "authorization_of (new_requester url user password) =
     (if user \<noteq> '''' \<and> password \<noteq> '''' then Basic user password else Bearer password)"
  by (auto simp: new_requester_def authorization_of_def)


text \<open>The leftmost match of the expression of a node secret, described by the parts of the text.\<close>

declare secret_submatch.simps [simp del]

lemma dotted_prefix_iff: "dotted_prefix p s \<longleftrightarrow>
    length p \<le> length s \<and> list_all2 (\<lambda>a c. if a = CHR ''.'' then c \<noteq> CHR 10 else a = c) p (take (length p) s)"
  by (induction p s rule: dotted_prefix.induct) auto

lemma dotted_prefix_append: "length p \<le> length s \<Longrightarrow> dotted_prefix p (s @ t) = dotted_prefix p s"
  by (induction p s rule: dotted_prefix.induct) auto

lemma secret_submatch_skip:
  assumes "\<And>k. k < length pre \<Longrightarrow> \<not> dotted_prefix jnlp_argument (drop k (pre @ s))"
  shows "secret_submatch (pre @ s) = secret_submatch s"
  using assms
proof (induction pre)
  case (Cons c pre)
  have "\<not> dotted_prefix jnlp_argument (c # pre @ s)" using Cons.prems [of 0] by simp
  moreover have "secret_submatch (pre @ s) = secret_submatch s"
    using Cons.prems [of "Suc k" for k] by (intro Cons.IH) auto
  ultimately show ?case by (subst secret_submatch.simps) simp
qed simp

lemma secret_submatch_here:
  assumes "dotted_prefix jnlp_argument (jnlp_argument)"
    and "list_all secret_char secret" and "rest = [] \<or> \<not> secret_char (hd rest)"
  shows "secret_submatch (jnlp_argument @ secret @ rest) = Some secret"
proof -
  have "takeWhile secret_char (secret @ rest) = secret"
    using assms(2,3) by (cases rest) (auto simp: list_all_iff takeWhile_append)
  then show ?thesis using assms(1) by (subst secret_submatch.simps) (simp add: dotted_prefix_append)
qed

lemma jnlp_argument_self: "dotted_prefix jnlp_argument jnlp_argument"
  by (simp add: jnlp_argument_def)

lemma secret_submatch_None: "secret_submatch s = None \<longleftrightarrow> (\<forall>k. \<not> dotted_prefix jnlp_argument (drop k s))"
proof (induction s)
  case (Cons c s)
  show ?case
  proof
    assume none: "secret_submatch (c # s) = None"
    then have "\<not> dotted_prefix jnlp_argument (c # s)" "secret_submatch s = None"
      by (subst (asm) secret_submatch.simps; simp split: if_splits)+
    with Cons.IH show "\<forall>k. \<not> dotted_prefix jnlp_argument (drop k (c # s))"
      by (auto simp: drop_Cons split: nat.split)
  next
    assume no: "\<forall>k. \<not> dotted_prefix jnlp_argument (drop k (c # s))"
    have "\<not> dotted_prefix jnlp_argument (c # s)" using no [rule_format, of 0] by simp
    moreover have "secret_submatch s = None" using Cons.IH no [rule_format, of "Suc k" for k] by simp
    ultimately show "secret_submatch (c # s) = None" by (subst secret_submatch.simps) simp
  qed
qed (simp add: secret_submatch.simps jnlp_argument_def)

lemma reconciler_configuration_gets_no_client:
  "GetJenkinsClientFromServiceAccount ext printed web (newReconcilerConfiguration api j) s h \<noteq> Some (Inr cl, s', h')"
  by (auto simp: GetJenkinsClientFromServiceAccount_def newReconcilerConfiguration_def Exec_def
      elim!: bind_SomeE split: sum.splits)

lemma unset_settings_use_the_service:
  "BuildJenkinsAPIUrl \<lparr>API_Hostname = '''', API_Port = 0, API_UseNodePort = u\<rparr> name ns port nodePort
     = host_port (name @ ''.'' @ ns) (sint port)"
  by (simp add: BuildJenkinsAPIUrl_def)

lemma valid_settings_have_a_host:
  "API_Validate j = None \<Longrightarrow> API_Hostname j = '''' \<Longrightarrow>
     BuildJenkinsAPIUrl j name ns port nodePort = host_port (name @ ''.'' @ ns) (sint port)"
  by (auto simp: API_Validate_def BuildJenkinsAPIUrl_def split: if_splits)


section \<open>Properties\<close>

text \<open>A server that answers every request by a status and a text that depend on the request.\<close>

definition answering :: "(HTTPRequest \<Rightarrow> int \<times> string) \<Rightarrow> unit web" where
  "answering f = \<lparr>http_do = (\<lambda>q w. (Inr \<lparr>HResp_StatusCode = fst (f q), HResp_Headers = [], HResp_Body = snd (f q),
       HResp_ReadError = None\<rparr>, w)), unix_time = (\<lambda>w. (0, w)), url_error = (\<lambda>_. None), request_uri = (\<lambda>u. u),
     json_strings = (\<lambda>_. []), json_job = (\<lambda>_ r. r), json_token = (\<lambda>_ r. r)\<rparr>"

definition quiet :: "unit hst" where "quiet = \<lparr>hworld = (), sent = []\<rparr>"

definition sample_client :: Client where
  "sample_client = \<lparr>Cl_Server = ''http://j'', Cl_Version = '''', Cl_Requester = new_requester ''http://j'' '''' ''t''\<rparr>"

lemma Do_answering: "Do (answering f) r raw ar query h = Some (Inr \<lparr>HResp_StatusCode = fst (f (http_request r ar query)),
    HResp_Headers = [], HResp_Body = snd (f (http_request r ar query)), HResp_ReadError = None\<rparr>,
    h\<lparr>sent := sent h @ [http_request r ar query]\<rparr>)"
  by (cases raw; cases h) (simp_all add: Do_def answering_def header_def Let_def)

lemma answering_simps [simp]:
  "unix_time (answering f) w = (0, w)" "json_strings (answering f) t = []" "url_error (answering f) u = None"
  by (simp_all add: answering_def)

lemmas eval_web = Do_answering GetJSON_def GetXML_def SetCrumb_def PostXML_def Post_def Job_Poll_def GetJob_def

text \<open>
  C35. Creating or updating a job: it is created exactly when the lookup of the job ends in the error 404, and updated
  or given up otherwise.  At most one POST is sent, to the server and with the credentials of the client: with the
  configuration as its body, to createItem with the name of the job, or to config.xml of the job; and it has been sent
  when no error is returned.
\<close>

theorem CreateOrUpdateJob_posts:
  assumes "CreateOrUpdateJob web cl config name h = Some ((job, created, err), h')" and "CHR ''/'' \<notin> set name"
  shows "(created \<longleftrightarrow> (\<exists>e h1. GetJob web (Cl_Requester cl) name h = Some (Inl e, h1) \<and> error_string e = ''404'')) \<and>
    (err = None \<longrightarrow> job \<noteq> None) \<and>
    (\<exists>posts. sends (Cl_Requester cl) h posts h' \<and> length posts \<le> 1 \<and> (err = None \<longrightarrow> posts \<noteq> []) \<and>
       list_all (post_of (Cl_Requester cl) (if created then ''/createItem'' else ''/job/'' @ name @ ''/config.xml'')
         (Some config) (Some (if created then [(''name'', name)] else []))) posts)"
  using assms(1)
proof (cases rule: CreateOrUpdateJob_cases)
  case (new e h1 made)
  from CreateJob_sends [OF new(3) assms(2)] obtain posts where p: "sends (Cl_Requester cl) h1 posts h'" "length posts \<le> 1"
    "list_all (post_of (Cl_Requester cl) ''/createItem'' (Some config) (Some [(''name'', name)])) posts"
    "(\<exists>job. made = Inr job) \<longrightarrow> posts \<noteq> []" by blast
  with sends_none [OF GetJob_sends [OF new(1)] p(1)] new show ?thesis
    by (auto simp: isNotFoundError_def errorNotFound_def split: sum.splits)
next
  case (failed e)
  with GetJob_sends [OF failed(1)] show ?thesis
    by (auto simp: isNotFoundError_def errorNotFound_def intro!: exI [where x = "[]"])
next
  case (old found h1 e updated)
  from UpdateConfig_sends [OF old(2)] obtain posts where p: "sends (Cl_Requester cl) h1 posts h'" "length posts \<le> 1"
    "list_all (post_of (Cl_Requester cl) (Job_Base found @ ''/config.xml'') (Some config) (Some [])) posts"
    "e = None \<longrightarrow> posts \<noteq> []" by blast
  with sends_none [OF GetJob_sends [OF old(1)] p(1)] old GetJob_base [OF old(1)] show ?thesis by auto
qed

theorem CreateOrUpdateJob_posts_witness:
  "\<exists>job h'. CreateOrUpdateJob (answering (\<lambda>q. (if HReq_Method q = ''POST'' then 200 else 404, '''')))
       sample_client ''<xml/>'' ''seed'' quiet = Some ((job, True, None), h') \<and>
     job \<noteq> None \<and> (\<exists>posts. sends (Cl_Requester sample_client) quiet posts h' \<and> length posts = 1)"
proof -
  let ?web = "answering (\<lambda>q. (if HReq_Method q = ''POST'' then 200 else 404, ''''))"
  have not_found: "isNotFoundError (Some (status_error 404))"
    by code_simp
  have parent: "parentBase (Job_Base (new_Job (''/job/'' @ ''seed''))) = Some ''''"
    using parentBase_root [of "''seed''"] by (simp add: new_Job_def)
  obtain job h' where run: "CreateOrUpdateJob ?web sample_client ''<xml/>'' ''seed'' quiet = Some ((Some job, True, None), h')"
    using not_found parent
    by (simp add: CreateOrUpdateJob_def CreateJob_def Job_Create_def eval_web Let_def del: append.simps)
  have name: "CHR ''/'' \<notin> set ''seed''" by simp
  from CreateOrUpdateJob_posts [OF run name] run show ?thesis
    by (auto simp: le_Suc_eq)
qed



text \<open>
  C36. The secret of a node is read back from the answer of the server: when this has the argument element of the
  JNLP main class, for the first time, followed by small letters and digits up to some other character or the end,
  then these are the secret.
\<close>

theorem node_secret_found:
  assumes "GetXML web (Cl_Requester cl) (''/computer/'' @ name @ ''/slave-agent.jnlp'') [] h = Some (Inr resp, h')"
    and "HResp_Body resp = before @ jnlp_argument @ secret @ after"
    and "\<And>k. k < length before \<Longrightarrow> \<not> dotted_prefix jnlp_argument (drop k (HResp_Body resp))"
    and "list_all secret_char secret" and "after = [] \<or> \<not> secret_char (hd after)"
  shows "GetNodeSecret web cl name h = Some (Inr secret, h')"
proof -
  have "secret_submatch (HResp_Body resp) = Some secret"
    using secret_submatch_skip [of before "jnlp_argument @ secret @ after"] assms(2,3)
      secret_submatch_here [OF jnlp_argument_self assms(4,5)] by simp
  then show ?thesis unfolding GetNodeSecret_def assms(1) by simp
qed

theorem node_secret_found_witness:
  "\<exists>h'. GetNodeSecret (answering (\<lambda>q. (200, ''<jnlp>'' @ jnlp_argument @ ''0ab9'' @ ''</argument>''))) sample_client ''n'' quiet
     = Some (Inr ''0ab9'', h')"
proof -
  let ?web = "answering (\<lambda>q. (200, ''<jnlp>'' @ jnlp_argument @ ''0ab9'' @ ''</argument>''))"
  let ?resp = "\<lparr>HResp_StatusCode = 200, HResp_Headers = [],
    HResp_Body = ''<jnlp>'' @ jnlp_argument @ ''0ab9'' @ ''</argument>'', HResp_ReadError = None\<rparr>"
  obtain h' where 1: "GetXML ?web (Cl_Requester sample_client) (''/computer/'' @ ''n'' @ ''/slave-agent.jnlp'') [] quiet
      = Some (Inr ?resp, h')"
    by (simp add: GetXML_def Do_answering)
  have 2: "\<not> dotted_prefix jnlp_argument (drop k (''<jnlp>'' @ jnlp_argument @ ''0ab9'' @ ''</argument>''))"
    if "k < length ''<jnlp>''" for k
    using that by (auto simp: jnlp_argument_def less_Suc_eq)
  have 3: "list_all secret_char ''0ab9''" by (simp add: secret_char_def between_def)
  have 4: "''</argument>'' = [] \<or> \<not> secret_char (hd ''</argument>'')" by (simp add: secret_char_def between_def)
  show ?thesis
    using node_secret_found [OF 1, of "''<jnlp>''" "''0ab9''" "''</argument>''"] 2 3 4 by auto
qed


end
