(* ===== verification/Backup_Roundtrip.thy ===== *)
theory Backup_Roundtrip
  imports Restore_Controller
begin

text \<open>
  What a backup and a later restore do together to the files of a Jenkins.  The shell of the pod is not part of the
  program: it is a parameter \<open>sh\<close>, which runs a command on a file system and is \<open>None\<close> when the command fails.  Of it
  the program relies on what \<open>shell_copies\<close> states, the documented behaviour of \<open>mkdir\<close>, of \<open>cp -r\<close> into a directory
  that exists, and of the patterns \<open>*\<close> and \<open>*.xml\<close>, which match the entries that are not hidden.  Files are the regular
  files by their absolute paths; links and permissions are left aside.
\<close>

section \<open>Files and the shell\<close>

record FS =
  FS_file :: "string \<Rightarrow> string option"
  FS_dir :: "string \<Rightarrow> bool"

text \<open>Absolute paths that the shell takes as they are written, without redundant elements.\<close>

definition path_chars :: string where
  "path_chars = ''/-._0123456789abcdefghijklmnopqrstuvwxyzABCDEFGHIJKLMNOPQRSTUVWXYZ''"

definition clean_path :: "string \<Rightarrow> bool" where
  "clean_path p \<longleftrightarrow> HasPrefix p ''/'' \<and> list_all (\<lambda>c. List.member path_chars c) p \<and>
     list_all (\<lambda>w. w \<noteq> '''' \<and> w \<noteq> ''.'' \<and> w \<noteq> ''..'') (Split (CHR ''/'') (tl p))"

definition dir_of :: "string \<Rightarrow> string" where
  "dir_of p = (if HasSuffix p ''/'' then butlast p else p)"

text \<open>Two directories neither of which lies in the other.\<close>

definition apart :: "string \<Rightarrow> string \<Rightarrow> bool" where
  "apart a d \<longleftrightarrow> \<not> HasPrefix (a @ ''/'') (d @ ''/'') \<and> \<not> HasPrefix (d @ ''/'') (a @ ''/'')"

text \<open>The entry of a directory that a path below it goes through.\<close>

definition top_entry :: "string \<Rightarrow> string" where
  "top_entry r = takeWhile (\<lambda>c. c \<noteq> CHR ''/'') r"

definition visible :: "string \<Rightarrow> bool" where
  "visible e \<longleftrightarrow> e \<noteq> '''' \<and> hd e \<noteq> CHR ''.''"

definition visible_xml :: "string \<Rightarrow> bool" where
  "visible_xml e \<longleftrightarrow> visible e \<and> HasSuffix e ''.xml''"

text \<open>The files after the entries of \<open>d\<close> that \<open>sel\<close> selects were copied into \<open>dst\<close>.\<close>

definition copy_entries :: "(string \<Rightarrow> bool) \<Rightarrow> string \<Rightarrow> string \<Rightarrow> (string \<Rightarrow> string option) \<Rightarrow> string \<Rightarrow> string option" where
  "copy_entries sel d dst F p =
     (let r = drop (Suc (length dst)) p
      in if HasPrefix p (dst @ ''/'') \<and> sel (top_entry r) \<and> \<not> Option.is_none (F (d @ ''/'' @ r))
         then F (d @ ''/'' @ r) else F p)"

definition shell_copies :: "(string \<Rightarrow> FS \<Rightarrow> FS option) \<Rightarrow> bool" where
  "shell_copies sh \<longleftrightarrow>
     (\<forall>d dst f f'. clean_path d \<and> clean_path (dir_of dst) \<and> apart d (dir_of dst) \<and> FS_dir f (dir_of dst) \<longrightarrow>
        (\<forall>x. clean_path (d @ ''/'' @ x) \<and> CHR ''/'' \<notin> set x \<and> sh (''cp -r '' @ d @ ''/'' @ x @ '' '' @ dst) f = Some f' \<longrightarrow>
           FS_file f' = copy_entries (\<lambda>e. e = x) d (dir_of dst) (FS_file f)) \<and>
        (sh (''cp -r '' @ d @ ''/* '' @ dst) f = Some f' \<longrightarrow>
           FS_file f' = copy_entries visible d (dir_of dst) (FS_file f)) \<and>
        (sh (''cp -r '' @ d @ ''/*.xml '' @ dst) f = Some f' \<longrightarrow>
           FS_file f' = copy_entries visible_xml d (dir_of dst) (FS_file f))) \<and>
     (\<forall>args f f' p. sh (''cp -r '' @ args) f = Some f' \<and> FS_dir f p \<longrightarrow> FS_dir f' p) \<and>
     (\<forall>p f f'. clean_path (dir_of p) \<and> sh (''mkdir '' @ p) f = Some f' \<longrightarrow> FS_file f' = FS_file f \<and> FS_dir f' (dir_of p))"

fun shell_runs :: "(string \<Rightarrow> FS \<Rightarrow> FS option) \<Rightarrow> string list \<Rightarrow> FS \<Rightarrow> FS option" where
  "shell_runs sh [] f = Some f"
| "shell_runs sh (c # cs) f = Option.bind (sh c f) (shell_runs sh cs)"

text \<open>The files below a location that \<open>cp\<close> and the patterns reach, by their paths below the home.\<close>

definition in_location :: "string \<Rightarrow> string \<Rightarrow> bool" where
  "in_location sl r \<longleftrightarrow>
     (if sl = ''*.xml'' then visible_xml (top_entry r)
      else HasPrefix r (sl @ ''/'') \<and> visible (top_entry (drop (Suc (length sl)) r)))"

section \<open>Copies from one directory to another\<close>

definition copies_step :: "string \<Rightarrow> string \<Rightarrow> (string \<Rightarrow> bool) \<Rightarrow> (string \<Rightarrow> string option) \<Rightarrow> (string \<Rightarrow> string option) \<Rightarrow> bool" where
  "copies_step a d L F F' \<longleftrightarrow> (\<forall>r. F' (a @ ''/'' @ r) = F (a @ ''/'' @ r) \<and>
     F' (d @ ''/'' @ r) = (if L r \<and> \<not> Option.is_none (F (a @ ''/'' @ r)) then F (a @ ''/'' @ r) else F (d @ ''/'' @ r)))"

lemma run_copies:
  assumes step: "\<And>sl f f'. sl \<in> set ls \<Longrightarrow> ok f \<Longrightarrow> sh (script sl) f = Some f' \<Longrightarrow>
      copies_step a d (L sl) (FS_file f) (FS_file f') \<and> ok f'"
    and "shell_runs sh (map script ls) f = Some f'" and "ok f" and "FS_file f (a @ ''/'' @ r) = Some c"
    and "FS_file f (d @ ''/'' @ r) = Some c \<or> (\<exists>sl \<in> set ls. L sl r)"
  shows "FS_file f' (d @ ''/'' @ r) = Some c"
  using assms
proof (induction ls arbitrary: f)
  case (Cons sl ls)
  from Cons.prems(2) obtain f1 where f1: "sh (script sl) f = Some f1" "shell_runs sh (map script ls) f1 = Some f'"
    by (auto elim: bind_SomeE)
  have 1: "copies_step a d (L sl) (FS_file f) (FS_file f1)" "ok f1"
    using Cons.prems(1) [OF _ Cons.prems(3) f1(1)] by auto
  from 1(1) have at: "FS_file f1 (a @ ''/'' @ r) = FS_file f (a @ ''/'' @ r)"
    "FS_file f1 (d @ ''/'' @ r) = (if L sl r \<and> \<not> Option.is_none (FS_file f (a @ ''/'' @ r))
       then FS_file f (a @ ''/'' @ r) else FS_file f (d @ ''/'' @ r))"
    unfolding copies_step_def by blast+
  have 2: "FS_file f1 (a @ ''/'' @ r) = Some c" by (simp only: at Cons.prems(4))
  have 3: "FS_file f1 (d @ ''/'' @ r) = Some c \<or> (\<exists>sl \<in> set ls. L sl r)"
    unfolding at Cons.prems(4) using Cons.prems(5) by auto
  show ?case
    by (rule Cons.IH [OF _ f1(2) 1(2) 2 3]) (rule Cons.prems(1), simp_all)
qed simp

lemma copy_entries_at: "copy_entries sel d dst F (dst @ ''/'' @ r) =
    (if sel (top_entry r) \<and> \<not> Option.is_none (F (d @ ''/'' @ r)) then F (d @ ''/'' @ r) else F (dst @ ''/'' @ r))"
  unfolding copy_entries_def Let_def by (simp add: HasPrefix_def)

lemma copy_entries_else: "\<not> HasPrefix p (dst @ ''/'') \<Longrightarrow> copy_entries sel d dst F p = F p"
  by (simp add: copy_entries_def)

lemma apart_prefix: "apart a d \<Longrightarrow> \<not> HasPrefix (a @ ''/'' @ r) (d @ ''/'' @ q)"
  unfolding apart_def HasPrefix_iff
  by (metis append_assoc prefixI prefix_order.trans prefix_same_cases)

lemma copy_entries_step:
  assumes "apart a d"
  shows "copies_step a d (\<lambda>r. sel (top_entry r)) F (copy_entries sel a d F)"
proof -
  have "\<not> HasPrefix (a @ ''/'' @ r) (d @ ''/'')" for r
    using apart_prefix [OF assms, of r "[]"] by simp
  then show ?thesis
    unfolding copies_step_def copy_entries_at by (simp add: copy_entries_else)
qed

text \<open>The same one directory further down.\<close>

lemma copy_entries_below:
  assumes "apart a d"
  shows "copies_step a d (\<lambda>r. HasPrefix r (x @ ''/'') \<and> sel (top_entry (drop (Suc (length x)) r))) F
    (copy_entries sel (a @ ''/'' @ x) (d @ ''/'' @ x) F)"
  unfolding copies_step_def
proof (intro allI conjI)
  fix r
  have "\<not> HasPrefix (a @ ''/'' @ r) ((d @ ''/'' @ x) @ ''/'')"
    using apart_prefix [OF assms, of r "x @ ''/''"] by simp
  then show "copy_entries sel (a @ ''/'' @ x) (d @ ''/'' @ x) F (a @ ''/'' @ r) = F (a @ ''/'' @ r)"
    by (rule copy_entries_else)
  show "copy_entries sel (a @ ''/'' @ x) (d @ ''/'' @ x) F (d @ ''/'' @ r) =
    (if (HasPrefix r (x @ ''/'') \<and> sel (top_entry (drop (Suc (length x)) r))) \<and> \<not> Option.is_none (F (a @ ''/'' @ r))
     then F (a @ ''/'' @ r) else F (d @ ''/'' @ r))"
  proof (cases "HasPrefix r (x @ ''/'')")
    case True
    then obtain q where r: "r = x @ ''/'' @ q" by (auto simp: HasPrefix_iff prefix_def)
    have "HasPrefix (x @ ''/'' @ q) (x @ ''/'')" "drop (Suc (length x)) (x @ ''/'' @ q) = q" by simp_all
    then show ?thesis
      using copy_entries_at [of sel "a @ ''/'' @ x" "d @ ''/'' @ x" F q] unfolding r append_assoc by simp
  next
    case False
    then have "\<not> HasPrefix (d @ ''/'' @ r) ((d @ ''/'' @ x) @ ''/'')" by simp
    with False show ?thesis by (simp add: copy_entries_else)
  qed
qed

section \<open>Clean paths\<close>

lemma Split_at_sep: "Split sep (a @ sep # b) = Split sep a @ Split sep b"
proof (induction a)
  case (Cons c a)
  then show ?case by (cases "Split sep a") auto
qed simp

lemma Split_without_sep: "sep \<notin> set a \<Longrightarrow> Split sep a = [a]"
  by (induction a) auto

lemma clean_path_append:
  assumes "clean_path d" and "clean_path (''/'' @ x)"
  shows "clean_path (d @ ''/'' @ x)"
proof -
  from assms(1) obtain d' where d: "d = CHR ''/'' # d'"
    by (cases d) (auto simp: clean_path_def)
  with assms show ?thesis
    by (simp add: clean_path_def Split_at_sep)
qed

lemma clean_path_no_slash:
  assumes "clean_path d"
  shows "\<not> HasSuffix d ''/''"
proof
  assume "HasSuffix d ''/''"
  then obtain q where q: "d = q @ ''/''" by (auto simp: HasSuffix_iff suffix_def)
  from assms q have "q = [] \<or> (\<exists>q'. q = CHR ''/'' # q')" by (cases q) (auto simp: clean_path_def)
  with assms show False
    using Split_at_sep [of "CHR ''/''" _ "[]"] by (auto simp: clean_path_def q)
qed

lemma clean_path_chars: "clean_path d \<Longrightarrow> CHR '' '' \<notin> set d"
proof -
  have "\<not> List.member path_chars CHR '' ''" by code_simp
  then show "clean_path d \<Longrightarrow> CHR '' '' \<notin> set d"
    unfolding clean_path_def list_all_iff by blast
qed

lemma dir_of_clean: "clean_path d \<Longrightarrow> dir_of d = d"
  by (simp add: dir_of_def clean_path_no_slash)

lemma dir_of_slash: "dir_of (d @ ''/'') = d"
  by (simp add: dir_of_def HasSuffix_iff suffix_def)

lemma clean_locations:
  "clean_path ''/var/lib/jenkins''" "sl \<in> {''jobs'', ''plugins''} \<Longrightarrow> clean_path (''/'' @ sl)"
  "sl \<in> {''jobs'', ''plugins''} \<Longrightarrow> clean_path (''/var/lib/jenkins/'' @ sl)"
proof -
  show "clean_path ''/var/lib/jenkins''" by code_simp
  have "clean_path (''/'' @ ''jobs'')" "clean_path (''/'' @ ''plugins'')"
    "clean_path (''/var/lib/jenkins/'' @ ''jobs'')" "clean_path (''/var/lib/jenkins/'' @ ''plugins'')"
    by code_simp+
  then show "sl \<in> {''jobs'', ''plugins''} \<Longrightarrow> clean_path (''/'' @ sl)"
    "sl \<in> {''jobs'', ''plugins''} \<Longrightarrow> clean_path (''/var/lib/jenkins/'' @ sl)"
    by blast+
qed

lemma sub_locations_cases: "sl \<in> set (sub_locations opts) \<Longrightarrow> sl = ''*.xml'' \<or> sl \<in> {''jobs'', ''plugins''}"
  unfolding sub_locations_def by (auto split: if_splits)

section \<open>The scripts of a backup and of a restore\<close>

lemma backup_directory: "backupToLocation b = restoreFromLocation b @ ''/''"
  by (simp add: backupToLocation_def restoreFromLocation_def)

lemma apart_from_home: "apart ''/var/lib/jenkins'' (restoreFromLocation b)"
  "apart (restoreFromLocation b) ''/var/lib/jenkins''"
  by (simp_all add: apart_def restoreFromLocation_def JenkinsBackupVolumePath_def)

lemma apart_below:
  assumes "apart a d"
  shows "apart (a @ ''/'' @ x) (d @ ''/'' @ y)"
proof -
  have "apart d a" using assms by (auto simp: apart_def)
  then show ?thesis
    using apart_prefix [OF assms, of "x @ ''/''" "y @ ''/''"] apart_prefix [of d a "y @ ''/''" "x @ ''/''"]
    by (simp add: apart_def)
qed

lemma cp_script_at: "cp_script loc sl = ''cp -r '' @ ''/var/lib/jenkins'' @ ''/'' @ sl @ '' '' @ loc"
  by (simp add: cp_script_def)

lemma restore_script_at:
  "restore_script b ''*.xml'' = ''cp -r '' @ restoreFromLocation b @ ''/*.xml '' @ ''/var/lib/jenkins/''"
  "sl \<noteq> ''*.xml'' \<Longrightarrow> restore_script b sl =
     ''cp -r '' @ (restoreFromLocation b @ ''/'' @ sl) @ ''/* '' @ ''/var/lib/jenkins/'' @ sl"
  by (simp_all add: restore_script_def restore_from_def restore_to_def defaultJenkinsHome_def)

lemma shell_copiesD:
  assumes "shell_copies sh" and "clean_path d" and "clean_path (dir_of dst)" and "apart d (dir_of dst)"
    and "FS_dir f (dir_of dst)"
  shows "clean_path (d @ ''/'' @ x) \<Longrightarrow> CHR ''/'' \<notin> set x \<Longrightarrow>
      sh (''cp -r '' @ d @ ''/'' @ x @ '' '' @ dst) f = Some f' \<Longrightarrow>
      FS_file f' = copy_entries (\<lambda>e. e = x) d (dir_of dst) (FS_file f)"
    and "sh (''cp -r '' @ d @ ''/* '' @ dst) f = Some f' \<Longrightarrow>
      FS_file f' = copy_entries visible d (dir_of dst) (FS_file f)"
    and "sh (''cp -r '' @ d @ ''/*.xml '' @ dst) f = Some f' \<Longrightarrow>
      FS_file f' = copy_entries visible_xml d (dir_of dst) (FS_file f)"
  using assms unfolding shell_copies_def by blast+

lemma shell_copies_dirs:
  "shell_copies sh \<Longrightarrow> sh (''cp -r '' @ args) f = Some f' \<Longrightarrow> FS_dir f p \<Longrightarrow> FS_dir f' p"
  unfolding shell_copies_def by blast

lemma shell_copies_mkdir:
  assumes "shell_copies sh" and "sh (''mkdir '' @ p) f = Some f'" and "clean_path (dir_of p)"
  shows "FS_file f' = FS_file f" and "FS_dir f' (dir_of p)"
  using assms unfolding shell_copies_def by blast+

definition saved :: "string \<Rightarrow> string \<Rightarrow> bool" where
  "saved sl r \<longleftrightarrow> (if sl = ''*.xml'' then visible_xml (top_entry r) else top_entry r = sl)"

lemma no_slash: "sl \<in> {''jobs'', ''plugins''} \<Longrightarrow> CHR ''/'' \<notin> set sl \<and> sl \<noteq> ''*.xml''"
  by auto

lemma top_entry_append: "CHR ''/'' \<notin> set a \<Longrightarrow> top_entry (a @ CHR ''/'' # q) = a"
  by (induction a) (auto simp: top_entry_def)

lemma in_location_fun:
  "in_location ''*.xml'' = (\<lambda>r. visible_xml (top_entry r))"
  "sl \<noteq> ''*.xml'' \<Longrightarrow> in_location sl =
     (\<lambda>r. HasPrefix r (sl @ ''/'') \<and> visible (top_entry (drop (Suc (length sl)) r)))"
  by (auto simp only: in_location_def fun_eq_iff if_True if_False refl)

lemma in_location_saved:
  assumes "sl \<in> set (sub_locations opts)" and "in_location sl r"
  shows "saved sl r"
proof (cases "sl = ''*.xml''")
  case True
  then show ?thesis using assms(2) by (simp add: in_location_def saved_def)
next
  case False
  with assms(1) have sl: "CHR ''/'' \<notin> set sl" using sub_locations_cases no_slash by blast
  from False assms(2) obtain q where "r = sl @ ''/'' @ q"
    by (auto simp: in_location_def HasPrefix_iff prefix_def)
  with sl False show ?thesis by (simp add: saved_def top_entry_append)
qed

lemma backup_step:
  assumes sh: "shell_copies sh" and D: "clean_path (restoreFromLocation b)" and sl: "sl \<in> set (sub_locations opts)"
    and dir: "FS_dir f (restoreFromLocation b)"
    and run: "sh (cp_script (backupToLocation b) sl) f = Some f'"
  shows "copies_step ''/var/lib/jenkins'' (restoreFromLocation b) (saved sl) (FS_file f) (FS_file f') \<and>
    FS_dir f' (restoreFromLocation b)"
proof -
  let ?D = "restoreFromLocation b" and ?dst = "backupToLocation b" and ?H = "''/var/lib/jenkins''"
  have at: "dir_of ?dst = ?D" by (simp only: backup_directory dir_of_slash)
  note copies = shell_copiesD [OF sh clean_locations(1), of ?dst f, unfolded at, OF D apart_from_home(1) dir]
  from sub_locations_cases [OF sl] have "FS_file f' = copy_entries (if sl = ''*.xml'' then visible_xml else (\<lambda>e. e = sl)) ?H ?D (FS_file f)"
  proof
    assume "sl = ''*.xml''"
    with run show ?thesis using copies(3) [of f'] by (simp add: cp_script_at)
  next
    assume "sl \<in> {''jobs'', ''plugins''}"
    then have ne: "sl \<noteq> ''*.xml''" and x: "CHR ''/'' \<notin> set sl" "clean_path (?H @ ''/'' @ sl)"
      using no_slash clean_locations(3) by simp_all
    from copies(1) [OF x(2,1) run [unfolded cp_script_at]] show ?thesis by (simp only: ne if_False)
  qed
  moreover have "FS_dir f' ?D"
    using shell_copies_dirs [OF sh _ dir] run unfolding cp_script_at by blast
  ultimately show ?thesis
    using copy_entries_step [OF apart_from_home(1), of b _ "FS_file f"] unfolding saved_def by (cases "sl = ''*.xml''") auto
qed

lemma restore_step:
  assumes sh: "shell_copies sh" and D: "clean_path (restoreFromLocation b)" and sl: "sl \<in> set (sub_locations opts)"
    and dir: "FS_dir f ''/var/lib/jenkins''" "sl \<noteq> ''*.xml'' \<Longrightarrow> FS_dir f (''/var/lib/jenkins/'' @ sl)"
    and run: "sh (restore_script b sl) f = Some f'"
  shows "copies_step (restoreFromLocation b) ''/var/lib/jenkins'' (in_location sl) (FS_file f) (FS_file f')"
proof -
  let ?D = "restoreFromLocation b" and ?H = "''/var/lib/jenkins''"
  from sub_locations_cases [OF sl] show ?thesis
  proof
    assume x: "sl = ''*.xml''"
    have at: "dir_of ''/var/lib/jenkins/'' = ?H" by code_simp
    from run have "sh (''cp -r '' @ ?D @ ''/*.xml '' @ ''/var/lib/jenkins/'') f = Some f'"
      by (simp only: x restore_script_at(1))
    from shell_copiesD(3) [OF sh D _ _ _ this, unfolded at, OF clean_locations(1) apart_from_home(2) dir(1)]
    show ?thesis using copy_entries_step [OF apart_from_home(2), of b visible_xml]
      by (simp only: x in_location_fun(1))
  next
    assume x: "sl \<in> {''jobs'', ''plugins''}"
    note ne = no_slash [OF x, THEN conjunct2] and H = clean_locations(3) [OF x]
    have at: "dir_of (''/var/lib/jenkins/'' @ sl) = ?H @ ''/'' @ sl" using dir_of_clean [OF H] by simp
    from run have run': "sh (''cp -r '' @ (?D @ ''/'' @ sl) @ ''/* '' @ ''/var/lib/jenkins/'' @ sl) f = Some f'"
      by (simp only: restore_script_at(2) [OF ne])
    have H': "clean_path (?H @ ''/'' @ sl)" "FS_dir f (?H @ ''/'' @ sl)" using H dir(2) [OF ne] by simp_all
    from shell_copiesD(2) [OF sh clean_path_append [OF D clean_locations(2) [OF x]] _ _ _ run', unfolded at,
        OF H'(1) apart_below [OF apart_from_home(2)] H'(2)]
    show ?thesis using copy_entries_below [OF apart_from_home(2), of b sl visible]
      by (simp only: in_location_fun(2) [OF ne])
  qed
qed

section \<open>A saved file comes back\<close>

lemma saved_by_backup:
  assumes sh: "shell_copies sh" and D: "clean_path (restoreFromLocation b)"
    and run: "shell_runs sh (mkdir_script (backupToLocation b) # map (cp_script (backupToLocation b)) (sub_locations opts)) f
      = Some f'"
    and sl: "sl \<in> set (sub_locations opts)" "in_location sl r" and c: "FS_file f (''/var/lib/jenkins/'' @ r) = Some c"
  shows "FS_file f' (backupToLocation b @ r) = Some c"
proof -
  have at: "dir_of (backupToLocation b) = restoreFromLocation b" by (simp only: backup_directory dir_of_slash)
  from run obtain f1 where f1: "sh (''mkdir '' @ backupToLocation b) f = Some f1"
    "shell_runs sh (map (cp_script (backupToLocation b)) (sub_locations opts)) f1 = Some f'"
    unfolding mkdir_script_def shell_runs.simps by (auto elim!: bind_SomeE)
  note made = shell_copies_mkdir [OF sh f1(1), unfolded at, OF D]
  have "FS_file f1 (''/var/lib/jenkins'' @ ''/'' @ r) = Some c" using made(1) c by simp
  from run_copies [of "sub_locations opts" "\<lambda>f. FS_dir f (restoreFromLocation b)", OF _ f1(2) made(2) this]
  show ?thesis
    using backup_step [OF sh D] in_location_saved [OF sl] sl(1) unfolding backup_directory append_assoc by blast
qed

lemma fetched_by_restore:
  assumes sh: "shell_copies sh" and D: "clean_path (restoreFromLocation b)"
    and run: "shell_runs sh (map (restore_script b) (sub_locations opts)) g = Some g'"
    and dirs: "FS_dir g ''/var/lib/jenkins''"
      "\<forall>sl \<in> set (sub_locations opts). sl = ''*.xml'' \<or> FS_dir g (''/var/lib/jenkins/'' @ sl)"
    and sl: "sl \<in> set (sub_locations opts)" "in_location sl r" and c: "FS_file g (backupToLocation b @ r) = Some c"
  shows "FS_file g' (''/var/lib/jenkins/'' @ r) = Some c"
proof -
  let ?ok = "\<lambda>g. FS_dir g ''/var/lib/jenkins'' \<and>
    (\<forall>sl \<in> set (sub_locations opts). sl = ''*.xml'' \<or> FS_dir g (''/var/lib/jenkins/'' @ sl))"
  have step: "copies_step (restoreFromLocation b) ''/var/lib/jenkins'' (in_location sl) (FS_file f) (FS_file f') \<and> ?ok f'"
    if "sl \<in> set (sub_locations opts)" "?ok f" "sh (restore_script b sl) f = Some f'" for sl f f'
  proof -
    obtain args where args: "restore_script b sl = ''cp -r '' @ args"
      using restore_script_at by (cases "sl = ''*.xml''") blast+
    have "FS_dir f' p" if "FS_dir f p" for p
      by (rule shell_copies_dirs [OF sh \<open>sh (restore_script b sl) f = Some f'\<close> [unfolded args] that])
    with that(2) have "?ok f'" by blast
    moreover have "copies_step (restoreFromLocation b) ''/var/lib/jenkins'' (in_location sl) (FS_file f) (FS_file f')"
      using that by (intro restore_step [OF sh D]) auto
    ultimately show ?thesis by blast
  qed
  have c': "FS_file g (restoreFromLocation b @ ''/'' @ r) = Some c" using c by (simp only: backup_directory append_assoc)
  have any: "\<exists>sl \<in> set (sub_locations opts). in_location sl r" using sl by blast
  have "FS_file g' (''/var/lib/jenkins'' @ ''/'' @ r) = Some c"
    by (rule run_copies [of "sub_locations opts" ?ok, OF step run conjI [OF dirs] c' disjI2 [OF any]])
  then show ?thesis by simp
qed


section \<open>A shell\<close>

text \<open>A shell with the two commands, for the witness: it reads the words of the command and takes the last element of the source apart.\<close>

definition last_element :: "string \<Rightarrow> string" where
  "last_element p = rev (top_entry (rev p))"

definition selects :: "string \<Rightarrow> string \<Rightarrow> bool" where
  "selects x = (if x = ''*'' then visible else if x = ''*.xml'' then visible_xml else (\<lambda>e. e = x))"

definition small_shell :: "string \<Rightarrow> FS \<Rightarrow> FS option" where
  "small_shell c f =
     (case Split (CHR '' '') c of
        [mkdir, p] \<Rightarrow> if mkdir = ''mkdir'' then Some (f\<lparr>FS_dir := (FS_dir f)(dir_of p := True)\<rparr>) else None
      | [cp, r, src, dst] \<Rightarrow>
          if cp = ''cp'' \<and> r = ''-r'' \<and> FS_dir f (dir_of dst)
          then Some (f\<lparr>FS_file := copy_entries (selects (last_element src))
                 (take (length src - Suc (length (last_element src))) src) (dir_of dst) (FS_file f)\<rparr>)
          else None
      | _ \<Rightarrow> None)"

lemma last_element_at: "CHR ''/'' \<notin> set x \<Longrightarrow> last_element (d @ CHR ''/'' # x) = x"
  using top_entry_append [of "rev x" "rev d"] by (simp add: last_element_def)

lemma selects_plain:
  assumes "clean_path (d @ ''/'' @ x)"
  shows "selects x = (\<lambda>e. e = x)"
proof -
  have "\<not> List.member path_chars CHR ''*''" by code_simp
  with assms have "CHR ''*'' \<notin> set x"
    unfolding clean_path_def list_all_iff by auto
  then show ?thesis by (auto simp: selects_def)
qed

lemma dir_of_chars: "CHR '' '' \<notin> set (dir_of p) \<Longrightarrow> CHR '' '' \<notin> set p"
  by (auto simp: dir_of_def HasSuffix_iff suffix_def split: if_splits)

lemma small_shell_cp:
  assumes "clean_path d" and "clean_path (dir_of dst)" and "CHR ''/'' \<notin> set x" and "CHR '' '' \<notin> set x"
  shows "small_shell (''cp -r '' @ d @ ''/'' @ x @ '' '' @ dst) f =
    (if FS_dir f (dir_of dst) then Some (f\<lparr>FS_file := copy_entries (selects x) d (dir_of dst) (FS_file f)\<rparr>) else None)"
proof -
  have sp: "CHR '' '' \<notin> set (d @ CHR ''/'' # x)" "CHR '' '' \<notin> set dst"
    using clean_path_chars [OF assms(1)] clean_path_chars [OF assms(2)] assms(4) dir_of_chars by auto
  have "Split (CHR '' '') (''cp -r '' @ (d @ CHR ''/'' # x) @ '' '' @ dst) = [''cp'', ''-r'', d @ CHR ''/'' # x, dst]"
    using Split_at_sep [of "CHR '' ''" "d @ CHR ''/'' # x" dst] Split_without_sep [OF sp(1)] Split_without_sep [OF sp(2)]
    by simp
  then show ?thesis using last_element_at [OF assms(3), of d] by (simp add: small_shell_def)
qed

lemma small_shell_dirs: "small_shell c f = Some f' \<Longrightarrow> FS_dir f p \<Longrightarrow> FS_dir f' p"
  by (auto simp: small_shell_def split: list.splits if_splits)

lemma small_shell_copies: "shell_copies small_shell"
  unfolding shell_copies_def
proof (intro conjI allI impI)
  fix d dst x and f f' :: FS
  assume d: "clean_path d \<and> clean_path (dir_of dst) \<and> apart d (dir_of dst) \<and> FS_dir f (dir_of dst)"
  show "FS_file f' = copy_entries (\<lambda>e. e = x) d (dir_of dst) (FS_file f)"
    if "clean_path (d @ ''/'' @ x) \<and> CHR ''/'' \<notin> set x \<and> small_shell (''cp -r '' @ d @ ''/'' @ x @ '' '' @ dst) f = Some f'"
  proof -
    have "CHR '' '' \<notin> set x" using clean_path_chars [of "d @ ''/'' @ x"] that by auto
    then show ?thesis
      using d that small_shell_cp [of d dst x f] selects_plain [of d x] by auto
  qed
  show "FS_file f' = copy_entries visible d (dir_of dst) (FS_file f)"
    if "small_shell (''cp -r '' @ d @ ''/* '' @ dst) f = Some f'"
    using d that small_shell_cp [of d dst "''*''" f] by (auto simp: selects_def)
  show "FS_file f' = copy_entries visible_xml d (dir_of dst) (FS_file f)"
    if "small_shell (''cp -r '' @ d @ ''/*.xml '' @ dst) f = Some f'"
    using d that small_shell_cp [of d dst "''*.xml''" f] by (auto simp: selects_def)
next
  fix args and f f' :: FS and p
  assume "small_shell (''cp -r '' @ args) f = Some f' \<and> FS_dir f p"
  then show "FS_dir f' p" using small_shell_dirs by blast
next
  fix p and f f' :: FS
  assume p: "clean_path (dir_of p) \<and> small_shell (''mkdir '' @ p) f = Some f'"
  then have "CHR '' '' \<notin> set p" using clean_path_chars dir_of_chars by blast
  then have "Split (CHR '' '') (''mkdir '' @ p) = [''mkdir'', p]" by (simp add: Split_without_sep)
  with p have "f' = f\<lparr>FS_dir := (FS_dir f)(dir_of p := True)\<rparr>" by (simp add: small_shell_def)
  then show "FS_file f' = FS_file f" "FS_dir f' (dir_of p)" by simp_all
qed

definition sample_files :: FS where
  "sample_files = \<lparr>FS_file = (\<lambda>p. if p = ''/var/lib/jenkins/jobs/a/config.xml'' then Some ''<project/>'' else None),
     FS_dir = (\<lambda>p. p = ''/var/lib/jenkins'' \<or> p = ''/var/lib/jenkins/jobs'')\<rparr>"

text \<open>The files after everything outside a directory was lost.\<close>

definition only_below :: "string \<Rightarrow> FS \<Rightarrow> FS" where
  "only_below d f = f\<lparr>FS_file := (\<lambda>p. if HasPrefix p d then FS_file f p else None)\<rparr>"

definition backup_and_restore :: "Backup \<Rightarrow> BackupOptions \<Rightarrow> FS \<Rightarrow> FS option" where
  "backup_and_restore b opts f =
     Option.bind (shell_runs small_shell (mkdir_script (backupToLocation b) # map (cp_script (backupToLocation b)) (sub_locations opts)) f)
       (\<lambda>f'. shell_runs small_shell (map (restore_script b) (sub_locations opts)) (only_below (backupToLocation b) f'))"

lemma sample_runs: "\<not> Option.is_none (backup_and_restore (sample_backup []) (Strategy_Options (sample_strategy True)) sample_files)"
  by code_simp

lemma small_shell_runs_dirs: "shell_runs small_shell cs f = Some f' \<Longrightarrow> FS_dir f p \<Longrightarrow> FS_dir f' p"
  by (induction cs arbitrary: f) (auto elim!: bind_SomeE dest: small_shell_dirs)


end
