(* ===== verification/Go_Memory.thy ===== *)
theory Go_Memory
  imports Prelude "HOL-Library.AList"
begin

text \<open>
  Memory that Go values share: pointers, slices and maps refer to cells, so assigning a struct copies its references
  and not what they refer to.  The rest of the development takes values as values; this theory is what the generated
  functions \<open>DeepCopyInto\<close> are modelled in, whose purpose is to make that true.  The locale \<open>copier\<close> is their contract.
\<close>

section \<open>Values and cells\<close>

datatype scalar = Go_String string | Go_Bool bool | Go_Int int

text \<open>A slice is an array with the position of its first element and its length; \<open>None\<close> is \<open>nil\<close>.\<close>

datatype gv =
    Scalar scalar
  | Struct "string \<Rightarrow> gv"
  | Ptr "nat option"
  | Slc "(nat \<times> nat \<times> nat) option"
  | Mp "nat option"

datatype cell = One gv | Array "gv list" | Table "(string \<times> gv) list"

record Memory =
  mem :: "nat \<Rightarrow> cell option"
  next_addr :: nat

definition sound :: "Memory \<Rightarrow> bool" where
  "sound m \<longleftrightarrow> (\<forall>a. mem m a \<noteq> None \<longrightarrow> a < next_addr m)"

text \<open>\<open>new\<close> and \<open>make\<close> take an address; \<open>put\<close> fills its cell.\<close>

definition new :: "Memory \<Rightarrow> nat \<times> Memory" where
  "new m = (next_addr m, m\<lparr>next_addr := Suc (next_addr m)\<rparr>)"

definition put :: "nat \<Rightarrow> cell \<Rightarrow> Memory \<Rightarrow> Memory" where
  "put a c m = m\<lparr>mem := (mem m)(a \<mapsto> c)\<rparr>"

definition grows :: "Memory \<Rightarrow> Memory \<Rightarrow> bool" where
  "grows m m' \<longleftrightarrow> next_addr m \<le> next_addr m' \<and> (\<forall>a < next_addr m. mem m' a = mem m a)"

section \<open>Types, and what a value says\<close>

datatype ty =
    Basic
  | StructT "(string \<times> ty) list"
  | PtrT ty
  | SliceT ty
  | MapT ty

text \<open>What a value of a type says once its references are followed, without the addresses.\<close>

datatype tree =
    T_Scalar scalar
  | T_Struct "tree list"
  | T_Nil
  | T_Ptr tree
  | T_Slice "tree list"
  | T_Map "string \<Rightarrow> tree option"

fun collect :: "('a \<times> 'b list) option list \<Rightarrow> ('a list \<times> 'b list) option" where
  "collect [] = Some ([], [])"
| "collect (r # rs) = do { (x, as) \<leftarrow> r; (xs, bs) \<leftarrow> collect rs; Some (x # xs, as @ bs) }"

text \<open>
  The view of a value: what it says and the addresses it reaches; \<open>None\<close> when it is not of the type, so that a
  program could not hold it.
\<close>

function view :: "Memory \<Rightarrow> ty \<Rightarrow> gv \<Rightarrow> (tree \<times> nat list) option" where
  "view m Basic v = (case v of Scalar s \<Rightarrow> Some (T_Scalar s, []) | _ \<Rightarrow> None)"
| "view m (StructT fs) v =
     (case v of
        Struct g \<Rightarrow> map_option (\<lambda>(xs, as). (T_Struct xs, as)) (collect (map (\<lambda>ft. view m (snd ft) (g (fst ft))) fs))
      | _ \<Rightarrow> None)"
| "view m (PtrT t) v =
     (case v of
        Ptr None \<Rightarrow> Some (T_Nil, [])
      | Ptr (Some a) \<Rightarrow>
          (case mem m a of
             Some (One w) \<Rightarrow> map_option (\<lambda>(x, as). (T_Ptr x, a # as)) (view m t w)
           | _ \<Rightarrow> None)
      | _ \<Rightarrow> None)"
| "view m (SliceT t) v =
     (case v of
        Slc None \<Rightarrow> Some (T_Nil, [])
      | Slc (Some (a, off, len)) \<Rightarrow>
          (case mem m a of
             Some (Array ws) \<Rightarrow>
               if off + len \<le> length ws
               then map_option (\<lambda>(xs, as). (T_Slice xs, a # as)) (collect (map (\<lambda>w. view m t w) (take len (drop off ws))))
               else None
           | _ \<Rightarrow> None)
      | _ \<Rightarrow> None)"
| "view m (MapT t) v =
     (case v of
        Mp None \<Rightarrow> Some (T_Nil, [])
      | Mp (Some a) \<Rightarrow>
          (case mem m a of
             Some (Table es) \<Rightarrow>
               if distinct (map fst es)
               then map_option (\<lambda>(xs, as). (T_Map (map_of (zip (map fst es) xs)), a # as)) (collect (map (\<lambda>e. view m t (snd e)) es))
               else None
           | _ \<Rightarrow> None)
      | _ \<Rightarrow> None)"
  by pat_completeness auto
termination
proof (relation "measure (\<lambda>(m, t, v). size t)")
  fix m :: Memory and fs :: "(string \<times> ty) list" and v g and ft :: "string \<times> ty"
  assume "ft \<in> set fs"
  then show "((m, snd ft, g (fst ft)), (m, StructT fs, v)) \<in> measure (\<lambda>(m, t, v). size t)"
    by (induction fs) auto
qed auto


section \<open>Lemmas on views\<close>

lemma collect_Some_Cons: "collect (r # rs) = Some (ys, bs) \<longleftrightarrow>
    (\<exists>x as xs bs'. r = Some (x, as) \<and> collect rs = Some (xs, bs') \<and> ys = x # xs \<and> bs = as @ bs')"
  by (cases r; cases "collect rs") auto

lemma collect_cong:
  assumes "collect (map f ws) = Some (xs, as)"
    and "\<And>w x bs. w \<in> set ws \<Longrightarrow> f w = Some (x, bs) \<Longrightarrow> set bs \<subseteq> set as \<Longrightarrow> g w = Some (x, bs)"
  shows "collect (map g ws) = Some (xs, as)"
  using assms
proof (induction ws arbitrary: xs as)
  case (Cons w ws)
  from Cons.prems(1) obtain x bs xs' bs' where *: "f w = Some (x, bs)" "collect (map f ws) = Some (xs', bs')"
    "xs = x # xs'" "as = bs @ bs'" by (auto simp: collect_Some_Cons simp del: collect.simps)
  have "collect (map g ws) = Some (xs', bs')"
  proof (rule Cons.IH [OF *(2)])
    fix w' y cs
    assume "w' \<in> set ws" "f w' = Some (y, cs)" "set cs \<subseteq> set bs'"
    with *(4) show "g w' = Some (y, cs)" by (intro Cons.prems(2)) auto
  qed
  with Cons.prems(2) [OF _ *(1)] * show ?case by simp
qed simp

lemma collect_length: "collect rs = Some (xs, as) \<Longrightarrow> length xs = length rs"
  by (induction rs arbitrary: xs as) (auto simp: collect_Some_Cons simp del: collect.simps(2))

lemma collect_reaches: "collect (map f ws) = Some (xs, as) \<Longrightarrow> a \<in> set as \<Longrightarrow> \<exists>w x bs. w \<in> set ws \<and> f w = Some (x, bs) \<and> a \<in> set bs"
proof (induction ws arbitrary: xs as)
  case (Cons w ws)
  from Cons.prems(1) obtain x bs xs' bs' where *: "f w = Some (x, bs)" "collect (map f ws) = Some (xs', bs')"
    "as = bs @ bs'" by (auto simp: collect_Some_Cons simp del: collect.simps)
  show ?case
  proof (cases "a \<in> set bs")
    case True
    with *(1) show ?thesis by auto
  next
    case False
    with Cons.IH [OF *(2)] Cons.prems(2) *(3) show ?thesis by auto
  qed
qed simp

text \<open>A view depends on the cells it reaches only.\<close>

lemma view_frame:
  "view m t v = Some (x, as) \<Longrightarrow> (\<And>a. a \<in> set as \<Longrightarrow> mem m' a = mem m a) \<Longrightarrow> view m' t v = Some (x, as)"
proof (induction m t v arbitrary: x as rule: view.induct)
  case (1 m v)
  then show ?case by (auto split: gv.splits)
next
  case (2 m fs v)
  from 2(2) obtain g xs where v: "v = Struct g" "x = T_Struct xs"
    and xs: "collect (map (\<lambda>ft. view m (snd ft) (g (fst ft))) fs) = Some (xs, as)"
    by (auto split: gv.splits)
  have "collect (map (\<lambda>ft. view m' (snd ft) (g (fst ft))) fs) = Some (xs, as)"
    by (rule collect_cong [OF xs]) (use 2 v in blast)
  with v show ?case by simp
next
  case (3 m t v)
  then show ?case by (fastforce split: gv.splits option.splits cell.splits)
next
  case (4 m t v)
  show ?case
  proof (cases "v = Slc None")
    case False
    with 4(2) obtain a off len ws xs bs where v: "v = Slc (Some (a, off, len))" "mem m a = Some (Array ws)"
      "off + len \<le> length ws" "x = T_Slice xs" "as = a # bs"
      and xs: "collect (map (\<lambda>w. view m t w) (take len (drop off ws))) = Some (xs, bs)"
      by (auto split: gv.splits option.splits cell.splits if_splits)
    have "collect (map (\<lambda>w. view m' t w) (take len (drop off ws))) = Some (xs, bs)"
    proof (rule collect_cong [OF xs])
      fix w y cs
      assume "w \<in> set (take len (drop off ws))" "view m t w = Some (y, cs)" "set cs \<subseteq> set bs"
      with 4(3) v show "view m' t w = Some (y, cs)" by (intro 4(1)) auto
    qed
    with v 4(3) show ?thesis by simp
  qed (use 4(2) in simp)
next
  case (5 m t v)
  show ?case
  proof (cases "v = Mp None")
    case False
    with 5(2) obtain a es xs bs where v: "v = Mp (Some a)" "mem m a = Some (Table es)" "distinct (map fst es)"
      "x = T_Map (map_of (zip (map fst es) xs))" "as = a # bs"
      and xs: "collect (map (\<lambda>e. view m t (snd e)) es) = Some (xs, bs)"
      by (auto split: gv.splits option.splits cell.splits if_splits)
    have "collect (map (\<lambda>e. view m' t (snd e)) es) = Some (xs, bs)"
    proof (rule collect_cong [OF xs])
      fix e y cs
      assume "e \<in> set es" "view m t (snd e) = Some (y, cs)" "set cs \<subseteq> set bs"
      with 5(3) v show "view m' t (snd e) = Some (y, cs)" by (intro 5(1)) auto
    qed
    with v 5(3) show ?thesis by simp
  qed (use 5(2) in simp)
qed

lemma view_allocated: "view m t v = Some (x, as) \<Longrightarrow> a \<in> set as \<Longrightarrow> mem m a \<noteq> None"
proof (induction m t v arbitrary: x as rule: view.induct)
  case (2 m fs v)
  then obtain g xs where v: "v = Struct g"
    and xs: "collect (map (\<lambda>ft. view m (snd ft) (g (fst ft))) fs) = Some (xs, as)"
    by (auto split: gv.splits)
  from collect_reaches [OF xs 2(3)] 2(1) [OF v] show ?case by blast
next
  case (4 m t v)
  from 4(2,3) obtain b off len ws xs bs where v: "v = Slc (Some (b, off, len))" "mem m b = Some (Array ws)"
    "off + len \<le> length ws" "as = b # bs"
    and xs: "collect (map (\<lambda>w. view m t w) (take len (drop off ws))) = Some (xs, bs)"
    by (auto split: gv.splits option.splits cell.splits if_splits)
  show ?case
  proof (cases "a = b")
    case False
    with v 4(3) have "a \<in> set bs" by simp
    from collect_reaches [OF xs this] 4(1) v show ?thesis by blast
  qed (use v in simp)
next
  case (5 m t v)
  from 5(2,3) obtain b es xs bs where v: "v = Mp (Some b)" "mem m b = Some (Table es)" "distinct (map fst es)" "as = b # bs"
    and xs: "collect (map (\<lambda>e. view m t (snd e)) es) = Some (xs, bs)"
    by (auto split: gv.splits option.splits cell.splits if_splits)
  show ?case
  proof (cases "a = b")
    case False
    with v 5(3) have "a \<in> set bs" by simp
    from collect_reaches [OF xs this] 5(1) v show ?thesis by blast
  qed (use v in simp)
qed (fastforce split: gv.splits option.splits cell.splits)+

section \<open>Copying\<close>

text \<open>
  A copier takes a value and the memory, and returns the value that is written to the place of the copy, with the
  memory in which what it refers to was built.  \<open>None\<close> is a panic.
\<close>

type_synonym copier_fun = "gv \<Rightarrow> Memory \<Rightarrow> (gv \<times> Memory) option"

text \<open>\<open>*out = *in\<close>, or the assignment of a field.\<close>

definition assign :: copier_fun where
  "assign v m = Some (v, m)"

text \<open>\<open>if in == nil { return nil }; out := new(T); in.DeepCopyInto(out)\<close>.\<close>

definition copy_pointer :: "copier_fun \<Rightarrow> copier_fun" where
  "copy_pointer into v m =
     (case v of
        Ptr None \<Rightarrow> Some (Ptr None, m)
      | Ptr (Some a) \<Rightarrow>
          (case mem m a of
             Some (One w) \<Rightarrow>
               (let (out, m) = new m in
                do { (w, m) \<leftarrow> into w m; Some (Ptr (Some out), put out (One w) m) })
           | _ \<Rightarrow> None)
      | _ \<Rightarrow> None)"

text \<open>\<open>*out = make([]T, len(*in))\<close> and the loop over the elements, or \<open>copy(*out, *in)\<close>.\<close>

fun copy_elements :: "copier_fun \<Rightarrow> gv list \<Rightarrow> Memory \<Rightarrow> (gv list \<times> Memory) option" where
  "copy_elements into [] m = Some ([], m)"
| "copy_elements into (w # ws) m =
     do { (w, m) \<leftarrow> into w m; (ws, m) \<leftarrow> copy_elements into ws m; Some (w # ws, m) }"

definition copy_each :: "copier_fun \<Rightarrow> copier_fun" where
  "copy_each into v m =
     (case v of
        Slc None \<Rightarrow> Some (Slc None, m)
      | Slc (Some (a, off, len)) \<Rightarrow>
          (case mem m a of
             Some (Array ws) \<Rightarrow>
               (let (out, m) = new m in
                do { (ws, m) \<leftarrow> copy_elements into (take len (drop off ws)) m;
                     Some (Slc (Some (out, 0, len)), put out (Array ws) m) })
           | _ \<Rightarrow> None)
      | _ \<Rightarrow> None)"

definition copy_slice :: copier_fun where
  "copy_slice = copy_each assign"

text \<open>\<open>*out = make(map[string]T, len(*in))\<close> and the loop over the entries, whose values are assigned.\<close>

definition copy_map :: copier_fun where
  "copy_map v m =
     (case v of
        Mp None \<Rightarrow> Some (Mp None, m)
      | Mp (Some a) \<Rightarrow>
          (case mem m a of
             Some (Table es) \<Rightarrow>
               (let (out, m) = new m in
                Some (Mp (Some out), put out (Table (foldl (\<lambda>t (k, w). AList.update k w t) [] es)) m))
           | _ \<Rightarrow> None)
      | _ \<Rightarrow> None)"

text \<open>The statements of a \<open>DeepCopyInto\<close> after \<open>*out = *in\<close>: each writes a field of \<open>out\<close> from that of \<open>in\<close>.\<close>

fun copy_fields :: "(string \<times> copier_fun) list \<Rightarrow> (string \<Rightarrow> gv) \<Rightarrow> (string \<Rightarrow> gv) \<Rightarrow> Memory \<Rightarrow>
    ((string \<Rightarrow> gv) \<times> Memory) option" where
  "copy_fields [] i out m = Some (out, m)"
| "copy_fields ((f, into) # steps) i out m =
     do { (w, m) \<leftarrow> into (i f) m; copy_fields steps i (out(f := w)) m }"

definition copy_struct :: "(string \<times> copier_fun) list \<Rightarrow> copier_fun" where
  "copy_struct steps v m =
     (case v of
        Struct i \<Rightarrow> do { (out, m) \<leftarrow> copy_fields steps i i m; Some (Struct out, m) }
      | _ \<Rightarrow> None)"

text \<open>\<open>DeepCopyObject\<close>: an interface value holds a type and a pointer, or is \<open>nil\<close>.\<close>

definition copy_object :: "string \<Rightarrow> copier_fun \<Rightarrow> gv \<Rightarrow> Memory \<Rightarrow> ((string \<times> gv) option \<times> Memory) option" where
  "copy_object T deepCopy v m =
     do { (c, m) \<leftarrow> deepCopy v m; Some (if c = Ptr None then None else Some (T, c), m) }"

section \<open>The contract of a copier\<close>

text \<open>A copier of a type returns a value that says the same, and all it reaches is new; what there was before is kept.\<close>

locale copier =
  fixes t :: ty and into :: copier_fun
  assumes copies: "sound m \<Longrightarrow> view m t v = Some (x, as) \<Longrightarrow>
    \<exists>v' m' bs. into v m = Some (v', m') \<and> view m' t v' = Some (x, bs) \<and>
      grows m m' \<and> sound m' \<and> (\<forall>b \<in> set bs. next_addr m \<le> b)"
begin

lemma copy:
  assumes "sound m" and "view m t v = Some (x, as)"
  obtains v' m' bs where "into v m = Some (v', m')" and "view m' t v' = Some (x, bs)" and "grows m m'" and "sound m'"
    and "\<And>b. b \<in> set bs \<Longrightarrow> next_addr m \<le> b" and "view m' t v = Some (x, as)" and "set as \<inter> set bs = {}"
proof -
  from copies [OF assms] obtain v' m' bs where *: "into v m = Some (v', m')" "view m' t v' = Some (x, bs)" "grows m m'"
    "sound m'" "\<And>b. b \<in> set bs \<Longrightarrow> next_addr m \<le> b" by blast
  have old: "a < next_addr m" if "a \<in> set as" for a
    using view_allocated [OF assms(2) that] assms(1) by (auto simp: sound_def)
  have "view m' t v = Some (x, as)"
    by (rule view_frame [OF assms(2)]) (use old *(3) in \<open>auto simp: grows_def\<close>)
  moreover have "set as \<inter> set bs = {}" using old *(5) by fastforce
  ultimately show thesis by (intro that [OF *(1-4)] *(5))
qed

text \<open>Whatever is written later to the cells of one of them, the other says what it said.\<close>

lemma independent:
  assumes "sound m" and "view m t v = Some (x, as)"
  shows "\<exists>v' m' bs. into v m = Some (v', m') \<and> view m' t v' = Some (x, bs) \<and> sound m' \<and>
    (\<forall>m''. (\<forall>a. a \<notin> set bs \<longrightarrow> mem m'' a = mem m' a) \<longrightarrow> view m'' t v = Some (x, as)) \<and>
    (\<forall>m''. (\<forall>a. a \<notin> set as \<longrightarrow> mem m'' a = mem m' a) \<longrightarrow> view m'' t v' = Some (x, bs))"
proof -
  obtain v' m' bs where *: "into v m = Some (v', m')" "view m' t v' = Some (x, bs)" "sound m'"
    "view m' t v = Some (x, as)" "set as \<inter> set bs = {}"
    by (rule copy [OF assms])
  have "view m'' t v = Some (x, as)" if "\<forall>a. a \<notin> set bs \<longrightarrow> mem m'' a = mem m' a" for m''
    using that *(5) by (intro view_frame [OF *(4)]) blast
  moreover have "view m'' t v' = Some (x, bs)" if "\<forall>a. a \<notin> set as \<longrightarrow> mem m'' a = mem m' a" for m''
    using that *(5) by (intro view_frame [OF *(2)]) blast
  ultimately show ?thesis using *(1-3) by (intro exI conjI allI impI)
qed

end

section \<open>The copiers\<close>

named_theorems copier_intros

lemma grows_refl: "grows m m"
  by (simp add: grows_def)

lemma grows_trans: "grows m1 m2 \<Longrightarrow> grows m2 m3 \<Longrightarrow> grows m1 m3"
  by (auto simp: grows_def)

lemma new_grows: "sound m \<Longrightarrow> grows m (snd (new m)) \<and> sound (snd (new m))"
  by (fastforce simp: new_def grows_def sound_def)

text \<open>A cell that was taken in \<open>m\<close> is filled after more memory was taken.\<close>

lemma put_grows:
  assumes "grows (snd (new m)) m'" and "sound m'"
  shows "grows m (put (next_addr m) c m')" and "sound (put (next_addr m) c m')"
    and "\<And>as. \<forall>b \<in> set as. Suc (next_addr m) \<le> b \<Longrightarrow> view m' t v = Some (x, as) \<Longrightarrow>
      view (put (next_addr m) c m') t v = Some (x, as)"
proof -
  have le: "Suc (next_addr m) \<le> next_addr m'" and same: "\<And>a. a < next_addr m \<Longrightarrow> mem m' a = mem m a"
    using assms(1) by (auto simp: new_def grows_def)
  show "grows m (put (next_addr m) c m')" using le same by (simp add: grows_def put_def)
  show "sound (put (next_addr m) c m')" using le assms(2) by (auto simp: sound_def put_def)
  show "view (put (next_addr m) c m') t v = Some (x, as)"
    if "\<forall>b \<in> set as. Suc (next_addr m) \<le> b" "view m' t v = Some (x, as)" for as
    using that by (intro view_frame [OF that(2)]) (auto simp: put_def)
qed

text \<open>Types without references are copied by assignment.\<close>

fun flat :: "ty \<Rightarrow> bool" where
  "flat Basic = True"
| "flat (StructT fs) = list_all (\<lambda>ft. flat (snd ft)) fs"
| "flat (PtrT t) = False"
| "flat (SliceT t) = False"
| "flat (MapT t) = False"

lemma collect_flat: "collect (map f ws) = Some (xs, as) \<Longrightarrow> (\<And>w x bs. w \<in> set ws \<Longrightarrow> f w = Some (x, bs) \<Longrightarrow> bs = []) \<Longrightarrow> as = []"
  using collect_reaches [of f ws xs as] by (metis equals0D list.set(1) list.set_intros(1) neq_Nil_conv)

lemma flat_view: "flat t \<Longrightarrow> view m t v = Some (x, as) \<Longrightarrow> as = []"
proof (induction m t v arbitrary: x as rule: view.induct)
  case (2 m fs v)
  then obtain g xs where v: "v = Struct g"
    and xs: "collect (map (\<lambda>ft. view m (snd ft) (g (fst ft))) fs) = Some (xs, as)"
    by (auto split: gv.splits)
  show ?case
    by (rule collect_flat [OF xs]) (use 2(1) [OF v] 2(2) in \<open>auto simp: list_all_iff\<close>)
qed (auto split: gv.splits)

lemma copier_assign [copier_intros]: "flat t \<Longrightarrow> copier t assign"
  by unfold_locales (auto simp: assign_def grows_refl dest: flat_view)

lemma copier_pointer [copier_intros]:
  assumes "copier t into"
  shows "copier (PtrT t) (copy_pointer into)"
proof
  fix m v x as
  assume m: "sound m" and v: "view m (PtrT t) v = Some (x, as)"
  show "\<exists>v' m' bs. copy_pointer into v m = Some (v', m') \<and> view m' (PtrT t) v' = Some (x, bs) \<and>
      grows m m' \<and> sound m' \<and> (\<forall>b \<in> set bs. next_addr m \<le> b)"
  proof (cases "v = Ptr None")
    case True
    with v m show ?thesis by (simp add: copy_pointer_def grows_refl)
  next
    case False
    with v obtain a w y as' where w: "v = Ptr (Some a)" "mem m a = Some (One w)" "view m t w = Some (y, as')" "x = T_Ptr y"
      by (auto split: gv.splits option.splits cell.splits)
    have m1: "view (snd (new m)) t w = Some (y, as')"
      by (rule view_frame [OF w(3)]) (simp add: new_def)
    obtain w' m' bs where c: "into w (snd (new m)) = Some (w', m')" "view m' t w' = Some (y, bs)"
      "grows (snd (new m)) m'" "sound m'" "\<forall>b \<in> set bs. next_addr (snd (new m)) \<le> b"
      using copier.copies [OF assms _ m1] new_grows [OF m] by blast
    then have "view (put (next_addr m) (One w') m') t w' = Some (y, bs)"
      by (intro put_grows(3)) (auto simp: new_def)
    with c put_grows(1,2) [OF c(3,4)] w show ?thesis
      by (auto simp: copy_pointer_def new_def put_def intro: Suc_leD)
  qed
qed

lemma view_grows: "view m t v = Some (x, as) \<Longrightarrow> sound m \<Longrightarrow> grows m m' \<Longrightarrow> view m' t v = Some (x, as)"
proof (rule view_frame)
  fix a
  assume "view m t v = Some (x, as)" "sound m" "grows m m'" "a \<in> set as"
  then have "a < next_addr m" using view_allocated by (simp add: sound_def)
  with \<open>grows m m'\<close> show "mem m' a = mem m a" by (simp add: grows_def)
qed

lemma collect_grows:
  assumes "collect (map (\<lambda>w. view m (ty w) (val w)) ws) = Some (xs, as)" and "sound m" and "grows m m'"
  shows "collect (map (\<lambda>w. view m' (ty w) (val w)) ws) = Some (xs, as)"
  by (rule collect_cong [OF assms(1)]) (auto intro: view_grows assms(2,3))

lemma copy_elements_copies:
  assumes "copier t into"
  shows "sound m \<Longrightarrow> collect (map (\<lambda>w. view m t w) ws) = Some (xs, as) \<Longrightarrow>
    \<exists>ws' m' bs. copy_elements into ws m = Some (ws', m') \<and> length ws' = length ws \<and>
      collect (map (\<lambda>w. view m' t w) ws') = Some (xs, bs) \<and> grows m m' \<and> sound m' \<and> (\<forall>b \<in> set bs. next_addr m \<le> b)"
proof (induction ws arbitrary: m xs as)
  case Nil
  then show ?case by (simp add: grows_refl)
next
  case (Cons w ws)
  from Cons.prems(2) obtain x bs xs' bs' where w: "view m t w = Some (x, bs)"
    "collect (map (\<lambda>w. view m t w) ws) = Some (xs', bs')" "xs = x # xs'"
    by (auto simp: collect_Some_Cons simp del: collect.simps(2))
  from copier.copies [OF assms Cons.prems(1) w(1)] obtain w' m1 cs where c: "into w m = Some (w', m1)"
    "view m1 t w' = Some (x, cs)" "grows m m1" "sound m1" "\<forall>b \<in> set cs. next_addr m \<le> b" by blast
  from Cons.IH [OF c(4) collect_grows [OF w(2) Cons.prems(1) c(3)]] obtain ws' m2 ds where d:
    "copy_elements into ws m1 = Some (ws', m2)" "length ws' = length ws"
    "collect (map (\<lambda>w. view m2 t w) ws') = Some (xs', ds)" "grows m1 m2" "sound m2" "\<forall>b \<in> set ds. next_addr m1 \<le> b"
    by blast
  have "next_addr m \<le> next_addr m1" using c(3) by (simp add: grows_def)
  then have "\<forall>b \<in> set (cs @ ds). next_addr m \<le> b" using c(5) d(6) by auto
  with c d w(3) view_grows [OF c(2,4) d(4)] grows_trans [OF c(3) d(4)] show ?case by simp
qed

lemma copier_each [copier_intros]:
  assumes "copier t into"
  shows "copier (SliceT t) (copy_each into)"
proof
  fix m v x as
  assume m: "sound m" and v: "view m (SliceT t) v = Some (x, as)"
  show "\<exists>v' m' bs. copy_each into v m = Some (v', m') \<and> view m' (SliceT t) v' = Some (x, bs) \<and>
      grows m m' \<and> sound m' \<and> (\<forall>b \<in> set bs. next_addr m \<le> b)"
  proof (cases "v = Slc None")
    case True
    with v m show ?thesis by (simp add: copy_each_def grows_refl)
  next
    case False
    with v obtain a off len ws xs as' where w: "v = Slc (Some (a, off, len))" "mem m a = Some (Array ws)"
      "off + len \<le> length ws" "x = T_Slice xs"
      and xs: "collect (map (\<lambda>w. view m t w) (take len (drop off ws))) = Some (xs, as')"
      by (auto split: gv.splits option.splits cell.splits if_splits)
    let ?es = "take len (drop off ws)"
    have "grows m (snd (new m))" using new_grows [OF m] by blast
    from copy_elements_copies [OF assms _ collect_grows [OF xs m this]] new_grows [OF m]
    obtain ws' m' bs where c: "copy_elements into ?es (snd (new m)) = Some (ws', m')" "length ws' = length ?es"
      "collect (map (\<lambda>w. view m' t w) ws') = Some (xs, bs)" "grows (snd (new m)) m'" "sound m'"
      "\<forall>b \<in> set bs. next_addr (snd (new m)) \<le> b" by blast
    let ?m = "put (next_addr m) (Array ws') m'"
    have "collect (map (\<lambda>w. view ?m t w) ws') = Some (xs, bs)"
      by (rule collect_cong [OF c(3)]) (use c(6) in \<open>auto intro!: put_grows(3) [OF c(4,5)] simp: new_def\<close>)
    moreover have "length ws' = len" using c(2) w(3) by simp
    ultimately show ?thesis using c put_grows(1,2) [OF c(4,5)] w
      by (auto simp: copy_each_def new_def put_def intro: Suc_leD)
  qed
qed

lemma copier_slice [copier_intros]: "flat t \<Longrightarrow> copier (SliceT t) copy_slice"
  unfolding copy_slice_def by (intro copier_intros)

lemma enter_entries:
  "distinct (map fst (ts @ es)) \<Longrightarrow> foldl (\<lambda>t (k, w). AList.update k w t) ts es = ts @ es"
proof (induction es arbitrary: ts)
  case (Cons e es)
  have "AList.update k w ts = ts @ [(k, w)]" if "k \<notin> fst ` set ts" for k w
    using that by (induction ts) auto
  with Cons show ?case by (cases e) auto
qed simp

lemma copier_map [copier_intros]:
  assumes "flat t"
  shows "copier (MapT t) copy_map"
proof
  fix m v x as
  assume m: "sound m" and v: "view m (MapT t) v = Some (x, as)"
  show "\<exists>v' m' bs. copy_map v m = Some (v', m') \<and> view m' (MapT t) v' = Some (x, bs) \<and>
      grows m m' \<and> sound m' \<and> (\<forall>b \<in> set bs. next_addr m \<le> b)"
  proof (cases "v = Mp None")
    case True
    with v m show ?thesis by (simp add: copy_map_def grows_refl)
  next
    case False
    with v obtain a es xs as' where w: "v = Mp (Some a)" "mem m a = Some (Table es)" "distinct (map fst es)"
      "x = T_Map (map_of (zip (map fst es) xs))"
      and xs: "collect (map (\<lambda>e. view m t (snd e)) es) = Some (xs, as')"
      by (auto split: gv.splits option.splits cell.splits if_splits)
    let ?m = "put (next_addr m) (Table es) (snd (new m))"
    have flat: "as' = []" by (rule collect_flat [OF xs]) (use assms flat_view in blast)
    have "collect (map (\<lambda>e. view ?m t (snd e)) es) = Some (xs, [])"
      by (rule collect_cong [OF xs [unfolded flat]]) (auto intro: view_frame)
    with w put_grows(1,2) [of m "snd (new m)" "Table es"] new_grows [OF m] show ?thesis
      by (auto simp: copy_map_def new_def put_def enter_entries [of "[]", simplified] grows_refl)
  qed
qed

text \<open>A struct: the fields that are not written again must be of types without references.\<close>

lemma copy_fields_copies:
  assumes "\<And>f into. (f, into) \<in> set steps \<Longrightarrow> \<exists>t. map_of fs f = Some t \<and> copier t into"
    and "distinct (map fst steps)" and "sound m"
    and "\<And>f t. map_of fs f = Some t \<Longrightarrow> \<exists>x as. view m t (i f) = Some (x, as)"
  shows "\<exists>out' m'. copy_fields steps i out m = Some (out', m') \<and> grows m m' \<and> sound m' \<and>
    (\<forall>f. f \<notin> fst ` set steps \<longrightarrow> out' f = out f) \<and>
    (\<forall>f t x as. f \<in> fst ` set steps \<longrightarrow> map_of fs f = Some t \<longrightarrow> view m t (i f) = Some (x, as) \<longrightarrow>
      (\<exists>bs. view m' t (out' f) = Some (x, bs) \<and> (\<forall>b \<in> set bs. next_addr m \<le> b)))"
  using assms
proof (induction steps arbitrary: m out)
  case Nil
  then show ?case by (simp add: grows_refl)
next
  case (Cons s steps)
  obtain f into where s: "s = (f, into)" by (cases s)
  obtain t where t: "map_of fs f = Some t" "copier t into" using Cons.prems(1) [of f into] s by auto
  obtain x as where x: "view m t (i f) = Some (x, as)" using Cons.prems(4) [OF t(1)] by blast
  obtain w m1 bs where c: "into (i f) m = Some (w, m1)" "view m1 t w = Some (x, bs)" "grows m m1" "sound m1"
    "\<forall>b \<in> set bs. next_addr m \<le> b"
    using copier.copies [OF t(2) Cons.prems(3) x] by blast
  have later: "view m1 u (i g) = Some (y, cs)" if "view m u (i g) = Some (y, cs)" for u g y cs
    by (rule view_grows [OF that Cons.prems(3) c(3)])
  have "\<exists>out' m'. copy_fields steps i (out(f := w)) m1 = Some (out', m') \<and> grows m1 m' \<and> sound m' \<and>
    (\<forall>g. g \<notin> fst ` set steps \<longrightarrow> out' g = (out(f := w)) g) \<and>
    (\<forall>g u y cs. g \<in> fst ` set steps \<longrightarrow> map_of fs g = Some u \<longrightarrow> view m1 u (i g) = Some (y, cs) \<longrightarrow>
      (\<exists>ds. view m' u (out' g) = Some (y, ds) \<and> (\<forall>b \<in> set ds. next_addr m1 \<le> b)))"
  proof (rule Cons.IH)
    show "\<exists>y cs. view m1 u (i g) = Some (y, cs)" if "map_of fs g = Some u" for g u
      using Cons.prems(4) [OF that] later by blast
  qed (use Cons.prems(1,2) c(4) in auto)
  then obtain out' m' where d: "copy_fields steps i (out(f := w)) m1 = Some (out', m')" "grows m1 m'" "sound m'"
    "\<And>g. g \<notin> fst ` set steps \<Longrightarrow> out' g = (out(f := w)) g"
    "\<And>g u y cs. g \<in> fst ` set steps \<Longrightarrow> map_of fs g = Some u \<Longrightarrow> view m1 u (i g) = Some (y, cs) \<Longrightarrow>
      \<exists>ds. view m' u (out' g) = Some (y, ds) \<and> (\<forall>b \<in> set ds. next_addr m1 \<le> b)" by blast
  have f: "f \<notin> fst ` set steps" using Cons.prems(2) s by simp
  have le: "next_addr m \<le> next_addr m1" using c(3) by (simp add: grows_def)
  have "\<exists>ds. view m' u (out' g) = Some (y, ds) \<and> (\<forall>b \<in> set ds. next_addr m \<le> b)"
    if g: "g \<in> fst ` set (s # steps)" "map_of fs g = Some u" "view m u (i g) = Some (y, cs)" for g u y cs
  proof (cases "g = f")
    case True
    with g t x view_grows [OF c(2,4) d(2)] c(5) d(4) [OF f] show ?thesis by auto
  next
    case False
    with g(1) s have "g \<in> fst ` set steps" by auto
    from d(5) [OF this g(2) later [OF g(3)]] le show ?thesis by force
  qed
  moreover have "copy_fields (s # steps) i out m = Some (out', m')" by (simp add: s c(1) d(1))
  ultimately show ?case using d(3,4) s grows_trans [OF c(3) d(2)] by auto
qed

lemma copier_struct:
  assumes "distinct (map fst fs)" and "distinct (map fst steps)"
    and "list_all (\<lambda>(f, into). \<exists>t. map_of fs f = Some t \<and> copier t into) steps"
    and "list_all (\<lambda>(f, t). f \<in> fst ` set steps \<or> flat t) fs"
  shows "copier (StructT fs) (copy_struct steps)"
proof
  fix m v x as
  assume m: "sound m" and v: "view m (StructT fs) v = Some (x, as)"
  then obtain i xs where i: "v = Struct i" "x = T_Struct xs"
    and xs: "collect (map (\<lambda>ft. view m (snd ft) (i (fst ft))) fs) = Some (xs, as)"
    by (auto split: gv.splits)
  have field: "\<exists>x as. view m t (i f) = Some (x, as)" if "(f, t) \<in> set fs" for f t
    using xs that by (induction fs arbitrary: xs as) (auto simp: collect_Some_Cons simp del: collect.simps(2))
  have "\<exists>t. map_of fs f = Some t \<and> copier t into" if "(f, into) \<in> set steps" for f into
    using assms(3) that by (auto simp: list_all_iff)
  from copy_fields_copies [of steps fs m i i, OF this assms(2) m field [OF map_of_SomeD]] obtain out m' where
    c: "copy_fields steps i i m = Some (out, m')" "grows m m'" "sound m'"
      "\<And>f. f \<notin> fst ` set steps \<Longrightarrow> out f = i f"
      "\<And>f t x as. f \<in> fst ` set steps \<Longrightarrow> map_of fs f = Some t \<Longrightarrow> view m t (i f) = Some (x, as) \<Longrightarrow>
        \<exists>bs. view m' t (out f) = Some (x, bs) \<and> (\<forall>b \<in> set bs. next_addr m \<le> b)" by blast
  have copied: "\<exists>bs. view m' t (out f) = Some (x, bs) \<and> (\<forall>b \<in> set bs. next_addr m \<le> b)"
    if "(f, t) \<in> set fs" "view m t (i f) = Some (x, as)" for f t x as
  proof (cases "f \<in> fst ` set steps")
    case True
    with c(5) that assms(1) show ?thesis by simp
  next
    case False
    with that assms(4) have "as = []" using flat_view by (fastforce simp: list_all_iff)
    with c(4) [OF False] that view_grows [OF that(2) m c(2)] show ?thesis by simp
  qed
  from xs copied have "\<exists>bs. collect (map (\<lambda>ft. view m' (snd ft) (out (fst ft))) fs) = Some (xs, bs) \<and>
      (\<forall>b \<in> set bs. next_addr m \<le> b)"
  proof (induction fs arbitrary: xs as)
    case (Cons ft fs)
    from Cons.prems(1) obtain y bs ys cs where y: "view m (snd ft) (i (fst ft)) = Some (y, bs)" "xs = y # ys"
      and ys: "collect (map (\<lambda>ft. view m (snd ft) (i (fst ft))) fs) = Some (ys, cs)"
      by (auto simp: collect_Some_Cons simp del: collect.simps(2))
    obtain ds where ds: "view m' (snd ft) (out (fst ft)) = Some (y, ds)" "\<forall>b \<in> set ds. next_addr m \<le> b"
      using Cons.prems(2) [of "fst ft" "snd ft"] y(1) by auto
    obtain es where es: "collect (map (\<lambda>ft. view m' (snd ft) (out (fst ft))) fs) = Some (ys, es)"
      "\<forall>b \<in> set es. next_addr m \<le> b"
    proof -
      have "\<exists>bs. view m' t (out f) = Some (x, bs) \<and> (\<forall>b \<in> set bs. next_addr m \<le> b)"
        if "(f, t) \<in> set fs" "view m t (i f) = Some (x, as)" for f t x as
        using Cons.prems(2) [of f t x as] that by simp
      then show thesis using Cons.IH [OF ys] that by blast
    qed
    have "\<forall>b \<in> set (ds @ es). next_addr m \<le> b" using ds(2) es(2) by auto
    with ds(1) es(1) y(2) show ?case by simp
  qed simp
  with c(1-3) i show "\<exists>v' m' bs. copy_struct steps v m = Some (v', m') \<and> view m' (StructT fs) v' = Some (x, bs) \<and>
      grows m m' \<and> sound m' \<and> (\<forall>b \<in> set bs. next_addr m \<le> b)"
    by (auto simp: copy_struct_def)
qed

end
