(* ===== verification/Deep_Copy.thy ===== *)
theory Deep_Copy
  imports Go_Memory
begin

text \<open>
  \<open>api/v1alpha2/zz_generated.deepcopy.go\<close>: the types of the API as they lie in memory, and the functions that copy
  them.  The functions of the API machinery for its own types, and these types, are the parameter \<open>lib\<close>; of them
  \<open>library_copies\<close> says what this file relies on, that they are copiers in turn.
\<close>

type_synonym library = "string \<Rightarrow> ty \<times> copier_fun"
type_synonym object_copier = "gv \<Rightarrow> Memory \<Rightarrow> ((string \<times> gv) option \<times> Memory) option"

definition lib_ty :: "library \<Rightarrow> string \<Rightarrow> ty" where "lib_ty lib T = fst (lib T)"

definition lib_copy :: "library \<Rightarrow> string \<Rightarrow> copier_fun" where "lib_copy lib T = snd (lib T)"

definition library_copies :: "library \<Rightarrow> bool" where
  "library_copies lib \<longleftrightarrow> (\<forall>T. copier (lib_ty lib T) (lib_copy lib T))"

section \<open>Types of the API machinery that are copied by assignment\<close>

definition TypeMeta_ty :: ty where
  "TypeMeta_ty =
     StructT [(''Kind'', Basic),
              (''APIVersion'', Basic)]"

definition LocalObjectReference_ty :: ty where "LocalObjectReference_ty = StructT [(''Name'', Basic)]"

definition ContainerPort_ty :: ty where
  "ContainerPort_ty =
     StructT [(''Name'', Basic),
              (''HostPort'', Basic),
              (''ContainerPort'', Basic),
              (''Protocol'', Basic),
              (''HostIP'', Basic)]"

definition RoleRef_ty :: ty where
  "RoleRef_ty =
     StructT [(''APIGroup'', Basic),
              (''Kind'', Basic),
              (''Name'', Basic)]"

section \<open>The types of the API\<close>

definition Container_ty :: "library \<Rightarrow> ty" where
  "Container_ty lib =
     StructT [(''Name'', Basic),
              (''Image'', Basic),
              (''ImagePullPolicy'', Basic),
              (''Resources'', lib_ty lib ''corev1.ResourceRequirements''),
              (''Command'', SliceT Basic),
              (''Args'', SliceT Basic),
              (''WorkingDir'', Basic),
              (''Ports'', SliceT ContainerPort_ty),
              (''EnvFrom'', SliceT (lib_ty lib ''corev1.EnvFromSource'')),
              (''Env'', SliceT (lib_ty lib ''corev1.EnvVar'')),
              (''VolumeMounts'', SliceT (lib_ty lib ''corev1.VolumeMount'')),
              (''LivenessProbe'', PtrT (lib_ty lib ''corev1.Probe'')),
              (''ReadinessProbe'', PtrT (lib_ty lib ''corev1.Probe'')),
              (''Lifecycle'', PtrT (lib_ty lib ''corev1.Lifecycle'')),
              (''SecurityContext'', PtrT (lib_ty lib ''corev1.SecurityContext''))]"

definition Plugin_ty :: ty where
  "Plugin_ty =
     StructT [(''Name'', Basic),
              (''Version'', Basic),
              (''DownloadURL'', Basic)]"

definition JenkinsMaster_ty :: "library \<Rightarrow> ty" where
  "JenkinsMaster_ty lib =
     StructT [(''Annotations'', MapT Basic),
              (''AnnotationsDeprecated'', MapT Basic),
              (''Labels'', MapT Basic),
              (''NodeSelector'', MapT Basic),
              (''SecurityContext'', PtrT (lib_ty lib ''corev1.PodSecurityContext'')),
              (''Containers'', SliceT (Container_ty lib)),
              (''ImagePullSecrets'', SliceT LocalObjectReference_ty),
              (''Volumes'', SliceT (lib_ty lib ''corev1.Volume'')),
              (''Tolerations'', SliceT (lib_ty lib ''corev1.Toleration'')),
              (''BasePlugins'', SliceT Plugin_ty),
              (''PriorityClassName'', Basic)]"

definition Service_ty :: ty where
  "Service_ty =
     StructT [(''Annotations'', MapT Basic),
              (''Labels'', MapT Basic),
              (''Type'', Basic),
              (''Port'', Basic),
              (''PortName'', Basic),
              (''NodePort'', Basic),
              (''LoadBalancerSourceRanges'', SliceT Basic),
              (''LoadBalancerIP'', Basic)]"

definition ServiceAccount_ty :: ty where "ServiceAccount_ty = StructT [(''Annotations'', MapT Basic)]"

definition JenkinsAPISettings_ty :: ty where "JenkinsAPISettings_ty = StructT [(''AuthorizationStrategy'', Basic)]"

definition SecretRef_ty :: ty where "SecretRef_ty = StructT [(''Name'', Basic)]"

definition ConfigMapRef_ty :: ty where "ConfigMapRef_ty = StructT [(''Name'', Basic)]"

definition Configuration_ty :: ty where
  "Configuration_ty =
     StructT [(''Enabled'', Basic),
              (''DefaultConfig'', Basic),
              (''Secret'', SecretRef_ty),
              (''Configurations'', SliceT ConfigMapRef_ty),
              (''EnableAutoReload'', Basic)]"

definition JenkinsPersistentSpec_ty :: ty where
  "JenkinsPersistentSpec_ty =
     StructT [(''Enabled'', Basic),
              (''StorageClassName'', Basic),
              (''VolumeSize'', Basic)]"

definition JenkinsSpec_ty :: "library \<Rightarrow> ty" where
  "JenkinsSpec_ty lib =
     StructT [(''Master'', PtrT (JenkinsMaster_ty lib)),
              (''JenkinsImageRef'', Basic),
              (''ForceBasePluginsInstall'', Basic),
              (''Service'', Service_ty),
              (''JNLPService'', Service_ty),
              (''Roles'', SliceT RoleRef_ty),
              (''ServiceAccount'', ServiceAccount_ty),
              (''JenkinsAPISettings'', JenkinsAPISettings_ty),
              (''ConfigurationAsCode'', PtrT Configuration_ty),
              (''BackupVolumes'', SliceT Basic),
              (''MetricsEnabled'', Basic),
              (''ProxyConfigurationEnabled'', Basic),
              (''PersistentSpec'', JenkinsPersistentSpec_ty)]"

definition SecretKeySelector_ty :: ty where
  "SecretKeySelector_ty =
     StructT [(''LocalObjectReference'', LocalObjectReference_ty),
              (''Key'', Basic)]"

definition JenkinsStatus_ty :: "library \<Rightarrow> ty" where
  "JenkinsStatus_ty lib =
     StructT [(''OperatorVersion'', Basic),
              (''Conditions'', SliceT (lib_ty lib ''conditionsv1.Condition'')),
              (''ProvisionStartTime'', PtrT (lib_ty lib ''metav1.Time'')),
              (''UserAndPasswordHash'', Basic),
              (''Spec'', PtrT (JenkinsSpec_ty lib))]"

definition Jenkins_ty :: "library \<Rightarrow> ty" where
  "Jenkins_ty lib =
     StructT [(''TypeMeta'', TypeMeta_ty),
              (''ObjectMeta'', lib_ty lib ''metav1.ObjectMeta''),
              (''Spec'', JenkinsSpec_ty lib),
              (''Status'', PtrT (JenkinsStatus_ty lib))]"

definition JenkinsList_ty :: "library \<Rightarrow> ty" where
  "JenkinsList_ty lib =
     StructT [(''TypeMeta'', TypeMeta_ty),
              (''ListMeta'', lib_ty lib ''metav1.ListMeta''),
              (''Items'', SliceT (Jenkins_ty lib))]"

definition BackupSpec_ty :: ty where
  "BackupSpec_ty =
     StructT [(''JenkinsRef'', Basic),
              (''StrategyRef'', Basic),
              (''BackupVolumeRef'', Basic)]"

definition BackupStatus_ty :: "library \<Rightarrow> ty" where
  "BackupStatus_ty lib =
     StructT [(''Conditions'', SliceT (lib_ty lib ''status.Condition''))]"

definition Backup_ty :: "library \<Rightarrow> ty" where
  "Backup_ty lib =
     StructT [(''TypeMeta'', TypeMeta_ty),
              (''ObjectMeta'', lib_ty lib ''metav1.ObjectMeta''),
              (''Spec'', BackupSpec_ty),
              (''Status'', BackupStatus_ty lib)]"

definition BackupList_ty :: "library \<Rightarrow> ty" where
  "BackupList_ty lib =
     StructT [(''TypeMeta'', TypeMeta_ty),
              (''ListMeta'', lib_ty lib ''metav1.ListMeta''),
              (''Items'', SliceT (Backup_ty lib))]"

definition BackupOptions_ty :: ty where
  "BackupOptions_ty =
     StructT [(''Jobs'', Basic),
              (''Plugins'', Basic),
              (''Config'', Basic)]"

definition RestartConfig_ty :: ty where
  "RestartConfig_ty =
     StructT [(''Enabled'', Basic),
              (''Safe'', Basic)]"

definition BackupStrategySpec_ty :: ty where
  "BackupStrategySpec_ty =
     StructT [(''QuietDownDuringBackup'', Basic),
              (''Options'', BackupOptions_ty),
              (''RestartAfterRestore'', RestartConfig_ty)]"

definition BackupStrategyStatus_ty :: ty where "BackupStrategyStatus_ty = StructT []"

definition BackupStrategy_ty :: "library \<Rightarrow> ty" where
  "BackupStrategy_ty lib =
     StructT [(''TypeMeta'', TypeMeta_ty),
              (''ObjectMeta'', lib_ty lib ''metav1.ObjectMeta''),
              (''Spec'', BackupStrategySpec_ty),
              (''Status'', BackupStrategyStatus_ty)]"

definition BackupStrategyList_ty :: "library \<Rightarrow> ty" where
  "BackupStrategyList_ty lib =
     StructT [(''TypeMeta'', TypeMeta_ty),
              (''ListMeta'', lib_ty lib ''metav1.ListMeta''),
              (''Items'', SliceT (BackupStrategy_ty lib))]"

definition BackupVolumeSpec_ty :: ty where
  "BackupVolumeSpec_ty =
     StructT [(''PersistentVolumeClaimName'', Basic),
              (''StorageClassName'', Basic),
              (''Size'', Basic)]"

definition BackupVolumeStatus_ty :: "library \<Rightarrow> ty" where
  "BackupVolumeStatus_ty lib =
     StructT [(''Conditions'', SliceT (lib_ty lib ''status.Condition''))]"

definition BackupVolume_ty :: "library \<Rightarrow> ty" where
  "BackupVolume_ty lib =
     StructT [(''TypeMeta'', TypeMeta_ty),
              (''ObjectMeta'', lib_ty lib ''metav1.ObjectMeta''),
              (''Spec'', BackupVolumeSpec_ty),
              (''Status'', BackupVolumeStatus_ty lib)]"

definition BackupVolumeList_ty :: "library \<Rightarrow> ty" where
  "BackupVolumeList_ty lib =
     StructT [(''TypeMeta'', TypeMeta_ty),
              (''ListMeta'', lib_ty lib ''metav1.ListMeta''),
              (''Items'', SliceT (BackupVolume_ty lib))]"

definition Image_ty :: ty where
  "Image_ty =
     StructT [(''Name'', Basic),
              (''Tag'', Basic),
              (''Registry'', Basic),
              (''Secret'', Basic)]"

definition JenkinsPlugin_ty :: ty where
  "JenkinsPlugin_ty =
     StructT [(''Name'', Basic),
              (''Version'', Basic),
              (''UpdateCenter'', Basic)]"

definition JenkinsImageSpec_ty :: ty where
  "JenkinsImageSpec_ty =
     StructT [(''From'', Image_ty),
              (''To'', Image_ty),
              (''Plugins'', SliceT JenkinsPlugin_ty),
              (''DefaultUpdateCenter'', Basic)]"

definition JenkinsImageBuild_ty :: ty where
  "JenkinsImageBuild_ty =
     StructT [(''Image'', Basic),
              (''MD5Sum'', Basic),
              (''InstalledPlugins'', Basic)]"

definition JenkinsImageStatus_ty :: ty where
  "JenkinsImageStatus_ty =
     StructT [(''Phase'', Basic),
              (''Builds'', SliceT JenkinsImageBuild_ty)]"

definition JenkinsImage_ty :: "library \<Rightarrow> ty" where
  "JenkinsImage_ty lib =
     StructT [(''TypeMeta'', TypeMeta_ty),
              (''ObjectMeta'', lib_ty lib ''metav1.ObjectMeta''),
              (''Spec'', JenkinsImageSpec_ty),
              (''Status'', JenkinsImageStatus_ty)]"

definition JenkinsImageList_ty :: "library \<Rightarrow> ty" where
  "JenkinsImageList_ty lib =
     StructT [(''TypeMeta'', TypeMeta_ty),
              (''ListMeta'', lib_ty lib ''metav1.ListMeta''),
              (''Items'', SliceT (JenkinsImage_ty lib))]"

definition RestoreSpec_ty :: ty where "RestoreSpec_ty = StructT [(''BackupRef'', Basic)]"

definition RestoreStatus_ty :: "library \<Rightarrow> ty" where
  "RestoreStatus_ty lib =
     StructT [(''Conditions'', SliceT (lib_ty lib ''status.Condition''))]"

definition Restore_ty :: "library \<Rightarrow> ty" where
  "Restore_ty lib =
     StructT [(''TypeMeta'', TypeMeta_ty),
              (''ObjectMeta'', lib_ty lib ''metav1.ObjectMeta''),
              (''Spec'', RestoreSpec_ty),
              (''Status'', RestoreStatus_ty lib)]"

definition RestoreList_ty :: "library \<Rightarrow> ty" where
  "RestoreList_ty lib =
     StructT [(''TypeMeta'', TypeMeta_ty),
              (''ListMeta'', lib_ty lib ''metav1.ListMeta''),
              (''Items'', SliceT (Restore_ty lib))]"

section \<open>The functions\<close>

definition Container_DeepCopyInto :: "library \<Rightarrow> copier_fun" where
  "Container_DeepCopyInto lib =
     copy_struct [(''Resources'', lib_copy lib ''corev1.ResourceRequirements''),
                  (''Command'', copy_slice),
                  (''Args'', copy_slice),
                  (''Ports'', copy_slice),
                  (''EnvFrom'', copy_each (lib_copy lib ''corev1.EnvFromSource'')),
                  (''Env'', copy_each (lib_copy lib ''corev1.EnvVar'')),
                  (''VolumeMounts'', copy_each (lib_copy lib ''corev1.VolumeMount'')),
                  (''LivenessProbe'', copy_pointer (lib_copy lib ''corev1.Probe'')),
                  (''ReadinessProbe'', copy_pointer (lib_copy lib ''corev1.Probe'')),
                  (''Lifecycle'', copy_pointer (lib_copy lib ''corev1.Lifecycle'')),
                  (''SecurityContext'', copy_pointer (lib_copy lib ''corev1.SecurityContext''))]"

definition Container_DeepCopy :: "library \<Rightarrow> copier_fun" where
  "Container_DeepCopy lib =
     copy_pointer (Container_DeepCopyInto lib)"

definition Plugin_DeepCopyInto :: copier_fun where "Plugin_DeepCopyInto = copy_struct []"

definition Plugin_DeepCopy :: copier_fun where "Plugin_DeepCopy = copy_pointer Plugin_DeepCopyInto"

definition JenkinsMaster_DeepCopyInto :: "library \<Rightarrow> copier_fun" where
  "JenkinsMaster_DeepCopyInto lib =
     copy_struct [(''Annotations'', copy_map),
                  (''AnnotationsDeprecated'', copy_map),
                  (''Labels'', copy_map),
                  (''NodeSelector'', copy_map),
                  (''SecurityContext'', copy_pointer (lib_copy lib ''corev1.PodSecurityContext'')),
                  (''Containers'', copy_each (Container_DeepCopyInto lib)),
                  (''ImagePullSecrets'', copy_slice),
                  (''Volumes'', copy_each (lib_copy lib ''corev1.Volume'')),
                  (''Tolerations'', copy_each (lib_copy lib ''corev1.Toleration'')),
                  (''BasePlugins'', copy_slice)]"

definition JenkinsMaster_DeepCopy :: "library \<Rightarrow> copier_fun" where
  "JenkinsMaster_DeepCopy lib =
     copy_pointer (JenkinsMaster_DeepCopyInto lib)"

definition Service_DeepCopyInto :: copier_fun where
  "Service_DeepCopyInto =
     copy_struct [(''Annotations'', copy_map),
                  (''Labels'', copy_map),
                  (''LoadBalancerSourceRanges'', copy_slice)]"

definition Service_DeepCopy :: copier_fun where "Service_DeepCopy = copy_pointer Service_DeepCopyInto"

definition ServiceAccount_DeepCopyInto :: copier_fun where
  "ServiceAccount_DeepCopyInto =
     copy_struct [(''Annotations'', copy_map)]"

definition ServiceAccount_DeepCopy :: copier_fun where "ServiceAccount_DeepCopy = copy_pointer ServiceAccount_DeepCopyInto"

definition JenkinsAPISettings_DeepCopyInto :: copier_fun where "JenkinsAPISettings_DeepCopyInto = copy_struct []"

definition JenkinsAPISettings_DeepCopy :: copier_fun where
  "JenkinsAPISettings_DeepCopy =
     copy_pointer JenkinsAPISettings_DeepCopyInto"

definition SecretRef_DeepCopyInto :: copier_fun where "SecretRef_DeepCopyInto = copy_struct []"

definition SecretRef_DeepCopy :: copier_fun where "SecretRef_DeepCopy = copy_pointer SecretRef_DeepCopyInto"

definition ConfigMapRef_DeepCopyInto :: copier_fun where "ConfigMapRef_DeepCopyInto = copy_struct []"

definition ConfigMapRef_DeepCopy :: copier_fun where "ConfigMapRef_DeepCopy = copy_pointer ConfigMapRef_DeepCopyInto"

definition Configuration_DeepCopyInto :: copier_fun where
  "Configuration_DeepCopyInto =
     copy_struct [(''Secret'', assign),
                  (''Configurations'', copy_slice)]"

definition Configuration_DeepCopy :: copier_fun where "Configuration_DeepCopy = copy_pointer Configuration_DeepCopyInto"

definition JenkinsPersistentSpec_DeepCopyInto :: copier_fun where "JenkinsPersistentSpec_DeepCopyInto = copy_struct []"

definition JenkinsPersistentSpec_DeepCopy :: copier_fun where
  "JenkinsPersistentSpec_DeepCopy =
     copy_pointer JenkinsPersistentSpec_DeepCopyInto"

definition JenkinsSpec_DeepCopyInto :: "library \<Rightarrow> copier_fun" where
  "JenkinsSpec_DeepCopyInto lib =
     copy_struct [(''Master'', copy_pointer (JenkinsMaster_DeepCopyInto lib)),
                  (''Service'', Service_DeepCopyInto),
                  (''JNLPService'', Service_DeepCopyInto),
                  (''Roles'', copy_slice),
                  (''ServiceAccount'', ServiceAccount_DeepCopyInto),
                  (''JenkinsAPISettings'', assign),
                  (''ConfigurationAsCode'', copy_pointer Configuration_DeepCopyInto),
                  (''BackupVolumes'', copy_slice),
                  (''PersistentSpec'', assign)]"

definition JenkinsSpec_DeepCopy :: "library \<Rightarrow> copier_fun" where
  "JenkinsSpec_DeepCopy lib =
     copy_pointer (JenkinsSpec_DeepCopyInto lib)"

definition SecretKeySelector_DeepCopyInto :: copier_fun where
  "SecretKeySelector_DeepCopyInto =
     copy_struct [(''LocalObjectReference'', assign)]"

definition SecretKeySelector_DeepCopy :: copier_fun where
  "SecretKeySelector_DeepCopy =
     copy_pointer SecretKeySelector_DeepCopyInto"

definition JenkinsStatus_DeepCopyInto :: "library \<Rightarrow> copier_fun" where
  "JenkinsStatus_DeepCopyInto lib =
     copy_struct [(''Conditions'', copy_each (lib_copy lib ''conditionsv1.Condition'')),
                  (''ProvisionStartTime'', copy_pointer (lib_copy lib ''metav1.Time'')),
                  (''Spec'', copy_pointer (JenkinsSpec_DeepCopyInto lib))]"

definition JenkinsStatus_DeepCopy :: "library \<Rightarrow> copier_fun" where
  "JenkinsStatus_DeepCopy lib =
     copy_pointer (JenkinsStatus_DeepCopyInto lib)"

definition Jenkins_DeepCopyInto :: "library \<Rightarrow> copier_fun" where
  "Jenkins_DeepCopyInto lib =
     copy_struct [(''TypeMeta'', assign),
                  (''ObjectMeta'', lib_copy lib ''metav1.ObjectMeta''),
                  (''Spec'', JenkinsSpec_DeepCopyInto lib),
                  (''Status'', copy_pointer (JenkinsStatus_DeepCopyInto lib))]"

definition Jenkins_DeepCopy :: "library \<Rightarrow> copier_fun" where
  "Jenkins_DeepCopy lib =
     copy_pointer (Jenkins_DeepCopyInto lib)"

definition Jenkins_DeepCopyObject :: "library \<Rightarrow> object_copier" where
  "Jenkins_DeepCopyObject lib =
     copy_object ''Jenkins'' (Jenkins_DeepCopy lib)"

definition JenkinsList_DeepCopyInto :: "library \<Rightarrow> copier_fun" where
  "JenkinsList_DeepCopyInto lib =
     copy_struct [(''TypeMeta'', assign),
                  (''ListMeta'', lib_copy lib ''metav1.ListMeta''),
                  (''Items'', copy_each (Jenkins_DeepCopyInto lib))]"

definition JenkinsList_DeepCopy :: "library \<Rightarrow> copier_fun" where
  "JenkinsList_DeepCopy lib =
     copy_pointer (JenkinsList_DeepCopyInto lib)"

definition JenkinsList_DeepCopyObject :: "library \<Rightarrow> object_copier" where
  "JenkinsList_DeepCopyObject lib =
     copy_object ''JenkinsList'' (JenkinsList_DeepCopy lib)"

definition BackupSpec_DeepCopyInto :: copier_fun where "BackupSpec_DeepCopyInto = copy_struct []"

definition BackupSpec_DeepCopy :: copier_fun where "BackupSpec_DeepCopy = copy_pointer BackupSpec_DeepCopyInto"

definition BackupStatus_DeepCopyInto :: "library \<Rightarrow> copier_fun" where
  "BackupStatus_DeepCopyInto lib =
     copy_struct [(''Conditions'', copy_each (lib_copy lib ''status.Condition''))]"

definition BackupStatus_DeepCopy :: "library \<Rightarrow> copier_fun" where
  "BackupStatus_DeepCopy lib =
     copy_pointer (BackupStatus_DeepCopyInto lib)"

definition Backup_DeepCopyInto :: "library \<Rightarrow> copier_fun" where
  "Backup_DeepCopyInto lib =
     copy_struct [(''TypeMeta'', assign),
                  (''ObjectMeta'', lib_copy lib ''metav1.ObjectMeta''),
                  (''Spec'', assign),
                  (''Status'', BackupStatus_DeepCopyInto lib)]"

definition Backup_DeepCopy :: "library \<Rightarrow> copier_fun" where
  "Backup_DeepCopy lib =
     copy_pointer (Backup_DeepCopyInto lib)"

definition Backup_DeepCopyObject :: "library \<Rightarrow> object_copier" where
  "Backup_DeepCopyObject lib =
     copy_object ''Backup'' (Backup_DeepCopy lib)"

definition BackupList_DeepCopyInto :: "library \<Rightarrow> copier_fun" where
  "BackupList_DeepCopyInto lib =
     copy_struct [(''TypeMeta'', assign),
                  (''ListMeta'', lib_copy lib ''metav1.ListMeta''),
                  (''Items'', copy_each (Backup_DeepCopyInto lib))]"

definition BackupList_DeepCopy :: "library \<Rightarrow> copier_fun" where
  "BackupList_DeepCopy lib =
     copy_pointer (BackupList_DeepCopyInto lib)"

definition BackupList_DeepCopyObject :: "library \<Rightarrow> object_copier" where
  "BackupList_DeepCopyObject lib =
     copy_object ''BackupList'' (BackupList_DeepCopy lib)"

definition BackupOptions_DeepCopyInto :: copier_fun where "BackupOptions_DeepCopyInto = copy_struct []"

definition BackupOptions_DeepCopy :: copier_fun where "BackupOptions_DeepCopy = copy_pointer BackupOptions_DeepCopyInto"

definition RestartConfig_DeepCopyInto :: copier_fun where "RestartConfig_DeepCopyInto = copy_struct []"

definition RestartConfig_DeepCopy :: copier_fun where "RestartConfig_DeepCopy = copy_pointer RestartConfig_DeepCopyInto"

definition BackupStrategySpec_DeepCopyInto :: copier_fun where
  "BackupStrategySpec_DeepCopyInto =
     copy_struct [(''Options'', assign),
                  (''RestartAfterRestore'', assign)]"

definition BackupStrategySpec_DeepCopy :: copier_fun where
  "BackupStrategySpec_DeepCopy =
     copy_pointer BackupStrategySpec_DeepCopyInto"

definition BackupStrategyStatus_DeepCopyInto :: copier_fun where "BackupStrategyStatus_DeepCopyInto = copy_struct []"

definition BackupStrategyStatus_DeepCopy :: copier_fun where
  "BackupStrategyStatus_DeepCopy =
     copy_pointer BackupStrategyStatus_DeepCopyInto"

definition BackupStrategy_DeepCopyInto :: "library \<Rightarrow> copier_fun" where
  "BackupStrategy_DeepCopyInto lib =
     copy_struct [(''TypeMeta'', assign),
                  (''ObjectMeta'', lib_copy lib ''metav1.ObjectMeta''),
                  (''Spec'', assign),
                  (''Status'', assign)]"

definition BackupStrategy_DeepCopy :: "library \<Rightarrow> copier_fun" where
  "BackupStrategy_DeepCopy lib =
     copy_pointer (BackupStrategy_DeepCopyInto lib)"

definition BackupStrategy_DeepCopyObject :: "library \<Rightarrow> object_copier" where
  "BackupStrategy_DeepCopyObject lib =
     copy_object ''BackupStrategy'' (BackupStrategy_DeepCopy lib)"

definition BackupStrategyList_DeepCopyInto :: "library \<Rightarrow> copier_fun" where
  "BackupStrategyList_DeepCopyInto lib =
     copy_struct [(''TypeMeta'', assign),
                  (''ListMeta'', lib_copy lib ''metav1.ListMeta''),
                  (''Items'', copy_each (BackupStrategy_DeepCopyInto lib))]"

definition BackupStrategyList_DeepCopy :: "library \<Rightarrow> copier_fun" where
  "BackupStrategyList_DeepCopy lib =
     copy_pointer (BackupStrategyList_DeepCopyInto lib)"

definition BackupStrategyList_DeepCopyObject :: "library \<Rightarrow> object_copier" where
  "BackupStrategyList_DeepCopyObject lib =
     copy_object ''BackupStrategyList'' (BackupStrategyList_DeepCopy lib)"

definition BackupVolumeSpec_DeepCopyInto :: copier_fun where "BackupVolumeSpec_DeepCopyInto = copy_struct []"

definition BackupVolumeSpec_DeepCopy :: copier_fun where
  "BackupVolumeSpec_DeepCopy =
     copy_pointer BackupVolumeSpec_DeepCopyInto"

definition BackupVolumeStatus_DeepCopyInto :: "library \<Rightarrow> copier_fun" where
  "BackupVolumeStatus_DeepCopyInto lib =
     copy_struct [(''Conditions'', copy_each (lib_copy lib ''status.Condition''))]"

definition BackupVolumeStatus_DeepCopy :: "library \<Rightarrow> copier_fun" where
  "BackupVolumeStatus_DeepCopy lib =
     copy_pointer (BackupVolumeStatus_DeepCopyInto lib)"

definition BackupVolume_DeepCopyInto :: "library \<Rightarrow> copier_fun" where
  "BackupVolume_DeepCopyInto lib =
     copy_struct [(''TypeMeta'', assign),
                  (''ObjectMeta'', lib_copy lib ''metav1.ObjectMeta''),
                  (''Spec'', assign),
                  (''Status'', BackupVolumeStatus_DeepCopyInto lib)]"

definition BackupVolume_DeepCopy :: "library \<Rightarrow> copier_fun" where
  "BackupVolume_DeepCopy lib =
     copy_pointer (BackupVolume_DeepCopyInto lib)"

definition BackupVolume_DeepCopyObject :: "library \<Rightarrow> object_copier" where
  "BackupVolume_DeepCopyObject lib =
     copy_object ''BackupVolume'' (BackupVolume_DeepCopy lib)"

definition BackupVolumeList_DeepCopyInto :: "library \<Rightarrow> copier_fun" where
  "BackupVolumeList_DeepCopyInto lib =
     copy_struct [(''TypeMeta'', assign),
                  (''ListMeta'', lib_copy lib ''metav1.ListMeta''),
                  (''Items'', copy_each (BackupVolume_DeepCopyInto lib))]"

definition BackupVolumeList_DeepCopy :: "library \<Rightarrow> copier_fun" where
  "BackupVolumeList_DeepCopy lib =
     copy_pointer (BackupVolumeList_DeepCopyInto lib)"

definition BackupVolumeList_DeepCopyObject :: "library \<Rightarrow> object_copier" where
  "BackupVolumeList_DeepCopyObject lib =
     copy_object ''BackupVolumeList'' (BackupVolumeList_DeepCopy lib)"

definition Image_DeepCopyInto :: copier_fun where "Image_DeepCopyInto = copy_struct []"

definition Image_DeepCopy :: copier_fun where "Image_DeepCopy = copy_pointer Image_DeepCopyInto"

definition JenkinsPlugin_DeepCopyInto :: copier_fun where "JenkinsPlugin_DeepCopyInto = copy_struct []"

definition JenkinsPlugin_DeepCopy :: copier_fun where "JenkinsPlugin_DeepCopy = copy_pointer JenkinsPlugin_DeepCopyInto"

definition JenkinsImageSpec_DeepCopyInto :: copier_fun where
  "JenkinsImageSpec_DeepCopyInto =
     copy_struct [(''From'', assign),
                  (''To'', assign),
                  (''Plugins'', copy_slice)]"

definition JenkinsImageSpec_DeepCopy :: copier_fun where
  "JenkinsImageSpec_DeepCopy =
     copy_pointer JenkinsImageSpec_DeepCopyInto"

definition JenkinsImageBuild_DeepCopyInto :: copier_fun where "JenkinsImageBuild_DeepCopyInto = copy_struct []"

definition JenkinsImageBuild_DeepCopy :: copier_fun where
  "JenkinsImageBuild_DeepCopy =
     copy_pointer JenkinsImageBuild_DeepCopyInto"

definition JenkinsImageStatus_DeepCopyInto :: copier_fun where
  "JenkinsImageStatus_DeepCopyInto =
     copy_struct [(''Builds'', copy_slice)]"

definition JenkinsImageStatus_DeepCopy :: copier_fun where
  "JenkinsImageStatus_DeepCopy =
     copy_pointer JenkinsImageStatus_DeepCopyInto"

definition JenkinsImage_DeepCopyInto :: "library \<Rightarrow> copier_fun" where
  "JenkinsImage_DeepCopyInto lib =
     copy_struct [(''TypeMeta'', assign),
                  (''ObjectMeta'', lib_copy lib ''metav1.ObjectMeta''),
                  (''Spec'', JenkinsImageSpec_DeepCopyInto),
                  (''Status'', JenkinsImageStatus_DeepCopyInto)]"

definition JenkinsImage_DeepCopy :: "library \<Rightarrow> copier_fun" where
  "JenkinsImage_DeepCopy lib =
     copy_pointer (JenkinsImage_DeepCopyInto lib)"

definition JenkinsImage_DeepCopyObject :: "library \<Rightarrow> object_copier" where
  "JenkinsImage_DeepCopyObject lib =
     copy_object ''JenkinsImage'' (JenkinsImage_DeepCopy lib)"

definition JenkinsImageList_DeepCopyInto :: "library \<Rightarrow> copier_fun" where
  "JenkinsImageList_DeepCopyInto lib =
     copy_struct [(''TypeMeta'', assign),
                  (''ListMeta'', lib_copy lib ''metav1.ListMeta''),
                  (''Items'', copy_each (JenkinsImage_DeepCopyInto lib))]"

definition JenkinsImageList_DeepCopy :: "library \<Rightarrow> copier_fun" where
  "JenkinsImageList_DeepCopy lib =
     copy_pointer (JenkinsImageList_DeepCopyInto lib)"

definition JenkinsImageList_DeepCopyObject :: "library \<Rightarrow> object_copier" where
  "JenkinsImageList_DeepCopyObject lib =
     copy_object ''JenkinsImageList'' (JenkinsImageList_DeepCopy lib)"

definition RestoreSpec_DeepCopyInto :: copier_fun where "RestoreSpec_DeepCopyInto = copy_struct []"

definition RestoreSpec_DeepCopy :: copier_fun where "RestoreSpec_DeepCopy = copy_pointer RestoreSpec_DeepCopyInto"

definition RestoreStatus_DeepCopyInto :: "library \<Rightarrow> copier_fun" where
  "RestoreStatus_DeepCopyInto lib =
     copy_struct [(''Conditions'', copy_each (lib_copy lib ''status.Condition''))]"

definition RestoreStatus_DeepCopy :: "library \<Rightarrow> copier_fun" where
  "RestoreStatus_DeepCopy lib =
     copy_pointer (RestoreStatus_DeepCopyInto lib)"

definition Restore_DeepCopyInto :: "library \<Rightarrow> copier_fun" where
  "Restore_DeepCopyInto lib =
     copy_struct [(''TypeMeta'', assign),
                  (''ObjectMeta'', lib_copy lib ''metav1.ObjectMeta''),
                  (''Spec'', assign),
                  (''Status'', RestoreStatus_DeepCopyInto lib)]"

definition Restore_DeepCopy :: "library \<Rightarrow> copier_fun" where
  "Restore_DeepCopy lib =
     copy_pointer (Restore_DeepCopyInto lib)"

definition Restore_DeepCopyObject :: "library \<Rightarrow> object_copier" where
  "Restore_DeepCopyObject lib =
     copy_object ''Restore'' (Restore_DeepCopy lib)"

definition RestoreList_DeepCopyInto :: "library \<Rightarrow> copier_fun" where
  "RestoreList_DeepCopyInto lib =
     copy_struct [(''TypeMeta'', assign),
                  (''ListMeta'', lib_copy lib ''metav1.ListMeta''),
                  (''Items'', copy_each (Restore_DeepCopyInto lib))]"

definition RestoreList_DeepCopy :: "library \<Rightarrow> copier_fun" where
  "RestoreList_DeepCopy lib =
     copy_pointer (RestoreList_DeepCopyInto lib)"

definition RestoreList_DeepCopyObject :: "library \<Rightarrow> object_copier" where
  "RestoreList_DeepCopyObject lib =
     copy_object ''RestoreList'' (RestoreList_DeepCopy lib)"

section \<open>They are copiers\<close>

lemmas flat_tys =
  TypeMeta_ty_def LocalObjectReference_ty_def ContainerPort_ty_def RoleRef_ty_def Plugin_ty_def
  JenkinsAPISettings_ty_def SecretRef_ty_def ConfigMapRef_ty_def JenkinsPersistentSpec_ty_def
  SecretKeySelector_ty_def BackupSpec_ty_def BackupOptions_ty_def RestartConfig_ty_def
  BackupStrategySpec_ty_def BackupStrategyStatus_ty_def BackupVolumeSpec_ty_def Image_ty_def
  JenkinsPlugin_ty_def JenkinsImageBuild_ty_def RestoreSpec_ty_def

lemma library_copier [copier_intros]: "library_copies lib \<Longrightarrow> copier (lib_ty lib T) (lib_copy lib T)"
  by (simp add: library_copies_def)

lemma Container_copier [copier_intros]: "library_copies lib \<Longrightarrow> copier (Container_ty lib) (Container_DeepCopyInto lib)"
  unfolding Container_ty_def Container_DeepCopyInto_def
  by (rule copier_struct) (auto intro!: copier_intros simp: flat_tys)

lemma Plugin_copier [copier_intros]: "copier Plugin_ty Plugin_DeepCopyInto"
  unfolding Plugin_ty_def Plugin_DeepCopyInto_def
  by (rule copier_struct) (auto intro!: copier_intros simp: flat_tys)

lemma JenkinsMaster_copier [copier_intros]: "library_copies lib \<Longrightarrow> copier (JenkinsMaster_ty lib) (JenkinsMaster_DeepCopyInto lib)"
  unfolding JenkinsMaster_ty_def JenkinsMaster_DeepCopyInto_def
  by (rule copier_struct) (auto intro!: copier_intros simp: flat_tys)

lemma Service_copier [copier_intros]: "copier Service_ty Service_DeepCopyInto"
  unfolding Service_ty_def Service_DeepCopyInto_def
  by (rule copier_struct) (auto intro!: copier_intros simp: flat_tys)

lemma ServiceAccount_copier [copier_intros]: "copier ServiceAccount_ty ServiceAccount_DeepCopyInto"
  unfolding ServiceAccount_ty_def ServiceAccount_DeepCopyInto_def
  by (rule copier_struct) (auto intro!: copier_intros simp: flat_tys)

lemma JenkinsAPISettings_copier [copier_intros]: "copier JenkinsAPISettings_ty JenkinsAPISettings_DeepCopyInto"
  unfolding JenkinsAPISettings_ty_def JenkinsAPISettings_DeepCopyInto_def
  by (rule copier_struct) (auto intro!: copier_intros simp: flat_tys)

lemma SecretRef_copier [copier_intros]: "copier SecretRef_ty SecretRef_DeepCopyInto"
  unfolding SecretRef_ty_def SecretRef_DeepCopyInto_def
  by (rule copier_struct) (auto intro!: copier_intros simp: flat_tys)

lemma ConfigMapRef_copier [copier_intros]: "copier ConfigMapRef_ty ConfigMapRef_DeepCopyInto"
  unfolding ConfigMapRef_ty_def ConfigMapRef_DeepCopyInto_def
  by (rule copier_struct) (auto intro!: copier_intros simp: flat_tys)

lemma Configuration_copier [copier_intros]: "copier Configuration_ty Configuration_DeepCopyInto"
  unfolding Configuration_ty_def Configuration_DeepCopyInto_def
  by (rule copier_struct) (auto intro!: copier_intros simp: flat_tys)

lemma JenkinsPersistentSpec_copier [copier_intros]: "copier JenkinsPersistentSpec_ty JenkinsPersistentSpec_DeepCopyInto"
  unfolding JenkinsPersistentSpec_ty_def JenkinsPersistentSpec_DeepCopyInto_def
  by (rule copier_struct) (auto intro!: copier_intros simp: flat_tys)

lemma JenkinsSpec_copier [copier_intros]: "library_copies lib \<Longrightarrow> copier (JenkinsSpec_ty lib) (JenkinsSpec_DeepCopyInto lib)"
  unfolding JenkinsSpec_ty_def JenkinsSpec_DeepCopyInto_def
  by (rule copier_struct) (auto intro!: copier_intros simp: flat_tys)

lemma SecretKeySelector_copier [copier_intros]: "copier SecretKeySelector_ty SecretKeySelector_DeepCopyInto"
  unfolding SecretKeySelector_ty_def SecretKeySelector_DeepCopyInto_def
  by (rule copier_struct) (auto intro!: copier_intros simp: flat_tys)

lemma JenkinsStatus_copier [copier_intros]: "library_copies lib \<Longrightarrow> copier (JenkinsStatus_ty lib) (JenkinsStatus_DeepCopyInto lib)"
  unfolding JenkinsStatus_ty_def JenkinsStatus_DeepCopyInto_def
  by (rule copier_struct) (auto intro!: copier_intros simp: flat_tys)

lemma Jenkins_copier [copier_intros]: "library_copies lib \<Longrightarrow> copier (Jenkins_ty lib) (Jenkins_DeepCopyInto lib)"
  unfolding Jenkins_ty_def Jenkins_DeepCopyInto_def
  by (rule copier_struct) (auto intro!: copier_intros simp: flat_tys)

lemma JenkinsList_copier [copier_intros]: "library_copies lib \<Longrightarrow> copier (JenkinsList_ty lib) (JenkinsList_DeepCopyInto lib)"
  unfolding JenkinsList_ty_def JenkinsList_DeepCopyInto_def
  by (rule copier_struct) (auto intro!: copier_intros simp: flat_tys)

lemma BackupSpec_copier [copier_intros]: "copier BackupSpec_ty BackupSpec_DeepCopyInto"
  unfolding BackupSpec_ty_def BackupSpec_DeepCopyInto_def
  by (rule copier_struct) (auto intro!: copier_intros simp: flat_tys)

lemma BackupStatus_copier [copier_intros]: "library_copies lib \<Longrightarrow> copier (BackupStatus_ty lib) (BackupStatus_DeepCopyInto lib)"
  unfolding BackupStatus_ty_def BackupStatus_DeepCopyInto_def
  by (rule copier_struct) (auto intro!: copier_intros simp: flat_tys)

lemma Backup_copier [copier_intros]: "library_copies lib \<Longrightarrow> copier (Backup_ty lib) (Backup_DeepCopyInto lib)"
  unfolding Backup_ty_def Backup_DeepCopyInto_def
  by (rule copier_struct) (auto intro!: copier_intros simp: flat_tys)

lemma BackupList_copier [copier_intros]: "library_copies lib \<Longrightarrow> copier (BackupList_ty lib) (BackupList_DeepCopyInto lib)"
  unfolding BackupList_ty_def BackupList_DeepCopyInto_def
  by (rule copier_struct) (auto intro!: copier_intros simp: flat_tys)

lemma BackupOptions_copier [copier_intros]: "copier BackupOptions_ty BackupOptions_DeepCopyInto"
  unfolding BackupOptions_ty_def BackupOptions_DeepCopyInto_def
  by (rule copier_struct) (auto intro!: copier_intros simp: flat_tys)

lemma RestartConfig_copier [copier_intros]: "copier RestartConfig_ty RestartConfig_DeepCopyInto"
  unfolding RestartConfig_ty_def RestartConfig_DeepCopyInto_def
  by (rule copier_struct) (auto intro!: copier_intros simp: flat_tys)

lemma BackupStrategySpec_copier [copier_intros]: "copier BackupStrategySpec_ty BackupStrategySpec_DeepCopyInto"
  unfolding BackupStrategySpec_ty_def BackupStrategySpec_DeepCopyInto_def
  by (rule copier_struct) (auto intro!: copier_intros simp: flat_tys)

lemma BackupStrategyStatus_copier [copier_intros]: "copier BackupStrategyStatus_ty BackupStrategyStatus_DeepCopyInto"
  unfolding BackupStrategyStatus_ty_def BackupStrategyStatus_DeepCopyInto_def
  by (rule copier_struct) (auto intro!: copier_intros simp: flat_tys)

lemma BackupStrategy_copier [copier_intros]: "library_copies lib \<Longrightarrow> copier (BackupStrategy_ty lib) (BackupStrategy_DeepCopyInto lib)"
  unfolding BackupStrategy_ty_def BackupStrategy_DeepCopyInto_def
  by (rule copier_struct) (auto intro!: copier_intros simp: flat_tys)

lemma BackupStrategyList_copier [copier_intros]: "library_copies lib \<Longrightarrow> copier (BackupStrategyList_ty lib) (BackupStrategyList_DeepCopyInto lib)"
  unfolding BackupStrategyList_ty_def BackupStrategyList_DeepCopyInto_def
  by (rule copier_struct) (auto intro!: copier_intros simp: flat_tys)

lemma BackupVolumeSpec_copier [copier_intros]: "copier BackupVolumeSpec_ty BackupVolumeSpec_DeepCopyInto"
  unfolding BackupVolumeSpec_ty_def BackupVolumeSpec_DeepCopyInto_def
  by (rule copier_struct) (auto intro!: copier_intros simp: flat_tys)

lemma BackupVolumeStatus_copier [copier_intros]: "library_copies lib \<Longrightarrow> copier (BackupVolumeStatus_ty lib) (BackupVolumeStatus_DeepCopyInto lib)"
  unfolding BackupVolumeStatus_ty_def BackupVolumeStatus_DeepCopyInto_def
  by (rule copier_struct) (auto intro!: copier_intros simp: flat_tys)

lemma BackupVolume_copier [copier_intros]: "library_copies lib \<Longrightarrow> copier (BackupVolume_ty lib) (BackupVolume_DeepCopyInto lib)"
  unfolding BackupVolume_ty_def BackupVolume_DeepCopyInto_def
  by (rule copier_struct) (auto intro!: copier_intros simp: flat_tys)

lemma BackupVolumeList_copier [copier_intros]: "library_copies lib \<Longrightarrow> copier (BackupVolumeList_ty lib) (BackupVolumeList_DeepCopyInto lib)"
  unfolding BackupVolumeList_ty_def BackupVolumeList_DeepCopyInto_def
  by (rule copier_struct) (auto intro!: copier_intros simp: flat_tys)

lemma Image_copier [copier_intros]: "copier Image_ty Image_DeepCopyInto"
  unfolding Image_ty_def Image_DeepCopyInto_def
  by (rule copier_struct) (auto intro!: copier_intros simp: flat_tys)

lemma JenkinsPlugin_copier [copier_intros]: "copier JenkinsPlugin_ty JenkinsPlugin_DeepCopyInto"
  unfolding JenkinsPlugin_ty_def JenkinsPlugin_DeepCopyInto_def
  by (rule copier_struct) (auto intro!: copier_intros simp: flat_tys)

lemma JenkinsImageSpec_copier [copier_intros]: "copier JenkinsImageSpec_ty JenkinsImageSpec_DeepCopyInto"
  unfolding JenkinsImageSpec_ty_def JenkinsImageSpec_DeepCopyInto_def
  by (rule copier_struct) (auto intro!: copier_intros simp: flat_tys)

lemma JenkinsImageBuild_copier [copier_intros]: "copier JenkinsImageBuild_ty JenkinsImageBuild_DeepCopyInto"
  unfolding JenkinsImageBuild_ty_def JenkinsImageBuild_DeepCopyInto_def
  by (rule copier_struct) (auto intro!: copier_intros simp: flat_tys)

lemma JenkinsImageStatus_copier [copier_intros]: "copier JenkinsImageStatus_ty JenkinsImageStatus_DeepCopyInto"
  unfolding JenkinsImageStatus_ty_def JenkinsImageStatus_DeepCopyInto_def
  by (rule copier_struct) (auto intro!: copier_intros simp: flat_tys)

lemma JenkinsImage_copier [copier_intros]: "library_copies lib \<Longrightarrow> copier (JenkinsImage_ty lib) (JenkinsImage_DeepCopyInto lib)"
  unfolding JenkinsImage_ty_def JenkinsImage_DeepCopyInto_def
  by (rule copier_struct) (auto intro!: copier_intros simp: flat_tys)

lemma JenkinsImageList_copier [copier_intros]: "library_copies lib \<Longrightarrow> copier (JenkinsImageList_ty lib) (JenkinsImageList_DeepCopyInto lib)"
  unfolding JenkinsImageList_ty_def JenkinsImageList_DeepCopyInto_def
  by (rule copier_struct) (auto intro!: copier_intros simp: flat_tys)

lemma RestoreSpec_copier [copier_intros]: "copier RestoreSpec_ty RestoreSpec_DeepCopyInto"
  unfolding RestoreSpec_ty_def RestoreSpec_DeepCopyInto_def
  by (rule copier_struct) (auto intro!: copier_intros simp: flat_tys)

lemma RestoreStatus_copier [copier_intros]: "library_copies lib \<Longrightarrow> copier (RestoreStatus_ty lib) (RestoreStatus_DeepCopyInto lib)"
  unfolding RestoreStatus_ty_def RestoreStatus_DeepCopyInto_def
  by (rule copier_struct) (auto intro!: copier_intros simp: flat_tys)

lemma Restore_copier [copier_intros]: "library_copies lib \<Longrightarrow> copier (Restore_ty lib) (Restore_DeepCopyInto lib)"
  unfolding Restore_ty_def Restore_DeepCopyInto_def
  by (rule copier_struct) (auto intro!: copier_intros simp: flat_tys)

lemma RestoreList_copier [copier_intros]: "library_copies lib \<Longrightarrow> copier (RestoreList_ty lib) (RestoreList_DeepCopyInto lib)"
  unfolding RestoreList_ty_def RestoreList_DeepCopyInto_def
  by (rule copier_struct) (auto intro!: copier_intros simp: flat_tys)

section \<open>What they promise together\<close>

text \<open>Every type of the API with its \<open>DeepCopy\<close>.\<close>

definition api_copies :: "library \<Rightarrow> (ty \<times> copier_fun) list" where
  "api_copies lib =
     [(PtrT (Container_ty lib), Container_DeepCopy lib),
      (PtrT Plugin_ty, Plugin_DeepCopy),
      (PtrT (JenkinsMaster_ty lib), JenkinsMaster_DeepCopy lib),
      (PtrT Service_ty, Service_DeepCopy),
      (PtrT ServiceAccount_ty, ServiceAccount_DeepCopy),
      (PtrT JenkinsAPISettings_ty, JenkinsAPISettings_DeepCopy),
      (PtrT SecretRef_ty, SecretRef_DeepCopy),
      (PtrT ConfigMapRef_ty, ConfigMapRef_DeepCopy),
      (PtrT Configuration_ty, Configuration_DeepCopy),
      (PtrT JenkinsPersistentSpec_ty, JenkinsPersistentSpec_DeepCopy),
      (PtrT (JenkinsSpec_ty lib), JenkinsSpec_DeepCopy lib),
      (PtrT SecretKeySelector_ty, SecretKeySelector_DeepCopy),
      (PtrT (JenkinsStatus_ty lib), JenkinsStatus_DeepCopy lib),
      (PtrT (Jenkins_ty lib), Jenkins_DeepCopy lib),
      (PtrT (JenkinsList_ty lib), JenkinsList_DeepCopy lib),
      (PtrT BackupSpec_ty, BackupSpec_DeepCopy),
      (PtrT (BackupStatus_ty lib), BackupStatus_DeepCopy lib),
      (PtrT (Backup_ty lib), Backup_DeepCopy lib),
      (PtrT (BackupList_ty lib), BackupList_DeepCopy lib),
      (PtrT BackupOptions_ty, BackupOptions_DeepCopy),
      (PtrT RestartConfig_ty, RestartConfig_DeepCopy),
      (PtrT BackupStrategySpec_ty, BackupStrategySpec_DeepCopy),
      (PtrT BackupStrategyStatus_ty, BackupStrategyStatus_DeepCopy),
      (PtrT (BackupStrategy_ty lib), BackupStrategy_DeepCopy lib),
      (PtrT (BackupStrategyList_ty lib), BackupStrategyList_DeepCopy lib),
      (PtrT BackupVolumeSpec_ty, BackupVolumeSpec_DeepCopy),
      (PtrT (BackupVolumeStatus_ty lib), BackupVolumeStatus_DeepCopy lib),
      (PtrT (BackupVolume_ty lib), BackupVolume_DeepCopy lib),
      (PtrT (BackupVolumeList_ty lib), BackupVolumeList_DeepCopy lib),
      (PtrT Image_ty, Image_DeepCopy),
      (PtrT JenkinsPlugin_ty, JenkinsPlugin_DeepCopy),
      (PtrT JenkinsImageSpec_ty, JenkinsImageSpec_DeepCopy),
      (PtrT JenkinsImageBuild_ty, JenkinsImageBuild_DeepCopy),
      (PtrT JenkinsImageStatus_ty, JenkinsImageStatus_DeepCopy),
      (PtrT (JenkinsImage_ty lib), JenkinsImage_DeepCopy lib),
      (PtrT (JenkinsImageList_ty lib), JenkinsImageList_DeepCopy lib),
      (PtrT RestoreSpec_ty, RestoreSpec_DeepCopy),
      (PtrT (RestoreStatus_ty lib), RestoreStatus_DeepCopy lib),
      (PtrT (Restore_ty lib), Restore_DeepCopy lib),
      (PtrT (RestoreList_ty lib), RestoreList_DeepCopy lib)]"

lemmas DeepCopy_defs =
  Container_DeepCopy_def Plugin_DeepCopy_def JenkinsMaster_DeepCopy_def Service_DeepCopy_def
  ServiceAccount_DeepCopy_def JenkinsAPISettings_DeepCopy_def SecretRef_DeepCopy_def
  ConfigMapRef_DeepCopy_def Configuration_DeepCopy_def JenkinsPersistentSpec_DeepCopy_def
  JenkinsSpec_DeepCopy_def SecretKeySelector_DeepCopy_def JenkinsStatus_DeepCopy_def Jenkins_DeepCopy_def
  JenkinsList_DeepCopy_def BackupSpec_DeepCopy_def BackupStatus_DeepCopy_def Backup_DeepCopy_def
  BackupList_DeepCopy_def BackupOptions_DeepCopy_def RestartConfig_DeepCopy_def
  BackupStrategySpec_DeepCopy_def BackupStrategyStatus_DeepCopy_def BackupStrategy_DeepCopy_def
  BackupStrategyList_DeepCopy_def BackupVolumeSpec_DeepCopy_def BackupVolumeStatus_DeepCopy_def
  BackupVolume_DeepCopy_def BackupVolumeList_DeepCopy_def Image_DeepCopy_def JenkinsPlugin_DeepCopy_def
  JenkinsImageSpec_DeepCopy_def JenkinsImageBuild_DeepCopy_def JenkinsImageStatus_DeepCopy_def
  JenkinsImage_DeepCopy_def JenkinsImageList_DeepCopy_def RestoreSpec_DeepCopy_def RestoreStatus_DeepCopy_def
  Restore_DeepCopy_def RestoreList_DeepCopy_def

lemma api_copies_copiers: "library_copies lib \<Longrightarrow> (t, deepCopy) \<in> set (api_copies lib) \<Longrightarrow> copier t deepCopy"
  unfolding api_copies_def DeepCopy_defs by (auto intro: copier_intros)

text \<open>The types without parts of the library, among them those of a service and of the configuration as code.\<close>

interpretation service_copy: copier "PtrT Service_ty" Service_DeepCopy
  unfolding Service_DeepCopy_def by (intro copier_intros)

interpretation configuration_copy: copier "PtrT Configuration_ty" Configuration_DeepCopy
  unfolding Configuration_DeepCopy_def by (intro copier_intros)

interpretation image_spec_copy: copier "PtrT JenkinsImageSpec_ty" JenkinsImageSpec_DeepCopy
  unfolding JenkinsImageSpec_DeepCopy_def by (intro copier_intros)

lemmas service_copies = service_copy.independent configuration_copy.independent image_spec_copy.independent

text \<open>\<open>DeepCopyObject\<close> of a \<open>nil\<close> pointer is the \<open>nil\<close> interface, not an interface that holds a \<open>nil\<close> pointer.\<close>

lemma DeepCopyObject_nil: "copy_object T (copy_pointer into) (Ptr None) m = Some (None, m)"
  by (simp add: copy_object_def copy_pointer_def)

lemma DeepCopyObject_holds:
  "copy_object T (copy_pointer into) (Ptr (Some a)) m = Some (r, m') \<Longrightarrow> \<exists>b. r = Some (T, Ptr (Some b))"
  by (auto simp: copy_object_def copy_pointer_def Let_def split: option.splits cell.splits prod.splits elim!: bind_SomeE)

text \<open>
  C11. The deep copy of an object of the API is a value of its own.  For every type of the API, and a pointer to a value
  of it or \<open>nil\<close>, \<open>DeepCopy\<close> does not panic and returns a pointer to a value that says the same; whatever is
  written afterwards to the memory that the copy reaches, the original says what it said, and the other way round.
\<close>

theorem deep_copies_are_independent:
  assumes "library_copies lib" and "(t, deepCopy) \<in> set (api_copies lib)"
    and "sound m" and "view m t p = Some (x, as)"
  shows "\<exists>p' m' bs. deepCopy p m = Some (p', m') \<and> view m' t p' = Some (x, bs) \<and> sound m' \<and>
    (\<forall>m''. (\<forall>a. a \<notin> set bs \<longrightarrow> mem m'' a = mem m' a) \<longrightarrow> view m'' t p = Some (x, as)) \<and>
    (\<forall>m''. (\<forall>a. a \<notin> set as \<longrightarrow> mem m'' a = mem m' a) \<longrightarrow> view m'' t p' = Some (x, bs))"
  by (rule copier.independent [OF api_copies_copiers [OF assms(1,2)] assms(3,4)])

section \<open>An object in memory\<close>

text \<open>The zero value of a type; \<open>small_library\<close> knows the name and the labels of an object only.\<close>

function zero :: "ty \<Rightarrow> gv" where
  "zero Basic = Scalar (Go_String '''')"
| "zero (StructT fs) = Struct (\<lambda>f. case map_of fs f of Some t \<Rightarrow> zero t | None \<Rightarrow> Ptr None)"
| "zero (PtrT t) = Ptr None"
| "zero (SliceT t) = Slc None"
| "zero (MapT t) = Mp None"
  by pat_completeness auto
termination
proof (relation "measure size")
  fix fs :: "(string \<times> ty) list" and f t
  assume "map_of fs f = Some t"
  then show "(t, StructT fs) \<in> measure size"
    by (induction fs) (auto split: if_splits)
qed simp

definition with_field :: "string \<Rightarrow> gv \<Rightarrow> gv \<Rightarrow> gv" where
  "with_field f w v = (case v of Struct g \<Rightarrow> Struct (g(f := w)) | _ \<Rightarrow> v)"

definition small_library :: library where
  "small_library T =
     (if T = ''metav1.ObjectMeta''
      then (StructT [(''Name'', Basic), (''Labels'', MapT Basic)], copy_struct [(''Labels'', copy_map)])
      else (Basic, assign))"

lemma small_library_copies: "library_copies small_library"
proof -
  have "copier (StructT [(''Name'', Basic), (''Labels'', MapT Basic)]) (copy_struct [(''Labels'', copy_map)])"
    by (rule copier_struct) (auto intro!: copier_intros)
  then show ?thesis
    by (auto simp: library_copies_def lib_ty_def lib_copy_def small_library_def intro: copier_intros)
qed

text \<open>A Jenkins whose master has a label.\<close>

definition labelled_memory :: Memory where
  "labelled_memory = \<lparr>mem = [0 \<mapsto> One (with_field ''Spec''
         (with_field ''Master'' (Ptr (Some 1)) (zero (JenkinsSpec_ty small_library))) (zero (Jenkins_ty small_library))),
       1 \<mapsto> One (with_field ''Labels'' (Mp (Some 2)) (zero (JenkinsMaster_ty small_library))),
       2 \<mapsto> Table [(''app'', Scalar (Go_String ''ci''))]], next_addr = 3\<rparr>"

lemma labelled_memory_sound: "sound labelled_memory"
  by (auto simp: sound_def labelled_memory_def split: if_splits)

lemma labelled_memory_view:
  "map_option snd (view labelled_memory (PtrT (Jenkins_ty small_library)) (Ptr (Some 0))) = Some [0, 1, 2]"
  by code_simp

text \<open>The copy keeps the label when it is removed from the original.\<close>

theorem deep_copies_are_independent_witness:
  "\<exists>x p' m' bs. map_option fst (view labelled_memory (PtrT (Jenkins_ty small_library)) (Ptr (Some 0))) = Some x \<and>
     Jenkins_DeepCopy small_library (Ptr (Some 0)) labelled_memory = Some (p', m') \<and>
     view (put 2 (Table []) m') (PtrT (Jenkins_ty small_library)) p' = Some (x, bs)"
proof -
  let ?t = "PtrT (Jenkins_ty small_library)"
  from labelled_memory_view obtain x where x: "view labelled_memory ?t (Ptr (Some 0)) = Some (x, [0, 1, 2])"
    by (auto simp del: view.simps)
  have "(?t, Jenkins_DeepCopy small_library) \<in> set (api_copies small_library)"
    by (simp add: api_copies_def)
  from deep_copies_are_independent [OF small_library_copies this labelled_memory_sound x] obtain p' m' bs where
    c: "Jenkins_DeepCopy small_library (Ptr (Some 0)) labelled_memory = Some (p', m')"
    "\<And>m''. (\<forall>a. a \<notin> set [0, 1, 2] \<longrightarrow> mem m'' a = mem m' a) \<Longrightarrow> view m'' ?t p' = Some (x, bs)" by blast
  have "view (put 2 (Table []) m') ?t p' = Some (x, bs)" by (rule c(2)) (simp add: put_def)
  with c(1) x show ?thesis by (auto simp del: view.simps)
qed

end
